(* ===== verification/Prelude.thy ===== *)
theory Prelude
  imports Main "HOL-Library.Word" "HOL-Library.Multiset" "HOL-Library.List_Lexorder"
    "HOL-Library.Product_Lexorder"
begin

text \<open>
  Shared vocabulary of the development: the machine integers of the Rust sources, the
  saturating and checked operations of the standard library on them, text as lists of Unicode
  scalar values, and the generic list facts that several components need.

  Unsigned integers are machine words, whose order is the unsigned one and whose \<open>+\<close> wraps
  (the release profile of the workspace does not switch overflow checks on). Signed integers
  are \<open>int\<close> values; where the code can leave the range, the operation that the code uses
  (wrapping, saturating or clamping) is written out. A \<open>usize\<close> that only counts or indexes
  is a \<open>nat\<close>. A panic is the value \<open>None\<close> or a named error.
\<close>

section \<open>Machine integers\<close>

type_synonym u8 = "8 word"
type_synonym u16 = "16 word"
type_synonym u32 = "32 word"
type_synonym u64 = "64 word"
type_synonym u128 = "128 word"
type_synonym i32 = int
type_synonym i64 = int

lemma unat_word_max: "unat (- 1 :: 'a::len word) = 2 ^ LENGTH('a) - 1"
  by (simp add: unsigned_minus_1_eq_mask mask_eq_exp_minus_1)

lemma unat_less_exp: "unat (a :: 'a::len word) < 2 ^ LENGTH('a)"
  by (rule unsigned_less)

named_theorems sat_unat \<open>the saturating operations read as natural numbers\<close>
named_theorems collect_simps \<open>membership facts of the list folds that model collection loops\<close>

definition sat_add :: "'a::len word \<Rightarrow> 'a word \<Rightarrow> 'a word" where
  "sat_add a b = (if unat a + unat b < 2 ^ LENGTH('a) then a + b else - 1)"

definition sat_sub :: "'a::len word \<Rightarrow> 'a word \<Rightarrow> 'a word" where
  "sat_sub a b = (if b \<le> a then a - b else 0)"

definition sat_mul :: "'a::len word \<Rightarrow> 'a word \<Rightarrow> 'a word" where
  "sat_mul a b = (if unat a * unat b < 2 ^ LENGTH('a) then a * b else - 1)"

definition checked_add :: "'a::len word \<Rightarrow> 'a word \<Rightarrow> 'a word option" where
  "checked_add a b = (if unat a + unat b < 2 ^ LENGTH('a) then Some (a + b) else None)"

definition checked_sub :: "'a::len word \<Rightarrow> 'a word \<Rightarrow> 'a word option" where
  "checked_sub a b = (if b \<le> a then Some (a - b) else None)"

text \<open>Equations that compute without the number \<open>2 ^ LENGTH('a)\<close>.\<close>

lemma overflow_iff: "unat a + unat b < 2 ^ LENGTH('a) \<longleftrightarrow> a \<le> a + b" for a b :: "'a::len word"
  using no_olen_add_nat [of a b] by blast

lemma sat_add_code [code]: "sat_add a b = (let c = a + b in if a \<le> c then c else - 1)"
  by (simp add: sat_add_def overflow_iff Let_def)

lemma checked_add_code [code]: "checked_add a b = (let c = a + b in if a \<le> c then Some c else None)"
  by (simp add: checked_add_def overflow_iff Let_def)

lemma sat_mul_code [code]: "sat_mul a b = (if uint a * uint b \<le> uint (- 1 :: 'a word) then a * b else - 1)"
  for a b :: "'a::len word"
proof -
  have "uint (- 1 :: 'a word) = 2 ^ LENGTH('a) - 1"
    by (simp add: unsigned_minus_1_eq_mask mask_eq_exp_minus_1)
  moreover have "unat a * unat b < 2 ^ LENGTH('a) \<longleftrightarrow> int (unat a * unat b) < int (2 ^ LENGTH('a))"
    by (rule of_nat_less_iff [symmetric])
  then have "unat a * unat b < 2 ^ LENGTH('a) \<longleftrightarrow> uint a * uint b < 2 ^ LENGTH('a)"
    by (simp only: of_nat_mult of_nat_power of_nat_numeral flip: uint_nat)
  ultimately show ?thesis unfolding sat_mul_def by simp
qed

lemma unat_sat_add [sat_unat]:
  fixes a b :: "'a::len word"
  shows "unat (sat_add a b) = min (unat a + unat b) (2 ^ LENGTH('a) - 1)"
  by (auto simp: sat_add_def unat_word_ariths unat_word_max)

lemma unat_sat_sub [sat_unat]: "unat (sat_sub a b) = unat a - unat b"
  by (auto simp: sat_sub_def unat_sub word_le_nat_alt)

lemma unat_sat_mul [sat_unat]:
  fixes a b :: "'a::len word"
  shows "unat (sat_mul a b) = min (unat a * unat b) (2 ^ LENGTH('a) - 1)"
  by (auto simp: sat_mul_def unat_word_ariths unat_word_max)

lemma checked_add_Some:
  assumes "checked_add x y = Some z"
  shows "unat z = unat x + unat y"
  using assms by (auto simp: checked_add_def unat_word_ariths split: if_splits)

lemma checked_sub_Some:
  "checked_sub a b = Some c \<Longrightarrow> b \<le> a \<and> unat c = unat a - unat b"
  by (auto simp: checked_sub_def unat_sub word_le_nat_alt split: if_splits)

lemma sat_add_mono: "a \<le> sat_add a b"
  using unat_less_exp [of a] by (auto simp: word_le_nat_alt unat_sat_add le_diff_conv2 Suc_le_eq
    simp flip: less_eq_Suc_le)

lemma sat_sub_le: "sat_sub a b \<le> a"
  by (simp add: word_le_nat_alt unat_sat_sub)

text \<open>The range of a 32-bit signed integer, its wrapping, and its saturating operations.\<close>

abbreviation i32_min :: int where "i32_min \<equiv> - 2147483648"
abbreviation i32_max :: int where "i32_max \<equiv> 2147483647"

definition in_i32 :: "int \<Rightarrow> bool" where
  "in_i32 x \<longleftrightarrow> i32_min \<le> x \<and> x \<le> i32_max"

definition wrap_i32 :: "int \<Rightarrow> i32" where
  "wrap_i32 x = (x + 2147483648) mod 4294967296 - 2147483648"

definition clamp_int :: "int \<Rightarrow> int \<Rightarrow> int \<Rightarrow> int" where
  "clamp_int lo hi x = max lo (min hi x)"

definition sat_i32 :: "int \<Rightarrow> i32" where
  "sat_i32 x = clamp_int i32_min i32_max x"

definition trunc_div :: "int \<Rightarrow> int \<Rightarrow> int" where
  "trunc_div n d = (if (0 \<le> n) = (0 \<le> d) then \<bar>n\<bar> div \<bar>d\<bar> else - (\<bar>n\<bar> div \<bar>d\<bar>))"

lemma wrap_i32_id [simp]: "in_i32 x \<Longrightarrow> wrap_i32 x = x"
  by (simp add: in_i32_def wrap_i32_def)

lemma in_i32_wrap [simp]: "in_i32 (wrap_i32 x)"
proof -
  have "0 \<le> (x + 2147483648) mod 4294967296" "(x + 2147483648) mod 4294967296 < 4294967296"
    by simp_all
  then show ?thesis unfolding in_i32_def wrap_i32_def by linarith
qed

lemma in_i32_sat [simp]: "in_i32 (sat_i32 x)"
  by (auto simp: in_i32_def sat_i32_def clamp_int_def)

lemma sat_i32_id [simp]: "in_i32 x \<Longrightarrow> sat_i32 x = x"
  by (auto simp: in_i32_def sat_i32_def clamp_int_def)

lemma clamp_int_bounds: "lo \<le> hi \<Longrightarrow> lo \<le> clamp_int lo hi x \<and> clamp_int lo hi x \<le> hi"
  by (auto simp: clamp_int_def)

lemma trunc_div_pos: "0 < b \<Longrightarrow> trunc_div a b = (if 0 \<le> a then a div b else - (- a div b))"
  by (auto simp: trunc_div_def)

section \<open>Text\<close>

text \<open>
  A Rust \<open>String\<close> is a sequence of Unicode scalar values; its order (bytes of the UTF-8
  encoding) is the lexicographic order of the scalar values. \<open>lit\<close> reads an ASCII literal.
\<close>

type_synonym rstr = "nat list"

definition lit :: "string \<Rightarrow> rstr" where
  "lit s = map of_char s"

text \<open>\<open>char::is_whitespace\<close>: the code points with the Unicode property White\_Space.\<close>

definition is_whitespace :: "nat \<Rightarrow> bool" where
  "is_whitespace c \<longleftrightarrow> (9 \<le> c \<and> c \<le> 13) \<or> c = 32 \<or> c = 133 \<or> c = 160 \<or> c = 5760
     \<or> (8192 \<le> c \<and> c \<le> 8202) \<or> c = 8232 \<or> c = 8233 \<or> c = 8239 \<or> c = 8287 \<or> c = 12288"

text \<open>\<open>str::trim\<close> strips White\_Space at both ends.\<close>

definition str_trim :: "rstr \<Rightarrow> rstr" where
  "str_trim s = rev (dropWhile is_whitespace (rev (dropWhile is_whitespace s)))"

definition blank :: "rstr \<Rightarrow> bool" where
  "blank s \<longleftrightarrow> str_trim s = []"

lemma blank_iff: "blank s \<longleftrightarrow> list_all is_whitespace s"
proof -
  have "blank s \<longleftrightarrow> (\<forall>c \<in> set (dropWhile is_whitespace s). is_whitespace c)"
    by (simp add: blank_def str_trim_def)
  also have "\<dots> \<longleftrightarrow> (\<forall>c \<in> set s. is_whitespace c)"
    by (metis dropWhile_eq_Nil_conv hd_dropWhile hd_in_set list.set(1) empty_iff)
  finally show ?thesis by (simp add: list_all_iff)
qed

definition ascii_lower :: "nat \<Rightarrow> nat" where
  "ascii_lower c = (if 65 \<le> c \<and> c \<le> 90 then c + 32 else c)"

definition to_ascii_lowercase :: "rstr \<Rightarrow> rstr" where
  "to_ascii_lowercase s = map ascii_lower s"

definition eq_ignore_ascii_case :: "rstr \<Rightarrow> rstr \<Rightarrow> bool" where
  "eq_ignore_ascii_case s t \<longleftrightarrow> to_ascii_lowercase s = to_ascii_lowercase t"

section \<open>Options and lists\<close>

definition unwrap_or :: "'a \<Rightarrow> 'a option \<Rightarrow> 'a" where
  "unwrap_or d x = (case x of None \<Rightarrow> d | Some y \<Rightarrow> y)"

lemma unwrap_or_simps [simp]: "unwrap_or d None = d" "unwrap_or d (Some y) = y"
  by (simp_all add: unwrap_or_def)

text \<open>\<open>Iterator::min\<close> and \<open>Iterator::max\<close> on an ordered type.\<close>

definition iter_min :: "'a::linorder list \<Rightarrow> 'a option" where
  "iter_min xs = (case xs of [] \<Rightarrow> None | y # ys \<Rightarrow> Some (fold min ys y))"

definition iter_max :: "'a::linorder list \<Rightarrow> 'a option" where
  "iter_max xs = (case xs of [] \<Rightarrow> None | y # ys \<Rightarrow> Some (fold max ys y))"

lemma iter_min_eq: "iter_min xs = (if xs = [] then None else Some (Min (set xs)))"
  by (simp add: iter_min_def Min.set_eq_fold [symmetric] del: Min_insert split: list.split)

lemma iter_max_eq: "iter_max xs = (if xs = [] then None else Some (Max (set xs)))"
  by (simp add: iter_max_def Max.set_eq_fold [symmetric] del: Max_insert split: list.split)

lemma iter_min_Some: "iter_min xs = Some m \<longleftrightarrow> m \<in> set xs \<and> (\<forall>x \<in> set xs. m \<le> x)"
  by (cases "xs = []") (auto simp: iter_min_eq intro: Min_eqI)

lemma iter_max_Some: "iter_max xs = Some m \<longleftrightarrow> m \<in> set xs \<and> (\<forall>x \<in> set xs. x \<le> m)"
  by (cases "xs = []") (auto simp: iter_max_eq intro: Max_eqI)

lemma iter_min_None [simp]: "iter_min xs = None \<longleftrightarrow> xs = []"
  by (simp add: iter_min_eq)

lemma iter_max_None [simp]: "iter_max xs = None \<longleftrightarrow> xs = []"
  by (simp add: iter_max_eq)

text \<open>\<open>sort_by_key\<close> of the standard library is a stable sort, as \<open>sort_key\<close> is. Sorting by an
  injective key forgets the order of the input.\<close>

lemma filter_key_inj:
  assumes "inj_on f A" and "k \<in> A" and "set zs \<subseteq> A"
  shows "filter (\<lambda>x. f x = f k) zs = replicate (count (mset zs) k) k"
  using assms(3)
proof (induction zs)
  case (Cons z zs)
  then show ?case using assms(1,2) by (auto dest: inj_onD)
qed simp

lemma sort_key_perm_eq:
  assumes "mset xs = mset ys" and inj: "inj_on f (set xs)"
  shows "sort_key f xs = sort_key f ys"
proof (rule properties_for_sort_key)
  have same: "set ys = set xs" using assms(1) by (metis set_mset_mset)
  show "mset (sort_key f ys) = mset xs" using assms(1) by simp
  show "sorted (map f (sort_key f ys))" by simp
  show "filter (\<lambda>x. f k = f x) (sort_key f ys) = filter (\<lambda>x. f k = f x) xs"
    if "k \<in> set (sort_key f ys)" for k
    using that same filter_key_inj [OF inj, of k "sort_key f ys"]
      filter_key_inj [OF inj, of k xs] assms(1)
    by (simp add: eq_commute [of "f k"])
qed

lemma sum_list_filter_le:
  fixes f :: "'a \<Rightarrow> nat"
  shows "sum_list (map f (filter P xs)) \<le> sum_list (map f xs)"
  by (induction xs) auto

lemma member_le_sum_list_map:
  fixes f :: "'a \<Rightarrow> nat"
  shows "x \<in> set xs \<Longrightarrow> f x \<le> sum_list (map f xs)"
  by (induction xs) auto

lemma distinct_submset:
  assumes "mset xs \<subseteq># mset ys" and "distinct ys"
  shows "distinct xs"
proof -
  have "count (mset xs) a = (if a \<in> set xs then 1 else 0)" for a
  proof -
    have "count (mset xs) a \<le> count (mset ys) a" using assms(1) by (simp add: mset_subset_eq_count)
    also have "\<dots> \<le> 1" using assms(2) by (simp add: distinct_count_atmost_1)
    finally show ?thesis by (cases "a \<in> set xs") (auto simp: le_Suc_eq)
  qed
  then show ?thesis by (simp add: distinct_count_atmost_1)
qed

lemma mset_concat_mono:
  "mset xs \<subseteq># mset ys \<Longrightarrow> mset (concat (map f xs)) \<subseteq># mset (concat (map f ys))"
proof -
  assume "mset xs \<subseteq># mset ys"
  then obtain rest where ys: "mset ys = mset xs + rest" by (auto simp: subset_mset.le_iff_add)
  have conc: "mset (concat (map f zs)) = (\<Sum>z \<in># mset zs. mset (f z))" for zs
    by (induction zs) auto
  show ?thesis by (simp add: conc ys)
qed

lemma in_set_map_filter [collect_simps]:
  "y \<in> set (List.map_filter f xs) \<longleftrightarrow> (\<exists>x \<in> set xs. f x = Some y)"
  by (induction xs) (auto split: option.splits)

text \<open>A list of results of which every one must be there.\<close>

fun all_some :: "'a option list \<Rightarrow> 'a list option" where
  "all_some [] = Some []"
| "all_some (x # xs) = (case x of None \<Rightarrow> None | Some y \<Rightarrow> map_option ((#) y) (all_some xs))"

lemma all_some_eq_Some: "all_some xs = Some ys \<longleftrightarrow> xs = map Some ys"
proof (induction xs arbitrary: ys)
  case (Cons x xs)
  then show ?case by (cases ys) (auto split: option.splits)
qed auto

text \<open>A loop over a list whose body may panic.\<close>

fun fold_opt :: "('a \<Rightarrow> 's \<Rightarrow> 's option) \<Rightarrow> 'a list \<Rightarrow> 's \<Rightarrow> 's option" where
  "fold_opt f [] s = Some s"
| "fold_opt f (x # xs) s = (case f x s of None \<Rightarrow> None | Some s' \<Rightarrow> fold_opt f xs s')"

section \<open>Machines with an invariant\<close>

text \<open>The contract of a component whose operations all keep an invariant: it then holds after
  every sequence of operations. The components interpret it with their own events.\<close>

locale invariant_machine =
  fixes step :: "'e \<Rightarrow> 's \<Rightarrow> 's" and ok :: "'s \<Rightarrow> bool"
  assumes law_step: "ok s \<Longrightarrow> ok (step e s)"
begin

lemma run_ok: "ok s \<Longrightarrow> ok (fold step es s)"
  by (induction es arbitrary: s) (simp_all add: law_step)

lemma run_prefix_ok: "ok s \<Longrightarrow> ok (fold step (take n es) s)"
  by (rule run_ok)

end

text \<open>The same for operations that may panic: from a good state they do not, and they lead to a
  good state again.\<close>

locale total_machine =
  fixes step :: "'e \<Rightarrow> 's \<Rightarrow> 's option" and ok :: "'s \<Rightarrow> bool"
  assumes law_total: "ok s \<Longrightarrow> \<exists>s'. step e s = Some s' \<and> ok s'"
begin

lemma run_total: "ok s \<Longrightarrow> \<exists>s'. fold_opt step es s = Some s' \<and> ok s'"
proof (induction es arbitrary: s)
  case (Cons e es)
  obtain s1 where "step e s = Some s1" "ok s1" using law_total [OF Cons.prems] by blast
  with Cons.IH show ?case by simp
qed simp

end

end
