(* ===== verification/Ordered_Map.thy ===== *)
theory Ordered_Map
  imports Prelude
begin

text \<open>
  \<open>BTreeMap\<close> of the Rust standard library, which every component of the program keeps its state
  in: a finite map whose iteration order is the order of its keys. A value of \<open>bmap\<close> is its list
  of entries in strictly ascending key order, so equal maps are equal values and \<open>entries\<close> is
  what \<open>iter()\<close> yields. A \<open>BTreeSet\<close> is a \<open>set\<close>, iterated with \<open>sorted_list_of_set\<close>.

  The locale \<open>map_interface\<close> is the contract of the map operations that the client
  components rely on (what a lookup returns after an insertion or a removal); it is interpreted
  on \<open>bmap\<close> at the end.
\<close>

section \<open>Entries in key order\<close>

typedef (overloaded) ('k::linorder, 'v) bmap = "{xs :: ('k \<times> 'v) list. sorted_wrt (<) (map fst xs)}"
  morphisms entries Bmap
  by (rule exI [of _ "[]"]) simp

setup_lifting type_definition_bmap

fun ins_entry :: "'k::linorder \<Rightarrow> 'v \<Rightarrow> ('k \<times> 'v) list \<Rightarrow> ('k \<times> 'v) list" where
  "ins_entry k v [] = [(k, v)]"
| "ins_entry k v ((k', v') # xs) =
     (if k < k' then (k, v) # (k', v') # xs
      else if k = k' then (k, v) # xs
      else (k', v') # ins_entry k v xs)"

lemma set_ins_entry_keys [simp]: "fst ` set (ins_entry k v xs) = insert k (fst ` set xs)"
  by (induction k v xs rule: ins_entry.induct) auto

lemma sorted_ins_entry:
  "sorted_wrt (<) (map fst xs) \<Longrightarrow> sorted_wrt (<) (map fst (ins_entry k v xs))"
proof (induction k v xs rule: ins_entry.induct)
  case (2 k v k' v' xs)
  have "\<forall>y \<in> fst ` set (ins_entry k v xs). k' < y" if "\<not> k < k'" "k \<noteq> k'"
    using that 2(2) unfolding set_ins_entry_keys by auto
  with 2 show ?case by auto
qed simp

lemma map_of_ins_entry: "map_of (ins_entry k v xs) = (map_of xs)(k \<mapsto> v)"
  by (induction k v xs rule: ins_entry.induct) (auto simp: fun_upd_twist)

lift_definition bm_empty :: "('k::linorder, 'v) bmap" is "[]"
  by simp

lift_definition bm_insert :: "'k::linorder \<Rightarrow> 'v \<Rightarrow> ('k, 'v) bmap \<Rightarrow> ('k, 'v) bmap" is ins_entry
  by (rule sorted_ins_entry)

lift_definition bm_remove :: "'k::linorder \<Rightarrow> ('k, 'v) bmap \<Rightarrow> ('k, 'v) bmap"
  is "\<lambda>k. filter (\<lambda>e. fst e \<noteq> k)"
  by (simp add: sorted_wrt_map sorted_wrt_filter)

lift_definition bm_map :: "('k::linorder \<Rightarrow> 'v \<Rightarrow> 'w) \<Rightarrow> ('k, 'v) bmap \<Rightarrow> ('k, 'w) bmap"
  is "\<lambda>f. map (\<lambda>(k, v). (k, f k v))"
  by (simp add: case_prod_unfold comp_def)

definition bm_get :: "('k::linorder, 'v) bmap \<Rightarrow> 'k \<Rightarrow> 'v option" where
  "bm_get m k = map_of (entries m) k"

definition bm_keys :: "('k::linorder, 'v) bmap \<Rightarrow> 'k list" where
  "bm_keys m = map fst (entries m)"

definition bm_values :: "('k::linorder, 'v) bmap \<Rightarrow> 'v list" where
  "bm_values m = map snd (entries m)"

definition bm_contains :: "('k::linorder, 'v) bmap \<Rightarrow> 'k \<Rightarrow> bool" where
  "bm_contains m k \<longleftrightarrow> bm_get m k \<noteq> None"

text \<open>\<open>if let Some(v) = m.get_mut(k) { *v = f(v) }\<close>.\<close>

definition bm_update :: "'k::linorder \<Rightarrow> ('v \<Rightarrow> 'v) \<Rightarrow> ('k, 'v) bmap \<Rightarrow> ('k, 'v) bmap" where
  "bm_update k f m = (case bm_get m k of None \<Rightarrow> m | Some v \<Rightarrow> bm_insert k (f v) m)"

text \<open>\<open>collect()\<close> into a map: a later entry replaces an earlier one.\<close>

definition bm_of_list :: "('k::linorder \<times> 'v) list \<Rightarrow> ('k, 'v) bmap" where
  "bm_of_list xs = fold (\<lambda>(k, v). bm_insert k v) xs bm_empty"

lemmas entries_simps [simp] = bm_empty.rep_eq bm_insert.rep_eq bm_remove.rep_eq bm_map.rep_eq

lemma entries_sorted: "sorted_wrt (<) (map fst (entries m))"
  using entries [of m] by simp

lemma entries_distinct [simp]: "distinct (map fst (entries m))"
  using entries_sorted [of m] by (simp add: strict_sorted_iff)

lemma keys_distinct [simp]: "distinct (bm_keys m)"
  by (simp add: bm_keys_def)

lemma keys_sorted [simp]: "sorted (bm_keys m)"
  unfolding bm_keys_def using entries_sorted by (rule strict_sorted_imp_sorted)

section \<open>Lookups\<close>

lemma get_empty [simp]: "bm_get bm_empty k = None"
  by (simp add: bm_get_def)

lemma get_insert: "bm_get (bm_insert k v m) k' = (if k' = k then Some v else bm_get m k')"
  by (simp add: bm_get_def map_of_ins_entry)

lemma get_insert_same [simp]: "bm_get (bm_insert k v m) k = Some v"
  by (simp add: get_insert)

lemma get_insert_other [simp]: "k' \<noteq> k \<Longrightarrow> bm_get (bm_insert k v m) k' = bm_get m k'"
  by (simp add: get_insert)

lemma map_of_filter_fst: "map_of (filter (\<lambda>e. fst e \<noteq> k) xs) = (map_of xs)(k := None)"
  by (induction xs) (auto simp: fun_eq_iff)

lemma get_remove: "bm_get (bm_remove k m) k' = (if k' = k then None else bm_get m k')"
  by (simp add: bm_get_def map_of_filter_fst)

lemma get_remove_same [simp]: "bm_get (bm_remove k m) k = None"
  by (simp add: get_remove)

lemma get_remove_other [simp]: "k' \<noteq> k \<Longrightarrow> bm_get (bm_remove k m) k' = bm_get m k'"
  by (simp add: get_remove)

lemma get_map [simp]: "bm_get (bm_map f m) k = map_option (f k) (bm_get m k)"
proof -
  have "map_of (map (\<lambda>(k, v). (k, f k v)) xs) k = map_option (f k) (map_of xs k)" for xs
    by (induction xs) auto
  then show ?thesis by (simp add: bm_get_def)
qed

lemma get_update: "bm_get (bm_update k f m) k' = (if k' = k then map_option f (bm_get m k) else bm_get m k')"
  by (auto simp: bm_update_def get_insert split: option.split)

lemma get_update_same [simp]: "bm_get (bm_update k f m) k = map_option f (bm_get m k)"
  by (simp add: get_update)

lemma get_update_other [simp]: "k' \<noteq> k \<Longrightarrow> bm_get (bm_update k f m) k' = bm_get m k'"
  by (simp add: get_update)

lemma entry_iff: "(k, v) \<in> set (entries m) \<longleftrightarrow> bm_get m k = Some v"
  by (simp add: bm_get_def)

lemma keys_iff: "k \<in> set (bm_keys m) \<longleftrightarrow> bm_get m k \<noteq> None"
  by (metis (no_types) bm_get_def bm_keys_def dom_map_of_conv_image_fst domIff image_set)

lemma values_iff: "v \<in> set (bm_values m) \<longleftrightarrow> (\<exists>k. bm_get m k = Some v)"
  by (force simp: bm_values_def entry_iff [symmetric])

lemma values_Nil: "bm_values m = [] \<longleftrightarrow> (\<forall>k. bm_get m k = None)"
  by (metis values_iff all_not_in_conv list.set_intros(1) neq_Nil_conv not_Some_eq set_empty)

lemma contains_iff [simp]: "bm_contains m k \<longleftrightarrow> (\<exists>v. bm_get m k = Some v)"
  by (simp add: bm_contains_def)

lemma bm_eqI:
  assumes same: "\<And>k. bm_get m k = bm_get n k"
  shows "m = n"
proof -
  have sets: "set (entries m) = set (entries n)"
    using same by (auto simp: entry_iff)
  have inj: "inj_on fst (set (entries m))"
    by (simp add: distinct_map [THEN iffD1, OF entries_distinct])
  have sorted: "sorted (map fst (entries m))" for m :: "('a, 'b) bmap"
    using entries_sorted [of m] by (rule strict_sorted_imp_sorted)
  have "entries m = entries n"
    by (rule map_sorted_distinct_set_unique [where f = fst]) (use sets inj sorted in simp_all)
  then show ?thesis by (simp add: entries_inject)
qed

lemma bm_eq_iff: "m = n \<longleftrightarrow> (\<forall>k. bm_get m k = bm_get n k)"
  by (auto intro: bm_eqI)

lemma remove_absent [simp]: "bm_get m k = None \<Longrightarrow> bm_remove k m = m"
  by (rule bm_eqI) (simp add: get_remove)

lemma remove_insert_same [simp]: "bm_remove k (bm_insert k v m) = bm_remove k m"
  by (rule bm_eqI) (simp add: get_remove get_insert)

lemma insert_insert_same [simp]: "bm_insert k v (bm_insert k w m) = bm_insert k v m"
  by (rule bm_eqI) (simp add: get_insert)

lemma set_keys_insert [simp]: "set (bm_keys (bm_insert k v m)) = insert k (set (bm_keys m))"
  by (simp add: bm_keys_def)

lemma set_keys_remove [simp]: "set (bm_keys (bm_remove k m)) = set (bm_keys m) - {k}"
  by (auto simp: keys_iff get_remove split: if_splits)

lemma keys_map [simp]: "bm_keys (bm_map f m) = bm_keys m"
  by (simp add: bm_keys_def comp_def case_prod_unfold)

lemma keys_update [simp]: "set (bm_keys (bm_update k f m)) = set (bm_keys m)"
  by (auto simp: keys_iff get_update split: if_splits)

lemma keys_empty [simp]: "bm_keys bm_empty = []"
  by (simp add: bm_keys_def)

lemma values_empty [simp]: "bm_values bm_empty = []"
  by (simp add: bm_values_def)

section \<open>Sums over the values\<close>

definition bm_sum :: "('v \<Rightarrow> nat) \<Rightarrow> ('k::linorder, 'v) bmap \<Rightarrow> nat" where
  "bm_sum f m = sum_list (map f (bm_values m))"

lemma mset_filter_fst:
  "distinct (map fst xs) \<Longrightarrow> map_of xs k = Some v
    \<Longrightarrow> mset xs = add_mset (k, v) (mset (filter (\<lambda>e. fst e \<noteq> k) xs))"
proof (induction xs)
  case (Cons e xs)
  have "filter (\<lambda>e'. fst e' \<noteq> k) xs = xs" if "fst e = k"
  proof -
    have "\<forall>e' \<in> set xs. fst e' \<noteq> k"
      using Cons.prems(1) that by (metis distinct.simps(2) image_eqI list.set_map list.simps(9))
    then show ?thesis by (rule filter_True)
  qed
  with Cons show ?case by (cases e) auto
qed simp

lemma mset_entries_split:
  "bm_get m k = Some v \<Longrightarrow> mset (entries m) = add_mset (k, v) (mset (entries (bm_remove k m)))"
  using mset_filter_fst [OF entries_distinct] by (simp add: bm_get_def)

lemma bm_sum_mset: "bm_sum f m = sum_mset (image_mset (\<lambda>e. f (snd e)) (mset (entries m)))"
  by (simp add: bm_sum_def bm_values_def comp_def sum_mset_sum_list flip: mset_map)

lemma bm_sum_empty [simp]: "bm_sum f bm_empty = 0"
  by (simp add: bm_sum_def)

lemma bm_sum_split: "bm_get m k = Some v \<Longrightarrow> bm_sum f m = f v + bm_sum f (bm_remove k m)"
  by (simp add: bm_sum_mset mset_entries_split [of m k v] del: bm_remove.rep_eq)

lemma bm_sum_insert: "bm_sum f (bm_insert k v m) = f v + bm_sum f (bm_remove k m)"
  using bm_sum_split [of "bm_insert k v m" k v f] by simp

lemma bm_sum_insert_fresh: "bm_get m k = None \<Longrightarrow> bm_sum f (bm_insert k v m) = f v + bm_sum f m"
  by (simp add: bm_sum_insert)

lemma bm_sum_remove: "bm_get m k = Some v \<Longrightarrow> bm_sum f (bm_remove k m) = bm_sum f m - f v"
  by (simp add: bm_sum_split [of m k v])

lemma bm_sum_remove_le: "bm_sum f (bm_remove k m) \<le> bm_sum f m"
  by (cases "bm_get m k") (auto simp: bm_sum_remove)

lemma bm_sum_member: "bm_get m k = Some v \<Longrightarrow> f v \<le> bm_sum f m"
  by (simp add: bm_sum_split [of m k v])

lemma bm_sum_cong: "(\<And>k v. bm_get m k = Some v \<Longrightarrow> f v = g v) \<Longrightarrow> bm_sum f m = bm_sum g m"
proof -
  assume *: "\<And>k v. bm_get m k = Some v \<Longrightarrow> f v = g v"
  then have "map f (bm_values m) = map g (bm_values m)"
    by (auto simp: values_iff)
  then show ?thesis unfolding bm_sum_def by (rule arg_cong)
qed

lemma bm_sum_map: "bm_sum f (bm_map h m) = sum_list (map (\<lambda>(k, v). f (h k v)) (entries m))"
  by (simp add: bm_sum_def bm_values_def comp_def case_prod_unfold)

text \<open>\<open>values().filter(P).count()\<close> is the sum of the indicator.\<close>

lemma count_values: "length (filter P (bm_values m)) = bm_sum (\<lambda>v. if P v then 1 else 0) m"
proof -
  have "length (filter P xs) = sum_list (map (\<lambda>v. if P v then 1 else 0) xs)" for xs
    by (induction xs) auto
  then show ?thesis by (simp add: bm_sum_def)
qed

lemma sum_filter_values:
  "sum_list (map f (filter P (bm_values m))) = bm_sum (\<lambda>v. if P v then f v else 0) m"
proof -
  have "sum_list (map f (filter P xs)) = sum_list (map (\<lambda>v. if P v then f v else 0) xs)" for xs
    by (induction xs) auto
  then show ?thesis by (simp add: bm_sum_def)
qed

definition bm_size :: "('k::linorder, 'v) bmap \<Rightarrow> nat" where
  "bm_size m = length (entries m)"

lemma bm_size_sum: "bm_size m = bm_sum (\<lambda>_. 1) m"
  using count_values [of "\<lambda>_. True" m] by (simp add: bm_size_def bm_values_def)

lemma bm_size_insert: "bm_size (bm_insert k v m) = (if bm_get m k = None then Suc (bm_size m) else bm_size m)"
  by (auto simp: bm_size_sum bm_sum_insert bm_sum_split [of m k] split: if_splits)

lemma bm_size_remove: "bm_size (bm_remove k m) = (if bm_get m k = None then bm_size m else bm_size m - 1)"
  by (auto simp: bm_size_sum bm_sum_remove)

section \<open>Equality and evaluation\<close>

instantiation bmap :: (linorder, equal) equal
begin

definition equal_bmap :: "('a, 'b) bmap \<Rightarrow> ('a, 'b) bmap \<Rightarrow> bool" where
  "equal_bmap m n \<longleftrightarrow> entries m = entries n"

instance
  by standard (simp add: equal_bmap_def entries_inject)

end

lemma bm_eq_entries: "m = n \<longleftrightarrow> entries m = entries n"
  by (simp add: entries_inject)

section \<open>The map contract\<close>

locale map_interface =
  fixes empty :: 'm
    and get :: "'m \<Rightarrow> 'k \<Rightarrow> 'v option"
    and put :: "'k \<Rightarrow> 'v \<Rightarrow> 'm \<Rightarrow> 'm"
    and del :: "'k \<Rightarrow> 'm \<Rightarrow> 'm"
  assumes law_get_empty: "get empty k = None"
    and law_get_put: "get (put k v m) k' = (if k' = k then Some v else get m k')"
    and law_get_del: "get (del k m) k' = (if k' = k then None else get m k')"
begin

text \<open>A loop of insertions: the last value of a key wins, other keys are untouched.\<close>

lemma get_put_all:
  "get (fold (\<lambda>(k, v). put k v) kvs m) k =
    (case map_of (rev kvs) k of None \<Rightarrow> get m k | Some v \<Rightarrow> Some v)"
proof (induction kvs arbitrary: m)
  case (Cons e kvs)
  then show ?case
    by (cases e) (auto simp: law_get_put map_add_def split: option.split)
qed simp

lemma get_put_each:
  "get (fold (\<lambda>k. put k (f k)) ks m) k = (if k \<in> set ks then Some (f k) else get m k)"
  by (induction ks arbitrary: m) (auto simp: law_get_put)

lemma get_del_each:
  "get (fold del ks m) k = (if k \<in> set ks then None else get m k)"
  by (induction ks arbitrary: m) (auto simp: law_get_del)

lemma get_collect: "get (fold (\<lambda>(k, v). put k v) kvs empty) k = map_of (rev kvs) k"
  by (simp add: get_put_all law_get_empty split: option.split)

end

interpretation btree: map_interface bm_empty bm_get bm_insert bm_remove
  by unfold_locales (simp_all add: get_insert get_remove)

lemmas get_fold_insert = btree.get_put_each
lemmas get_fold_remove = btree.get_del_each

lemma get_of_list: "bm_get (bm_of_list xs) k = map_of (rev xs) k"
  unfolding bm_of_list_def by (rule btree.get_collect)

lemma get_of_list_distinct: "distinct (map fst xs) \<Longrightarrow> bm_get (bm_of_list xs) k = map_of xs k"
proof -
  assume "distinct (map fst xs)"
  then have "map_of (rev xs) k = Some v \<longleftrightarrow> map_of xs k = Some v" for v
    by (simp add: map_of_eq_Some_iff rev_map [symmetric])
  then show ?thesis by (metis get_of_list not_None_eq)
qed

end
