(* ===== verification/Ids.thy ===== *)
theory Ids
  imports Ordered_Map
begin

text \<open>
  \<open>core/src/id.rs\<close>: the opaque identifiers. The macro \<open>uuid_id!\<close> declares seven
  newtypes over a 128-bit UUID with the derived order of the wrapped value; they are one
  datatype with a phantom tag per name. The text form of a UUID belongs to the \<open>uuid\<close>
  crate, so the parser and the printer are parameters; the code relies on the parser accepting
  what the printer writes (\<open>uuid_text\<close>).
\<close>

datatype 'k uuid_id = UuidId (as_uuid: u128)

datatype player_tag = PlayerTag
datatype party_tag = PartyTag
datatype ticket_tag = TicketTag
datatype proposal_tag = ProposalTag
datatype match_tag = MatchTag
datatype server_tag = ServerTag
datatype session_tag = SessionTag

type_synonym player_id = "player_tag uuid_id"
type_synonym party_id = "party_tag uuid_id"
type_synonym ticket_id = "ticket_tag uuid_id"
type_synonym proposal_id = "proposal_tag uuid_id"
type_synonym match_id = "match_tag uuid_id"
type_synonym server_id = "server_tag uuid_id"
type_synonym session_id = "session_tag uuid_id"
type_synonym server_generation = u64

instantiation uuid_id :: (type) linorder
begin

definition less_eq_uuid_id :: "'a uuid_id \<Rightarrow> 'a uuid_id \<Rightarrow> bool" where
  "less_eq_uuid_id a b \<longleftrightarrow> as_uuid a \<le> as_uuid b"

definition less_uuid_id :: "'a uuid_id \<Rightarrow> 'a uuid_id \<Rightarrow> bool" where
  "less_uuid_id a b \<longleftrightarrow> as_uuid a < as_uuid b"

instance
  by standard (auto simp: less_eq_uuid_id_def less_uuid_id_def uuid_id.expand)

end

lemma uuid_id_order [simp]:
  "UuidId a \<le> UuidId b \<longleftrightarrow> a \<le> b" "UuidId a < UuidId b \<longleftrightarrow> a < b"
  by (simp_all add: less_eq_uuid_id_def less_uuid_id_def)

definition from_uuid :: "u128 \<Rightarrow> 'k uuid_id" where
  "from_uuid v = UuidId v"

record parse_id_error =
  pe_kind :: string
  pe_value :: rstr

text \<open>The text form of UUIDs, from the \<open>uuid\<close> crate.\<close>

record uuid_codec =
  uc_parse :: "rstr \<Rightarrow> u128 option"
  uc_show :: "u128 \<Rightarrow> rstr"

definition id_from_str :: "uuid_codec \<Rightarrow> string \<Rightarrow> rstr \<Rightarrow> parse_id_error + 'k uuid_id" where
  "id_from_str c kind s = (case uc_parse c s of
      None \<Rightarrow> Inl \<lparr>pe_kind = kind, pe_value = s\<rparr>
    | Some u \<Rightarrow> Inr (UuidId u))"

definition id_to_string :: "uuid_codec \<Rightarrow> 'k uuid_id \<Rightarrow> rstr" where
  "id_to_string c i = uc_show c (as_uuid i)"

text \<open>What the code relies on: a printed UUID is not empty and parses back.\<close>

locale uuid_text =
  fixes c :: uuid_codec
  assumes law_parse_show: "uc_parse c (uc_show c u) = Some u"
    and law_show_nonempty: "uc_show c u \<noteq> []"
begin

lemma from_to_string: "id_from_str c kind (id_to_string c i) = Inr i"
  by (cases i) (simp add: id_from_str_def id_to_string_def law_parse_show)

lemma to_string_eq: "id_to_string c i = id_to_string c j \<longleftrightarrow> i = j"
  by (metis from_to_string sum.inject(2))

lemma to_string_nonempty: "id_to_string c i \<noteq> []"
  by (simp add: id_to_string_def law_show_nonempty)

end

text \<open>
  The model's own printer, for closed instances: 32 lower-case hexadecimal digits, the
  \<open>simple\<close> format that the crate's parser accepts as well.
\<close>

definition hex_digit :: "nat \<Rightarrow> nat" where
  "hex_digit d = (if d < 10 then 48 + d else 87 + d)"

definition hex_value :: "nat \<Rightarrow> nat option" where
  "hex_value c = (if 48 \<le> c \<and> c \<le> 57 then Some (c - 48)
     else if 97 \<le> c \<and> c \<le> 102 then Some (c - 87)
     else if 65 \<le> c \<and> c \<le> 70 then Some (c - 55) else None)"

fun show_hex :: "nat \<Rightarrow> nat \<Rightarrow> rstr" where
  "show_hex 0 n = []"
| "show_hex (Suc k) n = show_hex k (n div 16) @ [hex_digit (n mod 16)]"

fun parse_hex :: "nat \<Rightarrow> rstr \<Rightarrow> nat option" where
  "parse_hex acc [] = Some acc"
| "parse_hex acc (c # cs) = (case hex_value c of None \<Rightarrow> None
     | Some d \<Rightarrow> parse_hex (16 * acc + d) cs)"

definition simple_codec :: uuid_codec where
  "simple_codec = \<lparr>
     uc_parse = (\<lambda>s. if length s = 32 then map_option of_nat (parse_hex 0 s) else None),
     uc_show = (\<lambda>u. show_hex 32 (unat u))\<rparr>"

lemma hex_value_digit [simp]: "d < 16 \<Longrightarrow> hex_value (hex_digit d) = Some d"
  by (auto simp: hex_value_def hex_digit_def)

lemma length_show_hex [simp]: "length (show_hex k n) = k"
  by (induction k n rule: show_hex.induct) auto

lemma parse_hex_append:
  "parse_hex acc (s @ t) = (case parse_hex acc s of None \<Rightarrow> None | Some a \<Rightarrow> parse_hex a t)"
  by (induction acc s rule: parse_hex.induct) (auto split: option.split)

lemma parse_show_hex: "n < 16 ^ k \<Longrightarrow> parse_hex acc (show_hex k n) = Some (acc * 16 ^ k + n)"
proof (induction k n rule: show_hex.induct)
  case (2 k n)
  then have "parse_hex acc (show_hex k (n div 16)) = Some (acc * 16 ^ k + n div 16)"
    by (simp add: less_mult_imp_div_less mult.commute)
  then show ?case by (simp add: parse_hex_append algebra_simps)
qed simp

interpretation simple_text: uuid_text simple_codec
proof
  fix u :: u128
  have "unat u < 16 ^ 32" using unat_less_exp [of u] by simp
  then show "uc_parse simple_codec (uc_show simple_codec u) = Some u"
    by (simp add: simple_codec_def parse_show_hex)
  have "length (uc_show simple_codec u) = 32" by (simp add: simple_codec_def)
  then show "uc_show simple_codec u \<noteq> []" by auto
qed

end
