(* ===== verification/Components.thy ===== *)
theory Components
  imports Ids
begin

text \<open>
  \<open>core/src/components/mod.rs\<close>: the enumerations shared by the authority, with the orders
  the code derives, and the component structs with more than one field. The one-field structs
  (newtypes for the entity-component storage) are the fields of the entities of the theory
  \<open>Ecs\<close>.
\<close>

datatype queue_mode = OneVsOne | FiveVsFive | FreeForAll

datatype player_state = PlIdle | PlQueued | PlProposed | PlMatched | PlSuspended | PlDisconnected

datatype party_state = PIdle | PQueued | PAwaitingAccept | PNotReady | PMatched

datatype ticket_state = TkQueued | TkClaimed | TkProposed | TkCancelled

datatype accept_state = Pending | Accepted | Rejected | TimedOut

datatype match_state = MtAwaitingAccept | MtAwaitingPlacement | MtReserved | MtAccepted | MtReady | MtRunning
  | MtFinished | MtServerLost | MtCancelled

datatype server_health = ShHealthy | ShUnhealthy | ShLost

record search_range =
  sr_minimum :: i32
  sr_maximum :: i32

record bucket_owner =
  bo_region :: rstr
  bo_bucket :: i32

record capacity =
  ca_total :: u32
  ca_used :: u32

record instance_capacity =
  ic_maximum :: u16
  ic_running :: u16
  ic_reserved :: u16

text \<open>The derived order of \<open>QueueMode\<close> is the order of its variants.\<close>

fun mode_rank :: "queue_mode \<Rightarrow> nat" where
  "mode_rank OneVsOne = 0"
| "mode_rank FiveVsFive = 1"
| "mode_rank FreeForAll = 2"

lemma mode_rank_inj [simp]: "mode_rank a = mode_rank b \<longleftrightarrow> a = b"
  by (cases a; cases b) auto

instantiation queue_mode :: linorder
begin

definition less_eq_queue_mode :: "queue_mode \<Rightarrow> queue_mode \<Rightarrow> bool" where
  "less_eq_queue_mode a b \<longleftrightarrow> mode_rank a \<le> mode_rank b"

definition less_queue_mode :: "queue_mode \<Rightarrow> queue_mode \<Rightarrow> bool" where
  "less_queue_mode a b \<longleftrightarrow> mode_rank a < mode_rank b"

instance
  by standard (auto simp: less_eq_queue_mode_def less_queue_mode_def simp flip: mode_rank_inj)

end

lemma queue_mode_order [simp]:
  "a \<le> b \<longleftrightarrow> mode_rank a \<le> mode_rank b" "a < b \<longleftrightarrow> mode_rank a < mode_rank b"
  for a b :: queue_mode
  by (simp_all add: less_eq_queue_mode_def less_queue_mode_def)

text \<open>The response of a player who made the proposal fail.\<close>

definition failed_response :: "accept_state \<Rightarrow> bool" where
  "failed_response s \<longleftrightarrow> s = Rejected \<or> s = TimedOut"

lemma failed_response_simps [simp]:
  "failed_response Rejected" "failed_response TimedOut"
  "\<not> failed_response Pending" "\<not> failed_response Accepted"
  by (simp_all add: failed_response_def)

end
