(* ===== verification/Server.thy ===== *)
theory Server
  imports Components
begin

text \<open>
  \<open>core/src/server.rs\<close>: the registry of game servers, their generations, heartbeats and
  health, and the instances they run. A method returns its result and the registry; on an
  error the registry is the one the code leaves behind, which is not always the old one.
\<close>

datatype health = Healthy | Unhealthy | Lost

datatype instance_state = InReserved | InAccepted | InReady | InRunning | InFinished | InServerLost

record inst =
  in_match_id :: match_id
  in_cost :: u32
  in_state :: instance_state
  in_endpoint :: "rstr option"
  in_connection_token :: "rstr option"

record game_server =
  gs_id :: server_id
  gs_generation :: server_generation
  gs_endpoint :: rstr
  gs_region :: rstr
  gs_modes :: "queue_mode set"
  gs_capacity_total :: u32
  gs_capacity_used :: u32
  gs_max_instances :: u16
  gs_mode_costs :: "(queue_mode, u32) bmap"
  gs_last_heartbeat :: u64
  gs_health :: health
  gs_failures :: u32
  gs_instances :: "(match_id, inst) bmap"

datatype server_error = StaleGeneration | InvalidCapacity | UnknownInstance

record server_limits =
  sl_max_capacity :: u32
  sl_max_instances :: u16

type_synonym registry = "(server_id, game_server) bmap"

section \<open>Operations\<close>

definition is_current_generation :: "server_id \<Rightarrow> server_generation \<Rightarrow> registry \<Rightarrow> bool" where
  "is_current_generation i g r = (case bm_get r i of None \<Rightarrow> False | Some s \<Rightarrow> gs_generation s = g)"

definition instance_state_rank :: "instance_state \<Rightarrow> u8" where
  "instance_state_rank s = (case s of InReserved \<Rightarrow> 0 | InAccepted \<Rightarrow> 1 | InReady \<Rightarrow> 2 | InRunning \<Rightarrow> 3
     | InFinished \<Rightarrow> 4 | InServerLost \<Rightarrow> 4)"

definition valid_reconciled_state :: "instance_state \<Rightarrow> instance_state \<Rightarrow> bool" where
  "valid_reconciled_state authoritative reported =
    (if authoritative = reported then True
     else if (reported = InFinished \<or> reported = InServerLost) \<or> authoritative = InFinished then False
     else if authoritative = InServerLost then reported = InReady \<or> reported = InRunning
     else instance_state_rank reported \<ge> instance_state_rank authoritative)"

definition nonblank :: "rstr option \<Rightarrow> bool" where
  "nonblank x = (case x of None \<Rightarrow> False | Some v \<Rightarrow> \<not> blank v)"

definition valid_instance_payload :: "inst \<Rightarrow> bool" where
  "valid_instance_payload i = (\<not> (in_state i = InReady \<or> in_state i = InRunning)
     \<or> nonblank (in_endpoint i) \<and> nonblank (in_connection_token i))"

text \<open>An instance that still holds capacity.\<close>

definition live :: "inst \<Rightarrow> bool" where
  "live i \<longleftrightarrow> \<not> (in_state i = InFinished \<or> in_state i = InServerLost)"

definition adopt :: "inst \<Rightarrow> inst \<Rightarrow> inst" where
  "adopt authoritative reported = authoritative\<lparr>in_state := in_state reported,
     in_endpoint := in_endpoint reported, in_connection_token := in_connection_token reported\<rparr>"

text \<open>The first guard of \<open>register\<close>.\<close>

definition registration_invalid :: "game_server \<Rightarrow> server_limits \<Rightarrow> bool" where
  "registration_invalid s l \<longleftrightarrow>
       blank (gs_endpoint s) \<or> blank (gs_region s)
     \<or> gs_modes s = {} \<or> bm_keys (gs_mode_costs s) = []
     \<or> gs_modes s \<noteq> set (bm_keys (gs_mode_costs s))
     \<or> gs_capacity_total s = 0 \<or> gs_capacity_total s > sl_max_capacity l
     \<or> gs_max_instances s = 0 \<or> gs_max_instances s > min (sl_max_instances l) 100
     \<or> list_ex (\<lambda>v. v = 0) (bm_values (gs_mode_costs s))
     \<or> list_ex (\<lambda>i. \<not> valid_instance_payload i) (bm_values (gs_instances s))
     \<or> gs_capacity_used s > gs_capacity_total s
     \<or> bm_size (gs_instances s) > unat (gs_max_instances s)"

fun merge_reported :: "(match_id \<times> inst) list \<Rightarrow> (match_id, inst) bmap
    \<Rightarrow> server_error + (match_id, inst) bmap" where
  "merge_reported [] merged = Inr merged"
| "merge_reported ((m, reported) # rest) merged = (case bm_get merged m of
      None \<Rightarrow> Inl UnknownInstance
    | Some a \<Rightarrow>
        if in_cost a \<noteq> in_cost reported \<or> \<not> valid_reconciled_state (in_state a) (in_state reported)
           \<or> \<not> valid_instance_payload reported
        then Inl InvalidCapacity
        else merge_reported rest (bm_insert m (adopt a reported) merged))"

fun checked_cost :: "inst list \<Rightarrow> u32 \<Rightarrow> u32 option" where
  "checked_cost [] used = Some used"
| "checked_cost (i # is) used = (case checked_add used (in_cost i) of
      None \<Rightarrow> None | Some u \<Rightarrow> checked_cost is u)"

definition register :: "game_server \<Rightarrow> server_limits \<Rightarrow> registry \<Rightarrow> (server_error + unit) \<times> registry" where
  "register s l r =
    (if registration_invalid s l then (Inl InvalidCapacity, r)
     else case bm_get r (gs_id s) of
       None \<Rightarrow> (Inr (), bm_insert (gs_id s) s r)
     | Some old \<Rightarrow>
         if gs_generation old > gs_generation s then (Inl StaleGeneration, r)
         else if gs_generation old = gs_generation s then
           (if gs_region old \<noteq> gs_region s \<or> gs_modes old \<noteq> gs_modes s
               \<or> gs_capacity_total old \<noteq> gs_capacity_total s
               \<or> gs_max_instances old \<noteq> gs_max_instances s \<or> gs_mode_costs old \<noteq> gs_mode_costs s
            then (Inl InvalidCapacity, r)
            else (Inr (), bm_insert (gs_id s) (old\<lparr>gs_endpoint := gs_endpoint s,
              gs_last_heartbeat := gs_last_heartbeat s, gs_health := Healthy\<rparr>) r))
         else case merge_reported (entries (gs_instances s)) (gs_instances old) of
           Inl e \<Rightarrow> (Inl e, r)
         | Inr merged \<Rightarrow>
            (case checked_cost (filter live (bm_values merged)) 0 of
               None \<Rightarrow> (Inl InvalidCapacity, r)
             | Some used \<Rightarrow>
                 if used > gs_capacity_total s
                    \<or> length (filter live (bm_values merged)) > unat (gs_max_instances s)
                 then (Inl InvalidCapacity, r)
                 else (Inr (), bm_insert (gs_id s) (s\<lparr>gs_instances := merged, gs_capacity_used := used,
                   gs_failures := gs_failures old\<rparr>) r)))"

text \<open>\<open>.sum::<u32>()\<close> over the live instances.\<close>

definition authoritative_used :: "game_server \<Rightarrow> u32" where
  "authoritative_used s = sum_list (map in_cost (filter live (bm_values (gs_instances s))))"

definition heartbeat :: "server_id \<Rightarrow> server_generation \<Rightarrow> u64 \<Rightarrow> u32 \<Rightarrow> registry
    \<Rightarrow> (server_error + unit) \<times> registry" where
  "heartbeat i g now used r = (case bm_get r i of
      None \<Rightarrow> (Inl StaleGeneration, r)
    | Some s \<Rightarrow>
        if gs_generation s \<noteq> g then (Inl StaleGeneration, r)
        else let au = authoritative_used s
             in (Inr (), bm_insert i (s\<lparr>gs_last_heartbeat := now,
                  gs_failures := (if used \<noteq> au then sat_add (gs_failures s) 1 else gs_failures s),
                  gs_capacity_used := min au (gs_capacity_total s), gs_health := Healthy\<rparr>) r))"

definition aged_health :: "u64 \<Rightarrow> u64 \<Rightarrow> u64 \<Rightarrow> game_server \<Rightarrow> health" where
  "aged_health now unhealthy_after lost_after s =
    (let age = sat_sub now (gs_last_heartbeat s)
     in if age > lost_after then Lost else if age > unhealthy_after then Unhealthy else Healthy)"

definition lose_instances :: "(match_id, inst) bmap \<Rightarrow> (match_id, inst) bmap" where
  "lose_instances m = bm_map (\<lambda>_ i. if live i then i\<lparr>in_state := InServerLost\<rparr> else i) m"

definition age_server :: "u64 \<Rightarrow> u64 \<Rightarrow> u64 \<Rightarrow> game_server \<Rightarrow> game_server" where
  "age_server now unhealthy_after lost_after s =
    (let h = aged_health now unhealthy_after lost_after s
     in if h = Lost then s\<lparr>gs_health := h, gs_instances := lose_instances (gs_instances s),
          gs_capacity_used := 0\<rparr>
        else s\<lparr>gs_health := h\<rparr>)"

text \<open>The matches lost, with whether the match was running, in the order of the two loops.\<close>

definition update_health :: "u64 \<Rightarrow> u64 \<Rightarrow> u64 \<Rightarrow> registry \<Rightarrow> (match_id \<times> bool) list \<times> registry" where
  "update_health now unhealthy_after lost_after r =
    (concat (map (\<lambda>s. if aged_health now unhealthy_after lost_after s = Lost
        then map (\<lambda>i. (in_match_id i, in_state i = InRunning)) (filter live (bm_values (gs_instances s)))
        else []) (bm_values r)),
     bm_map (\<lambda>_ s. age_server now unhealthy_after lost_after s) r)"

text \<open>The loop of \<open>reconcile\<close> updates the instances in place: an error leaves the instances
  before it updated.\<close>

fun reconcile_loop :: "(match_id \<times> inst) list \<Rightarrow> (match_id, inst) bmap
    \<Rightarrow> (server_error + unit) \<times> (match_id, inst) bmap" where
  "reconcile_loop [] m = (Inr (), m)"
| "reconcile_loop ((k, reported) # rest) m = (case bm_get m k of
      None \<Rightarrow> (Inl UnknownInstance, m)
    | Some a \<Rightarrow>
        if in_cost a \<noteq> in_cost reported then (Inl InvalidCapacity, m)
        else if \<not> valid_reconciled_state (in_state a) (in_state reported)
                \<or> \<not> valid_instance_payload reported then (Inl InvalidCapacity, m)
        else reconcile_loop rest (bm_insert k (adopt a reported) m))"

definition reconcile :: "server_id \<Rightarrow> server_generation \<Rightarrow> (match_id, inst) bmap \<Rightarrow> registry
    \<Rightarrow> (server_error + unit) \<times> registry" where
  "reconcile i g reported r = (case bm_get r i of
      None \<Rightarrow> (Inl StaleGeneration, r)
    | Some s \<Rightarrow>
        if gs_generation s \<noteq> g then (Inl StaleGeneration, r)
        else if list_ex (\<lambda>k. \<not> bm_contains (gs_instances s) k) (bm_keys reported)
        then (Inl UnknownInstance, r)
        else case reconcile_loop (entries reported) (gs_instances s) of
          (Inl e, m) \<Rightarrow> (Inl e, bm_insert i (s\<lparr>gs_instances := m\<rparr>) r)
        | (Inr u, m) \<Rightarrow>
            let s' = s\<lparr>gs_instances := m\<rparr>
            in (Inr (), bm_insert i (s'\<lparr>gs_capacity_used := min (authoritative_used s') (gs_capacity_total s)\<rparr>) r))"

end
