(* ===== verification/Resources.thy ===== *)
theory Resources
  imports Components
begin

text \<open>
  \<open>core/src/resources/mod.rs\<close>: the resources of the entity world. The channels belong to the
  crate \<open>crossbeam-channel\<close>; of a bounded queue the model keeps its capacity, the one field the
  authority reads.
\<close>

record authority_command =
  ac_logical_sequence :: u64
  ac_request_id :: rstr

record client_queue_event =
  cq_session :: rstr
  cq_kind :: rstr

record control_message =
  cm_server :: rstr
  cm_kind :: rstr

record bounded_queue =
  bq_capacity :: nat

definition bounded_queue_new :: "nat \<Rightarrow> bounded_queue" where
  "bounded_queue_new n = \<lparr>bq_capacity = n\<rparr>"

definition default_seed :: u64 where
  "default_seed = 0x45525053"

type_synonym id_allocator = "(rstr, u64) bmap"

definition alloc_next :: "rstr \<Rightarrow> id_allocator \<Rightarrow> u64 \<times> id_allocator" where
  "alloc_next kind a = (let n = unwrap_or 0 (bm_get a kind) + 1 in (n, bm_insert kind n a))"

fun alloc_many :: "rstr list \<Rightarrow> id_allocator \<Rightarrow> (rstr \<times> u64) list \<times> id_allocator" where
  "alloc_many [] a = ([], a)"
| "alloc_many (k # ks) a =
    (let (n, a1) = alloc_next k a; (r, a2) = alloc_many ks a1 in ((k, n) # r, a2))"

lemma alloc_next_unat:
  "unat (unwrap_or 0 (bm_get a k)) + 1 < 2 ^ 64
    \<Longrightarrow> unat (fst (alloc_next k a)) = unat (unwrap_or 0 (bm_get a k)) + 1"
  by (simp add: alloc_next_def Let_def unat_word_ariths)

lemma alloc_next_get:
  "bm_get (snd (alloc_next k a)) k' = (if k' = k then Some (fst (alloc_next k a)) else bm_get a k')"
  by (simp add: alloc_next_def Let_def get_insert)

lemma alloc_next_room:
  assumes room: "\<forall>k. unat (unwrap_or 0 (bm_get a k)) + Suc n < 2 ^ 64"
  shows "unat (fst (alloc_next j a)) = unat (unwrap_or 0 (bm_get a j)) + 1"
    and "\<forall>k. unat (unwrap_or 0 (bm_get (snd (alloc_next j a)) k)) + n < 2 ^ 64"
proof -
  show j: "unat (fst (alloc_next j a)) = unat (unwrap_or 0 (bm_get a j)) + 1"
    using room [rule_format, of j] by (intro alloc_next_unat) simp
  show "\<forall>k. unat (unwrap_or 0 (bm_get (snd (alloc_next j a)) k)) + n < 2 ^ 64"
  proof
    fix k
    show "unat (unwrap_or 0 (bm_get (snd (alloc_next j a)) k)) + n < 2 ^ 64"
      using room [rule_format, of k] room [rule_format, of j] j by (auto simp: alloc_next_get)
  qed
qed

lemma alloc_many_bounds:
  "(\<forall>k. unat (unwrap_or 0 (bm_get a k)) + length ks < 2 ^ 64)
    \<Longrightarrow> (k, n) \<in> set (fst (alloc_many ks a))
    \<Longrightarrow> unat (unwrap_or 0 (bm_get a k)) < unat n"
proof (induction ks arbitrary: a)
  case (Cons j ks)
  let ?a = "snd (alloc_next j a)"
  have "\<forall>k. unat (unwrap_or 0 (bm_get a k)) + Suc (length ks) < 2 ^ 64"
    using Cons.prems(1) by simp
  note j = alloc_next_room(1) [OF this, of j] and room = alloc_next_room(2) [OF this, of j]
  show ?case
  proof (cases "(k, n) = (j, fst (alloc_next j a))")
    case False
    then have "(k, n) \<in> set (fst (alloc_many ks ?a))"
      using Cons.prems(2) by (auto simp: Let_def split: prod.splits)
    from Cons.IH [OF room this] j show ?thesis
      by (auto simp: alloc_next_get split: if_splits)
  qed (simp add: j)
qed simp

lemma alloc_many_distinct:
  assumes "\<forall>k. unat (unwrap_or 0 (bm_get a k)) + length ks < 2 ^ 64"
  shows "distinct (fst (alloc_many ks a))"
  using assms
proof (induction ks arbitrary: a)
  case (Cons j ks)
  let ?a = "snd (alloc_next j a)"
  have "\<forall>k. unat (unwrap_or 0 (bm_get a k)) + Suc (length ks) < 2 ^ 64"
    using Cons.prems by simp
  note j = alloc_next_room(1) [OF this, of j] and room = alloc_next_room(2) [OF this, of j]
  have "(j, fst (alloc_next j a)) \<notin> set (fst (alloc_many ks ?a))"
    using alloc_many_bounds [OF room, of j "fst (alloc_next j a)"] by (auto simp: alloc_next_get)
  with Cons.IH [OF room] show ?case by (auto simp: Let_def split: prod.splits)
qed simp

end
