(* ===== verification/Ecs.thy ===== *)
theory Ecs
  imports Components Server Resources
begin

text \<open>
  The entity world of \<open>core/src/components/mod.rs\<close> and \<open>core/src/world.rs\<close>: an entity is the
  list of its components, at most one of each type; the world is the list of its entities in the
  order of their creation. The storages and the order in which a join visits entities belong to
  the crate \<open>specs\<close>: the order is a parameter of the functions that join.
\<close>

datatype component =
    CPlayerIdentity player_id
  | CEloRating "(queue_mode, i32) bmap"
  | CCreditScore u8
  | CConnectionId session_id
  | CAllowedRegions "rstr set"
  | CPlayerState player_state
  | CPartyIdentity party_id
  | CPartyName rstr
  | CPartyMembers "player_id list"
  | CPartyLeader player_id
  | CPartyRevision u64
  | CPartyState party_state
  | CTicketIdentity ticket_id
  | CTicketMode queue_mode
  | CTicketRegions "rstr list"
  | CEnqueuedAt u64
  | CSearchRange search_range
  | CBucketOwner bucket_owner
  | CTicketState ticket_state
  | CProposalIdentity proposal_id
  | CProposalRoster "player_id list list"
  | CAcceptDeadline u64
  | CPlayerAcceptStates "(player_id, accept_state) bmap"
  | CMatchIdentity match_id
  | CMatchRoster "player_id list list"
  | CAssignedServer server_id
  | CReservationCost u32
  | CMatchState match_state
  | CServerIdentity server_id
  | CGeneration server_generation
  | CServerEndpoint rstr
  | CServerRegion rstr
  | CSupportedModes "queue_mode set"
  | CCapacity capacity
  | CModeCosts "(queue_mode, u32) bmap"
  | CInstanceCapacity instance_capacity
  | CLastHeartbeat u64
  | CServerHealth server_health
  | CRecentLaunchFailures u32

type_synonym entity = "component list"

text \<open>Reading one storage at an entity.\<close>

fun storage :: "(component \<Rightarrow> 'a option) \<Rightarrow> entity \<Rightarrow> 'a option" where
  "storage f [] = None"
| "storage f (c # cs) = (case f c of None \<Rightarrow> storage f cs | Some v \<Rightarrow> Some v)"

definition player_identity :: "entity \<Rightarrow> player_id option" where
  "player_identity = storage (\<lambda>c. case c of CPlayerIdentity v \<Rightarrow> Some v | _ \<Rightarrow> None)"

definition elo_rating :: "entity \<Rightarrow> (queue_mode, i32) bmap option" where
  "elo_rating = storage (\<lambda>c. case c of CEloRating v \<Rightarrow> Some v | _ \<Rightarrow> None)"

definition party_identity :: "entity \<Rightarrow> party_id option" where
  "party_identity = storage (\<lambda>c. case c of CPartyIdentity v \<Rightarrow> Some v | _ \<Rightarrow> None)"

definition party_members :: "entity \<Rightarrow> player_id list option" where
  "party_members = storage (\<lambda>c. case c of CPartyMembers v \<Rightarrow> Some v | _ \<Rightarrow> None)"

definition party_revision :: "entity \<Rightarrow> u64 option" where
  "party_revision = storage (\<lambda>c. case c of CPartyRevision v \<Rightarrow> Some v | _ \<Rightarrow> None)"

definition ticket_identity :: "entity \<Rightarrow> ticket_id option" where
  "ticket_identity = storage (\<lambda>c. case c of CTicketIdentity v \<Rightarrow> Some v | _ \<Rightarrow> None)"

definition ticket_mode :: "entity \<Rightarrow> queue_mode option" where
  "ticket_mode = storage (\<lambda>c. case c of CTicketMode v \<Rightarrow> Some v | _ \<Rightarrow> None)"

definition ticket_regions :: "entity \<Rightarrow> rstr list option" where
  "ticket_regions = storage (\<lambda>c. case c of CTicketRegions v \<Rightarrow> Some v | _ \<Rightarrow> None)"

definition enqueued_at :: "entity \<Rightarrow> u64 option" where
  "enqueued_at = storage (\<lambda>c. case c of CEnqueuedAt v \<Rightarrow> Some v | _ \<Rightarrow> None)"

text \<open>Fresh resources: the capacities come from the configuration.\<close>

record world_resources =
  wr_command_queue :: bounded_queue
  wr_event_queue :: bounded_queue
  wr_control_queue :: bounded_queue
  wr_logical_clock :: u64
  wr_seed :: u64
  wr_ids :: id_allocator

definition build_resources :: "nat \<Rightarrow> nat \<Rightarrow> nat \<Rightarrow> world_resources" where
  "build_resources commands events controls = \<lparr>
     wr_command_queue = bounded_queue_new commands, wr_event_queue = bounded_queue_new events,
     wr_control_queue = bounded_queue_new controls, wr_logical_clock = 0, wr_seed = default_seed,
     wr_ids = bm_empty\<rparr>"

lemmas storage_defs = player_identity_def elo_rating_def party_identity_def party_members_def
  party_revision_def ticket_identity_def ticket_mode_def ticket_regions_def enqueued_at_def

end
