(* ===== verification/Party.thy ===== *)
theory Party
  imports Components
begin

text \<open>
  \<open>core/src/party.rs\<close>: parties, their optimistic-concurrency edits, enqueue validation,
  invitations and the intersection of regions. Normalisation to NFC belongs to the crate
  \<open>unicode-normalization\<close>, and the Unicode tables behind \<open>char::is_alphanumeric\<close> are a
  platform table; both are parameters (\<open>unicode_env\<close>). A fresh UUID or token is an argument.
  A method \<open>&mut self\<close> returns its result and the party it leaves, on errors too.
\<close>

record unicode_env =
  ue_nfc :: "rstr \<Rightarrow> rstr"
  ue_alphanumeric :: "nat \<Rightarrow> bool"

datatype party_error =
  InvalidName | LeaderRequired | RevisionConflict | Frozen | InvalidSize | NoCommonRegion

definition normalize_name :: "unicode_env \<Rightarrow> rstr \<Rightarrow> party_error + rstr" where
  "normalize_name u input =
    (let normalized = ue_nfc u input; count = length normalized
     in if \<not> (1 \<le> count \<and> count \<le> 24) \<or> \<not> list_all (ue_alphanumeric u) normalized
        then Inl InvalidName else Inr normalized)"

record party =
  pa_id :: party_id
  pa_name :: rstr
  pa_leader :: player_id
  pa_members :: "player_id list"
  pa_revision :: u64
  pa_state :: party_state

definition party_new :: "unicode_env \<Rightarrow> party_id \<Rightarrow> player_id \<Rightarrow> rstr \<Rightarrow> party_error + party" where
  "party_new u fresh leader name = (case normalize_name u name of
      Inl e \<Rightarrow> Inl e
    | Inr n \<Rightarrow> Inr \<lparr>pa_id = fresh, pa_name = n, pa_leader = leader, pa_members = [leader],
        pa_revision = 0, pa_state = PIdle\<rparr>)"

definition editable :: "party \<Rightarrow> player_id \<Rightarrow> u64 \<Rightarrow> party_error + unit" where
  "editable p actor revision =
    (if actor \<noteq> pa_leader p then Inl LeaderRequired
     else if revision \<noteq> pa_revision p then Inl RevisionConflict
     else if pa_state p \<noteq> PIdle then Inl Frozen
     else Inr ())"

definition party_rename :: "unicode_env \<Rightarrow> player_id \<Rightarrow> u64 \<Rightarrow> rstr \<Rightarrow> party \<Rightarrow> (party_error + unit) \<times> party" where
  "party_rename u actor revision name p = (case editable p actor revision of
      Inl e \<Rightarrow> (Inl e, p)
    | Inr _ \<Rightarrow> (case normalize_name u name of
        Inl e \<Rightarrow> (Inl e, p)
      | Inr n \<Rightarrow> (Inr (), p\<lparr>pa_name := n, pa_revision := pa_revision p + 1\<rparr>)))"

definition party_join :: "player_id \<Rightarrow> party \<Rightarrow> (party_error + unit) \<times> party" where
  "party_join player p =
    (if pa_state p \<noteq> PIdle then (Inl Frozen, p)
     else if player \<notin> set (pa_members p)
     then (Inr (), p\<lparr>pa_members := sort (pa_members p @ [player]), pa_revision := pa_revision p + 1\<rparr>)
     else (Inr (), p))"

definition party_kick :: "player_id \<Rightarrow> u64 \<Rightarrow> player_id \<Rightarrow> party \<Rightarrow> (party_error + unit) \<times> party" where
  "party_kick actor revision player p = (case editable p actor revision of
      Inl e \<Rightarrow> (Inl e, p)
    | Inr _ \<Rightarrow>
        if player = pa_leader p then (Inl LeaderRequired, p)
        else (Inr (), p\<lparr>pa_members := filter (\<lambda>m. m \<noteq> player) (pa_members p),
                        pa_revision := pa_revision p + 1\<rparr>))"

definition party_leave :: "player_id \<Rightarrow> party \<Rightarrow> (party_error + bool) \<times> party" where
  "party_leave player p =
    (if pa_state p \<noteq> PIdle then (Inl Frozen, p)
     else let p1 = p\<lparr>pa_members := filter (\<lambda>m. m \<noteq> player) (pa_members p),
                     pa_revision := pa_revision p + 1\<rparr>;
              p2 = (if player = pa_leader p1
                    then (case pa_members p1 of [] \<Rightarrow> p1 | m # _ \<Rightarrow> p1\<lparr>pa_leader := m\<rparr>)
                    else p1)
          in (Inr (pa_members p2 = []), p2))"

definition validate_enqueue :: "party \<Rightarrow> queue_mode \<Rightarrow> party_error + unit" where
  "validate_enqueue p mode =
    (if pa_state p \<noteq> PIdle \<and> pa_state p \<noteq> PNotReady then Inl Frozen
     else let n = length (pa_members p);
              valid = (case mode of
                  OneVsOne \<Rightarrow> n = 1
                | FiveVsFive \<Rightarrow> 1 \<le> n \<and> n \<le> 5
                | FreeForAll \<Rightarrow> 1 \<le> n \<and> n \<le> 4)
          in if valid then Inr () else Inl InvalidSize)"

record member_eligibility =
  me_online :: bool
  me_credit :: u8
  me_active :: bool
  me_regions :: "rstr set"

definition region_intersection :: "rstr set list \<Rightarrow> party_error + rstr set" where
  "region_intersection regions = (case regions of
      [] \<Rightarrow> Inl NoCommonRegion
    | first # rest \<Rightarrow>
        (let result = fold (\<lambda>b a. a \<inter> b) rest first
         in if result = {} then Inl NoCommonRegion else Inr result))"

definition validate_party_enqueue :: "party \<Rightarrow> queue_mode \<Rightarrow> (player_id, member_eligibility) bmap
    \<Rightarrow> u8 \<Rightarrow> party_error + rstr set" where
  "validate_party_enqueue p mode members minimum_credit =
    (case validate_enqueue p mode of
      Inl e \<Rightarrow> Inl e
    | Inr _ \<Rightarrow>
        (let states = map (bm_get members) (pa_members p)
         in if list_ex (\<lambda>st. case st of None \<Rightarrow> True
                | Some v \<Rightarrow> \<not> me_online v \<or> me_credit v < minimum_credit \<or> me_active v) states
            then Inl Frozen
            else region_intersection (map (\<lambda>st. me_regions (the st)) states)))"

record invite =
  in_party :: party_id
  in_expires_at :: u64
  in_remaining_uses :: u32

type_synonym invite_store = "(rstr, invite) bmap"

definition invite_create :: "rstr \<Rightarrow> party_id \<Rightarrow> u64 \<Rightarrow> u64 \<Rightarrow> u32 \<Rightarrow> invite_store \<Rightarrow> rstr \<times> invite_store" where
  "invite_create token party now ttl uses s =
     (token, bm_insert token \<lparr>in_party = party, in_expires_at = sat_add now ttl,
        in_remaining_uses = max uses 1\<rparr> s)"

definition invite_consume :: "rstr \<Rightarrow> u64 \<Rightarrow> invite_store \<Rightarrow> party_id option \<times> invite_store" where
  "invite_consume token now s = (case bm_get s token of
      None \<Rightarrow> (None, s)
    | Some i \<Rightarrow>
        if now > in_expires_at i \<or> in_remaining_uses i = 0 then (None, s)
        else (Some (in_party i),
              bm_insert token (i\<lparr>in_remaining_uses := in_remaining_uses i - 1\<rparr>) s))"

section \<open>Well-formed parties\<close>

text \<open>Members are distinct and the leader is one of them, unless the party is empty.\<close>

definition party_wf :: "party \<Rightarrow> bool" where
  "party_wf p \<longleftrightarrow> distinct (pa_members p)
     \<and> (pa_members p \<noteq> [] \<longrightarrow> pa_leader p \<in> set (pa_members p))"

lemma party_new_wf: "party_new u f l n = Inr p \<Longrightarrow> party_wf p"
  by (auto simp: party_new_def party_wf_def split: sum.splits)

lemma party_rename_wf: "party_wf p \<Longrightarrow> party_wf (snd (party_rename u a r n p))"
  by (auto simp: party_rename_def party_wf_def split: sum.splits)

lemma party_join_wf: "party_wf p \<Longrightarrow> party_wf (snd (party_join x p)) \<or> pa_members p = []"
  by (auto simp: party_join_def party_wf_def)

lemma party_kick_wf: "party_wf p \<Longrightarrow> party_wf (snd (party_kick a r x p))"
  by (auto simp: party_kick_def party_wf_def filter_empty_conv split: sum.splits)

lemma party_leave_wf: "party_wf p \<Longrightarrow> party_wf (snd (party_leave x p))"
proof -
  assume wf: "party_wf p"
  let ?ms = "filter (\<lambda>m. m \<noteq> x) (pa_members p)"
  have d: "distinct ?ms" using wf by (simp add: party_wf_def)
  have l: "pa_leader p \<in> set ?ms" if "?ms \<noteq> []" "x \<noteq> pa_leader p"
  proof -
    from that(1) have "pa_members p \<noteq> []" by auto
    with wf that(2) show ?thesis by (simp add: party_wf_def)
  qed
  show ?thesis
    using wf d l by (cases ?ms) (auto simp: party_leave_def Let_def party_wf_def)
qed

text \<open>A rejected operation leaves the party as it was.\<close>

lemma party_errors_keep:
  "party_rename u a r n p = (Inl e, p') \<Longrightarrow> p' = p"
  "party_join x p = (Inl e, p') \<Longrightarrow> p' = p"
  "party_kick a r x p = (Inl e, p') \<Longrightarrow> p' = p"
  "party_leave x p = (Inl e, p') \<Longrightarrow> p' = p"
  by (auto simp: party_rename_def party_join_def party_kick_def party_leave_def Let_def
      split: sum.splits if_splits)

lemma editable_Inr: "editable p a r = Inr u \<longleftrightarrow> a = pa_leader p \<and> r = pa_revision p \<and> pa_state p = PIdle"
  by (simp add: editable_def)

section \<open>Optimistic concurrency\<close>

text \<open>
  The contract of an edit that carries the revision it was based on: a stale base is rejected,
  and a successful edit moves the revision on.
\<close>

locale optimistic_edit =
  fixes rev_of :: "'s \<Rightarrow> u64"
    and edit :: "'a \<Rightarrow> u64 \<Rightarrow> 's \<Rightarrow> ('e + 'r) \<times> 's"
  assumes law_stale: "base \<noteq> rev_of s \<Longrightarrow> \<exists>err. edit a base s = (Inl err, s)"
    and law_bump: "edit a base s = (Inr x, s') \<Longrightarrow> rev_of s' = rev_of s + 1"
begin

lemma edit_base: "edit a base s = (Inr x, s') \<Longrightarrow> base = rev_of s"
  using law_stale [of base s a] by auto

lemma edit_once:
  assumes "edit a base s = (Inr x, s1)"
  shows "\<exists>err. edit b base s1 = (Inl err, s1)"
proof (rule law_stale)
  have "rev_of s + 1 \<noteq> rev_of s" by simp
  then show "base \<noteq> rev_of s1"
    using edit_base [OF assms] law_bump [OF assms] by simp
qed

end

interpretation rename_edit: optimistic_edit pa_revision "\<lambda>(actor, name) r. party_rename u actor r name"
  by unfold_locales
    (auto simp: party_rename_def editable_def split: sum.splits if_splits)

interpretation kick_edit: optimistic_edit pa_revision "\<lambda>(actor, player) r. party_kick actor r player"
  by unfold_locales
    (auto simp: party_kick_def editable_def split: sum.splits if_splits)

section \<open>Regions and eligibility\<close>

lemma fold_inter: "fold (\<lambda>b a. a \<inter> b) rs r = \<Inter> (set (r # rs))"
  by (induction rs arbitrary: r) auto

lemma region_intersection_Inr:
  "region_intersection rs = Inr r \<longleftrightarrow> rs \<noteq> [] \<and> r = \<Inter> (set rs) \<and> r \<noteq> {}"
  by (cases rs) (auto simp: region_intersection_def Let_def fold_inter simp del: list.set)

section \<open>Invitations\<close>

text \<open>A run of consume requests: how many parties the token gave out.\<close>

fun consume_run :: "rstr \<Rightarrow> u64 list \<Rightarrow> invite_store \<Rightarrow> nat \<times> invite_store" where
  "consume_run t [] s = (0, s)"
| "consume_run t (now # ns) s =
    (let (r, s1) = invite_consume t now s; (n, s2) = consume_run t ns s1
     in ((if r = None then n else Suc n), s2))"

lemma consume_step:
  "bm_get s t = Some i \<Longrightarrow> invite_consume t now s = (Some p, s') \<Longrightarrow>
    p = in_party i \<and> now \<le> in_expires_at i \<and>
    (\<exists>i'. bm_get s' t = Some i' \<and> unat (in_remaining_uses i) = Suc (unat (in_remaining_uses i'))
       \<and> in_expires_at i' = in_expires_at i \<and> in_party i' = in_party i)"
  by (auto simp: invite_consume_def unat_minus_one not_less split: if_splits)
    (metis Suc_pred unat_minus_one unat_gt_0)+

lemma consume_run_le:
  "bm_get s t = Some i \<Longrightarrow> fst (consume_run t ns s) \<le> unat (in_remaining_uses i)"
proof (induction ns arbitrary: s i)
  case (Cons now ns)
  obtain r s1 where c: "invite_consume t now s = (r, s1)" by (cases "invite_consume t now s")
  show ?case
  proof (cases r)
    case None
    then have "s1 = s" using c Cons.prems by (auto simp: invite_consume_def split: if_splits)
    with None c Cons show ?thesis by (auto simp: split_beta Let_def)
  next
    case (Some p)
    from consume_step [OF Cons.prems c [unfolded Some]] obtain i' where
      "bm_get s1 t = Some i'" "unat (in_remaining_uses i) = Suc (unat (in_remaining_uses i'))" by blast
    with Cons.IH [of s1 i'] Some c show ?thesis by (auto simp: split_beta Let_def)
  qed
qed simp

end
