(* ===== verification/Wire.thy ===== *)
theory Wire
  imports Party Server
begin

text \<open>
  The messages of \<open>proto/erps.proto\<close> as the authority builds and reads them, the gRPC status
  values, and the conversions at the edge of \<open>core/src/grpc/mod.rs\<close>. An absent message field is
  \<open>None\<close>; a string, number or list is never absent in proto3.
\<close>

section \<open>Status values\<close>

datatype status_code = CodeUnauthenticated | CodeInvalidArgument | CodeNotFound | CodeAlreadyExists
  | CodePermissionDenied | CodeFailedPrecondition | CodeAborted | CodeResourceExhausted | CodeUnavailable

datatype status = Status (st_code: status_code) (st_message: rstr)

abbreviation unauthenticated :: "string \<Rightarrow> status" where
  "unauthenticated s \<equiv> Status CodeUnauthenticated (lit s)"
abbreviation invalid_argument :: "string \<Rightarrow> status" where
  "invalid_argument s \<equiv> Status CodeInvalidArgument (lit s)"
abbreviation not_found :: "string \<Rightarrow> status" where
  "not_found s \<equiv> Status CodeNotFound (lit s)"
abbreviation already_exists :: "string \<Rightarrow> status" where
  "already_exists s \<equiv> Status CodeAlreadyExists (lit s)"
abbreviation permission_denied :: "string \<Rightarrow> status" where
  "permission_denied s \<equiv> Status CodePermissionDenied (lit s)"
abbreviation failed_precondition :: "string \<Rightarrow> status" where
  "failed_precondition s \<equiv> Status CodeFailedPrecondition (lit s)"
abbreviation aborted :: "string \<Rightarrow> status" where
  "aborted s \<equiv> Status CodeAborted (lit s)"
abbreviation resource_exhausted :: "string \<Rightarrow> status" where
  "resource_exhausted s \<equiv> Status CodeResourceExhausted (lit s)"
abbreviation unavailable :: "string \<Rightarrow> status" where
  "unavailable s \<equiv> Status CodeUnavailable (lit s)"

text \<open>The \<open>Display\<close> texts of the domain errors.\<close>

definition party_error_text :: "party_error \<Rightarrow> string" where
  "party_error_text e = (case e of InvalidName \<Rightarrow> ''invalid party name'' | LeaderRequired \<Rightarrow> ''leader required''
     | RevisionConflict \<Rightarrow> ''party revision conflict'' | Frozen \<Rightarrow> ''party is frozen''
     | InvalidSize \<Rightarrow> ''invalid party size'' | NoCommonRegion \<Rightarrow> ''no common region'')"

definition party_status :: "party_error \<Rightarrow> status" where
  "party_status e = failed_precondition (party_error_text e)"

definition server_error_text :: "server_error \<Rightarrow> string" where
  "server_error_text e = (case e of StaleGeneration \<Rightarrow> ''stale generation'' | InvalidCapacity \<Rightarrow> ''invalid capacity''
     | UnknownInstance \<Rightarrow> ''unknown instance'')"

section \<open>Messages\<close>

record api_version =
  av_major :: u32
  av_minor :: u32
  av_capabilities :: "rstr list"

record mutation_meta =
  mm_api :: "api_version option"
  mm_request_id :: rstr
  mm_session_token :: rstr

record operation_result =
  or_accepted :: bool
  or_code :: rstr
  or_message :: rstr
  or_entity_id :: rstr
  or_revision :: u64

record player_view =
  pv_player_id :: rstr
  pv_rating :: i32
  pv_credit :: u32
  pv_rating_one_v_one :: i32
  pv_rating_five_v_five :: i32
  pv_rating_free_for_all :: i32

record party_view =
  yv_party_id :: rstr
  yv_name :: rstr
  yv_leader_id :: rstr
  yv_members :: "player_view list"
  yv_revision :: u64
  yv_state :: rstr

record client_state =
  cs_player_id :: rstr
  cs_party :: "party_view option"
  cs_ticket_id :: rstr
  cs_proposal_id :: rstr
  cs_match_id :: rstr
  cs_profile :: "player_view option"
  cs_credit_suspended_until_ms :: i64
  cs_queue_mode :: i32
  cs_allowed_regions :: "rstr list"
  cs_proposal_deadline_ms :: i64

record team =
  tm_team_index :: u32
  tm_player_ids :: "rstr list"

record match_event =
  me_match_id :: rstr
  me_mode :: i32
  me_teams :: "team list"
  me_endpoint :: rstr
  me_connection_token :: rstr

record proposal_cancelled_event =
  pc_proposal_id :: rstr
  pc_reason :: rstr
  pc_credit :: u32
  pc_eligible :: bool
  pc_credit_suspended_until_ms :: i64

datatype event_body = EvParty party_view | EvProposalId rstr | EvMatched match_event
  | EvServerLost rstr | EvState client_state | EvProposalCancelled proposal_cancelled_event

record client_event =
  ev_event :: "event_body option"
  ev_deadline_ms :: i64

record launch_match =
  lm_match_id :: rstr
  lm_mode :: i32
  lm_teams :: "team list"
  lm_reserved_cost :: u32

datatype erps_control = CtlLaunch launch_match | CtlShutdown rstr | CtlMatchResultAck rstr

record launch_result_msg =
  lr_match_id :: rstr
  lr_state :: rstr
  lr_endpoint :: rstr
  lr_connection_token :: rstr
  lr_reason :: rstr

record instance_msg =
  im_match_id :: rstr
  im_state :: rstr
  im_reserved_cost :: u32
  im_endpoint :: rstr
  im_connection_token :: rstr

record player_placement =
  pl_player_id :: rstr
  pl_rank :: u32

record match_result_msg =
  mr_match_id :: rstr
  mr_placements :: "player_placement list"

datatype server_message = SmHeartbeat u32 u32 | SmLaunchResult launch_result_msg
  | SmInstance instance_msg | SmMatchResult match_result_msg

section \<open>Conversions\<close>

definition QUEUE_MODE_UNSPECIFIED :: i32 where
  "QUEUE_MODE_UNSPECIFIED = 0"

definition mode_of :: "i32 \<Rightarrow> status + queue_mode" where
  "mode_of v = (if v = 1 then Inr OneVsOne else if v = 2 then Inr FiveVsFive else if v = 3 then Inr FreeForAll
     else Inl (invalid_argument ''queue mode is required''))"

definition pb_mode :: "queue_mode \<Rightarrow> i32" where
  "pb_mode v = (case v of OneVsOne \<Rightarrow> 1 | FiveVsFive \<Rightarrow> 2 | FreeForAll \<Rightarrow> 3)"

lemma mode_of_pb_mode [simp]: "mode_of (pb_mode m) = Inr m"
  by (cases m) (simp_all add: mode_of_def pb_mode_def)

definition check_api :: "api_version option \<Rightarrow> status + unit" where
  "check_api api = (case api of
      Some v \<Rightarrow> if av_major v = 1 then Inr () else Inl (failed_precondition ''unsupported API major version'')
    | None \<Rightarrow> Inl (failed_precondition ''unsupported API major version''))"

definition ok_result :: "rstr \<Rightarrow> u64 \<Rightarrow> operation_result" where
  "ok_result i revision = \<lparr>or_accepted = True, or_code = lit ''OK'', or_message = [], or_entity_id = i,
     or_revision = revision\<rparr>"

text \<open>The cast \<open>as i64\<close> of an unsigned number.\<close>

definition as_i64 :: "u64 \<Rightarrow> i64" where
  "as_i64 x = sint x"

definition party_state_text :: "party_state \<Rightarrow> rstr" where
  "party_state_text s = lit (case s of PIdle \<Rightarrow> ''Idle'' | PQueued \<Rightarrow> ''Queued'' | PAwaitingAccept \<Rightarrow> ''AwaitingAccept''
     | PNotReady \<Rightarrow> ''NotReady'' | PMatched \<Rightarrow> ''Matched'')"

definition parse_instance :: "rstr \<Rightarrow> status + instance_state" where
  "parse_instance v = (let s = to_ascii_lowercase v in
     if s = lit ''reserved'' then Inr InReserved
     else if s = lit ''accepted'' then Inr InAccepted
     else if s = lit ''ready'' then Inr InReady
     else if s = lit ''running'' then Inr InRunning
     else if s = lit ''finished'' then Inr InFinished
     else if s = lit ''serverlost'' \<or> s = lit ''server_lost'' then Inr InServerLost
     else Inl (invalid_argument ''instance state''))"

definition valid_reported_instance_transition :: "instance_state \<Rightarrow> instance_state \<Rightarrow> bool" where
  "valid_reported_instance_transition previous next' \<longleftrightarrow> previous = next'
     \<or> (previous = InReserved \<and> next' = InAccepted)
     \<or> (previous = InAccepted \<and> next' = InReady)
     \<or> (previous = InReady \<and> next' = InRunning)"

section \<open>Token validators\<close>

text \<open>\<open>str::bytes\<close>: the UTF-8 encoding of a scalar value.\<close>

definition utf8_char :: "nat \<Rightarrow> nat list" where
  "utf8_char c = (if c < 128 then [c]
     else if c < 2048 then [192 + c div 64, 128 + c mod 64]
     else if c < 65536 then [224 + c div 4096, 128 + c div 64 mod 64, 128 + c mod 64]
     else [240 + c div 262144, 128 + c div 4096 mod 64, 128 + c div 64 mod 64, 128 + c mod 64])"

definition utf8_bytes :: "rstr \<Rightarrow> nat list" where
  "utf8_bytes s = concat (map utf8_char s)"

unbundle bit_operations_syntax

definition fnv1a :: "nat list \<Rightarrow> u64" where
  "fnv1a bytes = fold (\<lambda>b hash. (hash XOR of_nat b) * 0x100000001b3) bytes 0xcbf29ce484222325"

definition development_validate :: "rstr \<Rightarrow> status + player_id" where
  "development_validate token = (if blank token then Inl (unauthenticated ''auth token is required'')
     else let hash = fnv1a (utf8_bytes token)
       in Inr (from_uuid (push_bit 64 (ucast hash) OR ucast (NOT hash))))"

definition development_validate_server :: "rstr \<Rightarrow> server_id \<Rightarrow> status + unit" where
  "development_validate_server token server =
    (if blank token then Inl (unauthenticated ''server auth token is required'') else Inr ())"

definition static_validate :: "(rstr, player_id) bmap \<Rightarrow> rstr \<Rightarrow> status + player_id" where
  "static_validate identities token = (case bm_get identities token of
      None \<Rightarrow> Inl (unauthenticated ''invalid bearer token'') | Some p \<Rightarrow> Inr p)"

definition static_validate_server :: "(rstr, server_id) bmap \<Rightarrow> rstr \<Rightarrow> server_id \<Rightarrow> status + unit" where
  "static_validate_server identities token server = (case bm_get identities token of
      Some expected \<Rightarrow> if expected = server then Inr ()
        else Inl (unauthenticated ''invalid game server bearer token'')
    | None \<Rightarrow> Inl (unauthenticated ''invalid game server bearer token''))"

end
