(* ===== verification/Matching.thy ===== *)
theory Matching
  imports Components
begin

text \<open>
  \<open>core/src/matching/mod.rs\<close>, \<open>bucket.rs\<close>, \<open>snapshot.rs\<close> and \<open>claim.rs\<close>: tickets and
  candidates, effective ratings, rating buckets and the widening search window, the
  canonically ordered snapshot, and the claims that keep a ticket out of two proposals.
\<close>

record party_ticket =
  pt_id :: ticket_id
  pt_party :: party_id
  pt_members :: "player_id list"
  pt_ratings :: "i32 list"
  pt_effective_rating :: i32
  pt_enqueued_at :: u64
  pt_revision :: u64
  pt_region :: rstr
  pt_mode :: queue_mode
  pt_search_delta :: i32
  pt_wait_seconds :: u64

record candidate =
  cd_tickets :: "ticket_id list"
  cd_teams :: "player_id list list"
  cd_oldest_enqueued_at :: u64
  cd_quality_key :: "i32 \<times> i32 \<times> i32"
  cd_owner_shard :: u64

abbreviation FIVE_V_FIVE_MIRROR_SECONDS :: u64 where
  "FIVE_V_FIVE_MIRROR_SECONDS \<equiv> 60"

definition FIVE_V_FIVE_PARTY_BONUSES :: "i32 list" where
  "FIVE_V_FIVE_PARTY_BONUSES = [5, 10, 20, 30]"

definition stable_ticket_ids :: "candidate \<Rightarrow> ticket_id list" where
  "stable_ticket_ids c = sort (cd_tickets c)"

definition effective_rating :: "i32 list \<Rightarrow> i32 \<Rightarrow> i32 \<Rightarrow> i32 \<Rightarrow> i32 option" where
  "effective_rating ratings size_adjustment spread_adjustment max_spread =
    (case (iter_min ratings, iter_max ratings) of
       (Some mn, Some mx) \<Rightarrow>
         (let spread = mx - mn
          in if spread > max_spread then None
             else let average = trunc_div (sum_list ratings) (int (length ratings));
                      adjusted = average + size_adjustment * (int (length ratings) - 1)
                        + trunc_div (spread_adjustment * spread) 100
                  in Some (sat_i32 adjusted))
     | _ \<Rightarrow> None)"

definition five_v_five_party_bonus :: "nat \<Rightarrow> i32" where
  "five_v_five_party_bonus sz =
    (if sz = 1 then 0
     else if 2 \<le> sz \<and> sz \<le> 5 then FIVE_V_FIVE_PARTY_BONUSES ! (sz - 2)
     else 0)"

definition effective_rating_for_mode :: "queue_mode \<Rightarrow> i32 list \<Rightarrow> i32 \<Rightarrow> i32 \<Rightarrow> i32 \<Rightarrow> i32 option" where
  "effective_rating_for_mode mode ratings size_adjustment spread_adjustment max_spread =
    (let size_adjustment = (if mode = FiveVsFive then 0 else size_adjustment)
     in case effective_rating ratings size_adjustment spread_adjustment max_spread of
          None \<Rightarrow> None
        | Some rating \<Rightarrow> Some (if mode = FiveVsFive
            then sat_i32 (rating + five_v_five_party_bonus (length ratings)) else rating))"

section \<open>Buckets and the search window\<close>

record bucket_key =
  bk_region :: rstr
  bk_mode :: queue_mode
  bk_index :: i32

definition bucket_for :: "rstr \<Rightarrow> queue_mode \<Rightarrow> i32 \<Rightarrow> i32 \<Rightarrow> bucket_key" where
  "bucket_for region mode rating width =
     \<lparr>bk_region = region, bk_mode = mode, bk_index = rating div (max width 1)\<rparr>"

definition halo :: "bucket_key \<Rightarrow> i32 \<Rightarrow> bucket_key list" where
  "halo key radius = map (\<lambda>d. \<lparr>bk_region = bk_region key, bk_mode = bk_mode key,
     bk_index = wrap_i32 (bk_index key + d)\<rparr>) [- radius..radius]"

definition search_delta :: "i32 \<Rightarrow> i32 \<Rightarrow> u64 \<Rightarrow> i32 \<Rightarrow> u64 \<Rightarrow> u64 \<Rightarrow> i32" where
  "search_delta initial step step_seconds maximum enqueued now =
    (let steps = sat_sub now enqueued div max step_seconds 1;
         steps32 = min (int (unat steps)) i32_max
     in min (sat_i32 (initial + sat_i32 (step * steps32))) maximum)"

section \<open>Snapshots\<close>

type_synonym snapshot_key = "rstr \<times> queue_mode \<times> i32 \<times> u64 \<times> ticket_id"

definition snapshot_key :: "party_ticket \<Rightarrow> snapshot_key" where
  "snapshot_key t = (pt_region t, pt_mode t, pt_effective_rating t, pt_enqueued_at t, pt_id t)"

definition snapshot_new :: "party_ticket list \<Rightarrow> party_ticket list" where
  "snapshot_new tickets = sort_key snapshot_key tickets"

section \<open>Claims\<close>

type_synonym claims = "ticket_id set"

definition claims_commit :: "candidate \<Rightarrow> (ticket_id \<Rightarrow> bool) \<Rightarrow> claims \<Rightarrow> bool \<times> claims" where
  "claims_commit c valid active =
    (let ids = stable_ticket_ids c
     in if list_ex (\<lambda>i. i \<in> active \<or> \<not> valid i) ids then (False, active)
        else (True, active \<union> set ids))"

definition claims_release :: "ticket_id list \<Rightarrow> claims \<Rightarrow> claims" where
  "claims_release ids active = fold (\<lambda>i a. a - {i}) ids active"

section \<open>Facts\<close>

lemma set_stable_ticket_ids [simp]: "set (stable_ticket_ids c) = set (cd_tickets c)"
  by (simp add: stable_ticket_ids_def)

lemma claims_commit_iff:
  "claims_commit c valid active = (True, active') \<longleftrightarrow>
    (\<forall>i \<in> set (cd_tickets c). i \<notin> active \<and> valid i) \<and> active' = active \<union> set (cd_tickets c)"
  by (auto simp: claims_commit_def Let_def list_ex_iff)

lemma claims_commit_False:
  "claims_commit c valid active = (False, active') \<Longrightarrow> active' = active"
  by (auto simp: claims_commit_def Let_def split: if_splits)

lemma claims_release_eq [simp]: "claims_release ids active = active - set ids"
  unfolding claims_release_def by (induction ids arbitrary: active) auto

text \<open>A run of commits; the committed candidates.\<close>

fun commit_run :: "(candidate \<times> (ticket_id \<Rightarrow> bool)) list \<Rightarrow> claims \<Rightarrow> candidate list \<times> claims" where
  "commit_run [] a = ([], a)"
| "commit_run ((c, valid) # cs) a =
    (let (ok, a1) = claims_commit c valid a; (r, a2) = commit_run cs a1
     in ((if ok then c # r else r), a2))"

lemma commit_run_active:
  "commit_run cs a = (r, a') \<Longrightarrow>
    a' = a \<union> (\<Union>c \<in> set r. set (cd_tickets c)) \<and> (\<forall>c \<in> set r. set (cd_tickets c) \<inter> a = {})"
proof (induction cs arbitrary: a r a')
  case (Cons e cs)
  obtain c valid where e: "e = (c, valid)" by (cases e)
  obtain ok a1 where c: "claims_commit c valid a = (ok, a1)" by (cases "claims_commit c valid a")
  obtain r1 a2 where r: "commit_run cs a1 = (r1, a2)" by (cases "commit_run cs a1")
  note IH = Cons.IH [OF r]
  show ?case
  proof (cases ok)
    case True
    with c have "\<forall>i \<in> set (cd_tickets c). i \<notin> a" "a1 = a \<union> set (cd_tickets c)"
      by (simp_all add: claims_commit_iff)
    with IH True e c r Cons.prems show ?thesis by auto
  next
    case False
    then have "a1 = a" using c claims_commit_False [of c valid a a1] by simp
    with IH False e c r Cons.prems show ?thesis by auto
  qed
qed auto

lemma commit_run_disjoint:
  "commit_run cs a = (r, a') \<Longrightarrow> sorted_wrt (\<lambda>c d. set (cd_tickets c) \<inter> set (cd_tickets d) = {}) r"
proof (induction cs arbitrary: a r a')
  case (Cons e cs)
  obtain c valid where e: "e = (c, valid)" by (cases e)
  obtain ok a1 where c: "claims_commit c valid a = (ok, a1)" by (cases "claims_commit c valid a")
  obtain r1 a2 where r: "commit_run cs a1 = (r1, a2)" by (cases "commit_run cs a1")
  have "set (cd_tickets c) \<inter> set (cd_tickets d) = {}" if "ok" "d \<in> set r1" for d
    using that c commit_run_active [OF r] by (auto simp: claims_commit_iff)
  with Cons.IH [OF r] e c r Cons.prems show ?case by (auto split: if_splits)
qed auto

lemma snapshot_new_order:
  "mset ts = mset us \<Longrightarrow> distinct (map pt_id ts) \<Longrightarrow> snapshot_new ts = snapshot_new us"
  unfolding snapshot_new_def
  by (rule sort_key_perm_eq)
    (auto simp: inj_on_def snapshot_key_def distinct_map)

lemma mset_snapshot_new [simp]: "mset (snapshot_new ts) = mset ts"
  by (simp add: snapshot_new_def)

lemma set_snapshot_new [simp]: "set (snapshot_new ts) = set ts"
  by (simp add: snapshot_new_def)

text \<open>The search window never shrinks while a ticket waits, and stays below its maximum.\<close>

lemma sat_i32_mono: "x \<le> y \<Longrightarrow> sat_i32 x \<le> sat_i32 y"
  by (auto simp: sat_i32_def clamp_int_def)

lemma search_delta_mono:
  assumes "0 \<le> step" and "now \<le> now'"
  shows "search_delta initial step ss maximum enq now \<le> search_delta initial step ss maximum enq now'"
proof -
  have "unat (sat_sub now enq) \<le> unat (sat_sub now' enq)"
    using assms(2) by (simp add: sat_unat word_le_nat_alt diff_le_mono)
  then have "unat (sat_sub now enq div max ss 1) \<le> unat (sat_sub now' enq div max ss 1)"
    by (simp add: unat_div div_le_mono)
  then have steps: "int (unat (sat_sub now enq div max ss 1)) \<le> int (unat (sat_sub now' enq div max ss 1))"
    by (simp only: of_nat_le_iff)
  have mono: "min (sat_i32 (initial + sat_i32 (step * min a i32_max))) maximum
      \<le> min (sat_i32 (initial + sat_i32 (step * min b i32_max))) maximum" if "a \<le> b" for a b
    using that assms(1)
    by (intro min.mono sat_i32_mono add_left_mono mult_left_mono order_refl) auto
  from mono [OF steps] show ?thesis by (simp add: search_delta_def Let_def del: of_nat_unat)
qed

lemma search_delta_max: "search_delta initial step ss maximum enq now \<le> maximum"
  by (simp add: search_delta_def Let_def)

text \<open>The rating of a party before adjustments lies between its extremes.\<close>

lemma average_bounds:
  assumes "ratings \<noteq> []" and "\<forall>r \<in> set ratings. lo \<le> r \<and> r \<le> hi"
  shows "int (length ratings) * lo \<le> sum_list ratings \<and> sum_list ratings \<le> int (length ratings) * hi"
  using assms(2) by (induction ratings) (auto simp: algebra_simps)

lemma trunc_div_between:
  assumes "0 < n" and "n * lo \<le> s" and "s \<le> n * hi"
  shows "lo \<le> trunc_div s n" and "trunc_div s n \<le> hi"
proof -
  have pos: "lo \<le> s div n" "s div n \<le> hi"
    using assms zdiv_mono1 [of "n * lo" s n] zdiv_mono1 [of s "n * hi" n] by simp_all
  show "lo \<le> trunc_div s n"
  proof (cases "0 \<le> s")
    case False
    have "- s div n \<le> - lo"
      using zdiv_mono1 [of "- s" "n * (- lo)" n] nonzero_mult_div_cancel_left [of n "- lo"] assms
      by linarith
    with False assms(1) show ?thesis by (simp add: trunc_div_pos)
  qed (use pos assms in \<open>simp add: trunc_div_pos\<close>)
  show "trunc_div s n \<le> hi"
  proof (cases "0 \<le> s")
    case False
    have "- hi \<le> - s div n"
      using zdiv_mono1 [of "n * (- hi)" "- s" n] nonzero_mult_div_cancel_left [of n "- hi"] assms
      by linarith
    with False assms(1) show ?thesis by (simp add: trunc_div_pos)
  qed (use pos assms in \<open>simp add: trunc_div_pos\<close>)
qed

end
