(* ===== verification/Credit.thy ===== *)
theory Credit
  imports Components
begin

text \<open>
  \<open>core/src/credit.rs\<close>: the credit-score policy, and the suspension test of
  \<open>core/src/grpc/mod.rs\<close>. A score is a byte in 0..100.
\<close>

record credit_policy =
  cp_reject_penalty :: u8
  cp_timeout_penalty :: u8
  cp_minimum :: u8
  cp_recovery_matches :: u32

definition default_credit_policy :: credit_policy where
  "default_credit_policy = \<lparr>cp_reject_penalty = 2, cp_timeout_penalty = 5, cp_minimum = 60,
     cp_recovery_matches = 3\<rparr>"

datatype credit_cause = CRejected | CTimedOut | InfrastructureFailure | CompletedMatch

record credit_outcome =
  co_score :: u8
  co_eligible :: bool
  co_suspension_steps :: u32

definition credit_apply :: "u8 \<Rightarrow> u32 \<Rightarrow> u32 \<Rightarrow> credit_cause \<Rightarrow> credit_policy \<Rightarrow> credit_outcome" where
  "credit_apply score0 recent_violations completed_since_recovery cause p =
    (let score1 = min score0 100;
         score = (case cause of
             CRejected \<Rightarrow> sat_sub score1 (cp_reject_penalty p)
           | CTimedOut \<Rightarrow> sat_sub score1 (cp_timeout_penalty p)
           | InfrastructureFailure \<Rightarrow> score1
           | CompletedMatch \<Rightarrow>
               if completed_since_recovery + 1 \<ge> cp_recovery_matches p
               then min (sat_add score1 1) 100 else score1);
         violation = (cause = CRejected \<or> cause = CTimedOut)
     in \<lparr>co_score = score,
         co_eligible = (score \<ge> cp_minimum p),
         co_suspension_steps = (if violation then sat_add recent_violations 1 else 0)\<rparr>)"

definition credit_suspension_active :: "u8 \<Rightarrow> u8 \<Rightarrow> u64 option \<Rightarrow> u64 \<Rightarrow> bool" where
  "credit_suspension_active score minimum suspended_until_ms now_ms \<longleftrightarrow>
     score < minimum \<and> (case suspended_until_ms of None \<Rightarrow> False | Some d \<Rightarrow> now_ms \<le> d)"

text \<open>The penalty a policy takes for a cause.\<close>

definition penalty :: "credit_policy \<Rightarrow> credit_cause \<Rightarrow> nat" where
  "penalty p c = (case c of CRejected \<Rightarrow> unat (cp_reject_penalty p)
     | CTimedOut \<Rightarrow> unat (cp_timeout_penalty p) | _ \<Rightarrow> 0)"

lemma unat_min_word: "unat (min a b) = min (unat a) (unat b)" for a b :: "'a::len word"
  by (simp add: min_def word_le_nat_alt)

lemma credit_score_unat:
  "unat (co_score (credit_apply score v k c p)) =
    (if c = CompletedMatch \<and> cp_recovery_matches p \<le> k + 1
     then min (unat score + 1) 100
     else min (unat score) 100 - penalty p c)"
  using unat_less_exp [of score]
  by (cases c) (auto simp: credit_apply_def Let_def penalty_def unat_min_word sat_unat)

lemma credit_score_le_100: "unat (co_score (credit_apply score v k c p)) \<le> 100"
  by (auto simp: credit_score_unat)

text \<open>Credit is a finite budget: every run of violations makes a player ineligible.\<close>

fun credit_run :: "credit_policy \<Rightarrow> credit_cause list \<Rightarrow> u8 \<times> u32 \<Rightarrow> u8 \<times> u32" where
  "credit_run p [] sv = sv"
| "credit_run p (c # cs) (s, v) =
     (let o1 = credit_apply s v 0 c p in credit_run p cs (co_score o1, co_suspension_steps o1))"

lemma credit_run_violations:
  assumes "\<forall>c \<in> set cs. c = CRejected \<or> c = CTimedOut" and "unat s \<le> 100"
  shows "unat (fst (credit_run p cs (s, v))) = unat s - sum_list (map (penalty p) cs)"
  using assms
proof (induction cs arbitrary: s v)
  case (Cons c cs)
  have "unat (co_score (credit_apply s v 0 c p)) = unat s - penalty p c"
    using Cons.prems by (auto simp: credit_score_unat)
  then show ?case
    using Cons credit_score_le_100 [of s v 0 c p] by (simp add: Let_def)
qed simp

end
