(* ===== verification/Proposal.thy ===== *)
theory Proposal
  imports Matching Credit
begin

text \<open>
  \<open>core/src/proposal.rs\<close>: a proposed match that waits for the answers of its players.
  The identifier of a new proposal comes from the caller's supply of random UUIDs and is an
  argument of \<open>from_candidate\<close>.
\<close>

datatype proposal_state = AwaitingAccept | AwaitingPlacement | Cancelled

record proposal =
  pr_id :: proposal_id
  pr_tickets :: "ticket_id list"
  pr_teams :: "player_id list list"
  pr_parties :: "(player_id, party_id) bmap"
  pr_responses :: "(player_id, accept_state) bmap"
  pr_deadline :: u64
  pr_state :: proposal_state

datatype proposal_error = ProposalStale | UnknownPlayer

definition from_candidate :: "candidate \<Rightarrow> (player_id, party_id) bmap \<Rightarrow> u64 \<Rightarrow> u64 \<Rightarrow> proposal_id
    \<Rightarrow> proposal" where
  "from_candidate c parties now timeout fresh =
    \<lparr>pr_id = fresh, pr_tickets = cd_tickets c, pr_teams = cd_teams c, pr_parties = parties,
     pr_responses = bm_of_list (map (\<lambda>p. (p, Pending)) (concat (cd_teams c))),
     pr_deadline = sat_add now timeout, pr_state = AwaitingAccept\<rparr>"

definition respond :: "proposal_id \<Rightarrow> player_id \<Rightarrow> bool \<Rightarrow> proposal
    \<Rightarrow> (proposal_error + proposal_state) \<times> proposal" where
  "respond i player accept p =
    (if i \<noteq> pr_id p \<or> pr_state p \<noteq> AwaitingAccept then (Inl ProposalStale, p)
     else case bm_get (pr_responses p) player of
       None \<Rightarrow> (Inl UnknownPlayer, p)
     | Some s \<Rightarrow>
         let given = (if accept then Accepted else Rejected);
             responses = (if s = Pending then bm_insert player given (pr_responses p) else pr_responses p);
             state = (if list_ex (\<lambda>s. s = Rejected) (bm_values responses) then Cancelled
               else if list_all (\<lambda>s. s = Accepted) (bm_values responses) then AwaitingPlacement
               else pr_state p)
         in (Inr state, p\<lparr>pr_responses := responses, pr_state := state\<rparr>))"

definition expire :: "u64 \<Rightarrow> proposal \<Rightarrow> bool \<times> proposal" where
  "expire now p =
    (if pr_state p \<noteq> AwaitingAccept \<or> now \<le> pr_deadline p then (False, p)
     else (True, p\<lparr>pr_responses := bm_map (\<lambda>_ s. if s = Pending then TimedOut else s) (pr_responses p),
                   pr_state := Cancelled\<rparr>))"

record requeue_decision =
  rd_player :: player_id
  rd_requeue :: bool
  rd_party_not_ready :: bool
  rd_credit_cause :: "credit_cause option"

definition failed_parties :: "proposal \<Rightarrow> party_id list" where
  "failed_parties p = List.map_filter (\<lambda>(player, _). bm_get (pr_parties p) player)
     (filter (\<lambda>(_, s). s = Rejected \<or> s = TimedOut) (entries (pr_responses p)))"

definition cancellation_decisions :: "proposal \<Rightarrow> bool \<Rightarrow> requeue_decision list" where
  "cancellation_decisions p infra = map (\<lambda>(player, state).
     let failed = (state = Rejected \<or> state = TimedOut);
         affected = (case bm_get (pr_parties p) player of None \<Rightarrow> False
           | Some party \<Rightarrow> party \<in> set (failed_parties p))
     in \<lparr>rd_player = player, rd_requeue = (\<not> affected \<and> \<not> failed), rd_party_not_ready = affected,
         rd_credit_cause = (if infra then Some InfrastructureFailure
           else if state = Rejected then Some CRejected
           else if state = TimedOut then Some CTimedOut
           else None)\<rparr>) (entries (pr_responses p))"

section \<open>The life of a proposal\<close>

text \<open>What every proposal satisfies: its state is determined by the answers it holds.\<close>

definition proposal_wf :: "proposal \<Rightarrow> bool" where
  "proposal_wf p \<longleftrightarrow> (let answers = set (bm_values (pr_responses p)) in case pr_state p of
       AwaitingPlacement \<Rightarrow> answers = {Accepted}
     | AwaitingAccept \<Rightarrow> answers \<subseteq> {Pending, Accepted} \<and> (answers = {} \<or> Pending \<in> answers)
     | Cancelled \<Rightarrow> answers = {} \<or> Rejected \<in> answers \<or> TimedOut \<in> answers)"

datatype proposal_event = Answer player_id bool | Clock u64

definition proposal_step :: "proposal_event \<Rightarrow> proposal \<Rightarrow> proposal" where
  "proposal_step e p = (case e of
      Answer player accept \<Rightarrow> snd (respond (pr_id p) player accept p)
    | Clock now \<Rightarrow> snd (expire now p))"

definition proposal_run :: "proposal_event list \<Rightarrow> proposal \<Rightarrow> proposal" where
  "proposal_run es p = fold proposal_step es p"

lemma proposal_run_simps [simp]:
  "proposal_run [] p = p" "proposal_run (e # es) p = proposal_run es (proposal_step e p)"
  "proposal_run (es @ fs) p = proposal_run fs (proposal_run es p)"
  by (simp_all add: proposal_run_def)

lemma respond_cases:
  obtains "respond i player accept p = (Inl ProposalStale, p)" "i \<noteq> pr_id p \<or> pr_state p \<noteq> AwaitingAccept"
  | "respond i player accept p = (Inl UnknownPlayer, p)" "bm_get (pr_responses p) player = None"
  | s r where "i = pr_id p" "pr_state p = AwaitingAccept" "bm_get (pr_responses p) player = Some s"
    "r = (if s = Pending then bm_insert player (if accept then Accepted else Rejected) (pr_responses p)
       else pr_responses p)"
    "respond i player accept p = (let st = if Rejected \<in> set (bm_values r) then Cancelled
       else if \<forall>v \<in> set (bm_values r). v = Accepted then AwaitingPlacement else AwaitingAccept
       in (Inr st, p\<lparr>pr_responses := r, pr_state := st\<rparr>))"
proof (cases "i \<noteq> pr_id p \<or> pr_state p \<noteq> AwaitingAccept")
  case True
  with that(1) show thesis by (simp add: respond_def)
next
  case False
  then show thesis
  proof (cases "bm_get (pr_responses p) player")
    case None
    with False that(2) show thesis by (simp add: respond_def)
  next
    case (Some s)
    with False that(3) [of s] show thesis
      by (simp add: respond_def Let_def list_ex_iff list_all_iff)
  qed
qed

lemma accept_state_set: "s \<in> {Pending, Accepted, Rejected, TimedOut}"
  by (cases s) auto

lemma proposal_wf_respond: "proposal_wf p \<Longrightarrow> proposal_wf (snd (respond i player accept p))"
proof (rule respond_cases [of i player accept p])
  fix s r
  assume wf: "proposal_wf p" and st: "pr_state p = AwaitingAccept"
    and s: "bm_get (pr_responses p) player = Some s"
    and r: "r = (if s = Pending then bm_insert player (if accept then Accepted else Rejected) (pr_responses p)
       else pr_responses p)"
    and res: "respond i player accept p = (let st = if Rejected \<in> set (bm_values r) then Cancelled
       else if \<forall>v \<in> set (bm_values r). v = Accepted then AwaitingPlacement else AwaitingAccept
       in (Inr st, p\<lparr>pr_responses := r, pr_state := st\<rparr>))"
  have "bm_get r player \<noteq> None" using s by (auto simp: r)
  then have ne: "bm_values r \<noteq> []" by (auto simp: values_Nil)
  have "set (bm_values r) \<subseteq> {Pending, Accepted, Rejected}"
  proof
    fix v assume "v \<in> set (bm_values r)"
    then obtain k where "bm_get r k = Some v" by (auto simp: values_iff)
    then have "v = Accepted \<or> v = Rejected \<or> bm_get (pr_responses p) k = Some v"
      by (auto simp: r get_insert split: if_splits)
    then show "v \<in> {Pending, Accepted, Rejected}"
      using wf st values_iff [of v "pr_responses p"] by (auto simp: proposal_wf_def Let_def)
  qed
  moreover have "Accepted \<in> set (bm_values r)" if "\<forall>v \<in> set (bm_values r). v = Accepted"
    using ne that by (cases "bm_values r") auto
  ultimately show "proposal_wf (snd (respond i player accept p))"
    by (auto simp: res proposal_wf_def Let_def)
qed auto

lemma get_expired:
  "bm_get (pr_responses (snd (expire now p))) k = (if fst (expire now p)
     then map_option (\<lambda>s. if s = Pending then TimedOut else s) (bm_get (pr_responses p) k)
     else bm_get (pr_responses p) k)"
  by (simp add: expire_def)

lemma proposal_wf_expire: "proposal_wf p \<Longrightarrow> proposal_wf (snd (expire now p))"
proof (cases "fst (expire now p)")
  case True
  assume wf: "proposal_wf p"
  from True have st: "pr_state p = AwaitingAccept" "pr_state (snd (expire now p)) = Cancelled"
    by (auto simp: expire_def split: if_splits)
  show ?thesis
  proof (cases "bm_values (pr_responses p) = []")
    case True
    then have "bm_values (pr_responses (snd (expire now p))) = []"
      by (simp add: values_Nil get_expired)
    then show ?thesis by (simp add: proposal_wf_def st)
  next
    case False
    then obtain k where "bm_get (pr_responses p) k = Some Pending"
      using wf st by (auto simp: proposal_wf_def values_iff)
    then have "TimedOut \<in> set (bm_values (pr_responses (snd (expire now p))))"
      using True by (auto simp: values_iff get_expired)
    then show ?thesis by (simp add: proposal_wf_def st)
  qed
qed (auto simp: expire_def split: if_splits)

lemma proposal_wf_step: "proposal_wf p \<Longrightarrow> proposal_wf (proposal_step e p)"
  by (cases e) (simp_all add: proposal_step_def proposal_wf_respond proposal_wf_expire)

interpretation proposals: invariant_machine proposal_step proposal_wf
  by unfold_locales (rule proposal_wf_step)

lemma proposal_wf_run: "proposal_wf p \<Longrightarrow> proposal_wf (proposal_run es p)"
  unfolding proposal_run_def by (rule proposals.run_ok)

lemma get_from_candidate:
  "bm_get (pr_responses (from_candidate c parties now timeout i)) k
    = (if k \<in> set (concat (cd_teams c)) then Some Pending else None)"
proof -
  have "map_of (map (\<lambda>p. (p, Pending)) ps) k = (if k \<in> set ps then Some Pending else None)" for ps
    by (induction ps) auto
  from this [of "rev (concat (cd_teams c))"] show ?thesis
    by (simp add: from_candidate_def get_of_list rev_map)
qed

lemma proposal_wf_new: "proposal_wf (from_candidate c parties now timeout i)"
proof -
  have "v = Pending" if "v \<in> set (bm_values (pr_responses (from_candidate c parties now timeout i)))" for v
    using that by (auto simp: values_iff get_from_candidate split: if_splits)
  then have "set (bm_values (pr_responses (from_candidate c parties now timeout i))) \<subseteq> {Pending}" by blast
  moreover have "pr_state (from_candidate c parties now timeout i) = AwaitingAccept"
    by (simp add: from_candidate_def)
  moreover have "A \<subseteq> {Pending} \<Longrightarrow> A \<subseteq> {Pending, Accepted} \<and> (A = {} \<or> Pending \<in> A)" for A by auto
  ultimately show ?thesis by (simp add: proposal_wf_def Let_def del: set_empty)
qed

text \<open>Once a proposal is decided nothing changes it; a player's first answer stands.\<close>

lemma proposal_decided: "pr_state p \<noteq> AwaitingAccept \<Longrightarrow> proposal_step e p = p"
  by (cases e) (simp_all add: proposal_step_def respond_def expire_def)

lemma proposal_step_id [simp]: "pr_id (proposal_step e p) = pr_id p"
proof (cases e)
  case (Answer player accept)
  then show ?thesis
    by (cases rule: respond_cases [of "pr_id p" player accept p]) (auto simp: proposal_step_def Let_def)
qed (simp add: proposal_step_def expire_def)

lemma proposal_step_answer:
  assumes "bm_get (pr_responses p) k = Some s" and "s \<noteq> Pending"
  shows "bm_get (pr_responses (proposal_step e p)) k = Some s"
proof (cases e)
  case (Answer player accept)
  with assms show ?thesis
    by (cases rule: respond_cases [of "pr_id p" player accept p])
      (auto simp: proposal_step_def Let_def get_insert)
next
  case (Clock now)
  with assms show ?thesis by (simp add: proposal_step_def get_expired)
qed

lemma proposal_run_answer:
  "bm_get (pr_responses p) k = Some s \<Longrightarrow> s \<noteq> Pending \<Longrightarrow> bm_get (pr_responses (proposal_run es p)) k = Some s"
  by (induction es arbitrary: p) (simp_all add: proposal_step_answer)

text \<open>Who is recorded as having accepted did accept.\<close>

lemma proposal_step_accepted:
  assumes "bm_get (pr_responses (proposal_step e p)) k = Some Accepted"
  shows "e = Answer k True \<or> bm_get (pr_responses p) k = Some Accepted"
proof (cases e)
  case (Answer player accept)
  with assms show ?thesis
    by (cases rule: respond_cases [of "pr_id p" player accept p])
      (auto simp: proposal_step_def Let_def get_insert split: if_splits)
next
  case (Clock now)
  with assms show ?thesis by (auto simp: proposal_step_def get_expired split: if_splits)
qed

lemma proposal_run_accepted:
  "bm_get (pr_responses (proposal_run es p)) k = Some Accepted \<Longrightarrow>
    Answer k True \<in> set es \<or> bm_get (pr_responses p) k = Some Accepted"
  by (induction es arbitrary: p) (auto dest: proposal_step_accepted)

lemma proposal_step_keys: "bm_get (pr_responses (proposal_step e p)) k = None \<longleftrightarrow> bm_get (pr_responses p) k = None"
proof (cases e)
  case (Answer player accept)
  then show ?thesis
    by (cases rule: respond_cases [of "pr_id p" player accept p])
      (auto simp: proposal_step_def Let_def get_insert)
next
  case (Clock now)
  then show ?thesis by (simp add: proposal_step_def get_expired)
qed

lemma proposal_run_keys: "bm_get (pr_responses (proposal_run es p)) k = None \<longleftrightarrow> bm_get (pr_responses p) k = None"
  by (induction es arbitrary: p) (simp_all add: proposal_step_keys)

section \<open>Decisions after a cancellation\<close>

lemma failed_parties_iff:
  "party \<in> set (failed_parties p) \<longleftrightarrow> (\<exists>q s. bm_get (pr_responses p) q = Some s \<and> failed_response s
     \<and> bm_get (pr_parties p) q = Some party)"
proof -
  have "party \<in> set (failed_parties p) \<longleftrightarrow> (\<exists>q s. (q, s) \<in> set (entries (pr_responses p))
      \<and> (s = Rejected \<or> s = TimedOut) \<and> bm_get (pr_parties p) q = Some party)"
    unfolding failed_parties_def in_set_map_filter set_filter Bex_def mem_Collect_eq split_paired_Ex prod.case by blast
  then show ?thesis by (simp add: entry_iff failed_response_def)
qed

lemma decision_in:
  "d \<in> set (cancellation_decisions p infra) \<Longrightarrow>
    \<exists>s. bm_get (pr_responses p) (rd_player d) = Some s
      \<and> rd_party_not_ready d = (\<exists>party. bm_get (pr_parties p) (rd_player d) = Some party \<and> party \<in> set (failed_parties p))
      \<and> rd_requeue d = (\<not> rd_party_not_ready d \<and> \<not> failed_response s)
      \<and> rd_credit_cause d = (if infra then Some InfrastructureFailure else if s = Rejected then Some CRejected
           else if s = TimedOut then Some CTimedOut else None)"
proof -
  assume "d \<in> set (cancellation_decisions p infra)"
  then obtain q s where qs: "(q, s) \<in> set (entries (pr_responses p))"
    and d: "d = (let failed = (s = Rejected \<or> s = TimedOut);
         affected = (case bm_get (pr_parties p) q of None \<Rightarrow> False
           | Some party \<Rightarrow> party \<in> set (failed_parties p))
     in \<lparr>rd_player = q, rd_requeue = (\<not> affected \<and> \<not> failed), rd_party_not_ready = affected,
         rd_credit_cause = (if infra then Some InfrastructureFailure
           else if s = Rejected then Some CRejected
           else if s = TimedOut then Some CTimedOut
           else None)\<rparr>)"
    unfolding cancellation_decisions_def by (auto simp del: in_set_map_filter)
  have "bm_get (pr_responses p) q = Some s" using qs by (simp only: entry_iff)
  then show ?thesis
    by (intro exI [of _ s]) (simp add: d Let_def failed_response_def split: option.split)
qed

lemma decision_players: "map rd_player (cancellation_decisions p infra) = bm_keys (pr_responses p)"
  by (simp add: cancellation_decisions_def bm_keys_def Let_def comp_def case_prod_unfold)

end
