(* ===== verification/Placement.thy ===== *)
theory Placement
  imports Server
begin

text \<open>
  \<open>core/src/placement.rs\<close>: the choice of a game server for a match and the reservation of
  its capacity. A panic of \<open>reserve\<close> is the result \<open>None\<close>: the subtraction of a server that offers
  more than it has left (where overflow is checked, as in a debug build; the saturating comparison
  before it lets a sum above the largest number pass), and the one \<open>unwrap\<close>, which looks the chosen
  server up under its own \<open>id\<close>.
\<close>

datatype placement_error = NoCapacity | UnknownServer

definition unfinished_count :: "game_server \<Rightarrow> nat" where
  "unfinished_count s = length (filter (\<lambda>i. in_state i \<noteq> InFinished) (bm_values (gs_instances s)))"

definition feasible :: "registry \<Rightarrow> queue_mode \<Rightarrow> rstr \<Rightarrow> bool" where
  "feasible r mode region = list_ex (\<lambda>s. gs_health s = Healthy \<and> gs_region s = region \<and> mode \<in> gs_modes s
     \<and> (case bm_get (gs_mode_costs s) mode of None \<Rightarrow> False
         | Some cost \<Rightarrow> sat_add (gs_capacity_used s) cost \<le> gs_capacity_total s)
     \<and> unfinished_count s < unat (gs_max_instances s)) (bm_values r)"

definition placement_offer :: "queue_mode \<Rightarrow> rstr \<Rightarrow> game_server \<Rightarrow> (u32 \<times> u32 \<times> server_id \<times> u32) option" where
  "placement_offer mode region s =
    (if gs_health s = Healthy \<and> gs_region s = region \<and> mode \<in> gs_modes s
     then case bm_get (gs_mode_costs s) mode of None \<Rightarrow> None
       | Some cost \<Rightarrow>
           if sat_add (gs_capacity_used s) cost > gs_capacity_total s
              \<or> unfinished_count s \<ge> unat (gs_max_instances s) then None
           else Some (gs_capacity_total s - gs_capacity_used s - cost, gs_failures s, gs_id s, cost)
     else None)"

definition offer_overflows :: "queue_mode \<Rightarrow> rstr \<Rightarrow> game_server \<Rightarrow> bool" where
  "offer_overflows mode region s \<longleftrightarrow> (case placement_offer mode region s of None \<Rightarrow> False
    | Some (free, fails, sid, cost) \<Rightarrow> unat (gs_capacity_total s) < unat (gs_capacity_used s) + unat cost)"

definition reserve :: "match_id \<Rightarrow> queue_mode \<Rightarrow> rstr \<Rightarrow> registry
    \<Rightarrow> ((placement_error + server_id) \<times> registry) option" where
  "reserve m mode region r =
    (if list_ex (offer_overflows mode region) (bm_values r) then None
     else case iter_min (List.map_filter (placement_offer mode region) (bm_values r)) of
       None \<Rightarrow> Some (Inl NoCapacity, r)
     | Some (free, fails, sid, cost) \<Rightarrow>
        (case bm_get r sid of None \<Rightarrow> None
         | Some s \<Rightarrow> Some (Inr (gs_id s), bm_insert sid (s\<lparr>
             gs_capacity_used := gs_capacity_used s + cost,
             gs_instances := bm_insert m \<lparr>in_match_id = m, in_cost = cost, in_state = InReserved,
               in_endpoint = None, in_connection_token = None\<rparr> (gs_instances s)\<rparr>) r)))"

definition transition :: "server_id \<Rightarrow> match_id \<Rightarrow> instance_state \<Rightarrow> rstr option \<Rightarrow> rstr option \<Rightarrow> registry
    \<Rightarrow> (placement_error + unit) \<times> registry" where
  "transition sid m state endpoint token r = (case bm_get r sid of
      None \<Rightarrow> (Inl UnknownServer, r)
    | Some s \<Rightarrow> (case bm_get (gs_instances s) m of
        None \<Rightarrow> (Inl UnknownServer, r)
      | Some i \<Rightarrow>
          let i = i\<lparr>in_state := state\<rparr>;
              i = (if state = InReady then i\<lparr>in_endpoint := endpoint, in_connection_token := token\<rparr> else i)
          in (Inr (), bm_insert sid (s\<lparr>gs_instances := bm_insert m i (gs_instances s)\<rparr>) r)))"

definition release :: "server_id \<Rightarrow> match_id \<Rightarrow> registry \<Rightarrow> (placement_error + unit) \<times> registry" where
  "release sid m r = (case bm_get r sid of
      None \<Rightarrow> (Inl UnknownServer, r)
    | Some s \<Rightarrow> (case bm_get (gs_instances s) m of
        None \<Rightarrow> (Inr (), r)
      | Some i \<Rightarrow> (Inr (), bm_insert sid (s\<lparr>gs_instances := bm_remove m (gs_instances s),
          gs_capacity_used := (if live i then sat_sub (gs_capacity_used s) (in_cost i)
            else gs_capacity_used s)\<rparr>) r)))"

definition retry_after_failure :: "server_id \<Rightarrow> match_id \<Rightarrow> queue_mode \<Rightarrow> rstr \<Rightarrow> registry
    \<Rightarrow> ((placement_error + server_id) \<times> registry) option" where
  "retry_after_failure failed m mode region r = (case release failed m r of
      (Inl e, r) \<Rightarrow> Some (Inl e, r)
    | (Inr _, r) \<Rightarrow>
        reserve m mode region (bm_update failed (\<lambda>s. s\<lparr>gs_failures := sat_add (gs_failures s) 1\<rparr>) r))"

record placement_wait =
  pw_started_at :: u64
  pw_deadline :: u64

definition placement_wait_new :: "u64 \<Rightarrow> u64 \<Rightarrow> placement_wait" where
  "placement_wait_new now timeout = \<lparr>pw_started_at = now, pw_deadline = sat_add now timeout\<rparr>"

definition placement_wait_expired :: "placement_wait \<Rightarrow> u64 \<Rightarrow> bool" where
  "placement_wait_expired w now \<longleftrightarrow> now > pw_deadline w"

section \<open>The capacity of a server\<close>

text \<open>What every server of the registry satisfies: it is stored under its id and never uses
  more than its total. The total stays below the largest 32-bit number, so that the saturating
  sum in the test of \<open>reserve\<close> is exact.\<close>

definition server_ok :: "server_id \<Rightarrow> game_server \<Rightarrow> bool" where
  "server_ok k s \<longleftrightarrow> gs_id s = k \<and> gs_capacity_used s \<le> gs_capacity_total s \<and> gs_capacity_total s < - 1"

definition registry_ok :: "registry \<Rightarrow> bool" where
  "registry_ok r \<longleftrightarrow> (\<forall>k s. bm_get r k = Some s \<longrightarrow> server_ok k s)"

lemma registry_okD: "registry_ok r \<Longrightarrow> bm_get r k = Some s \<Longrightarrow> server_ok k s"
  by (simp add: registry_ok_def)

lemma registry_ok_empty [simp]: "registry_ok bm_empty"
  by (simp add: registry_ok_def)

lemma registry_ok_insert: "registry_ok r \<Longrightarrow> server_ok k s \<Longrightarrow> registry_ok (bm_insert k s r)"
  by (auto simp: registry_ok_def get_insert)

lemma registry_ok_map: "registry_ok r \<Longrightarrow> (\<And>k s. server_ok k s \<Longrightarrow> server_ok k (f k s)) \<Longrightarrow> registry_ok (bm_map f r)"
  by (auto simp: registry_ok_def)

lemma registry_ok_update: "registry_ok r \<Longrightarrow> (\<And>s. server_ok k s \<Longrightarrow> server_ok k (f s)) \<Longrightarrow> registry_ok (bm_update k f r)"
  by (auto simp: registry_ok_def get_update)

lemma registry_ok_register:
  "registry_ok r \<Longrightarrow> gs_capacity_total s < - 1 \<Longrightarrow> registry_ok (snd (register s l r))"
  by (auto simp: register_def registration_invalid_def Let_def server_ok_def dest: registry_okD
      intro!: registry_ok_insert split: option.splits sum.splits)

lemma registry_ok_heartbeat: "registry_ok r \<Longrightarrow> registry_ok (snd (heartbeat i g now used r))"
  by (auto simp: heartbeat_def Let_def server_ok_def dest: registry_okD intro!: registry_ok_insert split: option.splits)

lemma registry_ok_update_health: "registry_ok r \<Longrightarrow> registry_ok (snd (update_health now u l r))"
  by (auto simp: update_health_def age_server_def Let_def server_ok_def intro!: registry_ok_map)

lemma registry_ok_reconcile: "registry_ok r \<Longrightarrow> registry_ok (snd (reconcile i g m r))"
  by (auto simp: reconcile_def Let_def server_ok_def dest: registry_okD intro!: registry_ok_insert
      split: option.splits sum.splits prod.splits)

lemma registry_ok_transition: "registry_ok r \<Longrightarrow> registry_ok (snd (transition i m st e t r))"
  by (auto simp: transition_def Let_def server_ok_def dest: registry_okD intro!: registry_ok_insert split: option.splits)

lemma registry_ok_release: "registry_ok r \<Longrightarrow> registry_ok (snd (release i m r))"
  using sat_sub_le order_trans
  by (fastforce simp: release_def server_ok_def dest: registry_okD intro!: registry_ok_insert split: option.splits)

text \<open>An offer is exact: the cost fits into what is left.\<close>

lemma placement_offerD:
  assumes "placement_offer mode region s = Some (free, fails, sid, cost)" and "server_ok k s"
  shows "sid = k" "bm_get (gs_mode_costs s) mode = Some cost" "gs_health s = Healthy" "gs_region s = region"
    and "mode \<in> gs_modes s" "unfinished_count s < unat (gs_max_instances s)"
    and "unat (gs_capacity_used s) + unat cost \<le> unat (gs_capacity_total s)"
    and "unat free = unat (gs_capacity_total s) - unat (gs_capacity_used s) - unat cost"
proof -
  show "sid = k" "bm_get (gs_mode_costs s) mode = Some cost" "gs_health s = Healthy" "gs_region s = region"
    "mode \<in> gs_modes s" "unfinished_count s < unat (gs_max_instances s)"
    using assms by (auto simp: placement_offer_def server_ok_def split: if_splits option.splits)
  have "sat_add (gs_capacity_used s) cost \<le> gs_capacity_total s"
    using assms by (auto simp: placement_offer_def split: if_splits option.splits)
  moreover have "unat (gs_capacity_total s) < 2 ^ 32 - 1"
    using assms(2) unat_word_max [where 'a = 32] by (simp add: server_ok_def word_less_nat_alt)
  ultimately show fits: "unat (gs_capacity_used s) + unat cost \<le> unat (gs_capacity_total s)"
    by (simp add: word_le_nat_alt unat_sat_add)
  have "free = gs_capacity_total s - gs_capacity_used s - cost"
    using assms by (auto simp: placement_offer_def split: if_splits option.splits)
  then show "unat free = unat (gs_capacity_total s) - unat (gs_capacity_used s) - unat cost"
    using fits by (simp add: unat_sub word_le_nat_alt)
qed

lemma no_offer_overflows: "registry_ok r \<Longrightarrow> \<not> list_ex (offer_overflows mode region) (bm_values r)"
proof -
  assume ok: "registry_ok r"
  have "\<not> offer_overflows mode region s" if "bm_get r k = Some s" for k s
    using placement_offerD(7) [OF _ registry_okD [OF ok that], of mode region]
    by (auto simp: offer_overflows_def split: option.splits)
  then show ?thesis by (auto simp: list_ex_iff values_iff)
qed

lemma feasible_offer:
  "feasible r mode region \<longleftrightarrow> (\<exists>s \<in> set (bm_values r). \<exists>off. placement_offer mode region s = Some off)"
proof -
  have "(gs_health s = Healthy \<and> gs_region s = region \<and> mode \<in> gs_modes s
     \<and> (case bm_get (gs_mode_costs s) mode of None \<Rightarrow> False
         | Some cost \<Rightarrow> sat_add (gs_capacity_used s) cost \<le> gs_capacity_total s)
     \<and> unfinished_count s < unat (gs_max_instances s)) \<longleftrightarrow> (\<exists>off. placement_offer mode region s = Some off)" for s
    by (cases "bm_get (gs_mode_costs s) mode") (auto simp: placement_offer_def)
  then show ?thesis by (simp add: feasible_def list_ex_iff)
qed

text \<open>The outcomes of \<open>reserve\<close> on a registry that satisfies its invariant.\<close>

lemma reserve_cases:
  assumes "registry_ok r"
  obtains "reserve m mode region r = Some (Inl NoCapacity, r)" "\<not> feasible r mode region"
  | s cost free where "bm_get r (gs_id s) = Some s" "feasible r mode region"
    "placement_offer mode region s = Some (free, gs_failures s, gs_id s, cost)"
    "\<And>k t o'. bm_get r k = Some t \<Longrightarrow> placement_offer mode region t = Some o' \<Longrightarrow>
       (free, gs_failures s, gs_id s, cost) \<le> o'"
    "reserve m mode region r = Some (Inr (gs_id s), bm_insert (gs_id s) (s\<lparr>
             gs_capacity_used := gs_capacity_used s + cost,
             gs_instances := bm_insert m \<lparr>in_match_id = m, in_cost = cost, in_state = InReserved,
               in_endpoint = None, in_connection_token = None\<rparr> (gs_instances s)\<rparr>) r)"
proof -
  let ?os = "List.map_filter (placement_offer mode region) (bm_values r)"
  note exact = no_offer_overflows [OF assms, of mode region]
  have feas: "feasible r mode region \<longleftrightarrow> (\<exists>o'. o' \<in> set ?os)"
    unfolding feasible_offer in_set_map_filter by blast
  show thesis
  proof (cases "iter_min ?os")
    case None
    then have "?os = []" by simp
    then have "\<not> feasible r mode region" using feas by simp
    moreover have "reserve m mode region r = Some (Inl NoCapacity, r)"
      unfolding reserve_def None using exact by simp
    ultimately show thesis using that(1) by blast
  next
    case (Some offer)
    then have min: "offer \<in> set ?os" "\<forall>x \<in> set ?os. offer \<le> x" by (simp_all add: iter_min_Some)
    then obtain s k where s: "bm_get r k = Some s" "placement_offer mode region s = Some offer"
      by (auto simp: in_set_map_filter values_iff)
    then have k: "gs_id s = k" using assms by (auto simp: server_ok_def dest: registry_okD)
    obtain cost free where offer: "offer = (free, gs_failures s, gs_id s, cost)"
      using s(2) by (auto simp: placement_offer_def split: if_splits option.splits)
    show thesis
    proof (rule that(2) [of s free cost])
      show "bm_get r (gs_id s) = Some s" using s(1) k by simp
      show "feasible r mode region" using feas min(1) by blast
      show "placement_offer mode region s = Some (free, gs_failures s, gs_id s, cost)"
        using s(2) offer by simp
      show "(free, gs_failures s, gs_id s, cost) \<le> o'"
        if "bm_get r k = Some t" "placement_offer mode region t = Some o'" for k t o'
      proof -
        have "t \<in> set (bm_values r)" using that(1) values_iff [of t r] by blast
        then have "o' \<in> set ?os" unfolding in_set_map_filter using that(2) by blast
        then show ?thesis using min(2) offer by blast
      qed
    qed (use Some offer s k exact in \<open>simp add: reserve_def\<close>)
  qed
qed

end
