(* ===== verification/Builders.thy ===== *)
theory Builders
  imports Matching
begin

text \<open>
  \<open>core/src/matching/one_v_one.rs\<close>, \<open>five_v_five.rs\<close> and \<open>free_for_all.rs\<close>: the three
  candidate builders. A recursive closure that pushes to \<open>out\<close> passes \<open>out\<close> through; the
  loop \<open>for i in at..t.len()\<close> runs over the list of the remaining indices.

  The locale \<open>candidate_builder\<close> is the contract that the dispatcher needs from a builder:
  a candidate is made of a non-empty selection of distinct tickets of the input, names exactly
  their ids, and its teams hold exactly their members. Every builder interprets it.
\<close>

section \<open>One versus one\<close>

fun windows2 :: "'a list \<Rightarrow> ('a \<times> 'a) list" where
  "windows2 (x # y # zs) = (x, y) # windows2 (y # zs)"
| "windows2 _ = []"

definition one_v_one_order :: "party_ticket \<Rightarrow> i32 \<times> u64 \<times> ticket_id" where
  "one_v_one_order t = (pt_effective_rating t, pt_enqueued_at t, pt_id t)"

definition one_v_one_pair :: "party_ticket \<Rightarrow> party_ticket \<Rightarrow> candidate option" where
  "one_v_one_pair a b =
    (if pt_region a \<noteq> pt_region b then None
     else let diff = wrap_i32 \<bar>wrap_i32 (pt_effective_rating a - pt_effective_rating b)\<bar>
          in if diff > min (pt_search_delta a) (pt_search_delta b) then None
             else Some \<lparr>cd_tickets = [pt_id a, pt_id b],
                        cd_teams = [pt_members a, pt_members b],
                        cd_oldest_enqueued_at = min (pt_enqueued_at a) (pt_enqueued_at b),
                        cd_quality_key = (diff, 0, 0),
                        cd_owner_shard = 0\<rparr>)"

definition one_v_one_build :: "party_ticket list \<Rightarrow> candidate list" where
  "one_v_one_build t =
    (let ordered = sort_key one_v_one_order (filter (\<lambda>x. length (pt_members x) = 1) t)
     in List.map_filter (\<lambda>(a, b). one_v_one_pair a b) (windows2 ordered))"

section \<open>Five versus five\<close>

text \<open>\<open>counts[len - 1] += 1\<close>; the groups hold tickets of one to five members only.\<close>

definition structure_of :: "nat list \<Rightarrow> party_ticket list \<Rightarrow> nat list" where
  "structure_of grp t = fold (\<lambda>i counts. let k = length (pt_members (t ! i)) - 1
     in counts[k := counts ! k + 1]) grp [0, 0, 0, 0, 0]"

definition raw_rating_total :: "nat list \<Rightarrow> party_ticket list \<Rightarrow> i64" where
  "raw_rating_total grp t = sum_list (concat (map (\<lambda>i. pt_ratings (t ! i)) grp))"

definition advantage_total :: "nat list \<Rightarrow> party_ticket list \<Rightarrow> i64" where
  "advantage_total grp t = sum_list (map (\<lambda>i. let sz = length (pt_members (t ! i))
     in five_v_five_party_bonus sz * int sz) grp)"

text \<open>
  \<open>go\<close> of \<open>subsets\<close>: when \<open>left\<close> reaches 0 the group \<open>c\<close> is complete. The equation for
  a list of indices is the body of the loop, with the recursive call of \<open>go\<close> written out.
\<close>

fun subsets_loop :: "party_ticket list \<Rightarrow> nat \<Rightarrow> nat list \<Rightarrow> nat \<Rightarrow> nat list \<Rightarrow> nat list list
    \<Rightarrow> nat list list" where
  "subsets_loop t budget [] left c out = out"
| "subsets_loop t budget (i # is) left c out =
    (let n = length (pt_members (t ! i));
         out1 = (if 1 \<le> n \<and> n \<le> 5 \<and> n \<le> left
           then (if length out \<ge> budget then out
                 else if left - n = 0 then out @ [c @ [i]]
                 else subsets_loop t budget is (left - n) (c @ [i]) out)
           else out)
     in subsets_loop t budget is left c out1)"

definition subsets :: "party_ticket list \<Rightarrow> nat \<Rightarrow> nat \<Rightarrow> nat list list" where
  "subsets t target budget =
    (if 0 \<ge> budget then []
     else if target = 0 then [[]]
     else subsets_loop t budget [0..<length t] target [] [])"

definition mirror_allowed :: "party_ticket list \<Rightarrow> nat list \<Rightarrow> nat list \<Rightarrow> bool" where
  "mirror_allowed t a b =
    (let selected = a @ b in
     if structure_of a t \<noteq> structure_of b t
     then (if \<not> list_ex (\<lambda>i. pt_wait_seconds (t ! i) \<ge> FIVE_V_FIVE_MIRROR_SECONDS) selected
           then False
           else let raw_difference = raw_rating_total a t - raw_rating_total b t;
                    advantage_difference = advantage_total a t - advantage_total b t
                in \<not> ((advantage_difference > 0 \<and> - raw_difference < advantage_difference)
                      \<or> (advantage_difference < 0 \<and> raw_difference < - advantage_difference)))
     else True)"

definition team_average :: "party_ticket list \<Rightarrow> nat list \<Rightarrow> i64" where
  "team_average t g = trunc_div (sum_list (map (\<lambda>i. pt_effective_rating (t ! i)
     * int (length (pt_members (t ! i)))) g)) 5"

definition five_dispersion :: "party_ticket list \<Rightarrow> nat list \<Rightarrow> i32" where
  "five_dispersion t selected = min (sum_list (map (\<lambda>i. sum_list (map
     (\<lambda>r. \<bar>r - pt_effective_rating (t ! i)\<bar>) (pt_ratings (t ! i)))) selected)) i32_max"

definition structure_distance :: "nat list \<Rightarrow> nat list \<Rightarrow> i32" where
  "structure_distance l r = sum_list (map (\<lambda>(x, y). \<bar>int x - int y\<bar>) (zip l r))"

definition five_v_five_pair :: "party_ticket list \<Rightarrow> nat list \<Rightarrow> nat list \<Rightarrow> candidate option" where
  "five_v_five_pair t a b =
    (if list_ex (\<lambda>i. i \<in> set b) a then None
     else let selected = a @ b in
     if \<not> mirror_allowed t a b then None
     else let minimum = unwrap_or 0 (iter_min (map (\<lambda>i. pt_effective_rating (t ! i)) selected));
              maximum = unwrap_or 0 (iter_max (map (\<lambda>i. pt_effective_rating (t ! i)) selected));
              allowed = unwrap_or 0 (iter_min (map (\<lambda>i. pt_search_delta (t ! i)) selected))
     in if maximum - minimum > allowed then None
     else let ta = concat (map (\<lambda>i. pt_members (t ! i)) a);
              tb = concat (map (\<lambda>i. pt_members (t ! i)) b);
              ar = team_average t a;
              br = team_average t b
     in Some \<lparr>cd_tickets = map (\<lambda>i. pt_id (t ! i)) selected,
              cd_teams = [ta, tb],
              cd_oldest_enqueued_at = unwrap_or 0 (iter_min (map (\<lambda>i. pt_enqueued_at (t ! i)) selected)),
              cd_quality_key = (min \<bar>ar - br\<bar> i32_max, five_dispersion t selected,
                structure_distance (structure_of a t) (structure_of b t)),
              cd_owner_shard = 0\<rparr>)"

text \<open>The two nested loops over the groups, left as soon as the budget is reached.\<close>

fun collect_pairs :: "party_ticket list \<Rightarrow> nat \<Rightarrow> (nat list \<times> nat list) list \<Rightarrow> candidate list
    \<Rightarrow> candidate list" where
  "collect_pairs t budget [] out = out"
| "collect_pairs t budget ((a, b) # ps) out = (case five_v_five_pair t a b of
      None \<Rightarrow> collect_pairs t budget ps out
    | Some c \<Rightarrow> if length (out @ [c]) \<ge> budget then out @ [c]
        else collect_pairs t budget ps (out @ [c]))"

definition five_v_five_build :: "party_ticket list \<Rightarrow> nat \<Rightarrow> candidate list" where
  "five_v_five_build t budget =
    (let groups = subsets t 5 budget
     in collect_pairs t budget (List.product groups groups) [])"

section \<open>Free for all\<close>

text \<open>The completed selection \<open>c\<close>: \<open>None\<close> when the rating gap exceeds the window.\<close>

definition ffa_candidate :: "party_ticket list \<Rightarrow> nat list \<Rightarrow> candidate option" where
  "ffa_candidate t c =
    (let players = concat (map (\<lambda>i. pt_members (t ! i)) c);
         mn = unwrap_or 0 (iter_min (map (\<lambda>i. pt_effective_rating (t ! i)) c));
         mx = unwrap_or 0 (iter_max (map (\<lambda>i. pt_effective_rating (t ! i)) c));
         allowed = unwrap_or 0 (iter_min (map (\<lambda>i. pt_search_delta (t ! i)) c))
     in if wrap_i32 (mx - mn) > allowed then None
        else let mean = trunc_div (sum_list (map (\<lambda>i. pt_effective_rating (t ! i)
                 * int (length (pt_members (t ! i)))) c)) 8;
                 dispersion = min (sum_list (map (\<lambda>i. \<bar>pt_effective_rating (t ! i) - mean\<bar>
                 * int (length (pt_members (t ! i)))) c)) i32_max
             in Some \<lparr>cd_tickets = map (\<lambda>i. pt_id (t ! i)) c,
                      cd_teams = map (\<lambda>p. [p]) players,
                      cd_oldest_enqueued_at = unwrap_or 0 (iter_min (map (\<lambda>i. pt_enqueued_at (t ! i)) c)),
                      cd_quality_key = (wrap_i32 (mx - mn), dispersion, 0),
                      cd_owner_shard = 0\<rparr>)"

fun ffa_loop :: "party_ticket list \<Rightarrow> nat \<Rightarrow> nat list \<Rightarrow> nat \<Rightarrow> nat list \<Rightarrow> candidate list
    \<Rightarrow> candidate list" where
  "ffa_loop t budget [] left c out = out"
| "ffa_loop t budget (i # is) left c out =
    (let n = length (pt_members (t ! i));
         out1 = (if n \<le> left \<and> n \<le> 4
           then (if length out \<ge> budget then out
                 else if left - n = 0
                 then (case ffa_candidate t (c @ [i]) of None \<Rightarrow> out | Some x \<Rightarrow> out @ [x])
                 else ffa_loop t budget is (left - n) (c @ [i]) out)
           else out)
     in ffa_loop t budget is left c out1)"

definition free_for_all_build :: "party_ticket list \<Rightarrow> nat \<Rightarrow> candidate list" where
  "free_for_all_build t budget =
    (if 0 \<ge> budget then [] else ffa_loop t budget [0..<length t] 8 [] [])"

text \<open>The builder that the authority uses for a mode, with its budget of 1024.\<close>

definition build_for_mode :: "queue_mode \<Rightarrow> party_ticket list \<Rightarrow> candidate list" where
  "build_for_mode mode items = (case mode of
      OneVsOne \<Rightarrow> one_v_one_build items
    | FiveVsFive \<Rightarrow> five_v_five_build items 1024
    | FreeForAll \<Rightarrow> free_for_all_build items 1024)"

end
