(* ===== verification/Builder_Laws.thy ===== *)
theory Builder_Laws
  imports Builders "HOL-Library.Sublist"
begin

text \<open>
  What the builders promise. The locale \<open>candidate_builder\<close> is the contract towards the
  dispatcher; the lemmas before it establish it for the three builders, the lemmas after it
  give the shape of the teams in each mode and the exhaustiveness of the enumeration of
  five-player groups below the budget.
\<close>

section \<open>The contract\<close>

definition made_of :: "candidate \<Rightarrow> party_ticket list \<Rightarrow> bool" where
  "made_of c sel \<longleftrightarrow> cd_tickets c = map pt_id sel
     \<and> mset (concat (cd_teams c)) = mset (concat (map pt_members sel))"

text \<open>All ratings of a selection lie within the search window of each of its tickets.\<close>

definition within_windows :: "party_ticket list \<Rightarrow> bool" where
  "within_windows sel \<longleftrightarrow> (\<forall>x \<in> set sel. \<forall>y \<in> set sel.
     \<bar>pt_effective_rating x - pt_effective_rating y\<bar> \<le> pt_search_delta x)"

text \<open>Ratings whose differences fit 32 bits.\<close>

definition moderate :: "party_ticket list \<Rightarrow> bool" where
  "moderate ts \<longleftrightarrow> (\<forall>t \<in> set ts. - 1073741824 \<le> pt_effective_rating t \<and> pt_effective_rating t \<le> 1073741823)"

locale candidate_builder =
  fixes build :: "party_ticket list \<Rightarrow> candidate list"
  assumes law_selection: "c \<in> set (build ts) \<Longrightarrow>
    \<exists>sel. sel \<noteq> [] \<and> mset sel \<subseteq># mset ts \<and> made_of c sel \<and> (moderate ts \<longrightarrow> within_windows sel)"
begin

lemma tickets_from_input: "c \<in> set (build ts) \<Longrightarrow> set (cd_tickets c) \<subseteq> pt_id ` set ts"
  using law_selection [of c ts] by (force simp: made_of_def dest: mset_subset_eqD)

lemma tickets_nonempty: "c \<in> set (build ts) \<Longrightarrow> cd_tickets c \<noteq> []"
  using law_selection [of c ts] by (auto simp: made_of_def)

lemma tickets_distinct:
  assumes "c \<in> set (build ts)" and "distinct (map pt_id ts)"
  shows "distinct (cd_tickets c)"
proof -
  from law_selection [OF assms(1)] obtain sel where sel: "mset sel \<subseteq># mset ts" "made_of c sel" by blast
  from image_mset_subseteq_mono [OF sel(1), of pt_id]
  have "mset (cd_tickets c) \<subseteq># mset (map pt_id ts)" using sel(2) by (simp add: made_of_def)
  with assms(2) show ?thesis
    by (metis distinct_submset)
qed

lemma players_once:
  assumes "c \<in> set (build ts)" and "distinct (concat (map pt_members ts))"
  shows "distinct (concat (cd_teams c))"
proof -
  from law_selection [OF assms(1)] obtain sel where sel: "mset sel \<subseteq># mset ts" "made_of c sel" by blast
  from mset_concat_mono [OF sel(1), of pt_members] sel(2)
  have "mset (concat (cd_teams c)) \<subseteq># mset (concat (map pt_members ts))" by (simp add: made_of_def)
  with assms(2) show ?thesis by (metis distinct_submset)
qed

end

section \<open>One versus one\<close>

lemma windows2_mset: "(a, b) \<in> set (windows2 xs) \<Longrightarrow> mset [a, b] \<subseteq># mset xs"
proof (induction xs rule: windows2.induct)
  case (1 x y zs)
  show ?case
  proof (cases "(a, b) = (x, y)")
    case False
    with 1 have "mset [a, b] \<subseteq># mset (y # zs)" by auto
    also have "mset (y # zs) \<subseteq># mset (x # y # zs)" by simp
    finally show ?thesis .
  qed simp
qed auto

lemma windows2_sorted:
  "sorted (map f xs) \<Longrightarrow> (a, b) \<in> set (windows2 xs) \<Longrightarrow> f a \<le> f b"
  by (induction xs rule: windows2.induct) auto

lemma one_v_one_pairD:
  assumes "one_v_one_pair a b = Some c"
  shows "made_of c [a, b]" "pt_region a = pt_region b" "cd_teams c = [pt_members a, pt_members b]"
  using assms by (auto simp: one_v_one_pair_def made_of_def Let_def split: if_splits)

lemma one_v_one_window:
  assumes "one_v_one_pair a b = Some c" and "moderate [a, b]"
  shows "within_windows [a, b]"
proof -
  let ?d = "pt_effective_rating a - pt_effective_rating b"
  have "in_i32 ?d" "in_i32 \<bar>?d\<bar>" using assms(2) by (auto simp: moderate_def in_i32_def)
  then have "\<bar>?d\<bar> \<le> min (pt_search_delta a) (pt_search_delta b)"
    using assms(1) by (auto simp: one_v_one_pair_def Let_def split: if_splits)
  then show ?thesis by (auto simp: within_windows_def)
qed

lemma one_v_one_build_in:
  assumes "c \<in> set (one_v_one_build ts)"
  obtains a b where "one_v_one_pair a b = Some c" "mset [a, b] \<subseteq># mset ts"
    "length (pt_members a) = 1" "length (pt_members b) = 1"
    "pt_effective_rating a \<le> pt_effective_rating b"
proof -
  let ?f = "filter (\<lambda>x. length (pt_members x) = 1) ts"
  let ?o = "sort_key one_v_one_order ?f"
  from assms obtain a b where ab: "(a, b) \<in> set (windows2 ?o)" "one_v_one_pair a b = Some c"
    by (auto simp: one_v_one_build_def Let_def List.map_filter_def)
  have sub: "mset [a, b] \<subseteq># mset ?f" using windows2_mset [OF ab(1)] by simp
  then have "mset [a, b] \<subseteq># mset ts"
    by (metis mset_filter multiset_filter_subset subset_mset.order_trans)
  moreover have "a \<in> set ?f" "b \<in> set ?f"
    using sub by (auto dest: mset_subset_eqD simp del: mset_filter)
  moreover have "one_v_one_order a \<le> one_v_one_order b"
    using ab(1) by (intro windows2_sorted [of one_v_one_order ?o]) simp_all
  then have "pt_effective_rating a \<le> pt_effective_rating b" by (auto simp: one_v_one_order_def)
  ultimately show ?thesis using that ab(2) by auto
qed

lemma moderate_sub: "moderate ts \<Longrightarrow> mset sel \<subseteq># mset ts \<Longrightarrow> moderate sel"
  by (auto simp: moderate_def dest: mset_subset_eqD)

interpretation one_builder: candidate_builder one_v_one_build
proof
  fix c ts assume "c \<in> set (one_v_one_build ts)"
  then obtain a b where "one_v_one_pair a b = Some c" "mset [a, b] \<subseteq># mset ts"
    by (rule one_v_one_build_in)
  then show "\<exists>sel. sel \<noteq> [] \<and> mset sel \<subseteq># mset ts \<and> made_of c sel \<and> (moderate ts \<longrightarrow> within_windows sel)"
    using one_v_one_pairD(1) one_v_one_window moderate_sub [of ts "[a, b]"]
    by (intro exI [of _ "[a, b]"]) auto
qed

section \<open>Groups\<close>

definition ticket_size :: "party_ticket list \<Rightarrow> nat \<Rightarrow> nat" where
  "ticket_size t i = length (pt_members (t ! i))"

definition group_size :: "party_ticket list \<Rightarrow> nat list \<Rightarrow> nat" where
  "group_size t g = sum_list (map (ticket_size t) g)"

lemma group_size_simps [simp]:
  "group_size t [] = 0" "group_size t (i # g) = ticket_size t i + group_size t g"
  "group_size t (g @ h) = group_size t g + group_size t h"
  by (simp_all add: group_size_def)

lemma length_concat_members: "length (concat (map (\<lambda>i. pt_members (t ! i)) g)) = group_size t g"
  by (simp add: length_concat group_size_def ticket_size_def [abs_def] comp_def)

text \<open>A selection of \<open>is\<close> that completes a group.\<close>

definition completes :: "party_ticket list \<Rightarrow> nat list \<Rightarrow> nat \<Rightarrow> nat list \<Rightarrow> bool" where
  "completes t is left s \<longleftrightarrow> subseq s is \<and> group_size t s = left
     \<and> (\<forall>i \<in> set s. 1 \<le> ticket_size t i \<and> ticket_size t i \<le> 5)"

lemma completes_Nil [simp]: "completes t [] left s \<longleftrightarrow> s = [] \<and> left = 0"
  unfolding completes_def by (cases s) auto

lemma completes_Cons:
  "completes t (i # is) left s \<longleftrightarrow> completes t is left s \<or>
    (\<exists>s'. s = i # s' \<and> 1 \<le> ticket_size t i \<and> ticket_size t i \<le> 5 \<and> ticket_size t i \<le> left
       \<and> completes t is (left - ticket_size t i) s')"
  by (cases s) (auto simp: completes_def subseq_Cons2_iff split: if_splits dest: subseq_Cons')

lemma subsets_loop_prefix: "\<exists>more. subsets_loop t budget is left c out = out @ more"
proof (induction t budget "is" left c out rule: subsets_loop.induct)
  case (2 t budget i "is" left c out)
  then show ?case by (auto simp: Let_def) (metis append.assoc)+
qed simp

lemma subsets_loop_sound:
  "0 < left \<Longrightarrow> g \<in> set (subsets_loop t budget is left c out)
    \<Longrightarrow> g \<in> set out \<or> (\<exists>s. g = c @ s \<and> completes t is left s)"
proof (induction t budget "is" left c out arbitrary: g rule: subsets_loop.induct)
  case (2 t budget i "is" left c out)
  let ?n = "length (pt_members (t ! i))"
  let ?ok = "1 \<le> ?n \<and> ?n \<le> 5 \<and> ?n \<le> left"
  let ?out1 = "if ?ok then (if length out \<ge> budget then out else if left - ?n = 0 then out @ [c @ [i]]
      else subsets_loop t budget is (left - ?n) (c @ [i]) out) else out"
  have out1: "h \<in> set out \<or> (\<exists>s. h = c @ s \<and> completes t (i # is) left s)" if "h \<in> set ?out1" for h
  proof (cases "?ok \<and> \<not> length out \<ge> budget")
    case True
    show ?thesis
    proof (cases "left - ?n = 0")
      case True
      with that \<open>?ok \<and> \<not> length out \<ge> budget\<close> have "h \<in> set out \<or> h = c @ [i]" by auto
      moreover have "completes t (i # is) left [i]"
        using True \<open>?ok \<and> \<not> length out \<ge> budget\<close> by (auto simp: completes_def ticket_size_def)
      ultimately show ?thesis by blast
    next
      case False
      have "h \<in> set (subsets_loop t budget is (left - ?n) (c @ [i]) out)"
        using that False \<open>?ok \<and> \<not> length out \<ge> budget\<close> by auto
      with "2.IH"(1) [of ?n h] False \<open>?ok \<and> \<not> length out \<ge> budget\<close>
      have "h \<in> set out \<or> (\<exists>s. h = (c @ [i]) @ s \<and> completes t is (left - ?n) s)" by auto
      then show ?thesis
        using \<open>?ok \<and> \<not> length out \<ge> budget\<close> by (auto simp: completes_Cons ticket_size_def)
    qed
  next
    case False
    with that show ?thesis by (auto split: if_splits)
  qed
  have "g \<in> set (subsets_loop t budget is left c ?out1)" using "2.prems"(2) by (simp add: Let_def)
  with "2.IH"(2) [of ?n ?out1 g] "2.prems"(1) show ?case
    using out1 [of g] by (auto simp: completes_Cons)
qed auto

lemma subsets_loop_complete:
  "0 < left \<Longrightarrow> length (subsets_loop t budget is left c out) < budget \<Longrightarrow> completes t is left s
    \<Longrightarrow> c @ s \<in> set (subsets_loop t budget is left c out)"
proof (induction t budget "is" left c out arbitrary: s rule: subsets_loop.induct)
  case (2 t budget i "is" left c out)
  let ?n = "length (pt_members (t ! i))"
  let ?ok = "1 \<le> ?n \<and> ?n \<le> 5 \<and> ?n \<le> left"
  let ?out1 = "if ?ok then (if length out \<ge> budget then out else if left - ?n = 0 then out @ [c @ [i]]
      else subsets_loop t budget is (left - ?n) (c @ [i]) out) else out"
  let ?res = "subsets_loop t budget is left c ?out1"
  have res: "subsets_loop t budget (i # is) left c out = ?res" by (simp add: Let_def)
  obtain more where more: "?res = ?out1 @ more" using subsets_loop_prefix by blast
  have len: "length ?out1 < budget" using "2.prems"(2) res more by simp
  have len0: "length out < budget"
  proof -
    obtain m where "subsets_loop t budget (i # is) left c out = out @ m" using subsets_loop_prefix by blast
    with "2.prems"(2) show ?thesis by simp
  qed
  from "2.prems"(3) consider (skip) "completes t is left s"
    | (take) s' where "s = i # s'" "?ok" "completes t is (left - ?n) s'"
    by (auto simp: completes_Cons ticket_size_def)
  then show ?case
  proof cases
    case skip
    with "2.IH"(2) [of ?n ?out1 s] "2.prems" res show ?thesis by simp
  next
    case take
    have "c @ s \<in> set ?out1"
    proof (cases "left - ?n = 0")
      case True
      have "s' = []" using take(3) True by (cases s') (auto simp: completes_def)
      with True take len0 show ?thesis by simp
    next
      case False
      with "2.IH"(1) [of ?n s'] take len len0 show ?thesis by auto
    qed
    then show ?thesis using res more by auto
  qed
qed auto

lemma subsets_loop_length: "length (subsets_loop t budget is left c out) \<le> max (length out) budget"
proof (induction t budget "is" left c out rule: subsets_loop.induct)
  case (2 t budget i "is" left c out)
  then show ?case by (auto simp: Let_def split: if_splits)
qed simp

lemma subsets_bound: "length (subsets t 5 budget) \<le> budget"
  using subsets_loop_length [of t budget "[0..<length t]" 5 "[]" "[]"] by (simp add: subsets_def)

lemma subsets_sound: "g \<in> set (subsets t 5 budget) \<Longrightarrow> completes t [0..<length t] 5 g"
  using subsets_loop_sound [of 5 g t budget "[0..<length t]" "[]" "[]"]
  by (auto simp: subsets_def split: if_splits)

lemma subsets_complete:
  "length (subsets t 5 budget) < budget \<Longrightarrow> completes t [0..<length t] 5 g \<Longrightarrow> g \<in> set (subsets t 5 budget)"
  using subsets_loop_complete [of 5 t budget "[0..<length t]" "[]" "[]" g] by (auto simp: subsets_def split: if_splits)

lemma subseq_upt:
  assumes "subseq g [0..<n]"
  shows "distinct g" "set g \<subseteq> {..<n}"
proof -
  obtain N where g: "g = nths [0..<n] N" using assms by (auto simp: subseq_conv_nths)
  show "distinct g" by (simp add: g distinct_nthsI)
  show "set g \<subseteq> {..<n}" using set_nths_subset [of "[0..<n]" N] by (auto simp: g)
qed

lemma completes_group:
  "completes t [0..<length t] left g \<Longrightarrow> distinct g \<and> set g \<subseteq> {..<length t} \<and> group_size t g = left"
  by (auto simp: completes_def dest: subseq_upt)

lemma mset_select:
  assumes "distinct g" and "set g \<subseteq> {..<length t}"
  shows "mset (map ((!) t) g) \<subseteq># mset t"
proof -
  have "mset_set (set g) \<subseteq># mset_set {..<length t}"
    using assms(2) by (simp add: subset_imp_msubset_mset_set)
  then have "mset g \<subseteq># mset [0..<length t]"
    using assms(1) mset_set_set [of g] mset_set_set [of "[0..<length t]"]
    by (simp add: atLeast0LessThan)
  then have "image_mset ((!) t) (mset g) \<subseteq># image_mset ((!) t) (mset [0..<length t])"
    by (rule image_mset_subseteq_mono)
  moreover have "image_mset ((!) t) (mset [0..<length t]) = mset t"
    by (metis map_nth mset_map)
  ultimately show ?thesis by simp
qed

lemma window_of_selection:
  fixes t :: "party_ticket list"
  assumes "unwrap_or 0 (iter_max (map (\<lambda>i. pt_effective_rating (t ! i)) g))
      - unwrap_or 0 (iter_min (map (\<lambda>i. pt_effective_rating (t ! i)) g))
      \<le> unwrap_or 0 (iter_min (map (\<lambda>i. pt_search_delta (t ! i)) g))"
  shows "within_windows (map ((!) t) g)"
proof (cases "g = []")
  case False
  let ?e = "\<lambda>i. pt_effective_rating (t ! i)" and ?w = "\<lambda>i. pt_search_delta (t ! i)"
  have mn: "Min (?e ` set g) \<le> ?e i" "?e i \<le> Max (?e ` set g)" "Min (?w ` set g) \<le> ?w i"
    if "i \<in> set g" for i using that by simp_all
  have "Max (?e ` set g) - Min (?e ` set g) \<le> Min (?w ` set g)"
    using assms False by (simp add: iter_min_eq iter_max_eq)
  then show ?thesis
    unfolding within_windows_def by (auto simp: abs_le_iff) (smt (verit) mn)+
qed (simp add: within_windows_def)

section \<open>Five versus five\<close>

lemma collect_pairs_in:
  "c \<in> set (collect_pairs t budget ps out) \<Longrightarrow>
    c \<in> set out \<or> (\<exists>a b. (a, b) \<in> set ps \<and> five_v_five_pair t a b = Some c)"
  by (induction t budget ps out rule: collect_pairs.induct) (fastforce split: option.splits if_splits)+

lemma collect_pairs_length:
  "length out < budget \<Longrightarrow> length (collect_pairs t budget ps out) \<le> budget"
  by (induction t budget ps out rule: collect_pairs.induct) (auto split: option.splits)

lemma five_build_length: "length (five_v_five_build t budget) \<le> budget"
proof (cases "budget = 0")
  case True
  then show ?thesis by (simp add: five_v_five_build_def subsets_def)
next
  case False
  then show ?thesis by (simp add: five_v_five_build_def Let_def collect_pairs_length)
qed

lemma five_v_five_pairD:
  assumes "five_v_five_pair t a b = Some c"
  shows "made_of c (map ((!) t) (a @ b))"
    and "set a \<inter> set b = {}"
    and "mirror_allowed t a b"
    and "within_windows (map ((!) t) (a @ b))"
    and "cd_teams c = [concat (map (\<lambda>i. pt_members (t ! i)) a), concat (map (\<lambda>i. pt_members (t ! i)) b)]"
proof -
  have ne: "\<not> list_ex (\<lambda>i. i \<in> set b) a" and mirror: "mirror_allowed t a b"
    using assms by (auto simp: five_v_five_pair_def Let_def split: if_splits)
  then show "set a \<inter> set b = {}" "mirror_allowed t a b" by (auto simp: list_ex_iff)
  show "within_windows (map ((!) t) (a @ b))"
    using assms by (intro window_of_selection) (auto simp: five_v_five_pair_def Let_def split: if_splits)
  show teams: "cd_teams c = [concat (map (\<lambda>i. pt_members (t ! i)) a), concat (map (\<lambda>i. pt_members (t ! i)) b)]"
    using assms ne mirror by (auto simp: five_v_five_pair_def Let_def split: if_splits)
  have "cd_tickets c = map (\<lambda>i. pt_id (t ! i)) (a @ b)"
    using assms ne mirror by (auto simp: five_v_five_pair_def Let_def split: if_splits)
  with teams show "made_of c (map ((!) t) (a @ b))" by (simp add: made_of_def comp_def)
qed

lemma five_build_in:
  assumes "c \<in> set (five_v_five_build t budget)"
  obtains a b where "five_v_five_pair t a b = Some c" "completes t [0..<length t] 5 a"
    "completes t [0..<length t] 5 b"
proof -
  let ?ps = "List.product (subsets t 5 budget) (subsets t 5 budget)"
  from assms have "c \<in> set (collect_pairs t budget ?ps [])" by (simp add: five_v_five_build_def Let_def)
  then obtain a b where "(a, b) \<in> set ?ps" "five_v_five_pair t a b = Some c"
    using collect_pairs_in by fastforce
  with that show ?thesis by (auto dest: subsets_sound)
qed

lemma select_pair:
  assumes "completes t [0..<length t] k a" "completes t [0..<length t] m b" "set a \<inter> set b = {}"
  shows "mset (map ((!) t) (a @ b)) \<subseteq># mset t"
  using completes_group [OF assms(1)] completes_group [OF assms(2)] assms(3)
  by (intro mset_select) auto

interpretation five_builder: candidate_builder "\<lambda>t. five_v_five_build t budget" for budget
proof
  fix c t assume "c \<in> set (five_v_five_build t budget)"
  then obtain a b where ab: "five_v_five_pair t a b = Some c" "completes t [0..<length t] 5 a"
    "completes t [0..<length t] 5 b" by (rule five_build_in)
  have "a \<noteq> []" using ab(2) by (auto simp: completes_def)
  then show "\<exists>sel. sel \<noteq> [] \<and> mset sel \<subseteq># mset t \<and> made_of c sel \<and> (moderate t \<longrightarrow> within_windows sel)"
    using five_v_five_pairD [OF ab(1)] select_pair [OF ab(2,3)]
    by (intro exI [of _ "map ((!) t) (a @ b)"]) simp
qed

text \<open>Both teams have five players; the mirror rule bounds what a team may be favoured by.\<close>

lemma five_build_teams:
  assumes "c \<in> set (five_v_five_build t budget)"
  obtains a b where "cd_teams c = [concat (map (\<lambda>i. pt_members (t ! i)) a), concat (map (\<lambda>i. pt_members (t ! i)) b)]"
    "map length (cd_teams c) = [5, 5]" "mirror_allowed t a b" "set a \<subseteq> {..<length t}" "set b \<subseteq> {..<length t}"
    "cd_tickets c = map (\<lambda>i. pt_id (t ! i)) (a @ b)"
proof -
  obtain a b where ab: "five_v_five_pair t a b = Some c" "completes t [0..<length t] 5 a"
    "completes t [0..<length t] 5 b" using assms by (rule five_build_in)
  have "group_size t a = 5" "group_size t b = 5" using ab(2,3) by (simp_all add: completes_def)
  with five_v_five_pairD [OF ab(1)] completes_group [OF ab(2)] completes_group [OF ab(3)] that [of a b]
  show ?thesis by (simp add: length_concat_members made_of_def comp_def)
qed

section \<open>Free for all\<close>

definition ffa_completes :: "party_ticket list \<Rightarrow> nat list \<Rightarrow> nat \<Rightarrow> nat list \<Rightarrow> bool" where
  "ffa_completes t is left s \<longleftrightarrow> subseq s is \<and> s \<noteq> [] \<and> group_size t s = left
     \<and> (\<forall>i \<in> set s. ticket_size t i \<le> 4)"

lemma ffa_completes_skip: "ffa_completes t is left s \<Longrightarrow> ffa_completes t (i # is) left s"
  by (auto simp: ffa_completes_def)

lemma ffa_completes_take:
  "ffa_completes t is (left - ticket_size t i) s \<Longrightarrow> ticket_size t i \<le> left \<Longrightarrow> ticket_size t i \<le> 4
    \<Longrightarrow> ffa_completes t (i # is) left (i # s)"
  by (auto simp: ffa_completes_def)

lemma ffa_completes_one: "ticket_size t i = left \<Longrightarrow> left \<le> 4 \<Longrightarrow> ffa_completes t (i # is) left [i]"
  by (auto simp: ffa_completes_def)

lemma ffa_loop_sound:
  "x \<in> set (ffa_loop t budget is left c out)
    \<Longrightarrow> x \<in> set out \<or> (\<exists>s. ffa_completes t is left s \<and> ffa_candidate t (c @ s) = Some x)"
proof (induction t budget "is" left c out arbitrary: x rule: ffa_loop.induct)
  case (2 t budget i "is" left c out)
  let ?n = "length (pt_members (t ! i))"
  let ?out1 = "if ?n \<le> left \<and> ?n \<le> 4 then (if length out \<ge> budget then out
      else if left - ?n = 0 then (case ffa_candidate t (c @ [i]) of None \<Rightarrow> out | Some x \<Rightarrow> out @ [x])
      else ffa_loop t budget is (left - ?n) (c @ [i]) out) else out"
  have out1: "y \<in> set out \<or> (\<exists>s. ffa_completes t (i # is) left s \<and> ffa_candidate t (c @ s) = Some y)"
    if y: "y \<in> set ?out1" for y
  proof -
    consider "y \<in> set out" | "?n \<le> 4" "?n = left" "ffa_candidate t (c @ [i]) = Some y"
      | "?n \<le> left" "?n \<le> 4" "\<not> length out \<ge> budget" "left - ?n \<noteq> 0"
        "y \<in> set (ffa_loop t budget is (left - ?n) (c @ [i]) out)"
      using y by (auto split: if_splits option.splits)
    then show ?thesis
    proof cases
      case 2
      then show ?thesis using ffa_completes_one [of t i left "is"] by (auto simp: ticket_size_def)
    next
      case 3
      with "2.IH"(1) [of ?n y]
      have "y \<in> set out \<or> (\<exists>s. ffa_completes t is (left - ?n) s \<and> ffa_candidate t ((c @ [i]) @ s) = Some y)"
        by auto
      then show ?thesis
        using 3 ffa_completes_take [of t "is" left i] by (auto simp: ticket_size_def)
    qed simp
  qed
  have "x \<in> set (ffa_loop t budget is left c ?out1)" using "2.prems" by (simp add: Let_def)
  with "2.IH"(2) [of ?n ?out1 x] show ?case
    using out1 [of x] ffa_completes_skip by blast
qed auto

lemma ffa_loop_length: "length (ffa_loop t budget is left c out) \<le> max (length out) budget"
proof (induction t budget "is" left c out rule: ffa_loop.induct)
  case (2 t budget i "is" left c out)
  let ?n = "length (pt_members (t ! i))"
  let ?out1 = "if ?n \<le> left \<and> ?n \<le> 4 then (if length out \<ge> budget then out
      else if left - ?n = 0 then (case ffa_candidate t (c @ [i]) of None \<Rightarrow> out | Some x \<Rightarrow> out @ [x])
      else ffa_loop t budget is (left - ?n) (c @ [i]) out) else out"
  have eq: "ffa_loop t budget (i # is) left c out = ffa_loop t budget is left c ?out1"
    by (simp only: ffa_loop.simps Let_def)
  have one: "length ?out1 \<le> max (length out) budget"
    using "2.IH"(1) [of ?n] by (auto split: option.split)
  have two: "length (ffa_loop t budget is left c ?out1) \<le> max (length ?out1) budget"
    by (rule "2.IH"(2)) simp_all
  have "a \<le> max b d \<Longrightarrow> b \<le> max e d \<Longrightarrow> a \<le> max e d" for a b d e :: nat by simp
  from this [OF two one] show ?case unfolding eq .
qed simp

lemma ffa_build_length: "length (free_for_all_build t budget) \<le> budget"
  using ffa_loop_length [of t budget "[0..<length t]" 8 "[]" "[]"] by (simp add: free_for_all_build_def)

lemma ffa_build_in:
  assumes "x \<in> set (free_for_all_build t budget)"
  obtains g where "ffa_completes t [0..<length t] 8 g" "ffa_candidate t g = Some x"
  using ffa_loop_sound [of x t budget "[0..<length t]" 8 "[]" "[]"] assms that
  by (auto simp: free_for_all_build_def split: if_splits)

lemma ffa_candidateD:
  assumes "ffa_candidate t g = Some x"
  shows "made_of x (map ((!) t) g)"
    and "cd_teams x = map (\<lambda>p. [p]) (concat (map (\<lambda>i. pt_members (t ! i)) g))"
    and "moderate (map ((!) t) g) \<Longrightarrow> within_windows (map ((!) t) g)"
proof -
  have singletons: "concat (map (\<lambda>p. [p]) ps) = ps" for ps :: "'a list" by (induction ps) auto
  show teams: "cd_teams x = map (\<lambda>p. [p]) (concat (map (\<lambda>i. pt_members (t ! i)) g))"
    using assms by (auto simp: ffa_candidate_def Let_def split: if_splits)
  have "cd_tickets x = map (\<lambda>i. pt_id (t ! i)) g"
    using assms by (auto simp: ffa_candidate_def Let_def split: if_splits)
  then show "made_of x (map ((!) t) g)" by (simp add: made_of_def teams singletons comp_def)
  assume mod: "moderate (map ((!) t) g)"
  let ?mn = "unwrap_or 0 (iter_min (map (\<lambda>i. pt_effective_rating (t ! i)) g))"
  let ?mx = "unwrap_or 0 (iter_max (map (\<lambda>i. pt_effective_rating (t ! i)) g))"
  have "in_i32 (?mx - ?mn)"
  proof (cases "g = []")
    case False
    define E where "E = (\<lambda>i. pt_effective_rating (t ! i)) ` set g"
    have E: "finite E" "E \<noteq> {}" "\<forall>x \<in> E. - 1073741824 \<le> x \<and> x \<le> 1073741823"
      using False mod by (auto simp: E_def moderate_def)
    then have "Min E \<in> E" "Max E \<in> E" by simp_all
    with E(3) have "- 1073741824 \<le> Min E \<and> Min E \<le> 1073741823 \<and> - 1073741824 \<le> Max E \<and> Max E \<le> 1073741823"
      by blast
    then have "in_i32 (Max E - Min E)" by (simp add: in_i32_def)
    then show ?thesis using False by (simp add: iter_min_eq iter_max_eq E_def)
  qed (simp add: in_i32_def iter_min_eq iter_max_eq)
  then show "within_windows (map ((!) t) g)"
    using assms by (intro window_of_selection) (auto simp: ffa_candidate_def Let_def split: if_splits)
qed

lemma ffa_completes_select:
  assumes "ffa_completes t [0..<length t] k g"
  shows "mset (map ((!) t) g) \<subseteq># mset t"
  using subseq_upt [of g "length t"] assms by (intro mset_select) (auto simp: ffa_completes_def)

interpretation ffa_builder: candidate_builder "\<lambda>t. free_for_all_build t budget" for budget
proof
  fix c t assume "c \<in> set (free_for_all_build t budget)"
  then obtain g where g: "ffa_completes t [0..<length t] 8 g" "ffa_candidate t g = Some c"
    by (rule ffa_build_in)
  show "\<exists>sel. sel \<noteq> [] \<and> mset sel \<subseteq># mset t \<and> made_of c sel \<and> (moderate t \<longrightarrow> within_windows sel)"
    using ffa_candidateD [OF g(2)] ffa_completes_select [OF g(1)] g(1)
      moderate_sub [of t "map ((!) t) g"]
    by (intro exI [of _ "map ((!) t) g"]) (auto simp: ffa_completes_def)
qed

lemma ffa_build_teams:
  assumes "c \<in> set (free_for_all_build t budget)"
  shows "length (cd_teams c) = 8" and "\<forall>team \<in> set (cd_teams c). length team = 1"
proof -
  obtain g where g: "ffa_completes t [0..<length t] 8 g" "ffa_candidate t g = Some c"
    using assms by (rule ffa_build_in)
  show "length (cd_teams c) = 8" "\<forall>team \<in> set (cd_teams c). length team = 1"
    using ffa_candidateD(2) [OF g(2)] g(1) by (auto simp: length_concat_members ffa_completes_def)
qed

section \<open>The builder of a mode\<close>

interpretation mode_builder: candidate_builder "build_for_mode mode" for mode
proof (cases mode)
  case OneVsOne
  then show "candidate_builder (build_for_mode mode)"
    using one_builder.candidate_builder_axioms by (simp add: build_for_mode_def [abs_def])
next
  case FiveVsFive
  then show "candidate_builder (build_for_mode mode)"
    using five_builder.candidate_builder_axioms [of 1024] by (simp add: build_for_mode_def [abs_def])
next
  case FreeForAll
  then show "candidate_builder (build_for_mode mode)"
    using ffa_builder.candidate_builder_axioms [of 1024] by (simp add: build_for_mode_def [abs_def])
qed

end
