(* ===== verification/Dispatcher.thy ===== *)
theory Dispatcher
  imports Builder_Laws
begin

text \<open>
  \<open>core/src/matching/dispatcher.rs\<close>: the snapshot is cut into one partition per owner bucket
  with its halo, every partition is searched by the builder until its budget is used or nothing
  is found, and the results are merged in a canonical order. The thread pool only changes how
  the partitions are scheduled: the parallel iterators of \<open>rayon\<close> collect in the order of
  the partitions, so the number of workers is not an argument of the model.
\<close>

definition candidate_order :: "candidate \<Rightarrow> u64 \<times> (i32 \<times> i32 \<times> i32) \<times> u64 \<times> ticket_id list" where
  "candidate_order c = (cd_oldest_enqueued_at c, cd_quality_key c, cd_owner_shard c, stable_ticket_ids c)"

definition sort_candidates :: "candidate list \<Rightarrow> candidate list" where
  "sort_candidates items = sort_key candidate_order items"

type_synonym bucket_id = "rstr \<times> queue_mode \<times> i32"

definition owner_of :: "party_ticket \<Rightarrow> bucket_id" where
  "owner_of t = (pt_region t, pt_mode t, pt_effective_rating t div 100)"

definition owners :: "party_ticket list \<Rightarrow> bucket_id list" where
  "owners tickets = sort (remdups (map owner_of tickets))"

definition in_partition :: "bucket_id \<Rightarrow> party_ticket \<Rightarrow> bool" where
  "in_partition owner t = (case owner of (region, mode, bucket) \<Rightarrow>
     pt_region t = region \<and> pt_mode t = mode
     \<and> \<bar>pt_effective_rating t div 100 - bucket\<bar>
        \<le> trunc_div (wrap_i32 (max (pt_search_delta t) 0 + 99)) 100)"

definition partitions :: "party_ticket list \<Rightarrow> (u64 \<times> party_ticket list) list" where
  "partitions tickets = map (\<lambda>(shard, owner). (of_nat shard, filter (in_partition owner) tickets))
     (enumerate 0 (owners tickets))"

text \<open>One pass over the sorted candidates: the list \<open>local\<close>, the claimed tickets and the
  number of candidates selected.\<close>

fun select_disjoint :: "nat \<Rightarrow> candidate list \<Rightarrow> candidate list \<Rightarrow> ticket_id set \<Rightarrow> nat
    \<Rightarrow> candidate list \<times> ticket_id set \<times> nat" where
  "select_disjoint budget [] loc claimed selected = (loc, claimed, selected)"
| "select_disjoint budget (c # cs) loc claimed selected =
    (if list_ex (\<lambda>i. i \<in> claimed) (cd_tickets c) then select_disjoint budget cs loc claimed selected
     else let claimed = claimed \<union> set (cd_tickets c); loc = loc @ [c]; selected = selected + 1
          in if length loc = budget then (loc, claimed, selected)
             else select_disjoint budget cs loc claimed selected)"

lemma select_disjoint_length:
  "select_disjoint budget cs loc claimed k = (loc', claimed', k') \<Longrightarrow>
    length loc' + k = length loc + k' \<and> (length loc < budget \<longrightarrow> length loc' \<le> budget)"
  by (induction budget cs loc claimed k rule: select_disjoint.induct)
    (auto simp: Let_def split: if_splits)

function shard_loop :: "(party_ticket list \<Rightarrow> candidate list) \<Rightarrow> nat \<Rightarrow> u64 \<Rightarrow> party_ticket list
    \<Rightarrow> candidate list \<Rightarrow> candidate list" where
  "shard_loop build budget owner remaining loc =
    (if length loc < budget then
       (case select_disjoint budget
          (sort_candidates (map (\<lambda>c. c\<lparr>cd_owner_shard := owner\<rparr>) (build remaining))) loc {} 0 of
        (loc', claimed, selected) \<Rightarrow>
          if selected = 0 then loc'
          else shard_loop build budget owner (filter (\<lambda>t. pt_id t \<notin> claimed) remaining) loc')
     else loc)"
  by pat_completeness auto
termination
  by (relation "measure (\<lambda>(build, budget, owner, remaining, loc). budget - length loc)")
    (auto dest!: select_disjoint_length [OF sym])

declare shard_loop.simps [simp del]

definition generate :: "(party_ticket list \<Rightarrow> candidate list) \<Rightarrow> nat \<Rightarrow> party_ticket list \<Rightarrow> candidate list" where
  "generate build budget tickets =
    sort_candidates (concat (map (\<lambda>(shard, part). shard_loop build budget shard part []) (partitions tickets)))"

section \<open>Facts that hold for every builder\<close>

lemma mset_sort_candidates [simp]: "mset (sort_candidates cs) = mset cs"
  by (simp add: sort_candidates_def)

lemma set_sort_candidates [simp]: "set (sort_candidates cs) = set cs"
  by (simp add: sort_candidates_def)

lemma sorted_sort_candidates: "sorted (map candidate_order (sort_candidates cs))"
  by (simp add: sort_candidates_def)

lemma set_owners [simp]: "set (owners ts) = owner_of ` set ts"
  by (simp add: owners_def)

lemma distinct_owners [simp]: "distinct (owners ts)"
  by (simp add: owners_def)

lemma partitions_in:
  assumes "(shard, part) \<in> set (partitions ts)"
  obtains owner where "owner \<in> owner_of ` set ts" "part = filter (in_partition owner) ts"
proof -
  obtain p where "p \<in> set (enumerate 0 (owners ts))"
    "(shard, part) = (\<lambda>(shard, owner). (of_nat shard, filter (in_partition owner) ts)) p"
    using assms by (auto simp: partitions_def)
  moreover obtain k owner where "p = (k, owner)" by (cases p)
  ultimately have "owner \<in> set (owners ts)" "part = filter (in_partition owner) ts"
    by (auto simp: in_set_enumerate_eq simp del: set_owners)
  with that show ?thesis by simp
qed

lemma select_disjoint_prefix:
  "select_disjoint budget cs loc claimed k = (loc', claimed', k') \<Longrightarrow>
    \<exists>new. loc' = loc @ new \<and> set new \<subseteq> set cs \<and> length new + k = k'
      \<and> claimed' = claimed \<union> (\<Union>c \<in> set new. set (cd_tickets c))
      \<and> (\<forall>c \<in> set new. set (cd_tickets c) \<inter> claimed = {})
      \<and> sorted_wrt (\<lambda>c d. set (cd_tickets c) \<inter> set (cd_tickets d) = {}) new"
proof (induction budget cs loc claimed k rule: select_disjoint.induct)
  case (2 budget c cs loc claimed k)
  show ?case
  proof (cases "list_ex (\<lambda>i. i \<in> claimed) (cd_tickets c)")
    case True
    with 2 show ?thesis by fastforce
  next
    case fresh: False
    then have dis: "set (cd_tickets c) \<inter> claimed = {}" by (auto simp: list_ex_iff)
    show ?thesis
    proof (cases "length (loc @ [c]) = budget")
      case True
      with 2 fresh dis show ?thesis by (intro exI [of _ "[c]"]) (auto simp: Let_def)
    next
      case False
      have step: "select_disjoint budget cs (loc @ [c]) (claimed \<union> set (cd_tickets c)) (k + 1) = (loc', claimed', k')"
        using "2.prems" fresh False by (simp add: Let_def)
      obtain new where new: "loc' = (loc @ [c]) @ new" "set new \<subseteq> set cs" "length new + (k + 1) = k'"
        "claimed' = (claimed \<union> set (cd_tickets c)) \<union> (\<Union>c \<in> set new. set (cd_tickets c))"
        "\<forall>d \<in> set new. set (cd_tickets d) \<inter> (claimed \<union> set (cd_tickets c)) = {}"
        "sorted_wrt (\<lambda>c d. set (cd_tickets c) \<inter> set (cd_tickets d) = {}) new"
        using "2.IH"(2) [OF fresh refl refl refl False step] by blast
      then show ?thesis using dis by (intro exI [of _ "c # new"]) auto
    qed
  qed
qed simp

text \<open>With nothing claimed the first candidate is always selected.\<close>

lemma select_disjoint_none:
  "select_disjoint budget cs loc {} 0 = (loc', claimed, 0) \<Longrightarrow> cs = [] \<and> loc' = loc"
  using select_disjoint_prefix [of budget cs loc "{}" 0 loc' claimed 0]
proof (cases cs)
  case (Cons c ds)
  assume "select_disjoint budget cs loc {} 0 = (loc', claimed, 0)"
  with Cons have "select_disjoint budget ds (loc @ [c]) (set (cd_tickets c)) 1 = (loc', claimed, 0)"
    by (auto simp: Let_def list_ex_iff split: if_splits)
  from select_disjoint_prefix [OF this] show ?thesis by auto
qed auto

lemma shard_loop_length: "length loc \<le> budget \<Longrightarrow> length (shard_loop build budget owner rest loc) \<le> budget"
proof (induction build budget owner rest loc rule: shard_loop.induct)
  case (1 build budget owner rest loc)
  obtain loc' claimed k where sel: "select_disjoint budget
      (sort_candidates (map (\<lambda>c. c\<lparr>cd_owner_shard := owner\<rparr>) (build rest))) loc {} 0 = (loc', claimed, k)"
    by (metis prod_cases3)
  show ?case
    using 1 sel select_disjoint_length [OF sel] by (simp add: shard_loop.simps [of build budget owner rest loc])
qed

text \<open>The loop by its invariant: what holds initially and survives a round that appends the
  disjoint candidates \<open>new\<close> and drops their tickets holds at the end, and a loop that ends
  below the budget ends because the builder finds nothing in what is left.\<close>

abbreviation taken :: "candidate list \<Rightarrow> ticket_id set" where
  "taken cs \<equiv> (\<Union>c \<in> set cs. set (cd_tickets c))"

abbreviation pairwise_disjoint :: "candidate list \<Rightarrow> bool" where
  "pairwise_disjoint cs \<equiv> sorted_wrt (\<lambda>c d. set (cd_tickets c) \<inter> set (cd_tickets d) = {}) cs"

lemma shard_loop_invariant:
  assumes step: "\<And>rest loc new. I rest loc
      \<Longrightarrow> set new \<subseteq> (\<lambda>c. c\<lparr>cd_owner_shard := owner\<rparr>) ` set (build rest) \<Longrightarrow> pairwise_disjoint new
      \<Longrightarrow> I (filter (\<lambda>t. pt_id t \<notin> taken new) rest) (loc @ new)"
    and "I rest loc"
  shows "\<exists>rest'. I rest' (shard_loop build budget owner rest loc)
    \<and> (length (shard_loop build budget owner rest loc) < budget \<longrightarrow> build rest' = [])"
  using assms
proof (induction build budget owner rest loc rule: shard_loop.induct)
  case (1 build budget owner rest loc)
  let ?cs = "sort_candidates (map (\<lambda>c. c\<lparr>cd_owner_shard := owner\<rparr>) (build rest))"
  obtain loc' claimed k where sel: "select_disjoint budget ?cs loc {} 0 = (loc', claimed, k)"
    by (metis prod_cases3)
  obtain new where new: "loc' = loc @ new" "set new \<subseteq> set ?cs" "length new = k"
    "claimed = taken new" "pairwise_disjoint new"
    using select_disjoint_prefix [OF sel] by auto
  consider "\<not> length loc < budget" | "length loc < budget" "k = 0" | "length loc < budget" "k \<noteq> 0" by blast
  then show ?case
  proof cases
    case 1
    then show ?thesis using \<open>I rest loc\<close> by (auto simp: shard_loop.simps [of build budget owner rest loc])
  next
    case 2
    then have "?cs = []" "loc' = loc" using select_disjoint_none [of budget ?cs loc loc' claimed] sel by auto
    then have "set ?cs = {}" by (simp only: list.set)
    with 2 \<open>I rest loc\<close> sel \<open>loc' = loc\<close> show ?thesis
      by (auto simp: shard_loop.simps [of build budget owner rest loc])
  next
    case 3
    have "I (filter (\<lambda>t. pt_id t \<notin> claimed) rest) loc'"
      using "1.prems" new by auto
    with "1.IH" [OF 3(1) sel [symmetric] refl 3(2)] "1.prems"(1) 3 sel show ?thesis
      by (simp add: shard_loop.simps [of build budget owner rest loc])
  qed
qed

section \<open>The shards of a builder that keeps the contract\<close>

lemma made_of_owner [simp]: "made_of (c\<lparr>cd_owner_shard := s\<rparr>) sel = made_of c sel"
  by (simp add: made_of_def)

lemma moderate_filter: "moderate ts \<Longrightarrow> moderate (filter P ts)"
  by (simp add: moderate_def)

text \<open>A candidate from a part of the snapshot.\<close>

definition drawn_from :: "party_ticket list \<Rightarrow> candidate \<Rightarrow> bool" where
  "drawn_from part c \<longleftrightarrow> (\<exists>sel. sel \<noteq> [] \<and> mset sel \<subseteq># mset part \<and> made_of c sel
     \<and> (moderate part \<longrightarrow> within_windows sel))"

lemma drawn_from_owner [simp]: "drawn_from part (c\<lparr>cd_owner_shard := s\<rparr>) = drawn_from part c"
  by (simp add: drawn_from_def)

lemma drawn_from_filter: "drawn_from (filter P part) c \<Longrightarrow> drawn_from part c"
  unfolding drawn_from_def
  by (metis mset_filter multiset_filter_subset subset_mset.order_trans moderate_filter)

lemma drawn_from_tickets: "drawn_from part c \<Longrightarrow> set (cd_tickets c) \<subseteq> pt_id ` set part \<and> cd_tickets c \<noteq> []"
  by (force simp: drawn_from_def made_of_def dest: mset_subset_eqD)

context candidate_builder
begin

lemma drawn_build: "c \<in> set (build ts) \<Longrightarrow> drawn_from ts c"
  using law_selection [of c ts] by (simp add: drawn_from_def)

lemma shard_sound:
  fixes budget :: nat and owner :: u64 and part :: "party_ticket list"
  defines "r \<equiv> shard_loop build budget owner part []"
  shows "pairwise_disjoint r" and "\<forall>c \<in> set r. drawn_from part c \<and> cd_owner_shard c = owner"
    and "length r < budget \<Longrightarrow> build (filter (\<lambda>t. pt_id t \<notin> taken r) part) = []"
proof -
  let ?I = "\<lambda>rest loc. rest = filter (\<lambda>t. pt_id t \<notin> taken loc) part \<and> pairwise_disjoint loc
    \<and> (\<forall>c \<in> set loc. drawn_from part c \<and> cd_owner_shard c = owner)"
  have "\<exists>rest'. ?I rest' r \<and> (length r < budget \<longrightarrow> build rest' = [])"
    unfolding r_def
  proof (rule shard_loop_invariant)
    fix rest loc new
    assume I: "?I rest loc" and new: "set new \<subseteq> (\<lambda>c. c\<lparr>cd_owner_shard := owner\<rparr>) ` set (build rest)"
      and dis: "pairwise_disjoint new"
    have drawn: "drawn_from rest c" "cd_owner_shard c = owner" if "c \<in> set new" for c
      using that new by (auto dest!: drawn_build)
    have part: "drawn_from part c" if "c \<in> set new" for c
      using drawn(1) [OF that] I drawn_from_filter by blast
    have "set (cd_tickets d) \<inter> set (cd_tickets c) = {}" if "d \<in> set loc" "c \<in> set new" for c d
    proof -
      have "set (cd_tickets c) \<subseteq> pt_id ` set rest" using drawn(1) [OF that(2)] drawn_from_tickets by blast
      with I that(1) show ?thesis by auto
    qed
    then have "pairwise_disjoint (loc @ new)" using I dis by (simp add: sorted_wrt_append)
    moreover have "filter (\<lambda>t. pt_id t \<notin> taken new) rest = filter (\<lambda>t. pt_id t \<notin> taken (loc @ new)) part"
      using I by (auto intro!: filter_cong)
    moreover have "\<forall>c \<in> set (loc @ new). drawn_from part c \<and> cd_owner_shard c = owner"
      using I part drawn(2) by (auto simp del: sorted_wrt_append)
    ultimately show "?I (filter (\<lambda>t. pt_id t \<notin> taken new) rest) (loc @ new)" by blast
  qed simp
  then obtain rest' where "?I rest' r" "length r < budget \<longrightarrow> build rest' = []" by fast
  then show "pairwise_disjoint r" "\<forall>c \<in> set r. drawn_from part c \<and> cd_owner_shard c = owner"
    "length r < budget \<Longrightarrow> build (filter (\<lambda>t. pt_id t \<notin> taken r) part) = []" by simp_all
qed

lemma generate_in:
  assumes "c \<in> set (generate build budget ts)"
  obtains owner where "owner \<in> owner_of ` set ts" "drawn_from (filter (in_partition owner) ts) c"
proof -
  obtain shard part where p: "(shard, part) \<in> set (partitions ts)"
    and c: "c \<in> set (shard_loop build budget shard part [])"
    using assms by (auto simp: generate_def)
  obtain owner where "owner \<in> owner_of ` set ts" "part = filter (in_partition owner) ts"
    by (rule partitions_in [OF p])
  with that c shard_sound(2) [of budget shard part] show ?thesis by auto
qed

lemma generate_selection:
  assumes "c \<in> set (generate build budget ts)"
  obtains sel region mode where "sel \<noteq> []" "mset sel \<subseteq># mset ts" "made_of c sel"
    "\<forall>t \<in> set sel. pt_region t = region \<and> pt_mode t = mode"
    "moderate ts \<Longrightarrow> within_windows sel"
proof -
  obtain owner where "drawn_from (filter (in_partition owner) ts) c"
    using assms by (rule generate_in)
  then obtain sel where sel: "sel \<noteq> []" "mset sel \<subseteq># mset (filter (in_partition owner) ts)"
    "made_of c sel" "moderate (filter (in_partition owner) ts) \<longrightarrow> within_windows sel"
    by (auto simp: drawn_from_def)
  obtain region mode bucket where owner: "owner = (region, mode, bucket)" by (metis prod_cases3)
  have "set sel \<subseteq> set (filter (in_partition owner) ts)" using sel(2) by (auto dest: mset_subset_eqD)
  then have "\<forall>t \<in> set sel. pt_region t = region \<and> pt_mode t = mode"
    by (auto simp: in_partition_def owner)
  moreover have "mset sel \<subseteq># mset ts"
    by (metis sel(2) mset_filter multiset_filter_subset subset_mset.order_trans)
  ultimately show ?thesis using that sel moderate_filter by blast
qed

end

text \<open>Where a generated candidate comes from: the builder, run on what was left of a partition.\<close>

lemma generate_built:
  assumes "c \<in> set (generate build budget ts)"
  obtains rest c0 owner where "c0 \<in> set (build rest)" "c = c0\<lparr>cd_owner_shard := owner\<rparr>"
proof -
  obtain shard part where c: "c \<in> set (shard_loop build budget shard part [])"
    using assms by (auto simp: generate_def)
  let ?from = "\<lambda>c. \<exists>rest c0. c0 \<in> set (build rest) \<and> c = c0\<lparr>cd_owner_shard := shard\<rparr>"
  have "\<exists>rest'. (\<forall>c \<in> set (shard_loop build budget shard part []). ?from c)
     \<and> (length (shard_loop build budget shard part []) < budget \<longrightarrow> build rest' = [])"
    by (rule shard_loop_invariant [where I = "\<lambda>rest loc. \<forall>c \<in> set loc. ?from c"]) (auto 0 3)
  with c that show thesis by blast
qed

lemma generate_sorted: "sorted (map candidate_order (generate build budget ts))"
  by (simp add: generate_def sorted_sort_candidates)

lemma length_partitions: "length (partitions ts) = card (owner_of ` set ts)"
  using distinct_card [OF distinct_owners, of ts] by (simp add: partitions_def)

lemma generate_length: "length (generate build budget ts) \<le> budget * card (owner_of ` set ts)"
proof -
  have "length (concat (map (\<lambda>(shard, part). shard_loop build budget shard part []) ps)) \<le> budget * length ps"
    for ps using shard_loop_length [of "[]" budget build]
    by (induction ps) (auto intro: add_mono)
  from this [of "partitions ts"] have
    "size (mset (generate build budget ts)) \<le> budget * length (partitions ts)"
    by (simp add: generate_def)
  then show ?thesis by (simp add: length_partitions)
qed

end
