(* ===== verification/Rating.thy ===== *)
theory Rating
  imports Components Complex_Main
begin

text \<open>
  \<open>core/src/rating.rs\<close>: the Elo updates. The type \<open>f64\<close> is a real number, an infinity or
  NaN (the sign of a zero is not kept: no operation used here tells the zeros apart). How an
  exact result is rounded to a double and what \<open>10f64.powf\<close> returns belong to the platform:
  they are the fields of \<open>f64_env\<close>, and \<open>f64_arith\<close> lists the IEEE properties the lemmas
  use. A failed \<open>assert_eq!\<close> and the panic of \<open>clamp\<close> on an empty range are \<open>None\<close>.
\<close>

section \<open>Doubles\<close>

datatype f64 = NegInf | Fin real | PosInf | NaN

record f64_env =
  fe_fl :: "real \<Rightarrow> f64"
  fe_pow10 :: "f64 \<Rightarrow> f64"

fun f_neg :: "f64 \<Rightarrow> f64" where
  "f_neg NegInf = PosInf"
| "f_neg PosInf = NegInf"
| "f_neg (Fin a) = Fin (- a)"
| "f_neg NaN = NaN"

fun f_add :: "f64_env \<Rightarrow> f64 \<Rightarrow> f64 \<Rightarrow> f64" where
  "f_add E (Fin a) (Fin b) = fe_fl E (a + b)"
| "f_add E NaN y = NaN"
| "f_add E x NaN = NaN"
| "f_add E PosInf y = (if y = NegInf then NaN else PosInf)"
| "f_add E NegInf y = (if y = PosInf then NaN else NegInf)"
| "f_add E (Fin a) y = y"

definition f_sub :: "f64_env \<Rightarrow> f64 \<Rightarrow> f64 \<Rightarrow> f64" where
  "f_sub E x y = f_add E x (f_neg y)"

text \<open>An infinity times a number with the sign of \<open>s\<close>.\<close>

definition signed_inf :: "real \<Rightarrow> f64" where
  "signed_inf s = (if s > 0 then PosInf else if s < 0 then NegInf else NaN)"

fun f_mul :: "f64_env \<Rightarrow> f64 \<Rightarrow> f64 \<Rightarrow> f64" where
  "f_mul E (Fin a) (Fin b) = fe_fl E (a * b)"
| "f_mul E NaN y = NaN"
| "f_mul E x NaN = NaN"
| "f_mul E PosInf y = (case y of Fin b \<Rightarrow> signed_inf b | _ \<Rightarrow> y)"
| "f_mul E NegInf y = (case y of Fin b \<Rightarrow> signed_inf (- b) | _ \<Rightarrow> f_neg y)"
| "f_mul E (Fin a) PosInf = signed_inf a"
| "f_mul E (Fin a) NegInf = signed_inf (- a)"

fun f_div :: "f64_env \<Rightarrow> f64 \<Rightarrow> f64 \<Rightarrow> f64" where
  "f_div E (Fin a) (Fin b) = (if b = 0 then signed_inf a else fe_fl E (a / b))"
| "f_div E NaN y = NaN"
| "f_div E x NaN = NaN"
| "f_div E PosInf y = (case y of Fin b \<Rightarrow> (if b < 0 then NegInf else PosInf) | _ \<Rightarrow> NaN)"
| "f_div E NegInf y = (case y of Fin b \<Rightarrow> (if b < 0 then PosInf else NegInf) | _ \<Rightarrow> NaN)"
| "f_div E (Fin a) y = Fin 0"

fun f_le :: "f64 \<Rightarrow> f64 \<Rightarrow> bool" where
  "f_le NaN y = False"
| "f_le x NaN = False"
| "f_le NegInf y = True"
| "f_le x PosInf = True"
| "f_le (Fin a) (Fin b) = (a \<le> b)"
| "f_le x y = False"

text \<open>\<open>f64::round\<close>: to the nearest integer, halves away from zero.\<close>

definition round_away :: "real \<Rightarrow> int" where
  "round_away a = (if 0 \<le> a then \<lfloor>a + 1 / 2\<rfloor> else - \<lfloor>- a + 1 / 2\<rfloor>)"

fun f_round :: "f64 \<Rightarrow> f64" where
  "f_round (Fin a) = Fin (of_int (round_away a))"
| "f_round x = x"

definition f_clamp :: "f64 \<Rightarrow> f64 \<Rightarrow> f64 \<Rightarrow> f64 option" where
  "f_clamp lo hi x = (if f_le lo hi then Some (if x = NaN then NaN else if \<not> f_le lo x then lo
     else if \<not> f_le x hi then hi else x) else None)"

text \<open>The saturating cast \<open>as i32\<close>.\<close>

fun f_as_i32 :: "f64 \<Rightarrow> i32" where
  "f_as_i32 (Fin a) = sat_i32 (if 0 \<le> a then \<lfloor>a\<rfloor> else \<lceil>a\<rceil>)"
| "f_as_i32 PosInf = i32_max"
| "f_as_i32 NegInf = i32_min"
| "f_as_i32 NaN = 0"

text \<open>\<open>x as f64\<close> for an \<open>i32\<close> and \<open>i32::clamp\<close>.\<close>

definition f_of_int :: "int \<Rightarrow> f64" where
  "f_of_int i = Fin (of_int i)"

definition i32_clamp :: "i32 \<Rightarrow> i32 \<Rightarrow> i32 \<Rightarrow> i32 option" where
  "i32_clamp lo hi x = (if lo \<le> hi then Some (clamp_int lo hi x) else None)"

section \<open>The updates\<close>

record rating_policy =
  rp_established_k :: f64
  rp_provisional_k :: f64
  rp_provisional_matches :: u32
  rp_maximum_delta :: i32

definition default_rating_policy :: rating_policy where
  "default_rating_policy = \<lparr>rp_established_k = Fin 20, rp_provisional_k = Fin 40,
     rp_provisional_matches = 10, rp_maximum_delta = 40\<rparr>"

definition expected :: "f64_env \<Rightarrow> i32 \<Rightarrow> i32 \<Rightarrow> f64" where
  "expected E a b = f_div E (Fin 1) (f_add E (Fin 1)
     (fe_pow10 E (f_div E (f_of_int (wrap_i32 (b - a))) (Fin 400))))"

definition delta :: "f64_env \<Rightarrow> i32 \<Rightarrow> i32 \<Rightarrow> f64 \<Rightarrow> u32 \<Rightarrow> rating_policy \<Rightarrow> i32 option" where
  "delta E current opponent actual completed p =
    (let k = (if completed < rp_provisional_matches p then rp_provisional_k p else rp_established_k p);
         raw = f_round (f_mul E k (f_sub E actual (expected E current opponent)))
     in map_option f_as_i32
          (f_clamp (f_neg (f_of_int (rp_maximum_delta p))) (f_of_int (rp_maximum_delta p)) raw))"

definition add_delta :: "i32 \<Rightarrow> i32 option \<Rightarrow> i32 option" where
  "add_delta rating d = map_option (\<lambda>d. wrap_i32 (rating + d)) d"

definition one_vs_one :: "f64_env \<Rightarrow> i32 \<Rightarrow> i32 \<Rightarrow> f64 \<Rightarrow> u32 \<Rightarrow> u32 \<Rightarrow> rating_policy \<Rightarrow> (i32 \<times> i32) option" where
  "one_vs_one E a b a_score a_completed b_completed p =
    (case add_delta a (delta E a b a_score a_completed p) of None \<Rightarrow> None
     | Some a' \<Rightarrow> (case add_delta b (delta E b a (f_sub E (Fin 1) a_score) b_completed p) of None \<Rightarrow> None
       | Some b' \<Rightarrow> Some (a', b')))"

definition mean :: "i32 list \<Rightarrow> i32" where
  "mean ratings = (if ratings = [] then 0
     else trunc_div (wrap_i32 (sum_list ratings)) (wrap_i32 (int (length ratings))))"

definition team_update_with_completed :: "f64_env \<Rightarrow> i32 list \<Rightarrow> i32 list \<Rightarrow> u32 list \<Rightarrow> u32 list
    \<Rightarrow> rating_policy \<Rightarrow> (i32 list \<times> i32 list) option" where
  "team_update_with_completed E winners losers winner_completed loser_completed p =
    (if length winners \<noteq> length winner_completed \<or> length losers \<noteq> length loser_completed then None
     else let wa = mean winners; la = mean losers
       in case all_some (map (\<lambda>(rating, completed).
              add_delta rating (delta E rating la (Fin 1) completed p)) (zip winners winner_completed)) of
            None \<Rightarrow> None
          | Some w \<Rightarrow> (case all_some (map (\<lambda>(rating, completed).
                add_delta rating (delta E rating wa (Fin 0) completed p)) (zip losers loser_completed)) of
              None \<Rightarrow> None
            | Some l \<Rightarrow> Some (w, l)))"

definition team_update :: "f64_env \<Rightarrow> i32 list \<Rightarrow> i32 list \<Rightarrow> rating_policy \<Rightarrow> (i32 list \<times> i32 list) option" where
  "team_update E winners losers p = team_update_with_completed E winners losers
     (replicate (length winners) (rp_provisional_matches p))
     (replicate (length losers) (rp_provisional_matches p)) p"

text \<open>\<open>actual\<close> of player \<open>i\<close> against player \<open>j\<close>.\<close>

definition ffa_actual :: "u8 list \<Rightarrow> nat \<Rightarrow> nat \<Rightarrow> f64" where
  "ffa_actual ranks i j = (if ranks ! i < ranks ! j then Fin 1 else if ranks ! i = ranks ! j then Fin (1 / 2) else Fin 0)"

definition ffa_sum :: "f64_env \<Rightarrow> i32 list \<Rightarrow> u8 list \<Rightarrow> nat \<Rightarrow> f64" where
  "ffa_sum E ratings ranks i = fold (\<lambda>(j, opponent) s. if i = j then s
     else f_add E s (f_sub E (ffa_actual ranks i j) (expected E (ratings ! i) opponent)))
     (enumerate 0 ratings) (Fin 0)"

definition free_for_all :: "f64_env \<Rightarrow> i32 list \<Rightarrow> u8 list \<Rightarrow> rating_policy \<Rightarrow> i32 list option" where
  "free_for_all E ratings ranks p =
    (if length ratings \<noteq> length ranks then None
     else all_some (map (\<lambda>(i, rating).
       let raw = f_as_i32 (f_round (f_div E (f_mul E (rp_established_k p) (ffa_sum E ratings ranks i))
             (f_of_int (int (max (length ratings - 1) 1)))))
       in add_delta rating (i32_clamp (wrap_i32 (- rp_maximum_delta p)) (rp_maximum_delta p) raw))
       (enumerate 0 ratings)))"

definition default_rating :: "queue_mode \<Rightarrow> i32" where
  "default_rating _ = 1000"

section \<open>Bounds that hold on every platform\<close>

lemma round_away_of_int [simp]: "round_away (of_int i) = i"
  by (auto simp: round_away_def floor_unique)

lemma round_away_nonneg: "0 \<le> a \<Longrightarrow> 0 \<le> round_away a"
  by (simp add: round_away_def)

lemma round_away_minus: "round_away (- a) = - round_away a"
  by (auto simp: round_away_def)

lemma round_away_mono: "a \<le> b \<Longrightarrow> round_away a \<le> round_away b"
proof -
  assume ab: "a \<le> b"
  consider "0 \<le> a" | "a < 0" "0 \<le> b" | "b < 0" by linarith
  then show ?thesis
  proof cases
    case 2
    then have "0 \<le> \<lfloor>- a + 1 / 2\<rfloor>" "0 \<le> \<lfloor>b + 1 / 2\<rfloor>" by simp_all
    then have "- \<lfloor>- a + 1 / 2\<rfloor> \<le> \<lfloor>b + 1 / 2\<rfloor>" by linarith
    with 2 show ?thesis by (simp add: round_away_def)
  qed (use ab in \<open>auto simp: round_away_def intro!: floor_mono\<close>)
qed

definition i32_policy :: "rating_policy \<Rightarrow> bool" where
  "i32_policy p \<longleftrightarrow> 0 \<le> rp_maximum_delta p \<and> rp_maximum_delta p \<le> i32_max"

lemma f_clamp_as_i32:
  assumes "0 \<le> m" and "m \<le> i32_max" and "f_clamp (f_neg (f_of_int m)) (f_of_int m) x = Some y"
  shows "\<bar>f_as_i32 y\<bar> \<le> m"
proof -
  have neg: "\<lceil>- real_of_int m\<rceil> = - m" by (simp add: ceiling_minus)
  consider "x = NaN" "y = NaN" | "y = Fin (- of_int m)" | "y = Fin (of_int m)"
    | a where "x = Fin a" "y = Fin a" "- of_int m \<le> a" "a \<le> of_int m"
    using assms(3) by (cases x) (auto simp: f_clamp_def f_of_int_def split: if_splits)
  then show ?thesis
  proof cases
    case (4 a)
    have "\<lfloor>a\<rfloor> \<le> m" "- m \<le> \<lceil>a\<rceil>"
      using 4 by linarith+
    then have "\<bar>if 0 \<le> a then \<lfloor>a\<rfloor> else \<lceil>a\<rceil>\<bar> \<le> m"
    proof (cases "0 \<le> a")
      case True
      then have "0 \<le> \<lfloor>a\<rfloor>" by simp
      with True \<open>\<lfloor>a\<rfloor> \<le> m\<close> show ?thesis by simp
    next
      case False
      then have "\<lceil>a\<rceil> \<le> 0" by (simp add: ceiling_le_iff)
      with False \<open>- m \<le> \<lceil>a\<rceil>\<close> show ?thesis by simp
    qed
    with 4 assms show ?thesis by (auto simp: sat_i32_def clamp_int_def)
  qed (use assms neg in \<open>auto simp: sat_i32_def clamp_int_def\<close>)
qed

lemma delta_bounded:
  assumes "i32_policy p"
  shows "\<exists>d. delta E c o' act n p = Some d \<and> \<bar>d\<bar> \<le> rp_maximum_delta p"
proof -
  let ?m = "rp_maximum_delta p"
  have "f_le (f_neg (f_of_int ?m)) (f_of_int ?m)" using assms by (simp add: f_of_int_def i32_policy_def)
  then obtain y where y: "f_clamp (f_neg (f_of_int ?m)) (f_of_int ?m) (f_round (f_mul E
      (if n < rp_provisional_matches p then rp_provisional_k p else rp_established_k p)
      (f_sub E act (expected E c o')))) = Some y" by (auto simp: f_clamp_def)
  with f_clamp_as_i32 [OF _ _ y] assms show ?thesis by (simp add: delta_def Let_def i32_policy_def)
qed

lemma delta_None_iff: "delta E c o' act n p = None \<longleftrightarrow> rp_maximum_delta p < 0"
  by (auto simp: delta_def Let_def f_clamp_def f_of_int_def)

lemma free_for_all_bounded:
  assumes "i32_policy p" and "length ratings = length ranks"
    and "\<forall>r \<in> set ratings. in_i32 (r - rp_maximum_delta p) \<and> in_i32 (r + rp_maximum_delta p)"
  shows "\<exists>new. free_for_all E ratings ranks p = Some new \<and> length new = length ratings
    \<and> (\<forall>i < length ratings. \<bar>new ! i - ratings ! i\<bar> \<le> rp_maximum_delta p)"
proof -
  let ?m = "rp_maximum_delta p"
  let ?raw = "\<lambda>i. f_as_i32 (f_round (f_div E (f_mul E (rp_established_k p) (ffa_sum E ratings ranks i))
             (f_of_int (int (max (length ratings - 1) 1)))))"
  let ?new = "map (\<lambda>(i, rating). rating + clamp_int (- ?m) ?m (?raw i)) (enumerate 0 ratings)"
  have neg: "wrap_i32 (- ?m) = - ?m" using assms(1) by (simp add: i32_policy_def in_i32_def)
  have cl: "\<bar>clamp_int (- ?m) ?m x\<bar> \<le> ?m" for x
    using assms(1) by (auto simp: clamp_int_def i32_policy_def)
  have "add_delta rating (i32_clamp (- ?m) ?m x) = Some (rating + clamp_int (- ?m) ?m x)"
    if "rating \<in> set ratings" for rating x
  proof -
    have "in_i32 (rating + clamp_int (- ?m) ?m x)"
      using cl [of x] assms(3) that by (auto simp: in_i32_def)
    then show ?thesis using assms(1) by (simp add: add_delta_def i32_clamp_def i32_policy_def)
  qed
  then have "free_for_all E ratings ranks p = Some ?new"
    by (auto simp: free_for_all_def assms(2) all_some_eq_Some Let_def neg in_set_enumerate_eq)
  then show ?thesis using cl by (auto simp: nth_enumerate_eq)
qed

text \<open>A policy with finite factors that are not negative, as validation demands.\<close>

definition finite_policy :: "rating_policy \<Rightarrow> bool" where
  "finite_policy p \<longleftrightarrow> i32_policy p \<and> (\<exists>k \<ge> 0. rp_established_k p = Fin k) \<and> (\<exists>k \<ge> 0. rp_provisional_k p = Fin k)"

lemma finite_policyE:
  assumes "finite_policy p"
  obtains k where "(if n < rp_provisional_matches p then rp_provisional_k p else rp_established_k p) = Fin k" "0 \<le> k"
  using assms by (cases "n < rp_provisional_matches p") (auto simp: finite_policy_def)

text \<open>The update as a function of the factor, the clamp and the score difference.\<close>

definition settled :: "f64_env \<Rightarrow> f64 \<Rightarrow> i32 \<Rightarrow> f64 \<Rightarrow> i32 option" where
  "settled E k m d = map_option f_as_i32 (f_clamp (f_neg (f_of_int m)) (f_of_int m) (f_round (f_mul E k d)))"

section \<open>What holds with IEEE arithmetic\<close>

text \<open>The properties of IEEE double arithmetic the lemmas below use: rounding is monotone,
  odd and exact on small numbers, and \<open>powf\<close> of a number is not negative, monotone, and 1 at 0.\<close>

locale f64_arith =
  fixes E :: f64_env
  assumes law_exact: "fe_fl E 0 = Fin 0" "fe_fl E 1 = Fin 1" "fe_fl E 2 = Fin 2" "fe_fl E (1 / 2) = Fin (1 / 2)"
    and law_mono: "a \<le> b \<Longrightarrow> f_le (fe_fl E a) (fe_fl E b)"
    and law_neg: "fe_fl E (- a) = f_neg (fe_fl E a)"
    and law_pow_nonneg: "x \<noteq> NaN \<Longrightarrow> f_le (Fin 0) (fe_pow10 E x)"
    and law_pow_mono: "f_le x y \<Longrightarrow> f_le (fe_pow10 E x) (fe_pow10 E y)"
    and law_pow_zero: "fe_pow10 E (Fin 0) = Fin 1"
begin

lemma fl_nonneg:
  assumes "0 \<le> a"
  obtains b where "fe_fl E a = Fin b" "0 \<le> b" | "fe_fl E a = PosInf"
  using law_mono [OF assms] by (cases "fe_fl E a") (simp_all add: law_exact)

lemma fl_unit:
  assumes "0 \<le> a" "a \<le> 1"
  obtains b where "fe_fl E a = Fin b" "0 \<le> b" "b \<le> 1"
  using law_mono [OF assms(1)] law_mono [OF assms(2)] by (cases "fe_fl E a") (simp_all add: law_exact)

lemma logistic_unit:
  assumes "f_le (Fin 0) x"
  obtains e where "f_div E (Fin 1) (f_add E (Fin 1) x) = Fin e" "0 \<le> e" "e \<le> 1"
proof (cases x)
  case (Fin q)
  with assms have q: "0 \<le> q" by simp
  have one: "f_le (Fin 1) (fe_fl E (1 + q))" using law_mono [of 1 "1 + q"] q by (simp add: law_exact)
  show thesis
  proof (cases "fe_fl E (1 + q)")
    case f: (Fin s)
    with one have "0 \<le> 1 / s" "1 / s \<le> 1" "s \<noteq> 0" by auto
    then show thesis using fl_unit [of "1 / s"] that Fin f by auto
  qed (use one Fin that [of 0] in auto)
qed (use assms that [of 0] in auto)

lemma logistic_anti:
  assumes "f_le (Fin 0) x" "f_le x y"
  shows "f_le (f_div E (Fin 1) (f_add E (Fin 1) y)) (f_div E (Fin 1) (f_add E (Fin 1) x))"
proof (cases y)
  case (Fin b)
  with assms obtain a where a: "x = Fin a" "0 \<le> a" "a \<le> b" by (cases x) auto
  have one: "f_le (Fin 1) (fe_fl E (1 + a))" "f_le (fe_fl E (1 + a)) (fe_fl E (1 + b))"
    using law_mono [of 1 "1 + a"] law_mono [of "1 + a" "1 + b"] a by (simp_all add: law_exact)
  show ?thesis
  proof (cases "fe_fl E (1 + b)")
    case f: (Fin t)
    with one obtain s where s: "fe_fl E (1 + a) = Fin s" "1 \<le> s" "s \<le> t" by (cases "fe_fl E (1 + a)") auto
    then have "1 / t \<le> 1 / s" by (simp add: frac_le)
    with s f a Fin law_mono show ?thesis by simp
  next
    case PosInf
    obtain e where "f_div E (Fin 1) (f_add E (Fin 1) x) = Fin e" "0 \<le> e" by (rule logistic_unit [OF assms(1)])
    with PosInf Fin show ?thesis by simp
  qed (use one in \<open>cases "fe_fl E (1 + a)"; auto\<close>)+
next
  case PosInf
  obtain e where "f_div E (Fin 1) (f_add E (Fin 1) x) = Fin e" "0 \<le> e" by (rule logistic_unit [OF assms(1)])
  with PosInf show ?thesis by simp
qed (use assms in \<open>cases x; auto\<close>)+

lemma expected_unit:
  obtains e where "expected E a b = Fin e" "0 \<le> e" "e \<le> 1"
proof -
  have "fe_fl E (of_int (wrap_i32 (b - a)) / 400) \<noteq> NaN"
    using law_mono [of "of_int (wrap_i32 (b - a)) / 400" "of_int (wrap_i32 (b - a)) / 400"]
    by (cases "fe_fl E (of_int (wrap_i32 (b - a)) / 400)") auto
  then show thesis using logistic_unit [OF law_pow_nonneg] that by (auto simp: expected_def f_of_int_def)
qed

lemma expected_anti:
  assumes "in_i32 (b - a)" "in_i32 (b' - a)" "b \<le> b'"
  shows "f_le (expected E a b') (expected E a b)"
proof -
  have le: "f_le (fe_fl E (of_int (b - a) / 400)) (fe_fl E (of_int (b' - a) / 400))"
    using assms(3) by (intro law_mono) (simp add: divide_right_mono)
  then have "fe_fl E (of_int (b - a) / 400) \<noteq> NaN" by (cases "fe_fl E (of_int (b - a) / 400)") auto
  with le show ?thesis
    using logistic_anti [OF law_pow_nonneg law_pow_mono] assms(1,2)
    by (simp add: expected_def f_of_int_def)
qed

lemma expected_same: "expected E a a = Fin (1 / 2)"
proof -
  have "in_i32 0" by (simp add: in_i32_def)
  then have "fe_fl E (of_int (wrap_i32 (a - a)) / 400) = Fin 0" by (simp add: law_exact)
  then show ?thesis by (simp add: expected_def f_of_int_def law_pow_zero law_exact)
qed

text \<open>A nonnegative score difference, scaled by a nonnegative K, rounded and clamped.\<close>

lemma scaled_nonneg:
  assumes "0 \<le> k" "0 \<le> d"
  shows "f_le (Fin 0) (f_round (f_mul E (Fin k) (Fin d)))"
proof -
  have "0 \<le> k * d" using assms by simp
  then show ?thesis by (rule fl_nonneg) (simp_all add: round_away_nonneg)
qed

lemma f_round_mono: "f_le x y \<Longrightarrow> f_le (f_round x) (f_round y)"
  by (cases x; cases y) (simp_all add: round_away_mono)

lemma f_round_neg: "f_round (f_neg x) = f_neg (f_round x)"
  by (cases x) (simp_all add: round_away_minus)

lemma clamp_mono:
  assumes "f_le x y" "f_clamp (f_neg (f_of_int m)) (f_of_int m) x = Some x'"
    "f_clamp (f_neg (f_of_int m)) (f_of_int m) y = Some y'"
  shows "f_as_i32 x' \<le> f_as_i32 y'"
proof -
  have m: "0 \<le> m" using assms(2) by (auto simp: f_clamp_def f_of_int_def split: if_splits)
  have xy: "x \<noteq> NaN" "y \<noteq> NaN" using assms(1) by (cases x; cases y; simp)+
  have "\<exists>a b. x' = Fin a \<and> y' = Fin b \<and> a \<le> b"
    using assms m xy by (cases x; cases y) (auto simp: f_clamp_def f_of_int_def split: if_splits)
  then obtain a b where ab: "x' = Fin a" "y' = Fin b" "a \<le> b" by blast
  have "(if 0 \<le> a then \<lfloor>a\<rfloor> else \<lceil>a\<rceil>) \<le> (if 0 \<le> b then \<lfloor>b\<rfloor> else \<lceil>b\<rceil>)"
  proof (cases "0 \<le> a \<or> b < 0")
    case True
    then show ?thesis using ab(3) by (auto intro: floor_mono ceiling_mono)
  next
    case False
    then have "\<lceil>a\<rceil> \<le> 0" "0 \<le> \<lfloor>b\<rfloor>" by (simp_all add: ceiling_le_iff)
    then have "\<lceil>a\<rceil> \<le> \<lfloor>b\<rfloor>" by linarith
    with False show ?thesis by simp
  qed
  then show ?thesis by (auto simp: ab sat_i32_def clamp_int_def)
qed

lemma clamp_defined:
  assumes "0 \<le> m"
  obtains y where "f_clamp (f_neg (f_of_int m)) (f_of_int m) x = Some y"
  using assms by (simp add: f_clamp_def f_of_int_def)

text \<open>The update as a function of the score difference is monotone, and 0 at 0.\<close>

lemma settled_mono:
  assumes "0 \<le> k" "0 \<le> m" "d \<le> d'"
  obtains x y where "settled E (Fin k) m (Fin d) = Some x" "settled E (Fin k) m (Fin d') = Some y" "x \<le> y"
proof -
  have le: "f_le (f_round (f_mul E (Fin k) (Fin d))) (f_round (f_mul E (Fin k) (Fin d')))"
    using assms by (intro f_round_mono) (simp add: law_mono mult_left_mono)
  obtain x' where x': "f_clamp (f_neg (f_of_int m)) (f_of_int m) (f_round (f_mul E (Fin k) (Fin d))) = Some x'"
    using assms(2) by (rule clamp_defined)
  obtain y' where y': "f_clamp (f_neg (f_of_int m)) (f_of_int m) (f_round (f_mul E (Fin k) (Fin d'))) = Some y'"
    using assms(2) by (rule clamp_defined)
  from clamp_mono [OF le x' y'] that x' y' show thesis by (simp add: settled_def)
qed

lemma settled_zero: "0 \<le> m \<Longrightarrow> settled E (Fin k) m (Fin 0) = Some 0"
  by (simp add: settled_def law_exact round_away_def f_clamp_def f_of_int_def sat_i32_def clamp_int_def)

lemma delta_settled:
  "delta E c o' act n p = settled E (if n < rp_provisional_matches p then rp_provisional_k p else rp_established_k p)
     (rp_maximum_delta p) (f_sub E act (expected E c o'))"
  by (simp add: delta_def settled_def Let_def)

lemma win_margin:
  obtains d where "f_sub E (Fin 1) (expected E a b) = Fin d" "0 \<le> d"
proof -
  obtain e where e: "expected E a b = Fin e" "0 \<le> e" "e \<le> 1" by (rule expected_unit)
  then have "0 \<le> 1 - e" "1 - e \<le> 1" by simp_all
  then obtain d where "fe_fl E (1 - e) = Fin d" "0 \<le> d" by (rule fl_unit)
  with e that show thesis by (simp add: f_sub_def)
qed

lemma loss_margin:
  obtains d where "f_sub E (Fin 0) (expected E a b) = Fin d" "d \<le> 0"
proof -
  obtain e where e: "expected E a b = Fin e" "0 \<le> e" "e \<le> 1" by (rule expected_unit)
  obtain d where "fe_fl E e = Fin d" "0 \<le> d" by (rule fl_unit [OF e(2,3)])
  with e that [of "- d"] law_neg [of e] show thesis by (simp add: f_sub_def)
qed

lemma winner_gains:
  assumes "finite_policy p"
  shows "\<exists>d. delta E c o' (Fin 1) n p = Some d \<and> 0 \<le> d"
proof -
  obtain k where k: "(if n < rp_provisional_matches p then rp_provisional_k p else rp_established_k p) = Fin k" "0 \<le> k"
    using assms by (rule finite_policyE)
  obtain d where d: "f_sub E (Fin 1) (expected E c o') = Fin d" "0 \<le> d" by (rule win_margin)
  have m: "0 \<le> rp_maximum_delta p" using assms by (simp add: finite_policy_def i32_policy_def)
  obtain x y where "settled E (Fin k) (rp_maximum_delta p) (Fin 0) = Some x"
    "settled E (Fin k) (rp_maximum_delta p) (Fin d) = Some y" "x \<le> y"
    using k(2) m d(2) by (rule settled_mono)
  then show ?thesis by (simp add: delta_settled k d settled_zero m)
qed

lemma loser_drops:
  assumes "finite_policy p"
  shows "\<exists>d. delta E c o' (Fin 0) n p = Some d \<and> d \<le> 0"
proof -
  obtain k where k: "(if n < rp_provisional_matches p then rp_provisional_k p else rp_established_k p) = Fin k" "0 \<le> k"
    using assms by (rule finite_policyE)
  obtain d where d: "f_sub E (Fin 0) (expected E c o') = Fin d" "d \<le> 0" by (rule loss_margin)
  have m: "0 \<le> rp_maximum_delta p" using assms by (simp add: finite_policy_def i32_policy_def)
  obtain x y where "settled E (Fin k) (rp_maximum_delta p) (Fin d) = Some x"
    "settled E (Fin k) (rp_maximum_delta p) (Fin 0) = Some y" "x \<le> y"
    using k(2) m d(2) by (rule settled_mono)
  then show ?thesis by (simp add: delta_settled k d settled_zero m)
qed

text \<open>The stronger the beaten opponent, the larger the gain.\<close>

lemma upset_pays:
  assumes "finite_policy p" "in_i32 (b - a)" "in_i32 (b' - a)" "b \<le> b'"
  shows "\<exists>d d'. delta E a b (Fin 1) n p = Some d \<and> delta E a b' (Fin 1) n p = Some d' \<and> d \<le> d'"
proof -
  obtain k where k: "(if n < rp_provisional_matches p then rp_provisional_k p else rp_established_k p) = Fin k" "0 \<le> k"
    using assms(1) by (rule finite_policyE)
  obtain e where e: "expected E a b = Fin e" by (rule expected_unit)
  obtain e' where e': "expected E a b' = Fin e'" by (rule expected_unit)
  have "e' \<le> e" using expected_anti [OF assms(2-4)] by (simp add: e e')
  then have "f_le (fe_fl E (1 - e)) (fe_fl E (1 - e'))" by (intro law_mono) simp
  moreover obtain d where d: "f_sub E (Fin 1) (expected E a b) = Fin d" by (rule win_margin)
  moreover obtain d' where d': "f_sub E (Fin 1) (expected E a b') = Fin d'" by (rule win_margin)
  ultimately have "d \<le> d'" by (simp add: e e' f_sub_def)
  moreover have m: "0 \<le> rp_maximum_delta p" using assms(1) by (simp add: finite_policy_def i32_policy_def)
  ultimately obtain x y where "settled E (Fin k) (rp_maximum_delta p) (Fin d) = Some x"
    "settled E (Fin k) (rp_maximum_delta p) (Fin d') = Some y" "x \<le> y"
    using settled_mono [OF k(2) m] by blast
  then show ?thesis by (simp add: delta_settled k d d')
qed

text \<open>Between equal ratings under the same factor the winner gains what the loser loses.\<close>

lemma settled_neg: "settled E (Fin k) m (Fin (- d)) = map_option uminus (settled E (Fin k) m (Fin d))"
  if "0 \<le> m" "m \<le> i32_max"
proof -
  let ?x = "f_round (f_mul E (Fin k) (Fin d))"
  have neg: "f_round (f_mul E (Fin k) (Fin (- d))) = f_neg ?x"
    using law_neg [of "k * d"] by (simp add: f_round_neg)
  have ints: "?x = NegInf \<or> ?x = PosInf \<or> ?x = NaN \<or> (\<exists>i. ?x = Fin (of_int i))"
    by (cases "f_mul E (Fin k) (Fin d)") auto
  have c: "f_clamp (f_neg (f_of_int m)) (f_of_int m) (f_neg ?x)
      = map_option f_neg (f_clamp (f_neg (f_of_int m)) (f_of_int m) ?x)"
    using that(1) by (cases ?x) (auto simp: f_clamp_def f_of_int_def)
  have "\<exists>y. f_clamp (f_neg (f_of_int m)) (f_of_int m) ?x = Some y
      \<and> (y = NaN \<or> (\<exists>i. y = Fin (of_int i) \<and> - m \<le> i \<and> i \<le> m))"
    using ints that(1) by (auto simp: f_clamp_def f_of_int_def simp flip: of_int_minus)
  then obtain y where y: "f_clamp (f_neg (f_of_int m)) (f_of_int m) ?x = Some y"
    "y = NaN \<or> (\<exists>i. y = Fin (of_int i) \<and> - m \<le> i \<and> i \<le> m)" by blast
  have "f_as_i32 (f_neg y) = - f_as_i32 y"
    using y(2) that by (auto simp: sat_i32_def clamp_int_def simp flip: of_int_minus)
  with y(1) c neg show ?thesis by (simp add: settled_def)
qed

lemma equal_ratings_symmetric:
  assumes "finite_policy p"
    and "(n < rp_provisional_matches p) = (n' < rp_provisional_matches p)"
  shows "delta E a a (Fin 0) n' p = map_option uminus (delta E a a (Fin 1) n p)"
proof -
  obtain k where k: "(if n < rp_provisional_matches p then rp_provisional_k p else rp_established_k p) = Fin k"
    using assms(1) by (rule finite_policyE)
  have "f_sub E (Fin 1) (expected E a a) = Fin (1 / 2)" "f_sub E (Fin 0) (expected E a a) = Fin (- (1 / 2))"
    using law_exact(4) law_neg [of "1 / 2"] by (simp_all add: expected_same f_sub_def)
  with settled_neg [of "rp_maximum_delta p" k "1 / 2"] k assms show ?thesis
    by (simp add: delta_settled finite_policy_def i32_policy_def)
qed

end

text \<open>Exact arithmetic with the exact power is an instance of the laws.\<close>

definition exact_env :: f64_env where
  "exact_env = \<lparr>fe_fl = Fin, fe_pow10 = (\<lambda>x. case x of Fin a \<Rightarrow> Fin (10 powr a) | NegInf \<Rightarrow> Fin 0 | _ \<Rightarrow> x)\<rparr>"

interpretation exact: f64_arith exact_env
proof
  fix x y :: f64
  show "x \<noteq> NaN \<Longrightarrow> f_le (Fin 0) (fe_pow10 exact_env x)" by (cases x) (simp_all add: exact_env_def)
  show "f_le x y \<Longrightarrow> f_le (fe_pow10 exact_env x) (fe_pow10 exact_env y)"
    by (cases x; cases y) (simp_all add: exact_env_def)
qed (simp_all add: exact_env_def)

end
