(* ===== verification/Config.thy ===== *)
theory Config
  imports Rating Credit
begin

text \<open>
  \<open>core/src/config.rs\<close>: the configuration with its defaults and its validation. Loading a
  file is in the theory \<open>Startup\<close>. The resources that \<open>core/src/world.rs\<close> sizes by the configuration are in the theory \<open>Resources\<close>.
\<close>

record server_class_policy =
  sc_capacity_limit :: u32
  sc_max_instances :: u16
  sc_mode_costs :: "(rstr, u32) bmap"

record erps_config =
  ec_deterministic_seed :: u64
  ec_command_queue_capacity :: nat
  ec_event_queue_capacity :: nat
  ec_control_queue_capacity :: nat
  ec_batch_window_ms :: u64
  ec_initial_elo_delta :: i32
  ec_elo_step :: i32
  ec_elo_step_seconds :: u64
  ec_maximum_elo_delta :: i32
  ec_max_party_rating_spread :: i32
  ec_party_size_rating_adjustment :: i32
  ec_party_spread_rating_adjustment :: i32
  ec_elo_established_k :: f64
  ec_elo_provisional_k :: f64
  ec_elo_provisional_matches :: u32
  ec_elo_maximum_match_delta :: i32
  ec_ready_timeout_seconds :: u64
  ec_placement_timeout_seconds :: u64
  ec_disconnect_grace_seconds :: u64
  ec_reject_credit_penalty :: u8
  ec_timeout_credit_penalty :: u8
  ec_minimum_credit :: u8
  ec_credit_suspension_base_seconds :: u64
  ec_heartbeat_interval_seconds :: u64
  ec_unhealthy_after_missed :: u32
  ec_lost_after_seconds :: u64
  ec_allow_development_plaintext :: bool
  ec_drain_mode :: bool
  ec_graceful_shutdown_seconds :: u64
  ec_tls_certificate_path :: "rstr option"
  ec_tls_private_key_path :: "rstr option"
  ec_server_classes :: "(rstr, server_class_policy) bmap"

definition default_config :: erps_config where
  "default_config = \<lparr>
     ec_deterministic_seed = 0x45525053, ec_command_queue_capacity = 65536,
     ec_event_queue_capacity = 1024, ec_control_queue_capacity = 1024, ec_batch_window_ms = 3,
     ec_initial_elo_delta = 100, ec_elo_step = 50, ec_elo_step_seconds = 5,
     ec_maximum_elo_delta = 600, ec_max_party_rating_spread = 600,
     ec_party_size_rating_adjustment = 10, ec_party_spread_rating_adjustment = 1,
     ec_elo_established_k = Fin 20, ec_elo_provisional_k = Fin 40, ec_elo_provisional_matches = 10,
     ec_elo_maximum_match_delta = 40, ec_ready_timeout_seconds = 15,
     ec_placement_timeout_seconds = 15, ec_disconnect_grace_seconds = 30,
     ec_reject_credit_penalty = 2, ec_timeout_credit_penalty = 5, ec_minimum_credit = 60,
     ec_credit_suspension_base_seconds = 60, ec_heartbeat_interval_seconds = 2,
     ec_unhealthy_after_missed = 3, ec_lost_after_seconds = 10,
     ec_allow_development_plaintext = False, ec_drain_mode = False,
     ec_graceful_shutdown_seconds = 10, ec_tls_certificate_path = None,
     ec_tls_private_key_path = None, ec_server_classes = bm_empty\<rparr>"

datatype config_error = ConfigRead rstr | ConfigParse rstr | ConfigZero string | EloRange | CreditRange
  | InstanceLimit rstr | ServerCapacity rstr | TlsPair

definition is_finite :: "f64 \<Rightarrow> bool" where
  "is_finite x = (case x of Fin _ \<Rightarrow> True | _ \<Rightarrow> False)"

text \<open>The first zero of a list of named values.\<close>

fun first_zero :: "(string \<times> 'a::zero) list \<Rightarrow> string option" where
  "first_zero [] = None"
| "first_zero ((name, v) # rest) = (if v = 0 then Some name else first_zero rest)"

fun check_classes :: "(rstr \<times> server_class_policy) list \<Rightarrow> config_error option" where
  "check_classes [] = None"
| "check_classes ((name, policy) # rest) =
    (if \<not> (1 \<le> sc_max_instances policy \<and> sc_max_instances policy \<le> 100) then Some (InstanceLimit name)
     else if sc_capacity_limit policy = 0 \<or> list_ex (\<lambda>c. c = 0) (bm_values (sc_mode_costs policy))
     then Some (ServerCapacity name)
     else check_classes rest)"

definition capacity_fields :: "erps_config \<Rightarrow> (string \<times> nat) list" where
  "capacity_fields c = [(''command_queue_capacity'', ec_command_queue_capacity c),
        (''event_queue_capacity'', ec_event_queue_capacity c),
        (''control_queue_capacity'', ec_control_queue_capacity c)]"

definition duration_fields :: "erps_config \<Rightarrow> (string \<times> u64) list" where
  "duration_fields c = [(''batch_window_ms'', ec_batch_window_ms c),
        (''elo_step_seconds'', ec_elo_step_seconds c),
        (''ready_timeout_seconds'', ec_ready_timeout_seconds c),
        (''placement_timeout_seconds'', ec_placement_timeout_seconds c),
        (''disconnect_grace_seconds'', ec_disconnect_grace_seconds c),
        (''credit_suspension_base_seconds'', ec_credit_suspension_base_seconds c),
        (''heartbeat_interval_seconds'', ec_heartbeat_interval_seconds c),
        (''lost_after_seconds'', ec_lost_after_seconds c),
        (''graceful_shutdown_seconds'', ec_graceful_shutdown_seconds c)]"

definition search_range_invalid :: "erps_config \<Rightarrow> bool" where
  "search_range_invalid c \<longleftrightarrow> ec_initial_elo_delta c < 0 \<or> ec_elo_step c < 0
     \<or> ec_maximum_elo_delta c < ec_initial_elo_delta c \<or> ec_max_party_rating_spread c < 0"

definition elo_factors_invalid :: "erps_config \<Rightarrow> bool" where
  "elo_factors_invalid c \<longleftrightarrow> \<not> is_finite (ec_elo_established_k c) \<or> \<not> is_finite (ec_elo_provisional_k c)
     \<or> f_le (ec_elo_established_k c) (Fin 0) \<or> f_le (ec_elo_provisional_k c) (Fin 0)
     \<or> ec_elo_maximum_match_delta c \<le> 0"

definition credit_invalid :: "erps_config \<Rightarrow> bool" where
  "credit_invalid c \<longleftrightarrow> ec_minimum_credit c > 100 \<or> ec_reject_credit_penalty c > 100
     \<or> ec_timeout_credit_penalty c > 100"

definition tls_invalid :: "erps_config \<Rightarrow> bool" where
  "tls_invalid c \<longleftrightarrow> (ec_tls_certificate_path c \<noteq> None) \<noteq> (ec_tls_private_key_path c \<noteq> None)"

definition validate :: "erps_config \<Rightarrow> config_error + unit" where
  "validate c = (case first_zero (capacity_fields c) of
       Some name \<Rightarrow> Inl (ConfigZero name)
     | None \<Rightarrow> (case first_zero (duration_fields c) of
       Some name \<Rightarrow> Inl (ConfigZero name)
     | None \<Rightarrow>
         if search_range_invalid c then Inl EloRange
         else if elo_factors_invalid c then Inl EloRange
         else if credit_invalid c then Inl CreditRange
         else if tls_invalid c then Inl TlsPair
         else (case check_classes (entries (ec_server_classes c)) of
           Some e \<Rightarrow> Inl e
         | None \<Rightarrow> Inr ())))"

text \<open>The policies that the authority builds from the configuration.\<close>

definition rating_policy_of :: "erps_config \<Rightarrow> rating_policy" where
  "rating_policy_of c = \<lparr>rp_established_k = ec_elo_established_k c, rp_provisional_k = ec_elo_provisional_k c,
     rp_provisional_matches = ec_elo_provisional_matches c, rp_maximum_delta = ec_elo_maximum_match_delta c\<rparr>"

section \<open>What a validated configuration guarantees\<close>

lemma first_zero_None: "first_zero xs = None \<longleftrightarrow> (\<forall>(n, v) \<in> set xs. v \<noteq> 0)"
  by (induction xs rule: first_zero.induct) auto

lemma check_classes_None:
  "check_classes xs = None \<longleftrightarrow> (\<forall>(n, p) \<in> set xs. 1 \<le> sc_max_instances p \<and> sc_max_instances p \<le> 100
     \<and> sc_capacity_limit p \<noteq> 0 \<and> (\<forall>c \<in> set (bm_values (sc_mode_costs p)). c \<noteq> 0))"
  by (induction xs rule: check_classes.induct) (auto simp: list_ex_iff)

lemma validate_iff:
  "validate c = Inr () \<longleftrightarrow> first_zero (capacity_fields c) = None \<and> first_zero (duration_fields c) = None
     \<and> \<not> search_range_invalid c \<and> \<not> elo_factors_invalid c \<and> \<not> credit_invalid c \<and> \<not> tls_invalid c
     \<and> check_classes (entries (ec_server_classes c)) = None"
  by (simp add: validate_def split: option.split)

lemma factors_finite:
  assumes "\<not> elo_factors_invalid c"
  shows "\<exists>k > 0. ec_elo_established_k c = Fin k" "\<exists>k > 0. ec_elo_provisional_k c = Fin k"
  using assms by (cases "ec_elo_established_k c"; cases "ec_elo_provisional_k c";
    auto simp: elo_factors_invalid_def is_finite_def)+

lemma validated_policy:
  assumes "validate c = Inr ()" and "in_i32 (ec_elo_maximum_match_delta c)"
  shows "finite_policy (rating_policy_of c)"
  using factors_finite [of c] assms
  by (auto simp: validate_iff finite_policy_def i32_policy_def rating_policy_of_def in_i32_def
      elo_factors_invalid_def intro: less_imp_le)

lemma validated_classes:
  assumes "validate c = Inr ()" and "bm_get (ec_server_classes c) name = Some policy"
  shows "1 \<le> sc_max_instances policy" "sc_max_instances policy \<le> 100" "sc_capacity_limit policy \<noteq> 0"
    and "\<forall>cost \<in> set (bm_values (sc_mode_costs policy)). cost \<noteq> 0"
  using assms by (auto simp: validate_iff check_classes_None entry_iff [symmetric])

lemma default_config_valid: "validate default_config = Inr ()"
  by (simp add: validate_iff capacity_fields_def duration_fields_def search_range_invalid_def
    elo_factors_invalid_def credit_invalid_def tls_invalid_def default_config_def is_finite_def)

end
