(* ===== verification/Metrics.thy ===== *)
theory Metrics
  imports Components
begin

text \<open>
  \<open>core/src/metrics.rs\<close>: counters, high-water marks, bounded latency histograms, their
  summaries, and the redaction of secrets. Atomic cells are values; the compare-exchange loop
  of the high-water mark runs against an arbitrary sequence of cell values written by others.
\<close>

abbreviation MAX_LATENCY_SAMPLES :: nat where
  "MAX_LATENCY_SAMPLES \<equiv> 4096"

definition counter_add :: "u64 \<Rightarrow> u64 \<Rightarrow> u64" where
  "counter_add n c = c + n"

text \<open>
  One call of \<open>HighWatermark::observe\<close>. Each element of the list is what the cell holds when
  the exchange is tried and whether the weak exchange fails spuriously; the result is the value
  the loop leaves in the cell, \<open>None\<close> while it is still looping.
\<close>

fun hw_loop :: "u64 \<Rightarrow> u64 \<Rightarrow> (u64 \<times> bool) list \<Rightarrow> u64 option" where
  "hw_loop n old [] = (if n > old then None else Some old)"
| "hw_loop n old ((cell, spurious) # es) =
     (if n > old then if cell = old \<and> \<not> spurious then Some n else hw_loop n cell es
      else Some old)"

text \<open>Without contention the first exchange succeeds.\<close>

definition hw_observe :: "u64 \<Rightarrow> u64 \<Rightarrow> u64" where
  "hw_observe n old = (if n > old then n else old)"

definition hist_observe :: "u64 \<Rightarrow> u64 list \<Rightarrow> u64 list" where
  "hist_observe v values =
     (if length values = MAX_LATENCY_SAMPLES then tl values else values) @ [v]"

record histogram_summary =
  hs_samples :: u64
  hs_p50 :: u64
  hs_p95 :: u64
  hs_p99 :: u64

text \<open>\<open>None\<close> is the panic of an index out of range.\<close>

definition percentile :: "u64 list \<Rightarrow> nat \<Rightarrow> u64 option" where
  "percentile xs pc = (if xs = [] then Some 0 else
     let index = (length xs * pc + 99) div 100 - 1
     in if index < length xs then Some (xs ! index) else None)"

definition hist_summary :: "u64 list \<Rightarrow> histogram_summary option" where
  "hist_summary values = (let samples = sort values in
     case (percentile samples 50, percentile samples 95, percentile samples 99) of
       (Some a, Some b, Some c) \<Rightarrow>
         Some \<lparr>hs_samples = of_nat (length samples), hs_p50 = a, hs_p95 = b, hs_p99 = c\<rparr>
     | _ \<Rightarrow> None)"

record queue_label =
  ql_mode :: queue_mode
  ql_region :: rstr

fun str_contains :: "rstr \<Rightarrow> rstr \<Rightarrow> bool" where
  "str_contains pat [] \<longleftrightarrow> pat = []"
| "str_contains pat (c # cs) \<longleftrightarrow> take (length pat) (c # cs) = pat \<or> str_contains pat cs"

definition redact_field :: "rstr \<Rightarrow> rstr \<Rightarrow> rstr" where
  "redact_field name v = (let lower = to_ascii_lowercase name in
     if str_contains (lit ''token'') lower \<or> str_contains (lit ''secret'') lower
        \<or> str_contains (lit ''authorization'') lower
     then lit ''[REDACTED]'' else v)"

section \<open>High-water marks\<close>

text \<open>If the other writers only raise the cell, the loop leaves at least both values.\<close>

lemma hw_loop_ge:
  "hw_loop n old es = Some r \<Longrightarrow> n \<le> r"
  by (induction n old es rule: hw_loop.induct) (auto split: if_splits)

lemma hw_loop_uncontended: "hw_loop n old [(old, False)] = Some (hw_observe n old)"
  by (auto simp: hw_observe_def)

lemma hw_loop_monotone:
  assumes "sorted (old # map fst es)" and "hw_loop n old es = Some r"
  shows "old \<le> r"
  using assms by (induction n old es rule: hw_loop.induct) (auto split: if_splits)

section \<open>Histograms\<close>

definition hist_run :: "u64 list \<Rightarrow> u64 list" where
  "hist_run vs = fold hist_observe vs []"

lemma hist_run_last: "hist_run vs = drop (length vs - MAX_LATENCY_SAMPLES) vs"
proof (induction vs rule: rev_induct)
  case (snoc v vs)
  have run: "hist_run (vs @ [v]) = hist_observe v (hist_run vs)" by (simp add: hist_run_def)
  show ?case
  proof (cases "length vs < MAX_LATENCY_SAMPLES")
    case True
    then show ?thesis by (simp add: run snoc.IH hist_observe_def)
  next
    case False
    then have "length vs + 1 - MAX_LATENCY_SAMPLES = Suc (length vs - MAX_LATENCY_SAMPLES)" by simp
    with False show ?thesis by (simp add: run snoc.IH hist_observe_def drop_Suc tl_drop)
  qed
qed (simp add: hist_run_def)

lemma percentile_index:
  "0 < n \<Longrightarrow> p \<le> 100 \<Longrightarrow> (n * p + 99) div 100 - 1 < (n :: nat)"
proof -
  assume "0 < n" "p \<le> 100"
  then have "n * p + 99 \<le> n * 100 + 99" by simp
  then have "(n * p + 99) div 100 \<le> (n * 100 + 99) div 100" by (rule div_le_mono)
  also have "\<dots> = n" by simp
  finally show ?thesis using \<open>0 < n\<close> by linarith
qed

lemma percentile_Some:
  "xs \<noteq> [] \<Longrightarrow> p \<le> 100 \<Longrightarrow> percentile xs p = Some (xs ! ((length xs * p + 99) div 100 - 1))"
  using percentile_index [of "length xs" p] by (simp add: percentile_def Let_def)

lemma percentile_mono:
  assumes "sorted xs" "p \<le> q" "q \<le> 100" "percentile xs p = Some a" "percentile xs q = Some b"
  shows "a \<le> b"
proof (cases "xs = []")
  case False
  have "(length xs * p + 99) div 100 - 1 \<le> (length xs * q + 99) div 100 - 1"
    using assms(2) by (intro diff_le_mono div_le_mono) simp
  with False assms show ?thesis
    using percentile_index [of "length xs" q] by (auto simp: percentile_Some intro: sorted_nth_mono)
qed (use assms in \<open>simp add: percentile_def\<close>)

end
