(* ===== verification/Profile.thy ===== *)
theory Profile
  imports Components
begin

text \<open>
  \<open>core/src/profile.rs\<close>: player profiles and their provider. The trait
  \<open>PlayerProfileProvider\<close> is the locale \<open>profile_provider\<close>: what the authority may assume
  of a store of profiles. \<open>MemoryProfileProvider\<close> is modelled as code and interprets it.
\<close>

record player_profile =
  pp_ratings :: "(queue_mode, i32) bmap"
  pp_completed_matches :: "(queue_mode, u32) bmap"
  pp_credit :: u8
  pp_recent_credit_violations :: u32

definition default_profile :: player_profile where
  "default_profile = \<lparr>
     pp_ratings = bm_of_list [(OneVsOne, 1000), (FiveVsFive, 1000), (FreeForAll, 1000)],
     pp_completed_matches = bm_empty,
     pp_credit = 100,
     pp_recent_credit_violations = 0\<rparr>"

datatype profile_error = Unavailable rstr | Conflict

type_synonym memory_provider = "(player_id, player_profile) bmap"

definition mem_load :: "memory_provider \<Rightarrow> player_id \<Rightarrow> profile_error + player_profile" where
  "mem_load m p = Inr (unwrap_or default_profile (bm_get m p))"

definition mem_save :: "player_id \<Rightarrow> player_profile option \<Rightarrow> player_profile \<Rightarrow> memory_provider
    \<Rightarrow> (profile_error + unit) \<times> memory_provider" where
  "mem_save p expected updated m =
    (if (case expected of None \<Rightarrow> False | Some e \<Rightarrow> unwrap_or default_profile (bm_get m p) \<noteq> e)
     then (Inl Conflict, m)
     else (Inr (), bm_insert p updated m))"

locale profile_provider =
  fixes load :: "'st \<Rightarrow> player_id \<Rightarrow> profile_error + player_profile"
    and save :: "player_id \<Rightarrow> player_profile option \<Rightarrow> player_profile \<Rightarrow> 'st
      \<Rightarrow> (profile_error + unit) \<times> 'st"
  assumes law_load_saved: "save p e u s = (Inr (), s') \<Longrightarrow> load s' p = Inr u"
    and law_load_other: "save p e u s = (r, s') \<Longrightarrow> q \<noteq> p \<Longrightarrow> load s' q = load s q"
    and law_save_failed: "save p e u s = (Inl err, s') \<Longrightarrow> s' = s"
    and law_unconditional: "\<exists>s'. save p None u s = (Inr (), s')"
    and law_expected: "save p (Some e0) u s = (Inr (), s') \<Longrightarrow> load s p = Inr e0"
begin

text \<open>
  No lost update: of two writers that read the same profile, the one that saves second fails,
  unless the first changed nothing.
\<close>

lemma no_lost_update:
  assumes "save p (Some e) u1 s = (Inr (), s1)" and "save p (Some e) u2 s1 = (Inr (), s2)"
  shows "u1 = e"
  using law_load_saved [OF assms(1)] law_expected [OF assms(2)] by simp

lemma first_writer_kept:
  assumes "save p (Some e) u1 s = (Inr (), s1)" and "u1 \<noteq> e"
  shows "\<exists>err. save p (Some e) u2 s1 = (Inl err, s1) \<and> load s1 p = Inr u1"
proof (cases "save p (Some e) u2 s1")
  case (Pair r s2)
  show ?thesis
  proof (cases r)
    case (Inl err)
    with Pair show ?thesis
      using law_save_failed [of p "Some e" u2 s1 err s2] law_load_saved [OF assms(1)] by auto
  next
    case (Inr x)
    with Pair assms show ?thesis using no_lost_update [of p e u1 s s1 u2 s2] by simp
  qed
qed

text \<open>The actor's write-back: unconditional saves in order; every player ends with the last.\<close>

definition flush :: "(player_id \<times> player_profile) list \<Rightarrow> 'st \<Rightarrow> 'st" where
  "flush saves s = fold (\<lambda>(p, u) st. snd (save p None u st)) saves s"

lemma flush_load:
  "load (flush saves s) p =
    (case map_of (rev saves) p of None \<Rightarrow> load s p | Some u \<Rightarrow> Inr u)"
  unfolding flush_def
proof (induction saves arbitrary: s)
  case (Cons e saves)
  obtain q u where e: "e = (q, u)" by (cases e)
  obtain s' where s': "save q None u s = (Inr (), s')" using law_unconditional by blast
  show ?case
    using Cons.IH [of s'] law_load_saved [OF s'] law_load_other [OF s'] e s'
    by (auto simp: map_add_def split: option.splits)
qed simp

end

interpretation memory: profile_provider mem_load mem_save
  by unfold_locales (auto simp: mem_load_def mem_save_def get_insert split: if_splits option.splits)

end
