(* ===== verification/Authority.thy ===== *)
theory Authority
  imports Ecs Wire Proposal Placement Dispatcher Config Metrics Profile
begin

text \<open>
  \<open>core/src/grpc/mod.rs\<close>, part 1: the state of the authority and its operations that touch one
  index at a time. The authority is an actor: a job runs to its end before the next one starts,
  so an operation is a function from state to state. What the platform answers during one
  operation is the record \<open>platform\<close>: the wall clock in milliseconds (read once per operation),
  the elapsed time of a measured section, the backlog of an event channel, and the order in which
  a join of the entity world visits entities. The receiving half of a channel is outside the
  authority: an event that is sent is appended to \<open>au_outbox\<close>; a control channel is a bounded
  queue in \<open>au_channels\<close>, named by a number, of which the state holds the senders.
\<close>

section \<open>State\<close>

record platform =
  pf_uuid :: uuid_codec
  pf_unicode :: unicode_env
  pf_f64 :: f64_env
  pf_join :: "entity list \<Rightarrow> entity list"
  pf_now :: u64
  pf_elapsed_us :: u64
  pf_event_backlog :: "player_id \<Rightarrow> u64"

record ticket_record =
  tr_id :: ticket_id
  tr_mode :: queue_mode
  tr_regions :: "rstr list"
  tr_enqueued_at :: u64
  tr_queued_since_ms :: u64

record metric_snapshot =
  ms_queue_players :: "(queue_mode \<times> rstr, u64) bmap"
  ms_capacity_total :: u64
  ms_capacity_used :: u64
  ms_reservations :: u64
  ms_running_instances :: u64
  ms_party_structure_difference_sum :: u64
  ms_elo_quality_sum :: u64

record metrics =
  mt_commands :: u64
  mt_matches :: u64
  mt_ready_accepts :: u64
  mt_ready_rejects :: u64
  mt_ready_timeouts :: u64
  mt_credit_penalties :: u64
  mt_launch_failures :: u64
  mt_reconnects :: u64
  mt_invariant_failures :: u64
  mt_command_queue_high :: u64
  mt_event_queue_high :: u64
  mt_control_queue_high :: u64
  mt_queue_wait_us :: "u64 list"
  mt_candidate_compute_us :: "u64 list"
  mt_commit_us :: "u64 list"
  mt_ready_check_us :: "u64 list"
  mt_placement_us :: "u64 list"
  mt_launch_us :: "u64 list"
  mt_lifecycle :: metric_snapshot

type_synonym channel_id = nat

text \<open>A control channel: its capacity, whether the receiver is still there, and its messages.\<close>

record channel =
  ch_capacity :: nat
  ch_open :: bool
  ch_queue :: "(status + erps_control) list"

record authority =
  au_config :: erps_config
  au_next_domain_id :: u64
  au_logical_clock :: u64
  au_world :: "entity list"
  au_metrics :: metrics
  au_sessions :: "(rstr, player_id) bmap"
  au_current_session :: "(player_id, rstr) bmap"
  au_disconnect_deadlines :: "(player_id, u64) bmap"
  au_offline :: "player_id set"
  au_parties :: "(party_id, party) bmap"
  au_player_party :: "(player_id, party_id) bmap"
  au_invites :: invite_store
  au_tickets :: "(party_id, ticket_record) bmap"
  au_request_cache :: "(player_id \<times> rstr, operation_result) bmap"
  au_events :: "player_id set"
  au_registry :: registry
  au_proposals :: "(proposal_id, proposal) bmap"
  au_player_proposal :: "(player_id, proposal_id) bmap"
  au_controls :: "(server_id, channel_id) bmap"
  au_launches :: "(match_id, server_id \<times> proposal_id) bmap"
  au_launch_deadlines :: "(match_id, u64) bmap"
  au_placement_waiting :: "(proposal_id, u64) bmap"
  au_proposal_tickets :: "(proposal_id, (party_id \<times> ticket_record) list) bmap"
  au_credit :: "(player_id, u8) bmap"
  au_recent_credit_violations :: "(player_id, u32) bmap"
  au_credit_suspended_until :: "(player_id, u64) bmap"
  au_completed_since_credit_recovery :: "(player_id, u32) bmap"
  au_ratings :: "(player_id \<times> queue_mode, i32) bmap"
  au_completed_games :: "(player_id \<times> queue_mode, u32) bmap"
  au_pending_profile_saves :: "(player_id \<times> player_profile) list"
  au_player_match :: "(player_id, match_id) bmap"
  au_completed_match_results :: "match_id set"
  au_completed_match_result_order :: "match_id list"
  au_claims :: claims
  au_channels :: "(channel_id, channel) bmap"
  au_outbox :: "(player_id \<times> client_event) list"

definition metrics_new :: metrics where
  "metrics_new = \<lparr>mt_commands = 0, mt_matches = 0, mt_ready_accepts = 0, mt_ready_rejects = 0,
     mt_ready_timeouts = 0, mt_credit_penalties = 0, mt_launch_failures = 0, mt_reconnects = 0,
     mt_invariant_failures = 0, mt_command_queue_high = 0, mt_event_queue_high = 0,
     mt_control_queue_high = 0, mt_queue_wait_us = [], mt_candidate_compute_us = [], mt_commit_us = [],
     mt_ready_check_us = [], mt_placement_us = [], mt_launch_us = [],
     mt_lifecycle = \<lparr>ms_queue_players = bm_empty, ms_capacity_total = 0, ms_capacity_used = 0,
       ms_reservations = 0, ms_running_instances = 0, ms_party_structure_difference_sum = 0,
       ms_elo_quality_sum = 0\<rparr>\<rparr>"

definition authority_new :: "erps_config \<Rightarrow> metrics \<Rightarrow> authority" where
  "authority_new config mt = \<lparr>au_config = config, au_next_domain_id = 0, au_logical_clock = 0,
     au_world = [], au_metrics = mt, au_sessions = bm_empty, au_current_session = bm_empty,
     au_disconnect_deadlines = bm_empty, au_offline = {}, au_parties = bm_empty,
     au_player_party = bm_empty, au_invites = bm_empty, au_tickets = bm_empty,
     au_request_cache = bm_empty, au_events = {}, au_registry = bm_empty, au_proposals = bm_empty,
     au_player_proposal = bm_empty, au_controls = bm_empty, au_launches = bm_empty,
     au_launch_deadlines = bm_empty, au_placement_waiting = bm_empty, au_proposal_tickets = bm_empty,
     au_credit = bm_empty, au_recent_credit_violations = bm_empty, au_credit_suspended_until = bm_empty,
     au_completed_since_credit_recovery = bm_empty, au_ratings = bm_empty, au_completed_games = bm_empty,
     au_pending_profile_saves = [], au_player_match = bm_empty, au_completed_match_results = {},
     au_completed_match_result_order = [], au_claims = {}, au_channels = bm_empty, au_outbox = []\<rparr>"

section \<open>Identifiers and completed results\<close>

unbundle bit_operations_syntax

definition domain_uuid :: "u64 \<Rightarrow> u8 \<Rightarrow> u64 \<Rightarrow> u128" where
  "domain_uuid seed kind n = (push_bit 64 (ucast seed) OR push_bit 56 (ucast kind)) OR ucast n"

definition next_uuid :: "u8 \<Rightarrow> authority \<Rightarrow> u128 \<times> authority" where
  "next_uuid kind st = (let n = sat_add (au_next_domain_id st) 1
     in (domain_uuid (ec_deterministic_seed (au_config st)) kind n, st\<lparr>au_next_domain_id := n\<rparr>))"

abbreviation COMPLETED_RESULTS :: nat where
  "COMPLETED_RESULTS \<equiv> 4096"

definition remember_completed_match_result :: "match_id \<Rightarrow> authority \<Rightarrow> authority" where
  "remember_completed_match_result m st =
    (let st = (if m \<in> au_completed_match_results st then st
       else st\<lparr>au_completed_match_results := insert m (au_completed_match_results st),
               au_completed_match_result_order := au_completed_match_result_order st @ [m]\<rparr>)
     in if length (au_completed_match_result_order st) > COMPLETED_RESULTS
        then case au_completed_match_result_order st of [] \<Rightarrow> st
          | expired # rest \<Rightarrow> st\<lparr>au_completed_match_result_order := rest,
              au_completed_match_results := au_completed_match_results st - {expired}\<rparr>
        else st)"

section \<open>Metrics\<close>

definition on_metrics :: "(metrics \<Rightarrow> metrics) \<Rightarrow> authority \<Rightarrow> authority" where
  "on_metrics f st = st\<lparr>au_metrics := f (au_metrics st)\<rparr>"

section \<open>Lookups with defaults\<close>

definition rating_of :: "authority \<Rightarrow> player_id \<Rightarrow> queue_mode \<Rightarrow> i32" where
  "rating_of st p m = unwrap_or 1000 (bm_get (au_ratings st) (p, m))"

definition games_of :: "authority \<Rightarrow> player_id \<Rightarrow> queue_mode \<Rightarrow> u32" where
  "games_of st p m = unwrap_or 0 (bm_get (au_completed_games st) (p, m))"

definition credit_of :: "authority \<Rightarrow> player_id \<Rightarrow> u8" where
  "credit_of st p = unwrap_or 100 (bm_get (au_credit st) p)"

definition current_profile :: "authority \<Rightarrow> player_id \<Rightarrow> player_profile" where
  "current_profile st p = \<lparr>
     pp_ratings = bm_of_list [(OneVsOne, rating_of st p OneVsOne), (FiveVsFive, rating_of st p FiveVsFive),
       (FreeForAll, rating_of st p FreeForAll)],
     pp_completed_matches = bm_of_list [(OneVsOne, games_of st p OneVsOne), (FiveVsFive, games_of st p FiveVsFive),
       (FreeForAll, games_of st p FreeForAll)],
     pp_credit = credit_of st p,
     pp_recent_credit_violations = unwrap_or 0 (bm_get (au_recent_credit_violations st) p)\<rparr>"

section \<open>Views and events\<close>

definition player_view_of :: "platform \<Rightarrow> authority \<Rightarrow> player_id \<Rightarrow> player_view" where
  "player_view_of E st p = \<lparr>pv_player_id = id_to_string (pf_uuid E) p, pv_rating = rating_of st p OneVsOne,
     pv_credit = ucast (credit_of st p), pv_rating_one_v_one = rating_of st p OneVsOne,
     pv_rating_five_v_five = rating_of st p FiveVsFive, pv_rating_free_for_all = rating_of st p FreeForAll\<rparr>"

definition party_view_of :: "platform \<Rightarrow> authority \<Rightarrow> party \<Rightarrow> party_view" where
  "party_view_of E st p = \<lparr>yv_party_id = id_to_string (pf_uuid E) (pa_id p), yv_name = pa_name p,
     yv_leader_id = id_to_string (pf_uuid E) (pa_leader p),
     yv_members = map (player_view_of E st) (pa_members p),
     yv_revision = pa_revision p, yv_state = party_state_text (pa_state p)\<rparr>"

text \<open>\<open>broadcast::Sender::send\<close>, its result ignored.\<close>

definition send_event :: "player_id \<Rightarrow> client_event \<Rightarrow> authority \<Rightarrow> authority" where
  "send_event p ev st = (if p \<in> au_events st then st\<lparr>au_outbox := au_outbox st @ [(p, ev)]\<rparr> else st)"

text \<open>A send that first notes the backlog of the channel.\<close>

definition send_event_noted :: "platform \<Rightarrow> player_id \<Rightarrow> client_event \<Rightarrow> authority \<Rightarrow> authority" where
  "send_event_noted E p ev st = (if p \<in> au_events st
     then send_event p ev (on_metrics (\<lambda>m. m\<lparr>mt_event_queue_high :=
            hw_observe (pf_event_backlog E p) (mt_event_queue_high m)\<rparr>) st)
     else st)"

definition emit_party :: "platform \<Rightarrow> party \<Rightarrow> authority \<Rightarrow> authority" where
  "emit_party E p st = (let ev = \<lparr>ev_event = Some (EvParty (party_view_of E st p)), ev_deadline_ms = 0\<rparr>
     in fold (\<lambda>i st. send_event i ev st) (pa_members p) st)"

definition proposal_mode :: "proposal \<Rightarrow> queue_mode" where
  "proposal_mode p = (if length (pr_teams p) = 8 then FreeForAll
     else if sum_list (map length (pr_teams p)) = 10 then FiveVsFive else OneVsOne)"

text \<open>The regions all tickets of a proposal allow: \<open>reduce\<close> of the intersection.\<close>

definition common_regions :: "(party_id \<times> ticket_record) list \<Rightarrow> rstr set option" where
  "common_regions tickets = (case map (\<lambda>(_, t). set (tr_regions t)) tickets of
      [] \<Rightarrow> None | r # rs \<Rightarrow> Some (fold (\<lambda>right left. left \<inter> right) rs r))"

definition suspension_shown :: "platform \<Rightarrow> authority \<Rightarrow> player_id \<Rightarrow> u64" where
  "suspension_shown E st p = (case bm_get (au_credit_suspended_until st) p of None \<Rightarrow> 0
    | Some d \<Rightarrow> if credit_suspension_active (credit_of st p) (ec_minimum_credit (au_config st)) (Some d) (pf_now E)
        then d else 0)"

definition show_id_opt :: "uuid_codec \<Rightarrow> 'k uuid_id option \<Rightarrow> rstr" where
  "show_id_opt c x = (case x of None \<Rightarrow> [] | Some i \<Rightarrow> id_to_string c i)"

definition client_state_of :: "platform \<Rightarrow> authority \<Rightarrow> player_id \<Rightarrow> client_state" where
  "client_state_of E st p =
    (let party = Option.bind (bm_get (au_player_party st) p) (bm_get (au_parties st));
         ticket = Option.bind party (\<lambda>q. bm_get (au_tickets st) (pa_id q));
         pid = bm_get (au_player_proposal st) p;
         prop = Option.bind pid (bm_get (au_proposals st));
         regions = (case Option.bind (Option.bind pid (bm_get (au_proposal_tickets st))) common_regions of
             None \<Rightarrow> [] | Some r \<Rightarrow> sorted_list_of_set r)
     in \<lparr>cs_player_id = id_to_string (pf_uuid E) p,
         cs_party = map_option (party_view_of E st) party,
         cs_ticket_id = show_id_opt (pf_uuid E) (map_option tr_id ticket),
         cs_proposal_id = show_id_opt (pf_uuid E) pid,
         cs_match_id = show_id_opt (pf_uuid E) (bm_get (au_player_match st) p),
         cs_profile = Some (player_view_of E st p),
         cs_credit_suspended_until_ms = as_i64 (suspension_shown E st p),
         cs_queue_mode = (case ticket of Some t \<Rightarrow> pb_mode (tr_mode t)
           | None \<Rightarrow> (case prop of Some q \<Rightarrow> pb_mode (proposal_mode q) | None \<Rightarrow> QUEUE_MODE_UNSPECIFIED)),
         cs_allowed_regions = (case ticket of Some t \<Rightarrow> tr_regions t | None \<Rightarrow> regions),
         cs_proposal_deadline_ms = (case prop of None \<Rightarrow> 0 | Some q \<Rightarrow> as_i64 (pr_deadline q))\<rparr>)"

section \<open>Requests\<close>

definition player_for :: "authority \<Rightarrow> rstr \<Rightarrow> status + player_id" where
  "player_for st token = (case bm_get (au_sessions st) token of
      None \<Rightarrow> Inl (unauthenticated ''invalid session token'') | Some p \<Rightarrow> Inr p)"

definition request_meta :: "authority \<Rightarrow> mutation_meta option \<Rightarrow> status + (player_id \<times> rstr)" where
  "request_meta st m =
    (if ec_drain_mode (au_config st) then Inl (unavailable ''ERPS is draining'')
     else case m of None \<Rightarrow> Inl (invalid_argument ''mutation meta is required'')
     | Some meta \<Rightarrow> (case check_api (mm_api meta) of Inl e \<Rightarrow> Inl e
       | Inr _ \<Rightarrow>
         if mm_request_id meta = [] then Inl (invalid_argument ''request_id is required'')
         else case player_for st (mm_session_token meta) of Inl e \<Rightarrow> Inl e
           | Inr p \<Rightarrow> Inr (p, mm_request_id meta)))"

definition party_for :: "platform \<Rightarrow> rstr \<Rightarrow> status + party_id" where
  "party_for E s = (case id_from_str (pf_uuid E) ''PartyId'' s of
      Inl _ \<Rightarrow> Inl (invalid_argument ''invalid party_id'') | Inr i \<Rightarrow> Inr i)"

definition cached :: "authority \<Rightarrow> player_id \<Rightarrow> rstr \<Rightarrow> operation_result option" where
  "cached st p r = bm_get (au_request_cache st) (p, r)"

definition remember :: "player_id \<Rightarrow> rstr \<Rightarrow> operation_result \<Rightarrow> authority \<Rightarrow> operation_result \<times> authority" where
  "remember p r v st = (v, st\<lparr>au_request_cache := bm_insert (p, r) v (au_request_cache st)\<rparr>)"

end
