(* ===== verification/Authority_Match.thy ===== *)
theory Authority_Match
  imports Authority
begin

text \<open>
  \<open>core/src/grpc/mod.rs\<close>, part 2: the entity world rebuilt from the indexes, the snapshot of
  tickets read back from it, the creation of proposals and their cancellation.
\<close>

section \<open>The entity world\<close>

definition player_state_of :: "authority \<Rightarrow> player_id \<Rightarrow> player_state" where
  "player_state_of st p =
    (if bm_contains (au_player_match st) p then PlMatched
     else if bm_contains (au_player_proposal st) p then PlProposed
     else if (case bm_get (au_player_party st) p of None \<Rightarrow> False | Some q \<Rightarrow> bm_contains (au_tickets st) q)
     then PlQueued else PlIdle)"

definition player_entity :: "authority \<Rightarrow> player_id \<Rightarrow> entity" where
  "player_entity st p = [CPlayerIdentity p, CCreditScore (credit_of st p),
     CEloRating (bm_of_list [(OneVsOne, rating_of st p OneVsOne), (FiveVsFive, rating_of st p FiveVsFive),
       (FreeForAll, rating_of st p FreeForAll)]),
     CPlayerState (player_state_of st p)]"

definition party_entity :: "party \<Rightarrow> entity" where
  "party_entity p = [CPartyIdentity (pa_id p), CPartyName (pa_name p), CPartyMembers (pa_members p),
     CPartyLeader (pa_leader p), CPartyRevision (pa_revision p), CPartyState (pa_state p)]"

definition waited_seconds :: "platform \<Rightarrow> u64 \<Rightarrow> u64" where
  "waited_seconds E since = sat_sub (pf_now E) since div 1000"

definition config_search_delta :: "erps_config \<Rightarrow> u64 \<Rightarrow> i32" where
  "config_search_delta c waited = search_delta (ec_initial_elo_delta c) (ec_elo_step c)
     (ec_elo_step_seconds c) (ec_maximum_elo_delta c) 0 waited"

definition config_effective_rating :: "erps_config \<Rightarrow> queue_mode \<Rightarrow> i32 list \<Rightarrow> i32 option" where
  "config_effective_rating c mode ratings = effective_rating_for_mode mode ratings
     (ec_party_size_rating_adjustment c) (ec_party_spread_rating_adjustment c) (ec_max_party_rating_spread c)"

definition ticket_entity :: "platform \<Rightarrow> authority \<Rightarrow> party_id \<Rightarrow> ticket_record \<Rightarrow> entity" where
  "ticket_entity E st pid t =
    (let rating = unwrap_or 1000 (Option.bind (bm_get (au_parties st) pid)
           (\<lambda>p. config_effective_rating (au_config st) (tr_mode t) (map (\<lambda>x. rating_of st x (tr_mode t)) (pa_members p))));
         delta = config_search_delta (au_config st) (waited_seconds E (tr_queued_since_ms t))
     in [CTicketIdentity (tr_id t), CTicketMode (tr_mode t), CTicketRegions (tr_regions t),
         CEnqueuedAt (tr_enqueued_at t),
         CSearchRange \<lparr>sr_minimum = sat_i32 (rating - delta), sr_maximum = sat_i32 (rating + delta)\<rparr>,
         CBucketOwner \<lparr>bo_region = (case tr_regions t of [] \<Rightarrow> [] | r # _ \<Rightarrow> r), bo_bucket = rating div 100\<rparr>,
         CTicketState TkQueued, CPartyIdentity pid])"

definition proposal_entity :: "proposal \<Rightarrow> entity" where
  "proposal_entity p = [CProposalIdentity (pr_id p), CProposalRoster (pr_teams p),
     CAcceptDeadline (pr_deadline p), CPlayerAcceptStates (pr_responses p)]"

definition instance_count :: "instance_state \<Rightarrow> game_server \<Rightarrow> nat" where
  "instance_count s g = length (filter (\<lambda>i. in_state i = s) (bm_values (gs_instances g)))"

definition server_entity :: "game_server \<Rightarrow> entity" where
  "server_entity g = [CServerIdentity (gs_id g), CGeneration (gs_generation g), CServerEndpoint (gs_endpoint g),
     CServerRegion (gs_region g), CSupportedModes (gs_modes g),
     CCapacity \<lparr>ca_total = gs_capacity_total g, ca_used = gs_capacity_used g\<rparr>,
     CModeCosts (gs_mode_costs g),
     CInstanceCapacity \<lparr>ic_maximum = gs_max_instances g, ic_running = of_nat (instance_count InRunning g),
       ic_reserved = of_nat (instance_count InReserved g)\<rparr>,
     CLastHeartbeat (gs_last_heartbeat g),
     CServerHealth (case gs_health g of Healthy \<Rightarrow> ShHealthy | Unhealthy \<Rightarrow> ShUnhealthy | Lost \<Rightarrow> ShLost),
     CRecentLaunchFailures (gs_failures g)]"

definition world_of :: "platform \<Rightarrow> authority \<Rightarrow> entity list" where
  "world_of E st =
     map (player_entity st) (remdups_adj (sort (bm_values (au_sessions st))))
     @ map party_entity (bm_values (au_parties st))
     @ map (\<lambda>(pid, t). ticket_entity E st pid t) (entries (au_tickets st))
     @ map proposal_entity (bm_values (au_proposals st))
     @ map server_entity (bm_values (au_registry st))"

text \<open>The metric snapshot at the end of \<open>rebuild_ecs\<close>.\<close>

definition queue_players :: "authority \<Rightarrow> (queue_mode \<times> rstr, u64) bmap" where
  "queue_players st = fold (\<lambda>(pid, t) m.
     let players = (case bm_get (au_parties st) pid of None \<Rightarrow> 0 | Some p \<Rightarrow> of_nat (length (pa_members p)))
     in fold (\<lambda>region m. bm_insert (tr_mode t, region) (unwrap_or 0 (bm_get m (tr_mode t, region)) + players) m)
          (tr_regions t) m) (entries (au_tickets st)) bm_empty"

definition lifecycle_of :: "authority \<Rightarrow> metric_snapshot" where
  "lifecycle_of st = \<lparr>ms_queue_players = queue_players st,
     ms_capacity_total = sum_list (map (\<lambda>g. ucast (gs_capacity_total g)) (bm_values (au_registry st))),
     ms_capacity_used = sum_list (map (\<lambda>g. ucast (gs_capacity_used g)) (bm_values (au_registry st))),
     ms_reservations = of_nat (sum_list (map (instance_count InReserved) (bm_values (au_registry st)))),
     ms_running_instances = of_nat (sum_list (map (instance_count InRunning) (bm_values (au_registry st)))),
     ms_party_structure_difference_sum = ms_party_structure_difference_sum (mt_lifecycle (au_metrics st)),
     ms_elo_quality_sum = ms_elo_quality_sum (mt_lifecycle (au_metrics st))\<rparr>"

definition rebuild_ecs :: "platform \<Rightarrow> authority \<Rightarrow> authority" where
  "rebuild_ecs E st = on_metrics (\<lambda>m. m\<lparr>mt_lifecycle := lifecycle_of st\<rparr>) (st\<lparr>au_world := world_of E st\<rparr>)"

section \<open>The tickets of a queue\<close>

definition join_ratings :: "platform \<Rightarrow> entity list \<Rightarrow> (player_id, (queue_mode, i32) bmap) bmap" where
  "join_ratings E w = bm_of_list (List.map_filter (\<lambda>e. case (player_identity e, elo_rating e) of
     (Some p, Some r) \<Rightarrow> Some (p, r) | _ \<Rightarrow> None) (pf_join E w))"

definition join_parties :: "platform \<Rightarrow> entity list \<Rightarrow> (party_id, player_id list \<times> u64) bmap" where
  "join_parties E w = bm_of_list (List.map_filter (\<lambda>e.
     case (party_identity e, party_members e, party_revision e) of
       (Some i, Some ms, Some r) \<Rightarrow> if ticket_identity e = None then Some (i, (ms, r)) else None
     | _ \<Rightarrow> None) (pf_join E w))"

definition joined_ticket :: "platform \<Rightarrow> authority \<Rightarrow> queue_mode \<Rightarrow> rstr \<Rightarrow> (party_id, player_id list \<times> u64) bmap
    \<Rightarrow> (player_id, (queue_mode, i32) bmap) bmap \<Rightarrow> entity \<Rightarrow> party_ticket option" where
  "joined_ticket E st mode region parties player_ratings e =
    (case (party_identity e, ticket_identity e, ticket_mode e, ticket_regions e, enqueued_at e) of
       (Some pid, Some tid, Some tmode, Some regions, Some enq) \<Rightarrow>
        (case bm_get parties pid of None \<Rightarrow> None
         | Some (members, revision) \<Rightarrow>
            if tmode = mode \<and> region \<in> set regions
            then let ratings = map (\<lambda>p. unwrap_or 1000 (Option.bind (bm_get player_ratings p) (\<lambda>v. bm_get v mode))) members;
                     waited = waited_seconds E (case bm_get (au_tickets st) pid of None \<Rightarrow> 0 | Some t \<Rightarrow> tr_queued_since_ms t)
                 in map_option (\<lambda>rating. \<lparr>pt_id = tid, pt_party = pid, pt_members = members, pt_ratings = ratings,
                      pt_effective_rating = rating, pt_enqueued_at = enq, pt_revision = revision, pt_region = region,
                      pt_mode = mode, pt_search_delta = config_search_delta (au_config st) waited,
                      pt_wait_seconds = waited\<rparr>) (config_effective_rating (au_config st) mode ratings)
            else None)
     | _ \<Rightarrow> None)"

definition ecs_tickets :: "platform \<Rightarrow> authority \<Rightarrow> queue_mode \<Rightarrow> rstr \<Rightarrow> party_ticket list" where
  "ecs_tickets E st mode region = List.map_filter
     (joined_ticket E st mode region (join_parties E (au_world st)) (join_ratings E (au_world st)))
     (pf_join E (au_world st))"

section \<open>Creating proposals\<close>

text \<open>The validity check of the claim: the ticket is still what the snapshot saw.\<close>

definition ticket_valid :: "authority \<Rightarrow> party_ticket list \<Rightarrow> ticket_id \<Rightarrow> bool" where
  "ticket_valid st tickets i = list_ex (\<lambda>t. pt_id t = i
     \<and> (case bm_get (au_parties st) (pt_party t) of None \<Rightarrow> False
        | Some p \<Rightarrow> pa_revision p = pt_revision t \<and> pa_state p = PQueued
            \<and> list_all (\<lambda>x. x \<notin> au_offline st \<and> \<not> bm_contains (au_player_proposal st) x
                \<and> \<not> bm_contains (au_player_match st) x) (pa_members p))
     \<and> bm_contains (au_tickets st) (pt_party t)) tickets"

definition selected_parties :: "candidate \<Rightarrow> party_ticket list \<Rightarrow> party_id list" where
  "selected_parties c tickets = List.map_filter
     (\<lambda>i. map_option pt_party (find (\<lambda>t. pt_id t = i) tickets)) (cd_tickets c)"

definition owners_of :: "authority \<Rightarrow> party_id list \<Rightarrow> (player_id, party_id) bmap" where
  "owners_of st selected = bm_of_list (concat (map (\<lambda>i. case bm_get (au_parties st) i of None \<Rightarrow> []
     | Some p \<Rightarrow> map (\<lambda>v. (v, i)) (pa_members p)) selected))"

definition unsigned_abs :: "i32 \<Rightarrow> u64" where
  "unsigned_abs x = of_int \<bar>x\<bar>"

text \<open>The loop that takes the tickets of the selected parties out of the queue.\<close>

fun take_tickets :: "party_id list \<Rightarrow> (party_id \<times> ticket_record) list \<Rightarrow> authority
    \<Rightarrow> (party_id \<times> ticket_record) list \<times> authority" where
  "take_tickets [] saved st = (saved, st)"
| "take_tickets (i # is) saved st =
    (let (saved, st) = (case bm_get (au_tickets st) i of None \<Rightarrow> (saved, st)
           | Some t \<Rightarrow> (saved @ [(i, t)], st\<lparr>au_tickets := bm_remove i (au_tickets st)\<rparr>));
         st = st\<lparr>au_parties := bm_update i (\<lambda>p. p\<lparr>pa_state := PAwaitingAccept, pa_revision := pa_revision p + 1\<rparr>)
           (au_parties st)\<rparr>
     in take_tickets is saved st)"

definition oldest_queued_since :: "platform \<Rightarrow> authority \<Rightarrow> party_id list \<Rightarrow> u64" where
  "oldest_queued_since E st selected = unwrap_or (pf_now E) (iter_min (List.map_filter
     (\<lambda>i. map_option tr_queued_since_ms (bm_get (au_tickets st) i)) selected))"

definition observe_commit :: "platform \<Rightarrow> candidate \<Rightarrow> u64 \<Rightarrow> metrics \<Rightarrow> metrics" where
  "observe_commit E c oldest m = (case cd_quality_key c of (q0, q1, q2) \<Rightarrow> m\<lparr>
     mt_queue_wait_us := hist_observe (sat_mul (sat_sub (pf_now E) oldest) 1000) (mt_queue_wait_us m),
     mt_lifecycle := (mt_lifecycle m)\<lparr>
       ms_party_structure_difference_sum := sat_add (ms_party_structure_difference_sum (mt_lifecycle m)) (unsigned_abs q2),
       ms_elo_quality_sum := sat_add (sat_add (ms_elo_quality_sum (mt_lifecycle m)) (unsigned_abs q0)) (unsigned_abs q1)\<rparr>\<rparr>)"

text \<open>The players learn of the proposal and are bound to it.\<close>

definition announce :: "platform \<Rightarrow> proposal_id \<Rightarrow> proposal \<Rightarrow> authority \<Rightarrow> authority" where
  "announce E pid prop st = fold (\<lambda>p st. send_event_noted E p
       \<lparr>ev_event = Some (EvProposalId (id_to_string (pf_uuid E) pid)), ev_deadline_ms = as_i64 (pr_deadline prop)\<rparr>
       (st\<lparr>au_player_proposal := bm_insert p pid (au_player_proposal st)\<rparr>))
     (bm_keys (pr_responses prop)) st"

definition store_proposal :: "platform \<Rightarrow> proposal_id \<Rightarrow> proposal \<Rightarrow> (party_id \<times> ticket_record) list \<Rightarrow> authority
    \<Rightarrow> authority" where
  "store_proposal E pid prop saved st =
    (let st = st\<lparr>au_proposal_tickets := bm_insert pid saved (au_proposal_tickets st)\<rparr>;
         st = announce E pid prop st
     in on_metrics (\<lambda>m. m\<lparr>mt_matches := counter_add 1 (mt_matches m)\<rparr>)
          (st\<lparr>au_proposals := bm_insert pid prop (au_proposals st)\<rparr>))"

definition commit_candidate :: "platform \<Rightarrow> candidate \<Rightarrow> party_ticket list \<Rightarrow> authority \<Rightarrow> authority" where
  "commit_candidate E c tickets st =
    (let selected = selected_parties c tickets;
         owners = owners_of st selected;
         (u, st) = next_uuid 3 st;
         pid = from_uuid u;
         prop = from_candidate c owners (pf_now E) (ec_ready_timeout_seconds (au_config st) * 1000) pid;
         st = on_metrics (observe_commit E c (oldest_queued_since E st selected)) st;
         (saved, st) = take_tickets selected [] st
     in store_proposal E pid prop saved st)"

text \<open>The loop over the candidates; the number committed and the state.\<close>

fun commit_candidates :: "platform \<Rightarrow> party_ticket list \<Rightarrow> candidate list \<Rightarrow> authority \<Rightarrow> nat \<times> authority" where
  "commit_candidates E tickets [] st = (0, st)"
| "commit_candidates E tickets (c # cs) st =
    (let (ok, active) = claims_commit c (ticket_valid st tickets) (au_claims st);
         st = st\<lparr>au_claims := active\<rparr>
     in if \<not> ok then commit_candidates E tickets cs st
        else let st = commit_candidate E c tickets st;
                 st = on_metrics (\<lambda>m. m\<lparr>mt_commit_us := hist_observe (pf_elapsed_us E) (mt_commit_us m)\<rparr>) st;
                 (n, st) = commit_candidates E tickets cs st
             in (n + 1, st))"

definition attempt_match_batch :: "platform \<Rightarrow> queue_mode \<Rightarrow> rstr \<Rightarrow> authority \<Rightarrow> nat \<times> authority" where
  "attempt_match_batch E mode region st =
    (if \<not> feasible (au_registry st) mode region then (0, st)
     else let st = rebuild_ecs E st;
              tickets = ecs_tickets E st mode region;
              candidates = generate (build_for_mode mode) 1024 (snapshot_new tickets);
              st = on_metrics (\<lambda>m. m\<lparr>mt_candidate_compute_us :=
                hist_observe (pf_elapsed_us E) (mt_candidate_compute_us m)\<rparr>) st
          in commit_candidates E tickets candidates st)"

definition active_queues :: "authority \<Rightarrow> (queue_mode \<times> rstr) list" where
  "active_queues st = sort (remdups (concat (map (\<lambda>t. map (\<lambda>r. (tr_mode t, r)) (tr_regions t))
     (bm_values (au_tickets st)))))"

definition attempt_all_matches :: "platform \<Rightarrow> authority \<Rightarrow> authority" where
  "attempt_all_matches E st = fold (\<lambda>(mode, region) st. snd (attempt_match_batch E mode region st)) (active_queues st) st"

section \<open>Cancelling a proposal\<close>

definition config_credit_policy :: "erps_config \<Rightarrow> credit_policy" where
  "config_credit_policy c = default_credit_policy\<lparr>cp_reject_penalty := ec_reject_credit_penalty c,
     cp_timeout_penalty := ec_timeout_credit_penalty c, cp_minimum := ec_minimum_credit c\<rparr>"

text \<open>\<open>now + base * steps * 1000\<close>, every step saturating.\<close>

definition suspension_deadline :: "platform \<Rightarrow> erps_config \<Rightarrow> u32 \<Rightarrow> u64" where
  "suspension_deadline E c steps = sat_add (pf_now E)
     (sat_mul (sat_mul (ec_credit_suspension_base_seconds c) (ucast steps)) 1000)"

definition penalize :: "platform \<Rightarrow> player_id \<Rightarrow> credit_cause \<Rightarrow> authority \<Rightarrow> authority" where
  "penalize E p cause st =
    (let violations = unwrap_or 0 (bm_get (au_recent_credit_violations st) p);
         outcome = credit_apply (credit_of st p) violations 0 cause (config_credit_policy (au_config st));
         st = st\<lparr>au_recent_credit_violations := bm_insert p (co_suspension_steps outcome) (au_recent_credit_violations st),
                 au_credit := bm_insert p (co_score outcome) (au_credit st),
                 au_completed_since_credit_recovery := bm_insert p 0 (au_completed_since_credit_recovery st)\<rparr>;
         st = (if \<not> co_eligible outcome
               then st\<lparr>au_credit_suspended_until := bm_insert p
                 (suspension_deadline E (au_config st) (co_suspension_steps outcome)) (au_credit_suspended_until st)\<rparr>
               else st)
     in on_metrics (\<lambda>m. case cause of
          CRejected \<Rightarrow> m\<lparr>mt_ready_rejects := counter_add 1 (mt_ready_rejects m),
                         mt_credit_penalties := counter_add 1 (mt_credit_penalties m)\<rparr>
        | CTimedOut \<Rightarrow> m\<lparr>mt_ready_timeouts := counter_add 1 (mt_ready_timeouts m),
                         mt_credit_penalties := counter_add 1 (mt_credit_penalties m)\<rparr>
        | _ \<Rightarrow> m) st)"

definition cancel_reason :: "requeue_decision \<Rightarrow> string" where
  "cancel_reason d = (case rd_credit_cause d of
      Some CRejected \<Rightarrow> ''rejected''
    | Some CTimedOut \<Rightarrow> ''timed_out''
    | Some InfrastructureFailure \<Rightarrow> ''infrastructure_failure''
    | Some CompletedMatch \<Rightarrow> ''completed''
    | None \<Rightarrow> if rd_party_not_ready d then ''party_member_failed'' else ''other_player_failed'')"

text \<open>The body of the loop over the decisions.\<close>

definition settle_decision :: "platform \<Rightarrow> proposal_id \<Rightarrow> bool \<Rightarrow> requeue_decision \<Rightarrow> authority \<Rightarrow> authority" where
  "settle_decision E pid infra d st =
    (let p = rd_player d;
         st = st\<lparr>au_player_proposal := bm_remove p (au_player_proposal st)\<rparr>;
         st = (if \<not> infra then (case rd_credit_cause d of
                 Some CRejected \<Rightarrow> penalize E p CRejected st
               | Some CTimedOut \<Rightarrow> penalize E p CTimedOut st
               | _ \<Rightarrow> st) else st);
         suspended = unwrap_or 0 (bm_get (au_credit_suspended_until st) p);
         credit = credit_of st p
     in send_event p \<lparr>ev_event = Some (EvProposalCancelled \<lparr>pc_proposal_id = id_to_string (pf_uuid E) pid,
          pc_reason = lit (cancel_reason d), pc_credit = ucast credit,
          pc_eligible = (\<not> credit_suspension_active credit (ec_minimum_credit (au_config st)) (Some suspended) (pf_now E)),
          pc_credit_suspended_until_ms = as_i64 suspended\<rparr>), ev_deadline_ms = 0\<rparr> st)"

text \<open>Does a member of the party have a failing answer?\<close>

definition party_failed :: "authority \<Rightarrow> proposal \<Rightarrow> party_id \<Rightarrow> bool" where
  "party_failed st prop pid = (case bm_get (au_parties st) pid of None \<Rightarrow> False
    | Some p \<Rightarrow> list_ex (\<lambda>x. case bm_get (pr_responses prop) x of None \<Rightarrow> False
        | Some s \<Rightarrow> s = Rejected \<or> s = TimedOut) (pa_members p))"

definition restore_ticket :: "proposal \<Rightarrow> bool \<Rightarrow> party_id \<times> ticket_record \<Rightarrow> authority \<Rightarrow> authority" where
  "restore_ticket prop infra entry st = (case entry of (pid, t) \<Rightarrow>
     (case bm_get (au_parties st) pid of None \<Rightarrow> st
      | Some p \<Rightarrow>
         if party_failed st prop pid \<and> \<not> infra
         then st\<lparr>au_parties := bm_insert pid (p\<lparr>pa_state := PNotReady, pa_revision := sat_add (pa_revision p) 1\<rparr>)
                (au_parties st)\<rparr>
         else st\<lparr>au_parties := bm_insert pid (p\<lparr>pa_state := PQueued, pa_revision := sat_add (pa_revision p) 1\<rparr>)
                (au_parties st),
                au_tickets := bm_insert pid t (au_tickets st)\<rparr>))"

definition cancel_proposal :: "platform \<Rightarrow> proposal_id \<Rightarrow> bool \<Rightarrow> authority \<Rightarrow> authority" where
  "cancel_proposal E pid infra st = (case bm_get (au_proposals st) pid of None \<Rightarrow> st
    | Some prop \<Rightarrow>
       let decisions = cancellation_decisions prop infra;
           affected = map rd_player decisions;
           saved = unwrap_or [] (bm_get (au_proposal_tickets st) pid);
           st = st\<lparr>au_proposal_tickets := bm_remove pid (au_proposal_tickets st),
                   au_claims := claims_release (pr_tickets prop) (au_claims st),
                   au_placement_waiting := bm_remove pid (au_placement_waiting st)\<rparr>;
           st = fold (settle_decision E pid infra) decisions st;
           st = fold (restore_ticket prop infra) saved st;
           changed = sort (remdups (List.map_filter (bm_get (au_player_party st)) affected));
           st = fold (\<lambda>i st. case bm_get (au_parties st) i of None \<Rightarrow> st | Some p \<Rightarrow> emit_party E p st) changed st
       in fold (\<lambda>p st. st\<lparr>au_pending_profile_saves := au_pending_profile_saves st @ [(p, current_profile st p)]\<rparr>)
            affected st)"

end
