(* ===== verification/Authority_Launch.thy ===== *)
theory Authority_Launch
  imports Authority_Match
begin

text \<open>
  \<open>core/src/grpc/mod.rs\<close>, part 3: launching a match on a game server, retries, the reports of
  game servers, the settlement of results, and the clock tick. An operation that can panic
  returns an option, \<open>None\<close> being the panic; otherwise it returns its result and the state,
  errors included: what was changed before an early return stays changed.
\<close>

type_synonym 'a outcome = "((status + 'a) \<times> authority) option"

section \<open>Control channels\<close>

definition channel_backlog :: "channel_id \<Rightarrow> authority \<Rightarrow> nat" where
  "channel_backlog ch st = (case bm_get (au_channels st) ch of None \<Rightarrow> 0 | Some c \<Rightarrow> length (ch_queue c))"

definition try_send :: "channel_id \<Rightarrow> status + erps_control \<Rightarrow> authority \<Rightarrow> bool \<times> authority" where
  "try_send ch msg st = (case bm_get (au_channels st) ch of
      None \<Rightarrow> (False, st)
    | Some c \<Rightarrow> if ch_open c \<and> length (ch_queue c) < ch_capacity c
        then (True, st\<lparr>au_channels := bm_insert ch (c\<lparr>ch_queue := ch_queue c @ [msg]\<rparr>) (au_channels st)\<rparr>)
        else (False, st))"

definition note_control_backlog :: "channel_id \<Rightarrow> authority \<Rightarrow> authority" where
  "note_control_backlog ch st = on_metrics (\<lambda>m. m\<lparr>mt_control_queue_high :=
     hw_observe (of_nat (channel_backlog ch st)) (mt_control_queue_high m)\<rparr>) st"

definition wire_teams :: "platform \<Rightarrow> player_id list list \<Rightarrow> team list" where
  "wire_teams E teams = map (\<lambda>(i, p). \<lparr>tm_team_index = of_nat i,
     tm_player_ids = map (id_to_string (pf_uuid E)) p\<rparr>) (enumerate 0 teams)"

definition launch_message :: "platform \<Rightarrow> match_id \<Rightarrow> queue_mode \<Rightarrow> player_id list list \<Rightarrow> u32 \<Rightarrow> erps_control" where
  "launch_message E m mode teams cost = CtlLaunch \<lparr>lm_match_id = id_to_string (pf_uuid E) m,
     lm_mode = pb_mode mode, lm_teams = wire_teams E teams, lm_reserved_cost = cost\<rparr>"

definition with_registry :: "authority \<Rightarrow> registry \<Rightarrow> authority" where
  "with_registry st r = st\<lparr>au_registry := r\<rparr>"

section \<open>Launching\<close>

definition launch_offer :: "authority \<Rightarrow> queue_mode \<Rightarrow> rstr set \<Rightarrow> game_server
    \<Rightarrow> (u32 \<times> u64 \<times> u32 \<times> nat \<times> server_id) option" where
  "launch_offer st mode allowed s =
    (if gs_health s = Healthy \<and> gs_region s \<in> allowed \<and> mode \<in> gs_modes s
        \<and> bm_contains (au_controls st) (gs_id s) \<and> bm_size (gs_instances s) < unat (gs_max_instances s)
     then (case bm_get (gs_mode_costs s) mode of None \<Rightarrow> None
       | Some cost \<Rightarrow> (case checked_add (gs_capacity_used s) cost of None \<Rightarrow> None
       | Some required \<Rightarrow> (case checked_sub (gs_capacity_total s) required of None \<Rightarrow> None
       | Some remaining \<Rightarrow> Some (remaining,
           ucast (gs_capacity_used s) * 1000000 div ucast (max (gs_capacity_total s) 1),
           gs_failures s, bm_size (gs_instances s), gs_id s))))
     else None)"

definition placement_deadline :: "platform \<Rightarrow> authority \<Rightarrow> u64" where
  "placement_deadline E st = sat_add (pf_now E) (ec_placement_timeout_seconds (au_config st) * 1000)"

definition launch :: "platform \<Rightarrow> proposal_id \<Rightarrow> authority \<Rightarrow> match_id outcome" where
  "launch E pid st = (case bm_get (au_proposals st) pid of
      None \<Rightarrow> Some (Inl (not_found ''proposal''), st)
    | Some prop \<Rightarrow>
       let mode = proposal_mode prop;
           allowed = unwrap_or {} (Option.bind (bm_get (au_proposal_tickets st) pid) common_regions)
       in case iter_min (List.map_filter (launch_offer st mode allowed) (bm_values (au_registry st))) of
         None \<Rightarrow> Some (Inl (unavailable ''no feasible game server''), st)
       | Some (_, _, _, _, sid) \<Rightarrow>
          (let (u, st) = next_uuid 4 st; m = from_uuid u
           in case bm_get (au_registry st) sid of None \<Rightarrow> None
            | Some s \<Rightarrow> (case bm_get (gs_mode_costs s) mode of None \<Rightarrow> None
            | Some cost \<Rightarrow>
               let st = with_registry st (bm_insert sid (s\<lparr>gs_capacity_used := gs_capacity_used s + cost,
                     gs_instances := bm_insert m \<lparr>in_match_id = m, in_cost = cost, in_state = InReserved,
                       in_endpoint = None, in_connection_token = None\<rparr> (gs_instances s)\<rparr>) (au_registry st))
               in case bm_get (au_controls st) sid of
                    None \<Rightarrow> Some (Inl (unavailable ''server control stream unavailable''), st)
                  | Some ch \<Rightarrow>
                     let st = note_control_backlog ch st;
                         (sent, st) = try_send ch (Inr (launch_message E m mode (pr_teams prop) cost)) st
                     in if \<not> sent
                        then Some (Inl (resource_exhausted ''server control stream full''),
                               with_registry st (snd (release sid m (au_registry st))))
                        else Some (Inr m, st\<lparr>au_launches := bm_insert m (sid, pid) (au_launches st),
                               au_launch_deadlines := bm_insert m (placement_deadline E st) (au_launch_deadlines st)\<rparr>))))"

definition retry_launch :: "platform \<Rightarrow> match_id \<Rightarrow> server_id \<Rightarrow> proposal_id \<Rightarrow> authority \<Rightarrow> unit outcome" where
  "retry_launch E m failed pid st = (case bm_get (au_proposals st) pid of
      None \<Rightarrow> Some (Inl (not_found ''proposal''), st)
    | Some prop \<Rightarrow>
       let mode = proposal_mode prop
       in case map_option sorted_list_of_set (Option.bind (bm_get (au_proposal_tickets st) pid) common_regions) of
         None \<Rightarrow> Some (Inl (failed_precondition ''proposal has no common region''), st)
       | Some [] \<Rightarrow> Some (Inl (failed_precondition ''proposal has no common region''), st)
       | Some (region # _) \<Rightarrow>
          (case retry_after_failure failed m mode region (au_registry st) of
             None \<Rightarrow> None
           | Some (Inl _, r) \<Rightarrow> Some (Inl (unavailable ''no alternate game server''), with_registry st r)
           | Some (Inr sid, r) \<Rightarrow>
             (case Option.bind (bm_get r sid) (\<lambda>s. bm_get (gs_instances s) m) of
                None \<Rightarrow> None
              | Some i \<Rightarrow>
                 let st = with_registry st r;
                     (sent, st) = (case bm_get (au_controls st) sid of
                         None \<Rightarrow> (False, st)
                       | Some ch \<Rightarrow> try_send ch (Inr (launch_message E m mode (pr_teams prop) (in_cost i)))
                           (note_control_backlog ch st))
                 in if \<not> sent
                    then Some (Inl (unavailable ''alternate game server control stream unavailable''),
                           with_registry st (snd (release sid m (au_registry st))))
                    else Some (Inr (), st\<lparr>au_launches := bm_insert m (sid, pid) (au_launches st),
                           au_launch_deadlines := bm_insert m (placement_deadline E st) (au_launch_deadlines st)\<rparr>))))"

section \<open>Reports of a launch\<close>

definition put_instance :: "server_id \<Rightarrow> match_id \<Rightarrow> inst \<Rightarrow> authority \<Rightarrow> authority" where
  "put_instance sid m i st = with_registry st
     (bm_update sid (\<lambda>s. s\<lparr>gs_instances := bm_insert m i (gs_instances s)\<rparr>) (au_registry st))"

fun mark_matched :: "party_id list \<Rightarrow> party list \<Rightarrow> authority \<Rightarrow> party list \<times> authority" where
  "mark_matched [] out st = (out, st)"
| "mark_matched (i # is) out st = (case bm_get (au_parties st) i of
      None \<Rightarrow> mark_matched is out st
    | Some p \<Rightarrow> let p = p\<lparr>pa_state := PMatched\<rparr>
        in mark_matched is (out @ [p]) (st\<lparr>au_parties := bm_insert i p (au_parties st)\<rparr>))"

definition published :: "authority \<Rightarrow> proposal \<Rightarrow> match_id \<Rightarrow> bool" where
  "published st prop m = list_all (\<lambda>p. bm_get (au_player_match st) p = Some m) (bm_keys (pr_responses prop))"

text \<open>The match becomes connectable: the players are told, the instance is running.\<close>

definition publish_match :: "platform \<Rightarrow> server_id \<Rightarrow> match_id \<Rightarrow> proposal_id \<Rightarrow> proposal \<Rightarrow> inst
    \<Rightarrow> launch_result_msg \<Rightarrow> authority \<Rightarrow> authority" where
  "publish_match E sid m pid prop i result st =
    (let st = (case bm_get (au_launch_deadlines st) m of None \<Rightarrow> st
           | Some deadline \<Rightarrow>
              let started = sat_sub deadline (ec_placement_timeout_seconds (au_config st) * 1000)
              in on_metrics (\<lambda>mt. mt\<lparr>mt_launch_us := hist_observe
                     (sat_mul (sat_sub (pf_now E) started) 1000) (mt_launch_us mt)\<rparr>)
                   (st\<lparr>au_launch_deadlines := bm_remove m (au_launch_deadlines st)\<rparr>));
         i = i\<lparr>in_endpoint := Some (lr_endpoint result), in_connection_token := Some (lr_connection_token result)\<rparr>;
         matched = \<lparr>me_match_id = id_to_string (pf_uuid E) m, me_mode = pb_mode (proposal_mode prop),
           me_teams = wire_teams E (pr_teams prop), me_endpoint = lr_endpoint result,
           me_connection_token = lr_connection_token result\<rparr>;
         st = fold (\<lambda>p st. send_event_noted E p \<lparr>ev_event = Some (EvMatched matched), ev_deadline_ms = 0\<rparr>
               (st\<lparr>au_player_match := bm_insert p m (au_player_match st),
                   au_player_proposal := bm_remove p (au_player_proposal st)\<rparr>)) (bm_keys (pr_responses prop)) st;
         st = put_instance sid m (i\<lparr>in_state := InRunning\<rparr>) st;
         (parties, st) = mark_matched (map fst (unwrap_or [] (bm_get (au_proposal_tickets st) pid))) [] st
     in fold (emit_party E) parties st)"

definition launch_result :: "platform \<Rightarrow> server_id \<Rightarrow> launch_result_msg \<Rightarrow> authority \<Rightarrow> unit outcome" where
  "launch_result E sid result st = (case id_from_str (pf_uuid E) ''MatchId'' (lr_match_id result) of
      Inl _ \<Rightarrow> Some (Inl (invalid_argument ''match_id''), st)
    | Inr m \<Rightarrow> (case bm_get (au_launches st) m of
      None \<Rightarrow> Some (Inl (not_found ''launch''), st)
    | Some (owner, pid) \<Rightarrow>
      if owner \<noteq> sid then Some (Inl (permission_denied ''launch belongs to another server''), st)
      else (case bm_get (au_proposals st) pid of None \<Rightarrow> Some (Inl (not_found ''proposal''), st)
    | Some prop \<Rightarrow> (case bm_get (au_registry st) sid of None \<Rightarrow> Some (Inl (not_found ''server''), st)
    | Some s \<Rightarrow> (case bm_get (gs_instances s) m of None \<Rightarrow> Some (Inl (not_found ''instance''), st)
    | Some i \<Rightarrow>
      if eq_ignore_ascii_case (lr_state result) (lit ''accepted'') then
        (if in_state i = InReserved then Some (Inr (), put_instance sid m (i\<lparr>in_state := InAccepted\<rparr>) st)
         else if in_state i = InAccepted then Some (Inr (), st)
         else Some (Inl (failed_precondition ''launch acceptance is only valid for a reserved instance''), st))
      else if eq_ignore_ascii_case (lr_state result) (lit ''ready'') then
        (if blank (lr_endpoint result) \<or> blank (lr_connection_token result)
         then Some (Inl (invalid_argument ''ready launch requires endpoint and connection_token''), st)
         else if \<not> (in_state i = InAccepted \<or> in_state i = InReady \<or> in_state i = InRunning)
         then Some (Inl (failed_precondition ''launch readiness requires an accepted instance''), st)
         else if published st prop m
         then Some (Inr (), (put_instance sid m (i\<lparr>in_state := InRunning, in_endpoint := Some (lr_endpoint result),
                in_connection_token := Some (lr_connection_token result)\<rparr>) st)
                  \<lparr>au_launch_deadlines := bm_remove m (au_launch_deadlines st)\<rparr>)
         else Some (Inr (), publish_match E sid m pid prop i result st))
      else if eq_ignore_ascii_case (lr_state result) (lit ''rejected'')
              \<or> eq_ignore_ascii_case (lr_state result) (lit ''failed'') then
        (if \<not> (in_state i = InReserved \<or> in_state i = InAccepted)
         then Some (Inl (failed_precondition ''launch rejection is only valid before an instance is ready''), st)
         else retry_launch E m sid pid
                (on_metrics (\<lambda>mt. mt\<lparr>mt_launch_failures := counter_add 1 (mt_launch_failures mt)\<rparr>) st))
      else Some (Inl (invalid_argument ''unknown launch result state''), st))))))"

end
