(* ===== verification/Authority_Control.thy ===== *)
theory Authority_Control
  imports Authority_Launch
begin

text \<open>
  \<open>core/src/grpc/mod.rs\<close>, part 4: the settlement of a match result, the control messages of
  game servers, and the tick that drives every deadline.
\<close>

section \<open>Match results\<close>

fun parse_placements :: "platform \<Rightarrow> player_placement list \<Rightarrow> (player_id, u8) bmap \<Rightarrow> status + (player_id, u8) bmap" where
  "parse_placements E [] ranks = Inr ranks"
| "parse_placements E (pl # pls) ranks = (case id_from_str (pf_uuid E) ''PlayerId'' (pl_player_id pl) of
      Inl _ \<Rightarrow> Inl (invalid_argument ''placement player_id'')
    | Inr p \<Rightarrow>
        if \<not> (unat (pl_rank pl) < 256 \<and> pl_rank pl > 0) then Inl (invalid_argument ''placement rank'')
        else if bm_contains ranks p then Inl (invalid_argument ''duplicate placement player'')
        else parse_placements E pls (bm_insert p (ucast (pl_rank pl)) ranks))"

definition roster_of :: "proposal \<Rightarrow> player_id list" where
  "roster_of prop = sort (remdups (concat (pr_teams prop)))"

text \<open>The rank of a team whose players all have the same.\<close>

definition team_rank :: "(player_id, u8) bmap \<Rightarrow> player_id list \<Rightarrow> u8 option" where
  "team_rank ranks team = (case team of [] \<Rightarrow> None
    | first # _ \<Rightarrow> (case bm_get ranks first of None \<Rightarrow> None
      | Some r \<Rightarrow> if list_all (\<lambda>p. bm_get ranks p = Some r) team then Some r else None))"

text \<open>The checks on the ranks; the outer \<open>None\<close> is the panic of \<open>teams[1]\<close>.\<close>

definition check_ranks :: "proposal \<Rightarrow> (player_id, u8) bmap \<Rightarrow> (status + unit) option" where
  "check_ranks prop ranks =
    (if set (bm_keys ranks) \<noteq> set (concat (pr_teams prop))
     then Some (Inl (invalid_argument ''placements must cover the exact roster''))
     else if list_ex (\<lambda>r. unat r > length (roster_of prop)) (bm_values ranks)
     then Some (Inl (invalid_argument ''placement rank exceeds roster''))
     else if proposal_mode prop = FiveVsFive
     then (case pr_teams prop of a # b # _ \<Rightarrow>
             if team_rank ranks a = None \<or> team_rank ranks b = None \<or> team_rank ranks a = team_rank ranks b
             then Some (Inl (invalid_argument ''5v5 placements require one consistent, distinct rank per team''))
             else Some (Inr ())
           | _ \<Rightarrow> None)
     else Some (Inr ()))"

definition set_rating :: "queue_mode \<Rightarrow> player_id \<times> i32 \<Rightarrow> (player_id \<times> queue_mode, i32) bmap
    \<Rightarrow> (player_id \<times> queue_mode, i32) bmap" where
  "set_rating mode pr m = bm_insert (fst pr, mode) (snd pr) m"

text \<open>The new ratings by mode; \<open>None\<close> is a panic of an index or of the rating functions.\<close>

definition settle_ratings :: "platform \<Rightarrow> authority \<Rightarrow> proposal \<Rightarrow> (player_id, u8) bmap
    \<Rightarrow> (player_id \<times> queue_mode, i32) bmap option" where
  "settle_ratings E st prop ranks =
    (let mode = proposal_mode prop; policy = rating_policy_of (au_config st); F = pf_f64 E in
     case mode of
       OneVsOne \<Rightarrow> (case pr_teams prop of
           (a # _) # (b # _) # _ \<Rightarrow> (case (bm_get ranks a, bm_get ranks b) of
             (Some ra, Some rb) \<Rightarrow>
               let score = (if ra < rb then Fin 1 else if ra = rb then Fin (1 / 2) else Fin 0)
               in (case one_vs_one F (rating_of st a mode) (rating_of st b mode) score
                      (games_of st a mode) (games_of st b mode) policy of
                    None \<Rightarrow> None
                  | Some (na, nb) \<Rightarrow> Some (set_rating mode (b, nb) (set_rating mode (a, na) (au_ratings st))))
           | _ \<Rightarrow> None)
         | _ \<Rightarrow> None)
     | FiveVsFive \<Rightarrow> (case pr_teams prop of
           (a # as) # (b # bs) # _ \<Rightarrow> (case (bm_get ranks a, bm_get ranks b) of
             (Some ra, Some rb) \<Rightarrow>
               let (winners, losers) = (if ra < rb then (a # as, b # bs) else (b # bs, a # as))
               in (case team_update_with_completed F
                      (map (\<lambda>p. rating_of st p mode) winners) (map (\<lambda>p. rating_of st p mode) losers)
                      (map (\<lambda>p. games_of st p mode) winners) (map (\<lambda>p. games_of st p mode) losers) policy of
                    None \<Rightarrow> None
                  | Some (nw, nl) \<Rightarrow> Some (fold (set_rating mode) (zip losers nl)
                      (fold (set_rating mode) (zip winners nw) (au_ratings st))))
           | _ \<Rightarrow> None)
         | _ \<Rightarrow> None)
     | FreeForAll \<Rightarrow>
         (let players = concat (pr_teams prop)
          in case all_some (map (bm_get ranks) players) of None \<Rightarrow> None
           | Some rs \<Rightarrow> (case free_for_all F (map (\<lambda>p. rating_of st p mode) players) rs policy of
               None \<Rightarrow> None
             | Some new \<Rightarrow> Some (fold (set_rating mode) (zip players new) (au_ratings st)))))"

text \<open>One player of the roster: games, credit recovery, and the profile to be saved.\<close>

definition finish_player :: "queue_mode \<Rightarrow> player_id \<Rightarrow> authority \<Rightarrow> authority" where
  "finish_player mode p st =
    (let st = st\<lparr>au_completed_games := bm_insert (p, mode) (games_of st p mode + 1) (au_completed_games st)\<rparr>;
         since = unwrap_or 0 (bm_get (au_completed_since_credit_recovery st) p);
         previous = credit_of st p;
         outcome = credit_apply previous (unwrap_or 0 (bm_get (au_recent_credit_violations st) p)) since
           CompletedMatch default_credit_policy;
         st = st\<lparr>au_credit := bm_insert p (co_score outcome) (au_credit st),
                 au_completed_since_credit_recovery := bm_insert p
                   (if co_score outcome > previous then 0 else sat_add since 1) (au_completed_since_credit_recovery st),
                 au_player_match := bm_remove p (au_player_match st)\<rparr>
     in st\<lparr>au_pending_profile_saves := au_pending_profile_saves st @ [(p, current_profile st p)]\<rparr>)"

definition free_party :: "party_id \<Rightarrow> authority \<Rightarrow> authority" where
  "free_party i st = st\<lparr>au_parties := bm_update i
     (\<lambda>p. p\<lparr>pa_state := PIdle, pa_revision := sat_add (pa_revision p) 1\<rparr>) (au_parties st)\<rparr>"

definition emit_party_of :: "platform \<Rightarrow> party_id \<Rightarrow> authority \<Rightarrow> authority" where
  "emit_party_of E i st = (case bm_get (au_parties st) i of None \<Rightarrow> st | Some p \<Rightarrow> emit_party E p st)"

definition placement_error_text :: "placement_error \<Rightarrow> string" where
  "placement_error_text e = (case e of NoCapacity \<Rightarrow> ''no capacity'' | UnknownServer \<Rightarrow> ''unknown server'')"

text \<open>What follows once the new ratings are known.\<close>

definition close_match :: "platform \<Rightarrow> server_id \<Rightarrow> match_id \<Rightarrow> proposal_id \<Rightarrow> proposal \<Rightarrow> authority
    \<Rightarrow> (status + unit) \<times> authority" where
  "close_match E sid m pid prop st =
    (let st = fold (finish_player (proposal_mode prop)) (roster_of prop) st;
         parties = sort (remdups (bm_values (pr_parties prop)));
         st = fold free_party parties st;
         st = fold (emit_party_of E) parties st
     in case release sid m (au_registry st) of
          (Inl e, r) \<Rightarrow> (Inl (failed_precondition (placement_error_text e)), with_registry st r)
        | (Inr _, r) \<Rightarrow> (Inr (), (with_registry st r)\<lparr>
            au_launches := bm_remove m (au_launches st),
            au_launch_deadlines := bm_remove m (au_launch_deadlines st),
            au_proposal_tickets := bm_remove pid (au_proposal_tickets st),
            au_proposals := bm_remove pid (au_proposals st)\<rparr>))"

definition finish_match :: "platform \<Rightarrow> server_id \<Rightarrow> match_result_msg \<Rightarrow> authority \<Rightarrow> unit outcome" where
  "finish_match E sid result st = (case id_from_str (pf_uuid E) ''MatchId'' (mr_match_id result) of
      Inl _ \<Rightarrow> Some (Inl (invalid_argument ''match_id''), st)
    | Inr m \<Rightarrow> (case bm_get (au_launches st) m of
      None \<Rightarrow> Some (Inl (not_found ''match''), st)
    | Some (owner, pid) \<Rightarrow>
      if owner \<noteq> sid then Some (Inl (permission_denied ''match belongs to another server''), st)
      else (case Option.bind (bm_get (au_registry st) sid) (\<lambda>s. bm_get (gs_instances s) m) of
        None \<Rightarrow> Some (Inl (not_found ''instance''), st)
      | Some i \<Rightarrow>
        if in_state i \<noteq> InRunning then Some (Inl (failed_precondition ''match result requires a running instance''), st)
        else (case bm_get (au_proposals st) pid of None \<Rightarrow> Some (Inl (not_found ''proposal''), st)
      | Some prop \<Rightarrow> (case parse_placements E (mr_placements result) bm_empty of
          Inl e \<Rightarrow> Some (Inl e, st)
        | Inr ranks \<Rightarrow> (case check_ranks prop ranks of
            None \<Rightarrow> None
          | Some (Inl e) \<Rightarrow> Some (Inl e, st)
          | Some (Inr _) \<Rightarrow> (case settle_ratings E st prop ranks of
              None \<Rightarrow> None
            | Some ratings \<Rightarrow> Some (close_match E sid m pid prop (st\<lparr>au_ratings := ratings\<rparr>)))))))))"

section \<open>Control messages\<close>

definition instance_report :: "platform \<Rightarrow> server_id \<Rightarrow> instance_msg \<Rightarrow> authority \<Rightarrow> (status + unit) \<times> authority" where
  "instance_report E sid v st = (case id_from_str (pf_uuid E) ''MatchId'' (im_match_id v) of
      Inl _ \<Rightarrow> (Inl (invalid_argument ''match_id''), st)
    | Inr m \<Rightarrow> (case bm_get (au_registry st) sid of None \<Rightarrow> (Inl (not_found ''server''), st)
    | Some s \<Rightarrow> (case bm_get (gs_instances s) m of None \<Rightarrow> (Inl (not_found ''instance''), st)
    | Some i \<Rightarrow>
      if in_cost i \<noteq> im_reserved_cost v
      then (Inl (failed_precondition ''reported instance cost differs from reservation''), st)
      else (case parse_instance (im_state v) of Inl e \<Rightarrow> (Inl e, st)
      | Inr next' \<Rightarrow>
        if \<not> valid_reported_instance_transition (in_state i) next'
        then (Inl (failed_precondition ''invalid game instance lifecycle transition''), st)
        else if (next' = InReady \<or> next' = InRunning) \<and> (blank (im_endpoint v) \<or> blank (im_connection_token v))
        then (Inl (invalid_argument ''ready or running instance requires endpoint and connection_token''), st)
        else let i = i\<lparr>in_state := next'\<rparr>;
                 i = (if next' = InReady \<or> next' = InRunning
                      then i\<lparr>in_endpoint := Some (im_endpoint v), in_connection_token := Some (im_connection_token v)\<rparr>
                      else i)
             in (Inr (), put_instance sid m i st)))))"

definition match_report :: "platform \<Rightarrow> server_id \<Rightarrow> channel_id \<Rightarrow> match_result_msg \<Rightarrow> authority \<Rightarrow> unit outcome" where
  "match_report E sid ch result st = (case id_from_str (pf_uuid E) ''MatchId'' (mr_match_id result) of
      Inl _ \<Rightarrow> Some (Inl (invalid_argument ''match_id''), st)
    | Inr m \<Rightarrow>
       (case (if m \<notin> au_completed_match_results st
          then (case finish_match E sid result st of
              Some (Inr u, st) \<Rightarrow> Some (Inr u, remember_completed_match_result m st)
            | other \<Rightarrow> other)
          else Some (Inr (), st)) of
          Some (Inr _, st) \<Rightarrow>
            (let (sent, st) = try_send ch (Inr (CtlMatchResultAck (id_to_string (pf_uuid E) m))) st
             in Some (if sent then Inr () else Inl (unavailable ''match result acknowledgement queue full''), st))
        | other \<Rightarrow> other))"

definition apply_server_control :: "platform \<Rightarrow> server_id \<Rightarrow> server_generation \<Rightarrow> channel_id
    \<Rightarrow> server_message option \<Rightarrow> authority \<Rightarrow> unit outcome" where
  "apply_server_control E sid generation ch msg st =
    (if \<not> is_current_generation sid generation (au_registry st) then Some (Inr (), st)
     else let st = st\<lparr>au_controls := bm_insert sid ch (au_controls st)\<rparr>
       in case msg of
         None \<Rightarrow> Some (Inr (), st)
       | Some (SmHeartbeat used running) \<Rightarrow> (case heartbeat sid generation (pf_now E) used (au_registry st) of
             (Inl e, r) \<Rightarrow> Some (Inl (failed_precondition (server_error_text e)), with_registry st r)
           | (Inr _, r) \<Rightarrow> Some (Inr (), with_registry st r))
       | Some (SmLaunchResult result) \<Rightarrow> launch_result E sid result st
       | Some (SmInstance v) \<Rightarrow> Some (instance_report E sid v st)
       | Some (SmMatchResult result) \<Rightarrow> match_report E sid ch result st)"

section \<open>The tick\<close>

definition drop_disconnected :: "platform \<Rightarrow> player_id \<Rightarrow> authority \<Rightarrow> authority" where
  "drop_disconnected E p st =
    (let st = st\<lparr>au_disconnect_deadlines := bm_remove p (au_disconnect_deadlines st)\<rparr>
     in case bm_get (au_player_party st) p of None \<Rightarrow> st
      | Some party \<Rightarrow>
        (case bm_get (au_player_proposal st) p of
           Some pid \<Rightarrow>
             let st = (case bm_get (au_proposals st) pid of None \<Rightarrow> st
               | Some prop \<Rightarrow> (case bm_get (pr_responses prop) p of None \<Rightarrow> st
                 | Some _ \<Rightarrow> st\<lparr>au_proposals := bm_insert pid (prop\<lparr>
                     pr_responses := bm_insert p TimedOut (pr_responses prop),
                     pr_state := Cancelled\<rparr>) (au_proposals st)\<rparr>))
             in cancel_proposal E pid False st
         | None \<Rightarrow>
             if bm_contains (au_tickets st) party
             then st\<lparr>au_tickets := bm_remove party (au_tickets st),
                     au_parties := bm_update party (\<lambda>q. q\<lparr>pa_state := PIdle,
                       pa_revision := sat_add (pa_revision q) 1\<rparr>) (au_parties st)\<rparr>
             else st))"

definition overdue :: "u64 \<Rightarrow> ('k::linorder, u64) bmap \<Rightarrow> 'k list" where
  "overdue now m = map fst (filter (\<lambda>(_, deadline). now > deadline) (entries m))"

definition expire_proposals :: "platform \<Rightarrow> authority \<Rightarrow> authority" where
  "expire_proposals E st =
    (let expired = map fst (filter (\<lambda>(_, p). fst (expire (pf_now E) p)) (entries (au_proposals st)));
         st = st\<lparr>au_proposals := bm_map (\<lambda>_ p. snd (expire (pf_now E) p)) (au_proposals st)\<rparr>
     in fold (\<lambda>pid st. cancel_proposal E pid False st) expired st)"

definition retry_waiting :: "platform \<Rightarrow> proposal_id \<Rightarrow> authority \<Rightarrow> authority option" where
  "retry_waiting E pid st = (case launch E pid st of
      None \<Rightarrow> None
    | Some (Inr _, st) \<Rightarrow> Some (st\<lparr>au_placement_waiting := bm_remove pid (au_placement_waiting st)\<rparr>)
    | Some (Inl _, st) \<Rightarrow>
       (case bm_get (au_placement_waiting st) pid of
          Some deadline \<Rightarrow>
            if pf_now E > deadline
            then Some (cancel_proposal E pid True (st\<lparr>au_placement_waiting := bm_remove pid (au_placement_waiting st)\<rparr>))
            else Some st
        | None \<Rightarrow> Some st))"

definition handle_lost :: "platform \<Rightarrow> match_id \<times> bool \<Rightarrow> authority \<Rightarrow> authority option" where
  "handle_lost E lost st = (case lost of (m, was_running) \<Rightarrow>
     (case bm_get (au_launches st) m of None \<Rightarrow> Some st
      | Some (server, pid) \<Rightarrow>
         if was_running
         then Some (case bm_get (au_proposals st) pid of None \<Rightarrow> st
           | Some prop \<Rightarrow> fold (\<lambda>p st. send_event_noted E p
               \<lparr>ev_event = Some (EvServerLost (id_to_string (pf_uuid E) m)), ev_deadline_ms = 0\<rparr> st)
               (bm_keys (pr_responses prop)) st)
         else (case retry_launch E m server pid st of
             None \<Rightarrow> None
           | Some (Inr _, st) \<Rightarrow> Some st
           | Some (Inl _, st) \<Rightarrow>
               let st = cancel_proposal E pid True st
               in Some (st\<lparr>au_launches := bm_remove m (au_launches st),
                          au_launch_deadlines := bm_remove m (au_launch_deadlines st)\<rparr>))))"

definition retry_overdue :: "platform \<Rightarrow> match_id \<Rightarrow> authority \<Rightarrow> authority option" where
  "retry_overdue E m st = (case bm_get (au_launches st) m of None \<Rightarrow> Some st
    | Some (server, pid) \<Rightarrow> (case retry_launch E m server pid st of
        None \<Rightarrow> None
      | Some (Inr _, st) \<Rightarrow> Some st
      | Some (Inl _, st) \<Rightarrow>
          let st = cancel_proposal E pid True st
          in Some (st\<lparr>au_launches := bm_remove m (au_launches st)\<rparr>)))"

definition unhealthy_after_ms :: "erps_config \<Rightarrow> u64" where
  "unhealthy_after_ms c = sat_mul (sat_mul (ec_heartbeat_interval_seconds c) (ucast (ec_unhealthy_after_missed c))) 1000"

definition tick :: "platform \<Rightarrow> authority \<Rightarrow> authority option" where
  "tick E st =
    (let now = pf_now E;
         st = fold (drop_disconnected E) (overdue now (au_disconnect_deadlines st)) st;
         st = expire_proposals E st
     in case fold_opt (retry_waiting E) (bm_keys (au_placement_waiting st)) st of None \<Rightarrow> None
      | Some st \<Rightarrow>
        (let (lost, r) = update_health now (unhealthy_after_ms (au_config st))
               (sat_mul (ec_lost_after_seconds (au_config st)) 1000) (au_registry st);
             st = with_registry st r
         in case fold_opt (handle_lost E) lost st of None \<Rightarrow> None
          | Some st \<Rightarrow> (case fold_opt (retry_overdue E) (overdue now (au_launch_deadlines st)) st of None \<Rightarrow> None
            | Some st \<Rightarrow> Some (attempt_all_matches E (rebuild_ecs E st)))))"

end
