(* ===== verification/Authority_Rpc.thy ===== *)
theory Authority_Rpc
  imports Authority_Control
begin

text \<open>
  \<open>core/src/grpc/mod.rs\<close>, part 5: the remote procedure calls, the bounded command queue in front
  of the actor, and the actor's loop body. A validator of tokens and the provider of profiles are
  parameters, as the code takes them behind traits; random session and invitation tokens are
  arguments.
\<close>

section \<open>Mutations that carry a request id\<close>

text \<open>
  The frame shared by the mutations: the request is authenticated, a request answered before
  gets its first answer, and a new answer is remembered; an error is not remembered.
\<close>

definition with_request :: "mutation_meta option \<Rightarrow> (player_id \<Rightarrow> authority \<Rightarrow> operation_result outcome)
    \<Rightarrow> authority \<Rightarrow> operation_result outcome" where
  "with_request m body st = (case request_meta st m of
      Inl e \<Rightarrow> Some (Inl e, st)
    | Inr (p, rid) \<Rightarrow> (case cached st p rid of
        Some v \<Rightarrow> Some (Inr v, st)
      | None \<Rightarrow> (case body p st of
          Some (Inr v, st') \<Rightarrow> (let (v, st'') = remember p rid v st' in Some (Inr v, st''))
        | other \<Rightarrow> other)))"

section \<open>Sessions\<close>

record connect_response =
  cr_session_token :: rstr
  cr_player_id :: rstr
  cr_api :: api_version

text \<open>
  A player is signed in. His event channel is the membership in \<open>au_events\<close>; the channel of the library
  has a capacity of at least 1 (\<open>validate\<close> refuses 0, for which its constructor panics) and at most
  \<open>2 ^ 63 - 1\<close>: a configured capacity above that is outside the model.
\<close>

definition open_session_job :: "platform \<Rightarrow> rstr \<Rightarrow> player_id \<Rightarrow> player_profile \<Rightarrow> authority
    \<Rightarrow> connect_response \<times> authority" where
  "open_session_job E token p profile st =
    (let st = st\<lparr>au_sessions := bm_insert token p (au_sessions st)\<rparr>;
         reconnect = (p \<in> au_offline st \<or> bm_contains (au_disconnect_deadlines st) p);
         st = (if p \<in> au_offline st then st\<lparr>au_offline := au_offline st - {p}\<rparr>
               else st\<lparr>au_disconnect_deadlines := bm_remove p (au_disconnect_deadlines st)\<rparr>);
         st = (if reconnect then on_metrics (\<lambda>m. m\<lparr>mt_reconnects := counter_add 1 (mt_reconnects m)\<rparr>) st else st);
         st = st\<lparr>au_current_session := bm_insert p token (au_current_session st),
                 au_credit := bm_insert p (pp_credit profile) (au_credit st),
                 au_recent_credit_violations := bm_insert p (pp_recent_credit_violations profile)
                   (au_recent_credit_violations st)\<rparr>;
         st = (if pp_credit profile < ec_minimum_credit (au_config st)
                  \<and> \<not> bm_contains (au_credit_suspended_until st) p
               then st\<lparr>au_credit_suspended_until := bm_insert p (suspension_deadline E (au_config st)
                 (max (pp_recent_credit_violations profile) 1)) (au_credit_suspended_until st)\<rparr>
               else st);
         st = st\<lparr>au_ratings := fold (\<lambda>(m, r). bm_insert (p, m) r) (entries (pp_ratings profile)) (au_ratings st),
                 au_completed_games := fold (\<lambda>(m, n). bm_insert (p, m) n) (entries (pp_completed_matches profile))
                   (au_completed_games st),
                 au_events := insert p (au_events st)\<rparr>
     in (\<lparr>cr_session_token = token, cr_player_id = id_to_string (pf_uuid E) p,
          cr_api = \<lparr>av_major = 1, av_minor = 0,
            av_capabilities = [lit ''ready-check'', lit ''server-placement'']\<rparr>\<rparr>, st))"

definition profile_error_text :: "profile_error \<Rightarrow> rstr" where
  "profile_error_text e = (case e of Unavailable s \<Rightarrow> lit ''profile unavailable: '' @ s | Conflict \<Rightarrow> lit ''profile conflict'')"

definition open_session :: "platform \<Rightarrow> (rstr \<Rightarrow> status + player_id) \<Rightarrow> (player_id \<Rightarrow> profile_error + player_profile)
    \<Rightarrow> rstr \<Rightarrow> api_version option \<Rightarrow> rstr \<Rightarrow> authority \<Rightarrow> (status + connect_response) \<times> authority" where
  "open_session E validator load fresh api auth_token st = (case check_api api of
      Inl e \<Rightarrow> (Inl e, st)
    | Inr _ \<Rightarrow> (case validator auth_token of Inl e \<Rightarrow> (Inl e, st)
      | Inr p \<Rightarrow> (case load p of Inl e \<Rightarrow> (Inl (Status CodeUnavailable (profile_error_text e)), st)
        | Inr profile \<Rightarrow> (let (r, st) = open_session_job E fresh p profile st in (Inr r, st)))))"

text \<open>The job a dropped event stream posts.\<close>

definition disconnected :: "platform \<Rightarrow> player_id \<Rightarrow> rstr \<Rightarrow> authority \<Rightarrow> authority" where
  "disconnected E p token st =
    (if bm_get (au_current_session st) p = Some token
     then st\<lparr>au_offline := insert p (au_offline st),
             au_disconnect_deadlines := bm_insert p (sat_add (pf_now E)
               (sat_mul (ec_disconnect_grace_seconds (au_config st)) 1000)) (au_disconnect_deadlines st)\<rparr>
     else st)"

definition begin_drain :: "authority \<Rightarrow> authority" where
  "begin_drain st = st\<lparr>au_config := (au_config st)\<lparr>ec_drain_mode := True\<rparr>\<rparr>"

section \<open>Parties\<close>

definition create_party_body :: "platform \<Rightarrow> rstr \<Rightarrow> player_id \<Rightarrow> authority \<Rightarrow> operation_result outcome" where
  "create_party_body E name p st = (
     if bm_contains (au_player_party st) p
     then Some (Inl (already_exists ''player already belongs to a party''), st)
     else case party_new (pf_unicode E) (UuidId 0) p name of Inl e \<Rightarrow> Some (Inl (party_status e), st)
     | Inr party \<Rightarrow>
        (let (u, st) = next_uuid 1 st;
             party = party\<lparr>pa_id := from_uuid u\<rparr>;
             st = emit_party E party st
         in Some (Inr (ok_result (id_to_string (pf_uuid E) (pa_id party)) (pa_revision party)),
              st\<lparr>au_parties := bm_insert (pa_id party) party (au_parties st),
                 au_player_party := bm_insert p (pa_id party) (au_player_party st)\<rparr>)))"

definition create_party :: "platform \<Rightarrow> mutation_meta option \<Rightarrow> rstr \<Rightarrow> authority \<Rightarrow> operation_result outcome" where
  "create_party E m name = with_request m (create_party_body E name)"

definition create_invite :: "platform \<Rightarrow> rstr \<Rightarrow> mutation_meta option \<Rightarrow> rstr \<Rightarrow> u64 \<Rightarrow> u32 \<Rightarrow> u32 \<Rightarrow> authority
    \<Rightarrow> (status + (rstr \<times> i64)) \<times> authority" where
  "create_invite E fresh m party_id revision ttl_seconds uses st = (case request_meta st m of
      Inl e \<Rightarrow> (Inl e, st)
    | Inr (p, _) \<Rightarrow> (case party_for E party_id of Inl e \<Rightarrow> (Inl e, st)
    | Inr i \<Rightarrow> (case bm_get (au_parties st) i of None \<Rightarrow> (Inl (not_found ''party''), st)
    | Some party \<Rightarrow>
       if pa_leader party \<noteq> p then (Inl (permission_denied ''leader required''), st)
       else if pa_revision party \<noteq> revision then (Inl (aborted ''party revision conflict''), st)
       else if pa_state party \<noteq> PIdle then (Inl (failed_precondition ''party is frozen''), st)
       else let ttl = ucast (max 1 (min 3600 ttl_seconds)) * 1000;
                (token, invites) = invite_create fresh i (pf_now E) ttl (max 1 (min 100 uses)) (au_invites st)
            in (Inr (token, as_i64 (pf_now E + ttl)), st\<lparr>au_invites := invites\<rparr>))))"

definition join_party_body :: "platform \<Rightarrow> rstr \<Rightarrow> player_id \<Rightarrow> authority \<Rightarrow> operation_result outcome" where
  "join_party_body E token p st = (
     if bm_contains (au_player_party st) p
     then Some (Inl (already_exists ''player already belongs to a party''), st)
     else let (used, invites) = invite_consume token (pf_now E) (au_invites st);
              st = st\<lparr>au_invites := invites\<rparr>
     in case used of None \<Rightarrow> Some (Inl (not_found ''invite expired or exhausted''), st)
     | Some i \<Rightarrow> (case bm_get (au_parties st) i of None \<Rightarrow> Some (Inl (not_found ''party''), st)
       | Some party \<Rightarrow> (case party_join p party of
           (Inl e, party') \<Rightarrow> Some (Inl (party_status e), st\<lparr>au_parties := bm_insert i party' (au_parties st)\<rparr>)
         | (Inr _, party') \<Rightarrow>
             let st = st\<lparr>au_parties := bm_insert i party' (au_parties st),
                         au_player_party := bm_insert p i (au_player_party st)\<rparr>
             in Some (Inr (ok_result (id_to_string (pf_uuid E) i) (pa_revision party')), emit_party E party' st))))"

definition join_party :: "platform \<Rightarrow> mutation_meta option \<Rightarrow> rstr \<Rightarrow> authority \<Rightarrow> operation_result outcome" where
  "join_party E m token = with_request m (join_party_body E token)"

definition leave_party_body :: "platform \<Rightarrow> rstr \<Rightarrow> u64 \<Rightarrow> player_id \<Rightarrow> authority \<Rightarrow> operation_result outcome" where
  "leave_party_body E party_id revision p st = (
     case party_for E party_id of Inl e \<Rightarrow> Some (Inl e, st)
     | Inr i \<Rightarrow> (case bm_get (au_parties st) i of None \<Rightarrow> Some (Inl (not_found ''party''), st)
       | Some party \<Rightarrow>
          if pa_revision party \<noteq> revision then Some (Inl (aborted ''party revision conflict''), st)
          else (case party_leave p party of
             (Inl e, party') \<Rightarrow> Some (Inl (party_status e), st\<lparr>au_parties := bm_insert i party' (au_parties st)\<rparr>)
           | (Inr is_empty, party') \<Rightarrow>
               let st = st\<lparr>au_parties := bm_insert i party' (au_parties st),
                           au_player_party := bm_remove p (au_player_party st)\<rparr>;
                   st = (if is_empty then st\<lparr>au_parties := bm_remove i (au_parties st)\<rparr>
                         else emit_party E party' st)
               in Some (Inr (ok_result (id_to_string (pf_uuid E) i) (pa_revision party')), st))))"

definition leave_party :: "platform \<Rightarrow> mutation_meta option \<Rightarrow> rstr \<Rightarrow> u64 \<Rightarrow> authority \<Rightarrow> operation_result outcome" where
  "leave_party E m party_id revision = with_request m (leave_party_body E party_id revision)"

definition kick_member_body :: "platform \<Rightarrow> rstr \<Rightarrow> u64 \<Rightarrow> rstr \<Rightarrow> player_id \<Rightarrow> authority
    \<Rightarrow> operation_result outcome" where
  "kick_member_body E party_id revision player_id p st = (
     case party_for E party_id of Inl e \<Rightarrow> Some (Inl e, st)
     | Inr i \<Rightarrow> (case id_from_str (pf_uuid E) ''PlayerId'' player_id of
         Inl _ \<Rightarrow> Some (Inl (invalid_argument ''invalid player_id''), st)
       | Inr target \<Rightarrow> (case bm_get (au_parties st) i of None \<Rightarrow> Some (Inl (not_found ''party''), st)
         | Some party \<Rightarrow> (case party_kick p revision target party of
             (Inl e, party') \<Rightarrow> Some (Inl (party_status e), st\<lparr>au_parties := bm_insert i party' (au_parties st)\<rparr>)
           | (Inr _, party') \<Rightarrow>
               let st = st\<lparr>au_parties := bm_insert i party' (au_parties st),
                           au_player_party := bm_remove target (au_player_party st)\<rparr>
               in Some (Inr (ok_result (id_to_string (pf_uuid E) i) (pa_revision party')), emit_party E party' st)))))"

definition kick_member :: "platform \<Rightarrow> mutation_meta option \<Rightarrow> rstr \<Rightarrow> u64 \<Rightarrow> rstr \<Rightarrow> authority
    \<Rightarrow> operation_result outcome" where
  "kick_member E m party_id revision player_id = with_request m (kick_member_body E party_id revision player_id)"

definition rename_party_body :: "platform \<Rightarrow> rstr \<Rightarrow> u64 \<Rightarrow> rstr \<Rightarrow> player_id \<Rightarrow> authority
    \<Rightarrow> operation_result outcome" where
  "rename_party_body E party_id revision name p st = (
     case party_for E party_id of Inl e \<Rightarrow> Some (Inl e, st)
     | Inr i \<Rightarrow> (case bm_get (au_parties st) i of None \<Rightarrow> Some (Inl (not_found ''party''), st)
       | Some party \<Rightarrow> (case party_rename (pf_unicode E) p revision name party of
           (Inl e, party') \<Rightarrow> Some (Inl (party_status e), st\<lparr>au_parties := bm_insert i party' (au_parties st)\<rparr>)
         | (Inr _, party') \<Rightarrow>
             let st = st\<lparr>au_parties := bm_insert i party' (au_parties st)\<rparr>
             in Some (Inr (ok_result (id_to_string (pf_uuid E) i) (pa_revision party')), emit_party E party' st))))"

definition rename_party :: "platform \<Rightarrow> mutation_meta option \<Rightarrow> rstr \<Rightarrow> u64 \<Rightarrow> rstr \<Rightarrow> authority
    \<Rightarrow> operation_result outcome" where
  "rename_party E m party_id revision name = with_request m (rename_party_body E party_id revision name)"

section \<open>The queue\<close>

definition member_online :: "authority \<Rightarrow> player_id \<Rightarrow> bool" where
  "member_online st x \<longleftrightarrow> x \<notin> au_offline st \<and> list_ex (\<lambda>y. y = x) (bm_values (au_sessions st))"

definition member_suspended :: "platform \<Rightarrow> authority \<Rightarrow> player_id \<Rightarrow> bool" where
  "member_suspended E st x \<longleftrightarrow> credit_suspension_active (credit_of st x) (ec_minimum_credit (au_config st))
     (bm_get (au_credit_suspended_until st) x) (pf_now E)"

definition rating_spread :: "i32 list \<Rightarrow> int" where
  "rating_spread ratings = unwrap_or 1000 (iter_max ratings) - unwrap_or 1000 (iter_min ratings)"

definition enqueue_body :: "platform \<Rightarrow> rstr \<Rightarrow> u64 \<Rightarrow> i32 \<Rightarrow> rstr list \<Rightarrow> player_id \<Rightarrow> authority
    \<Rightarrow> operation_result outcome" where
  "enqueue_body E party_id revision wire_mode regions p st = (
     case party_for E party_id of Inl e \<Rightarrow> Some (Inl e, st)
     | Inr i \<Rightarrow> (case mode_of wire_mode of Inl e \<Rightarrow> Some (Inl e, st)
     | Inr mode \<Rightarrow> (case bm_get (au_parties st) i of None \<Rightarrow> Some (Inl (not_found ''party''), st)
     | Some party \<Rightarrow>
        if list_ex (\<lambda>x. \<not> member_online st x) (pa_members party)
        then Some (Inl (failed_precondition ''all party members must be online''), st)
        else if list_ex (member_suspended E st) (pa_members party)
        then Some (Inl (failed_precondition ''party contains a credit-suspended player''), st)
        else if rating_spread (map (\<lambda>x. rating_of st x mode) (pa_members party)) > ec_max_party_rating_spread (au_config st)
        then Some (Inl (failed_precondition ''party rating spread exceeds configured maximum''), st)
        else if regions = [] \<or> list_ex blank regions
        then Some (Inl (invalid_argument ''at least one valid allowed region is required''), st)
        else if pa_leader party \<noteq> p then Some (Inl (permission_denied ''leader required''), st)
        else if pa_revision party \<noteq> revision then Some (Inl (aborted ''party revision conflict''), st)
        else (case validate_enqueue party mode of Inl e \<Rightarrow> Some (Inl (party_status e), st)
          | Inr _ \<Rightarrow>
            (let party = party\<lparr>pa_state := PQueued, pa_revision := pa_revision party + 1\<rparr>;
                 st = st\<lparr>au_parties := bm_insert i party (au_parties st)\<rparr>;
                 (u, st) = next_uuid 2 st;
                 t = \<lparr>tr_id = from_uuid u, tr_mode = mode, tr_regions = regions,
                      tr_enqueued_at = au_logical_clock st, tr_queued_since_ms = pf_now E\<rparr>;
                 st = st\<lparr>au_tickets := bm_insert i t (au_tickets st)\<rparr>
             in Some (Inr (ok_result (id_to_string (pf_uuid E) (tr_id t)) (pa_revision party)), emit_party E party st))))))"

definition enqueue :: "platform \<Rightarrow> mutation_meta option \<Rightarrow> rstr \<Rightarrow> u64 \<Rightarrow> i32 \<Rightarrow> rstr list \<Rightarrow> authority
    \<Rightarrow> operation_result outcome" where
  "enqueue E m party_id revision wire_mode regions = with_request m (enqueue_body E party_id revision wire_mode regions)"

definition cancel_queue_body :: "platform \<Rightarrow> rstr \<Rightarrow> u64 \<Rightarrow> player_id \<Rightarrow> authority \<Rightarrow> operation_result outcome" where
  "cancel_queue_body E party_id revision p st = (
     case party_for E party_id of Inl e \<Rightarrow> Some (Inl e, st)
     | Inr i \<Rightarrow> (case bm_get (au_parties st) i of None \<Rightarrow> Some (Inl (not_found ''party''), st)
       | Some party \<Rightarrow>
          if pa_leader party \<noteq> p then Some (Inl (permission_denied ''leader required''), st)
          else if pa_revision party \<noteq> revision then Some (Inl (aborted ''party revision conflict''), st)
          else let party = party\<lparr>pa_state := PIdle, pa_revision := pa_revision party + 1\<rparr>;
                   st = st\<lparr>au_parties := bm_insert i party (au_parties st),
                           au_tickets := bm_remove i (au_tickets st)\<rparr>
               in Some (Inr (ok_result (id_to_string (pf_uuid E) i) (pa_revision party)), emit_party E party st)))"

definition cancel_queue :: "platform \<Rightarrow> mutation_meta option \<Rightarrow> rstr \<Rightarrow> u64 \<Rightarrow> authority \<Rightarrow> operation_result outcome" where
  "cancel_queue E m party_id revision = with_request m (cancel_queue_body E party_id revision)"

section \<open>Answers to a proposal\<close>

definition proposal_error_text :: "proposal_error \<Rightarrow> string" where
  "proposal_error_text e = (case e of ProposalStale \<Rightarrow> ''stale proposal'' | UnknownPlayer \<Rightarrow> ''unknown player'')"

text \<open>The last player has accepted: note the time and launch, or wait for a server.\<close>

definition place_proposal :: "platform \<Rightarrow> proposal_id \<Rightarrow> authority \<Rightarrow> unit outcome" where
  "place_proposal E pid st =
    (let st = (case bm_get (au_proposals st) pid of None \<Rightarrow> st
           | Some prop \<Rightarrow>
              let created = sat_sub (pr_deadline prop) (ec_ready_timeout_seconds (au_config st) * 1000)
              in on_metrics (\<lambda>mt. mt\<lparr>mt_ready_check_us := hist_observe
                   (sat_mul (sat_sub (pf_now E) created) 1000) (mt_ready_check_us mt)\<rparr>) st);
         placed = (\<lambda>st. on_metrics (\<lambda>mt. mt\<lparr>mt_placement_us := hist_observe (pf_elapsed_us E) (mt_placement_us mt)\<rparr>) st)
     in case launch E pid st of None \<Rightarrow> None
      | Some (Inr _, st) \<Rightarrow> Some (Inr (), placed st)
      | Some (Inl e, st) \<Rightarrow>
         if st_code e = CodeUnavailable
         then Some (Inr (), placed (st\<lparr>au_placement_waiting := bm_insert pid (placement_deadline E st)
                (au_placement_waiting st)\<rparr>))
         else Some (Inl e, st))"

definition proposal_response_body :: "platform \<Rightarrow> rstr \<Rightarrow> bool \<Rightarrow> player_id \<Rightarrow> authority
    \<Rightarrow> operation_result outcome" where
  "proposal_response_body E proposal_id accepted p st = (
     case id_from_str (pf_uuid E) ''ProposalId'' proposal_id of
       Inl _ \<Rightarrow> Some (Inl (invalid_argument ''proposal_id''), st)
     | Inr pid \<Rightarrow>
        if bm_get (au_player_proposal st) p \<noteq> Some pid then Some (Inl (failed_precondition ''stale proposal''), st)
        else (case bm_get (au_proposals st) pid of None \<Rightarrow> Some (Inl (not_found ''proposal''), st)
        | Some prop \<Rightarrow> (case respond pid p accepted prop of
            (Inl e, prop') \<Rightarrow> Some (Inl (failed_precondition (proposal_error_text e)),
               st\<lparr>au_proposals := bm_insert pid prop' (au_proposals st)\<rparr>)
          | (Inr state, prop') \<Rightarrow>
             let st = st\<lparr>au_proposals := bm_insert pid prop' (au_proposals st)\<rparr>;
                 st = (if accepted then on_metrics (\<lambda>mt. mt\<lparr>mt_ready_accepts := counter_add 1 (mt_ready_accepts mt)\<rparr>) st
                       else st);
                 st = (if state = Cancelled then cancel_proposal E pid False st else st);
                 result = \<lparr>or_accepted = True, or_code = lit (if accepted then ''ACCEPTED'' else ''REJECTED''),
                   or_message = [], or_entity_id = id_to_string (pf_uuid E) pid, or_revision = 0\<rparr>
             in if state = AwaitingPlacement
                then (case place_proposal E pid st of None \<Rightarrow> None
                  | Some (Inl e, st) \<Rightarrow> Some (Inl e, st)
                  | Some (Inr _, st) \<Rightarrow> Some (Inr result, st))
                else Some (Inr result, st))))"

definition proposal_response :: "platform \<Rightarrow> mutation_meta option \<Rightarrow> rstr \<Rightarrow> bool \<Rightarrow> authority
    \<Rightarrow> operation_result outcome" where
  "proposal_response E m proposal_id accepted = with_request m (proposal_response_body E proposal_id accepted)"

section \<open>Reading the state\<close>

definition get_state :: "platform \<Rightarrow> api_version option \<Rightarrow> rstr \<Rightarrow> authority \<Rightarrow> status + client_state" where
  "get_state E api token st = (case check_api api of Inl e \<Rightarrow> Inl e
    | Inr _ \<Rightarrow> (case player_for st token of Inl e \<Rightarrow> Inl e | Inr p \<Rightarrow> Inr (client_state_of E st p)))"

definition watch_events :: "api_version option \<Rightarrow> rstr \<Rightarrow> authority \<Rightarrow> status + player_id" where
  "watch_events api token st = (case check_api api of Inl e \<Rightarrow> Inl e
    | Inr _ \<Rightarrow> (case player_for st token of Inl e \<Rightarrow> Inl e
      | Inr p \<Rightarrow> if p \<in> au_events st then Inr p else Inl (not_found ''event channel'')))"

end
