(* ===== verification/Authority_Servers.thy ===== *)
theory Authority_Servers
  imports Authority_Rpc
begin

text \<open>
  \<open>core/src/grpc/mod.rs\<close>, part 6: the calls of game servers and administrators, the bounded
  command queue of \<open>CoreHandle\<close>, and the two branches of the actor's loop.
\<close>

section \<open>Registration\<close>

record register_msg =
  rg_api :: "api_version option"
  rg_auth_token :: rstr
  rg_server_id :: rstr
  rg_generation :: u64
  rg_endpoint :: rstr
  rg_region :: rstr
  rg_capacity_total :: u32
  rg_max_instances :: u32
  rg_mode_costs :: "(i32 \<times> u32) list"
  rg_instances :: "instance_msg list"
  rg_server_class :: rstr

fun read_costs :: "(i32 \<times> u32) list \<Rightarrow> (queue_mode, u32) bmap \<Rightarrow> status + (queue_mode, u32) bmap" where
  "read_costs [] costs = Inr costs"
| "read_costs ((m, c) # rest) costs = (case mode_of m of Inl e \<Rightarrow> Inl e
    | Inr mode \<Rightarrow> read_costs rest (bm_insert mode c costs))"

definition class_mode :: "rstr \<Rightarrow> status + queue_mode" where
  "class_mode name = (let s = to_ascii_lowercase name in
     if s = lit ''1v1'' \<or> s = lit ''one_vs_one'' then Inr OneVsOne
     else if s = lit ''5v5'' \<or> s = lit ''five_vs_five'' then Inr FiveVsFive
     else if s = lit ''ffa8'' \<or> s = lit ''free_for_all'' then Inr FreeForAll
     else Inl (invalid_argument ''server class mode''))"

fun trusted_costs :: "(rstr \<times> u32) list \<Rightarrow> (queue_mode, u32) bmap \<Rightarrow> status + (queue_mode, u32) bmap" where
  "trusted_costs [] costs = Inr costs"
| "trusted_costs ((name, c) # rest) costs = (case class_mode name of Inl e \<Rightarrow> Inl e
    | Inr mode \<Rightarrow> trusted_costs rest (bm_insert mode c costs))"

definition reported_instance :: "match_id \<Rightarrow> instance_state \<Rightarrow> instance_msg \<Rightarrow> inst" where
  "reported_instance m state i = \<lparr>in_match_id = m, in_cost = im_reserved_cost i, in_state = state,
     in_endpoint = (if im_endpoint i = [] then None else Some (im_endpoint i)),
     in_connection_token = (if im_connection_token i = [] then None else Some (im_connection_token i))\<rparr>"

fun read_instances :: "platform \<Rightarrow> string \<Rightarrow> instance_msg list \<Rightarrow> (match_id, inst) bmap
    \<Rightarrow> status + (match_id, inst) bmap" where
  "read_instances E what [] out = Inr out"
| "read_instances E what (i # is) out = (case id_from_str (pf_uuid E) ''MatchId'' (im_match_id i) of
      Inl _ \<Rightarrow> Inl (invalid_argument what)
    | Inr m \<Rightarrow> (case parse_instance (im_state i) of Inl e \<Rightarrow> Inl e
      | Inr state \<Rightarrow>
          if bm_contains out m then Inl (invalid_argument ''duplicate instance match_id'')
          else read_instances E what is (bm_insert m (reported_instance m state i) out)))"

text \<open>The checks of the mode costs against the trusted class.\<close>

definition check_costs :: "erps_config \<Rightarrow> rstr \<Rightarrow> (queue_mode, u32) bmap \<Rightarrow> status + unit" where
  "check_costs config class_name costs = (case bm_get (ec_server_classes config) class_name of
      None \<Rightarrow> Inr ()
    | Some policy \<Rightarrow> (case trusted_costs (entries (sc_mode_costs policy)) bm_empty of Inl e \<Rightarrow> Inl e
      | Inr trusted \<Rightarrow> if costs \<noteq> trusted
          then Inl (permission_denied ''reported mode costs differ from trusted server class'') else Inr ()))"

definition class_limits :: "erps_config \<Rightarrow> rstr \<Rightarrow> status + server_limits" where
  "class_limits config class_name =
    (if class_name = [] then Inr \<lparr>sl_max_capacity = - 1, sl_max_instances = 100\<rparr>
     else case bm_get (ec_server_classes config) class_name of
       None \<Rightarrow> Inl (permission_denied ''unknown server class'')
     | Some policy \<Rightarrow> Inr \<lparr>sl_max_capacity = sc_capacity_limit policy, sl_max_instances = sc_max_instances policy\<rparr>)"

definition register_job :: "platform \<Rightarrow> server_id \<Rightarrow> register_msg \<Rightarrow> authority \<Rightarrow> (status + unit) \<times> authority" where
  "register_job E sid req st =
    (if ec_tls_certificate_path (au_config st) \<noteq> None \<and> rg_server_class req = []
     then (Inl (permission_denied ''production game servers require a trusted server class''), st)
     else case read_costs (rg_mode_costs req) bm_empty of Inl e \<Rightarrow> (Inl e, st)
     | Inr costs \<Rightarrow> (case check_costs (au_config st) (rg_server_class req) costs of Inl e \<Rightarrow> (Inl e, st)
     | Inr _ \<Rightarrow> (case read_instances E ''instance match_id'' (rg_instances req) bm_empty of Inl e \<Rightarrow> (Inl e, st)
     | Inr instances \<Rightarrow> (case checked_cost (filter live (bm_values instances)) 0 of
         None \<Rightarrow> (Inl (invalid_argument ''instance capacity overflow''), st)
     | Some used \<Rightarrow>
        if \<not> unat (rg_max_instances req) < 65536 then (Inl (invalid_argument ''max_instances''), st)
        else (case class_limits (au_config st) (rg_server_class req) of Inl e \<Rightarrow> (Inl e, st)
     | Inr limits \<Rightarrow>
        let server = \<lparr>gs_id = sid, gs_generation = rg_generation req, gs_endpoint = rg_endpoint req,
              gs_region = rg_region req, gs_modes = set (bm_keys costs), gs_capacity_total = rg_capacity_total req,
              gs_capacity_used = used, gs_max_instances = ucast (rg_max_instances req), gs_mode_costs = costs,
              gs_last_heartbeat = pf_now E, gs_health = Healthy, gs_failures = 0, gs_instances = instances\<rparr>
        in (case register server limits (au_registry st) of
              (Inl e, r) \<Rightarrow> (Inl (failed_precondition (server_error_text e)), with_registry st r)
            | (Inr _, r) \<Rightarrow> (Inr (), (with_registry st r)\<lparr>au_controls := bm_remove sid (au_controls st)\<rparr>)))))))"

definition register_server :: "platform \<Rightarrow> (rstr \<Rightarrow> server_id \<Rightarrow> status + unit) \<Rightarrow> register_msg \<Rightarrow> authority
    \<Rightarrow> (status + unit) \<times> authority" where
  "register_server E validator req st = (case check_api (rg_api req) of Inl e \<Rightarrow> (Inl e, st)
    | Inr _ \<Rightarrow> (case id_from_str (pf_uuid E) ''ServerId'' (rg_server_id req) of
        Inl _ \<Rightarrow> (Inl (invalid_argument ''invalid server_id''), st)
      | Inr sid \<Rightarrow> (case validator (rg_auth_token req) sid of Inl e \<Rightarrow> (Inl e, st)
        | Inr _ \<Rightarrow> register_job E sid req st)))"

section \<open>The control stream\<close>

record control_msg =
  cm_api :: "api_version option"
  cm_auth_token :: rstr
  cm_server_id :: rstr
  cm_generation :: u64
  cm_message :: "server_message option"

definition control_message_job :: "platform \<Rightarrow> (rstr \<Rightarrow> server_id \<Rightarrow> status + unit) \<Rightarrow> channel_id \<Rightarrow> control_msg
    \<Rightarrow> authority \<Rightarrow> unit outcome" where
  "control_message_job E validator ch msg st = (case check_api (cm_api msg) of Inl e \<Rightarrow> Some (Inl e, st)
    | Inr _ \<Rightarrow> (case id_from_str (pf_uuid E) ''ServerId'' (cm_server_id msg) of
        Inl _ \<Rightarrow> Some (Inl (invalid_argument ''server_id''), st)
      | Inr sid \<Rightarrow> (case validator (cm_auth_token msg) sid of Inl e \<Rightarrow> Some (Inl e, st)
        | Inr _ \<Rightarrow> apply_server_control E sid (cm_generation msg) ch (cm_message msg) st)))"

text \<open>The stream's task: the first error is sent to the server (waiting for room) and ends it.\<close>

definition send_reply :: "channel_id \<Rightarrow> status + erps_control \<Rightarrow> authority \<Rightarrow> authority" where
  "send_reply ch msg st = st\<lparr>au_channels := bm_update ch
     (\<lambda>c. if ch_open c then c\<lparr>ch_queue := ch_queue c @ [msg]\<rparr> else c) (au_channels st)\<rparr>"

fun control_stream :: "platform \<Rightarrow> (rstr \<Rightarrow> server_id \<Rightarrow> status + unit) \<Rightarrow> channel_id \<Rightarrow> control_msg list
    \<Rightarrow> authority \<Rightarrow> authority option" where
  "control_stream E validator ch [] st = Some st"
| "control_stream E validator ch (msg # msgs) st = (case control_message_job E validator ch msg st of
      None \<Rightarrow> None
    | Some (Inl e, st) \<Rightarrow> Some (send_reply ch (Inl e) st)
    | Some (Inr _, st) \<Rightarrow> control_stream E validator ch msgs st)"

section \<open>Reconciliation\<close>

record reconcile_msg =
  rc_api :: "api_version option"
  rc_auth_token :: rstr
  rc_server_id :: rstr
  rc_generation :: u64
  rc_instances :: "instance_msg list"

text \<open>The reports that may publish a match, in the order of the request.\<close>

definition recoverable :: "instance_msg list \<Rightarrow> launch_result_msg list" where
  "recoverable is = map (\<lambda>i. \<lparr>lr_match_id = im_match_id i, lr_state = lit ''ready'', lr_endpoint = im_endpoint i,
       lr_connection_token = im_connection_token i, lr_reason = []\<rparr>)
     (filter (\<lambda>i. (parse_instance (im_state i) = Inr InReady \<or> parse_instance (im_state i) = Inr InRunning)
        \<and> im_endpoint i \<noteq> [] \<and> im_connection_token i \<noteq> []) is)"

fun recover_launches :: "platform \<Rightarrow> server_id \<Rightarrow> launch_result_msg list \<Rightarrow> authority \<Rightarrow> unit outcome" where
  "recover_launches E sid [] st = Some (Inr (), st)"
| "recover_launches E sid (ready # rest) st = (case id_from_str (pf_uuid E) ''MatchId'' (lr_match_id ready) of
      Inl _ \<Rightarrow> Some (Inl (invalid_argument ''match_id''), st)
    | Inr m \<Rightarrow>
        if bm_contains (au_launches st) m \<and> \<not> list_ex (\<lambda>x. x = m) (bm_values (au_player_match st))
        then (case launch_result E sid ready st of
            Some (Inr _, st) \<Rightarrow> recover_launches E sid rest st
          | other \<Rightarrow> other)
        else recover_launches E sid rest st)"

definition reconcile_job :: "platform \<Rightarrow> server_id \<Rightarrow> reconcile_msg \<Rightarrow> authority \<Rightarrow> unit outcome" where
  "reconcile_job E sid req st = (case read_instances E ''match_id'' (rc_instances req) bm_empty of
      Inl e \<Rightarrow> Some (Inl e, st)
    | Inr instances \<Rightarrow> (case reconcile sid (rc_generation req) instances (au_registry st) of
        (Inl e, r) \<Rightarrow> Some (Inl (failed_precondition (server_error_text e)), with_registry st r)
      | (Inr _, r) \<Rightarrow> recover_launches E sid (recoverable (rc_instances req)) (with_registry st r)))"

definition reconcile_instances :: "platform \<Rightarrow> (rstr \<Rightarrow> server_id \<Rightarrow> status + unit) \<Rightarrow> reconcile_msg \<Rightarrow> authority
    \<Rightarrow> unit outcome" where
  "reconcile_instances E validator req st = (case check_api (rc_api req) of Inl e \<Rightarrow> Some (Inl e, st)
    | Inr _ \<Rightarrow> (case id_from_str (pf_uuid E) ''ServerId'' (rc_server_id req) of
        Inl _ \<Rightarrow> Some (Inl (invalid_argument ''server_id''), st)
      | Inr sid \<Rightarrow> (case validator (rc_auth_token req) sid of Inl e \<Rightarrow> Some (Inl e, st)
        | Inr _ \<Rightarrow> reconcile_job E sid req st)))"

section \<open>The administrator's snapshot\<close>

record queue_summary =
  qs_mode :: i32
  qs_region :: rstr
  qs_tickets :: u64
  qs_players :: u64

record server_summary =
  ss_server_id :: rstr
  ss_health :: rstr
  ss_capacity_total :: u32
  ss_capacity_used :: u32
  ss_max_instances :: u32
  ss_running_instances :: u32

record latency_summary =
  ls_stage :: rstr
  ls_summary :: histogram_summary

record metric_summary =
  mu_commands :: u64
  mu_proposals :: u64
  mu_ready_accepts :: u64
  mu_ready_rejects :: u64
  mu_ready_timeouts :: u64
  mu_credit_penalties :: u64
  mu_launch_failures :: u64
  mu_reconnects :: u64
  mu_invariant_failures :: u64
  mu_command_queue_high :: u64
  mu_event_queue_high :: u64
  mu_control_queue_high :: u64
  mu_elo_quality_sum :: u64
  mu_party_structure_difference_sum :: u64
  mu_latencies :: "latency_summary list"

record admin_snapshot =
  as_queues :: "queue_summary list"
  as_servers :: "server_summary list"
  as_matches :: u64
  as_reservations :: u64
  as_metrics :: metric_summary

definition latency_of :: "string \<Rightarrow> u64 list \<Rightarrow> latency_summary option" where
  "latency_of stage values = map_option (\<lambda>s. \<lparr>ls_stage = lit stage, ls_summary = s\<rparr>) (hist_summary values)"

definition admin_metrics :: "metrics \<Rightarrow> metric_summary option" where
  "admin_metrics m = map_option (\<lambda>latencies. \<lparr>mu_commands = mt_commands m, mu_proposals = mt_matches m,
       mu_ready_accepts = mt_ready_accepts m, mu_ready_rejects = mt_ready_rejects m,
       mu_ready_timeouts = mt_ready_timeouts m, mu_credit_penalties = mt_credit_penalties m,
       mu_launch_failures = mt_launch_failures m, mu_reconnects = mt_reconnects m,
       mu_invariant_failures = mt_invariant_failures m, mu_command_queue_high = mt_command_queue_high m,
       mu_event_queue_high = mt_event_queue_high m, mu_control_queue_high = mt_control_queue_high m,
       mu_elo_quality_sum = ms_elo_quality_sum (mt_lifecycle m),
       mu_party_structure_difference_sum = ms_party_structure_difference_sum (mt_lifecycle m),
       mu_latencies = latencies\<rparr>)
     (all_some [latency_of ''queue_wait'' (mt_queue_wait_us m),
       latency_of ''candidate_compute'' (mt_candidate_compute_us m), latency_of ''commit'' (mt_commit_us m),
       latency_of ''ready_check'' (mt_ready_check_us m), latency_of ''placement'' (mt_placement_us m),
       latency_of ''launch'' (mt_launch_us m)])"

definition grouped_queues :: "authority \<Rightarrow> (queue_mode \<times> rstr, u64 \<times> u64) bmap" where
  "grouped_queues st = fold (\<lambda>(pid, t) m.
     let players = (case bm_get (au_parties st) pid of None \<Rightarrow> 0 | Some p \<Rightarrow> of_nat (length (pa_members p)))
     in fold (\<lambda>region m. let (a, b) = unwrap_or (0, 0) (bm_get m (tr_mode t, region))
          in bm_insert (tr_mode t, region) (a + 1, b + players) m) (tr_regions t) m)
     (entries (au_tickets st)) bm_empty"

definition health_text :: "health \<Rightarrow> rstr" where
  "health_text h = lit (case h of Healthy \<Rightarrow> ''Healthy'' | Unhealthy \<Rightarrow> ''Unhealthy'' | Lost \<Rightarrow> ''Lost'')"

definition snapshot_job :: "platform \<Rightarrow> authority \<Rightarrow> admin_snapshot option" where
  "snapshot_job E st = map_option (\<lambda>mt. \<lparr>
     as_queues = map (\<lambda>((m, r), (tickets, players)). \<lparr>qs_mode = pb_mode m, qs_region = r, qs_tickets = tickets,
       qs_players = players\<rparr>) (entries (grouped_queues st)),
     as_servers = map (\<lambda>s. \<lparr>ss_server_id = id_to_string (pf_uuid E) (gs_id s), ss_health = health_text (gs_health s),
       ss_capacity_total = gs_capacity_total s, ss_capacity_used = gs_capacity_used s,
       ss_max_instances = ucast (gs_max_instances s), ss_running_instances = of_nat (instance_count InRunning s)\<rparr>)
       (bm_values (au_registry st)),
     as_matches = of_nat (bm_size (au_launches st)),
     as_reservations = of_nat (sum_list (map (\<lambda>s. length (filter (\<lambda>i. in_state i = InReserved \<or> in_state i = InAccepted)
       (bm_values (gs_instances s)))) (bm_values (au_registry st)))),
     as_metrics = mt\<rparr>) (admin_metrics (au_metrics st))"

definition snapshot :: "platform \<Rightarrow> api_version option \<Rightarrow> authority \<Rightarrow> (status + admin_snapshot) option" where
  "snapshot E api st = (case check_api api of Inl e \<Rightarrow> Some (Inl e)
    | Inr _ \<Rightarrow> map_option Inr (snapshot_job E st))"

section \<open>The command queue and the actor\<close>

type_synonym job = "authority \<Rightarrow> authority option"

record core_handle =
  co_capacity :: nat
  co_queue :: "(u64 \<times> job) list"
  co_sequence :: u64
  co_commands :: u64
  co_command_queue_high :: u64

definition core_new :: "erps_config \<Rightarrow> core_handle" where
  "core_new config = \<lparr>co_capacity = ec_command_queue_capacity config, co_queue = [], co_sequence = 0,
     co_commands = 0, co_command_queue_high = 0\<rparr>"

text \<open>\<open>call\<close> up to the enqueueing of the job; the answer comes when the job has run.\<close>

definition core_call :: "job \<Rightarrow> core_handle \<Rightarrow> (status + unit) \<times> core_handle" where
  "core_call job co =
    (let co = co\<lparr>co_commands := counter_add 1 (co_commands co),
                 co_command_queue_high := hw_observe (of_nat (length (co_queue co))) (co_command_queue_high co),
                 co_sequence := co_sequence co + 1\<rparr>;
         sequence = co_sequence co - 1
     in if length (co_queue co) < co_capacity co
        then (Inr (), co\<lparr>co_queue := co_queue co @ [(sequence, job)]\<rparr>)
        else (Inl (resource_exhausted ''ERPS command queue is full''), co))"

definition run_job :: "u64 \<times> job \<Rightarrow> authority \<Rightarrow> authority option" where
  "run_job j st = (snd j) (st\<lparr>au_logical_clock := sat_add (au_logical_clock st) 1\<rparr>)"

text \<open>One wake-up of the actor: all queued jobs by their sequence number, then matching.\<close>

definition run_batch :: "platform \<Rightarrow> (u64 \<times> job) list \<Rightarrow> authority \<Rightarrow> authority option" where
  "run_batch E jobs st = (case fold_opt run_job (sort_key fst jobs) st of None \<Rightarrow> None
    | Some st \<Rightarrow> Some (rebuild_ecs E (attempt_all_matches E (rebuild_ecs E st))))"

definition flush_saves :: "(player_id \<Rightarrow> player_profile option \<Rightarrow> player_profile \<Rightarrow> 'p \<Rightarrow> (profile_error + unit) \<times> 'p)
    \<Rightarrow> 'p \<Rightarrow> authority \<Rightarrow> 'p \<times> authority" where
  "flush_saves save store st = fold (\<lambda>(p, profile) (store, st). case save p None profile store of
       (Inl _, store) \<Rightarrow> (store, on_metrics (\<lambda>m. m\<lparr>mt_invariant_failures := counter_add 1 (mt_invariant_failures m)\<rparr>) st)
     | (Inr _, store) \<Rightarrow> (store, st))
     (au_pending_profile_saves st) (store, st\<lparr>au_pending_profile_saves := []\<rparr>)"

datatype wakeup = Jobs "(u64 \<times> job) list" | Interval

definition actor_step :: "platform \<Rightarrow> (player_id \<Rightarrow> player_profile option \<Rightarrow> player_profile \<Rightarrow> 'p \<Rightarrow> (profile_error + unit) \<times> 'p)
    \<Rightarrow> wakeup \<Rightarrow> 'p \<times> authority \<Rightarrow> ('p \<times> authority) option" where
  "actor_step E save w s = (case s of (store, st) \<Rightarrow>
     (case (case w of Jobs jobs \<Rightarrow> run_batch E jobs st | Interval \<Rightarrow> tick E st) of
        None \<Rightarrow> None
      | Some st \<Rightarrow> Some (flush_saves save store st)))"

end
