(* ===== verification/Authority_Frame.thy ===== *)
theory Authority_Frame
  imports Authority_Servers
begin

text \<open>
  What the parts of the authority leave alone. The lemmas are simplification rules: each says
  that an operation keeps a field of the state, so that the proofs about the calls only see the
  fields that matter.
\<close>

lemma fold_frame: "(\<And>x s. f (g x s) = f s) \<Longrightarrow> f (fold g xs s) = f s"
  by (induction xs arbitrary: s) auto

lemma fold_inv: "(\<And>x s. x \<in> set xs \<Longrightarrow> P s \<Longrightarrow> P (g x s)) \<Longrightarrow> P s \<Longrightarrow> P (fold g xs s)"
  by (induction xs arbitrary: s) auto

lemma fold_opt_inv:
  "(\<And>x s. x \<in> set xs \<Longrightarrow> P s \<Longrightarrow> \<exists>s'. g x s = Some s' \<and> P s') \<Longrightarrow> P s \<Longrightarrow> \<exists>s'. fold_opt g xs s = Some s' \<and> P s'"
proof (induction xs arbitrary: s)
  case (Cons x xs)
  obtain s1 where "g x s = Some s1" "P s1" using Cons.prems by fastforce
  with Cons.IH [of s1] Cons.prems show ?case by auto
qed simp

text \<open>The core of a state: the fields that events, metrics and credit do not touch.\<close>

definition core_of :: "authority \<Rightarrow> erps_config \<times> (rstr, player_id) bmap \<times> registry
    \<times> (server_id, channel_id) bmap \<times> (match_id, server_id \<times> proposal_id) bmap
    \<times> (match_id, u64) bmap \<times> (proposal_id, proposal) bmap \<times> (player_id \<times> rstr, operation_result) bmap" where
  "core_of st = (au_config st, au_sessions st, au_registry st, au_controls st, au_launches st,
     au_launch_deadlines st, au_proposals st, au_request_cache st)"

definition queue_of :: "authority \<Rightarrow> (party_id, party) bmap \<times> (party_id, ticket_record) bmap \<times> claims
    \<times> (proposal_id, (party_id \<times> ticket_record) list) bmap \<times> player_id set
    \<times> (player_id, match_id) bmap" where
  "queue_of st = (au_parties st, au_tickets st, au_claims st, au_proposal_tickets st, au_offline st, au_player_match st)"

lemma core_eqD:
  assumes "core_of s = core_of t"
  shows "au_config s = au_config t" "au_sessions s = au_sessions t" "au_registry s = au_registry t"
    "au_controls s = au_controls t" "au_launches s = au_launches t"
    "au_launch_deadlines s = au_launch_deadlines t" "au_proposals s = au_proposals t"
    "au_request_cache s = au_request_cache t"
  using assms by (simp_all add: core_of_def)

lemma queue_eqD:
  assumes "queue_of s = queue_of t"
  shows "au_parties s = au_parties t" "au_tickets s = au_tickets t" "au_claims s = au_claims t"
    "au_proposal_tickets s = au_proposal_tickets t" "au_offline s = au_offline t" "au_player_match s = au_player_match t"
  using assms by (simp_all add: queue_of_def)

section \<open>Metrics and events\<close>

lemma on_metrics_frame [simp]: "core_of (on_metrics f st) = core_of st" "queue_of (on_metrics f st) = queue_of st"
  "au_player_proposal (on_metrics f st) = au_player_proposal st" "au_credit (on_metrics f st) = au_credit st"
  "au_player_party (on_metrics f st) = au_player_party st" "au_next_domain_id (on_metrics f st) = au_next_domain_id st"
  by (simp_all add: on_metrics_def core_of_def queue_of_def)

lemma send_event_frame [simp]: "core_of (send_event p e st) = core_of st" "queue_of (send_event p e st) = queue_of st"
  "au_player_proposal (send_event p e st) = au_player_proposal st" "au_credit (send_event p e st) = au_credit st"
  "au_player_party (send_event p e st) = au_player_party st" "au_next_domain_id (send_event p e st) = au_next_domain_id st"
  by (simp_all add: send_event_def core_of_def queue_of_def)

lemma send_event_noted_frame [simp]: "core_of (send_event_noted E p e st) = core_of st"
  "queue_of (send_event_noted E p e st) = queue_of st"
  "au_player_proposal (send_event_noted E p e st) = au_player_proposal st"
  "au_credit (send_event_noted E p e st) = au_credit st"
  "au_player_party (send_event_noted E p e st) = au_player_party st"
  "au_next_domain_id (send_event_noted E p e st) = au_next_domain_id st"
  by (simp_all add: send_event_noted_def)

lemma emit_party_frame [simp]: "core_of (emit_party E q st) = core_of st" "queue_of (emit_party E q st) = queue_of st"
  "au_player_proposal (emit_party E q st) = au_player_proposal st" "au_credit (emit_party E q st) = au_credit st"
  "au_player_party (emit_party E q st) = au_player_party st" "au_next_domain_id (emit_party E q st) = au_next_domain_id st"
  by (simp_all add: emit_party_def Let_def fold_frame [where f = core_of] fold_frame [where f = queue_of]
      fold_frame [where f = au_player_proposal] fold_frame [where f = au_credit]
      fold_frame [where f = au_player_party] fold_frame [where f = au_next_domain_id])

lemma emit_party_of_frame [simp]: "core_of (emit_party_of E i st) = core_of st" "queue_of (emit_party_of E i st) = queue_of st"
  "au_player_proposal (emit_party_of E i st) = au_player_proposal st" "au_credit (emit_party_of E i st) = au_credit st"
  by (simp_all add: emit_party_of_def split: option.split)

lemma next_uuid_frame [simp]: "core_of (snd (next_uuid k st)) = core_of st" "queue_of (snd (next_uuid k st)) = queue_of st"
  "au_player_proposal (snd (next_uuid k st)) = au_player_proposal st"
  by (simp_all add: next_uuid_def core_of_def queue_of_def Let_def)

lemma rebuild_ecs_frame [simp]: "core_of (rebuild_ecs E st) = core_of st" "queue_of (rebuild_ecs E st) = queue_of st"
  "au_player_proposal (rebuild_ecs E st) = au_player_proposal st" "au_credit (rebuild_ecs E st) = au_credit st"
  by (simp_all add: rebuild_ecs_def on_metrics_def core_of_def queue_of_def)

text \<open>The same for the single fields, as simplification rules.\<close>

lemmas metrics_fields [simp] = core_eqD [OF on_metrics_frame(1)] queue_eqD [OF on_metrics_frame(2)]
lemmas send_event_fields [simp] = core_eqD [OF send_event_frame(1)] queue_eqD [OF send_event_frame(2)]
lemmas send_noted_fields [simp] = core_eqD [OF send_event_noted_frame(1)] queue_eqD [OF send_event_noted_frame(2)]
lemmas emit_party_fields [simp] = core_eqD [OF emit_party_frame(1)] queue_eqD [OF emit_party_frame(2)]
lemmas emit_party_of_fields [simp] = core_eqD [OF emit_party_of_frame(1)] queue_eqD [OF emit_party_of_frame(2)]
lemmas next_uuid_fields [simp] = core_eqD [OF next_uuid_frame(1)] queue_eqD [OF next_uuid_frame(2)]
lemmas rebuild_ecs_fields [simp] = core_eqD [OF rebuild_ecs_frame(1)] queue_eqD [OF rebuild_ecs_frame(2)]

text \<open>The fields outside the core.\<close>

lemma core_update [simp]:
  "core_of (st\<lparr>au_pending_profile_saves := a\<rparr>) = core_of st" "core_of (st\<lparr>au_proposal_tickets := b\<rparr>) = core_of st"
  "core_of (st\<lparr>au_claims := c\<rparr>) = core_of st" "core_of (st\<lparr>au_placement_waiting := d\<rparr>) = core_of st"
  "core_of (st\<lparr>au_player_proposal := e\<rparr>) = core_of st" "core_of (st\<lparr>au_tickets := f\<rparr>) = core_of st"
  "core_of (st\<lparr>au_parties := g\<rparr>) = core_of st" "core_of (st\<lparr>au_player_match := h\<rparr>) = core_of st"
  "core_of (st\<lparr>au_offline := i\<rparr>) = core_of st" "core_of (st\<lparr>au_player_party := j\<rparr>) = core_of st"
  "core_of (st\<lparr>au_invites := k\<rparr>) = core_of st" "core_of (st\<lparr>au_events := l\<rparr>) = core_of st"
  "core_of (st\<lparr>au_disconnect_deadlines := m\<rparr>) = core_of st" "core_of (st\<lparr>au_credit := n\<rparr>) = core_of st"
  by (simp_all add: core_of_def)

section \<open>Cancellation\<close>

lemma penalize_core [simp]: "core_of (penalize E p c st) = core_of st" "queue_of (penalize E p c st) = queue_of st"
  "au_player_proposal (penalize E p c st) = au_player_proposal st" "au_player_party (penalize E p c st) = au_player_party st"
  by (simp_all add: penalize_def Let_def core_of_def queue_of_def)

lemmas penalize_fields [simp] = core_eqD [OF penalize_core(1)] queue_eqD [OF penalize_core(2)]

lemma settle_decision_frame [simp]: "core_of (settle_decision E pid i d st) = core_of st"
  "queue_of (settle_decision E pid i d st) = queue_of st"
  "au_player_proposal (settle_decision E pid i d st) = bm_remove (rd_player d) (au_player_proposal st)"
  "au_player_party (settle_decision E pid i d st) = au_player_party st"
  by (auto simp: settle_decision_def Let_def core_of_def queue_of_def split: option.split credit_cause.split)

lemma restore_ticket_core [simp]: "core_of (restore_ticket prop infra e st) = core_of st"
  "au_player_proposal (restore_ticket prop infra e st) = au_player_proposal st"
  "au_credit (restore_ticket prop infra e st) = au_credit st"
  "au_claims (restore_ticket prop infra e st) = au_claims st"
  by (auto simp: restore_ticket_def core_of_def split: prod.split option.split)

lemma take_tickets_core: "core_of (snd (take_tickets is saved st)) = core_of st
   \<and> au_player_proposal (snd (take_tickets is saved st)) = au_player_proposal st
   \<and> au_claims (snd (take_tickets is saved st)) = au_claims st"
proof (induction "is" saved st rule: take_tickets.induct)
  case (2 i "is" saved st)
  then show ?case by (cases "bm_get (au_tickets st) i") (auto simp: Let_def core_of_def)
qed simp

lemma cancel_proposal_core [simp]: "core_of (cancel_proposal E pid infra st) = core_of st"
proof (cases "bm_get (au_proposals st) pid")
  case (Some q)
  then show ?thesis
    by (simp add: cancel_proposal_def Let_def fold_frame [where f = core_of] split: option.split)
qed (simp add: cancel_proposal_def)

lemmas cancel_proposal_fields [simp] = core_eqD [OF cancel_proposal_core]

section \<open>Launching\<close>

lemma try_send_frame [simp]: "core_of (snd (try_send ch m st)) = core_of st" "queue_of (snd (try_send ch m st)) = queue_of st"
  "au_player_proposal (snd (try_send ch m st)) = au_player_proposal st" "au_credit (snd (try_send ch m st)) = au_credit st"
  by (simp_all add: try_send_def core_of_def queue_of_def split: option.split)

lemma note_backlog_frame [simp]: "core_of (note_control_backlog ch st) = core_of st"
  "queue_of (note_control_backlog ch st) = queue_of st"
  by (simp_all add: note_control_backlog_def)

lemmas try_send_fields [simp] = core_eqD [OF try_send_frame(1)] queue_eqD [OF try_send_frame(2)]
lemmas note_backlog_fields [simp] = core_eqD [OF note_backlog_frame(1)] queue_eqD [OF note_backlog_frame(2)]

lemma with_registry_fields [simp]: "au_registry (with_registry st r) = r" "au_config (with_registry st r) = au_config st"
  "au_sessions (with_registry st r) = au_sessions st" "au_proposals (with_registry st r) = au_proposals st"
  "au_controls (with_registry st r) = au_controls st" "au_launches (with_registry st r) = au_launches st"
  "au_launch_deadlines (with_registry st r) = au_launch_deadlines st"
  "au_request_cache (with_registry st r) = au_request_cache st" "queue_of (with_registry st r) = queue_of st"
  "au_parties (with_registry st r) = au_parties st" "au_tickets (with_registry st r) = au_tickets st"
  "au_claims (with_registry st r) = au_claims st" "au_proposal_tickets (with_registry st r) = au_proposal_tickets st"
  "au_player_match (with_registry st r) = au_player_match st" "au_ratings (with_registry st r) = au_ratings st"
  by (simp_all add: with_registry_def queue_of_def)

lemma put_instance_fields [simp]: "au_config (put_instance sid m i st) = au_config st"
  "au_sessions (put_instance sid m i st) = au_sessions st" "au_proposals (put_instance sid m i st) = au_proposals st"
  "au_launches (put_instance sid m i st) = au_launches st" "au_request_cache (put_instance sid m i st) = au_request_cache st"
  "au_player_match (put_instance sid m i st) = au_player_match st" "au_parties (put_instance sid m i st) = au_parties st"
  "au_proposal_tickets (put_instance sid m i st) = au_proposal_tickets st"
  "au_controls (put_instance sid m i st) = au_controls st"
  by (simp_all add: put_instance_def)

lemma mark_matched_core: "core_of (snd (mark_matched is out st)) = core_of st"
proof (induction "is" out st rule: mark_matched.induct)
  case (2 i "is" out st)
  then show ?case by (cases "bm_get (au_parties st) i") (simp_all add: Let_def core_of_def)
qed simp

lemmas mark_matched_fields [simp] = core_eqD [OF mark_matched_core]

section \<open>Results\<close>

lemma finish_player_core [simp]: "core_of (finish_player mode p st) = core_of st"
  by (simp add: finish_player_def Let_def core_of_def)

lemma free_party_core [simp]: "core_of (free_party i st) = core_of st"
  by (simp add: free_party_def core_of_def)

end
