(* ===== verification/Registry_Laws.thy ===== *)
theory Registry_Laws
  imports Placement
begin

text \<open>
  What the registry and the placement guarantee: capacity is never exceeded under any sequence
  of operations, generations fence off a replaced process, no report discards an instance or
  moves it backwards, and reservations, releases and retries account for exactly one cost.
\<close>

section \<open>Any sequence of operations\<close>

datatype registry_event =
    EvRegister game_server server_limits
  | EvHeartbeat server_id server_generation u64 u32
  | EvHealth u64 u64 u64
  | EvReconcile server_id server_generation "(match_id, inst) bmap"
  | EvReserve match_id queue_mode rstr
  | EvTransition server_id match_id instance_state "rstr option" "rstr option"
  | EvRelease server_id match_id
  | EvRetry server_id match_id queue_mode rstr

text \<open>A panic of \<open>reserve\<close> would stop the process; \<open>reserve_total\<close> excludes it.\<close>

definition registry_step :: "registry_event \<Rightarrow> registry \<Rightarrow> registry" where
  "registry_step e r = (case e of
      EvRegister s l \<Rightarrow> snd (register s l r)
    | EvHeartbeat i g now used \<Rightarrow> snd (heartbeat i g now used r)
    | EvHealth now u l \<Rightarrow> snd (update_health now u l r)
    | EvReconcile i g m \<Rightarrow> snd (reconcile i g m r)
    | EvReserve m mode region \<Rightarrow> (case reserve m mode region r of None \<Rightarrow> r | Some (_, r') \<Rightarrow> r')
    | EvTransition i m st ep tok \<Rightarrow> snd (transition i m st ep tok r)
    | EvRelease i m \<Rightarrow> snd (release i m r)
    | EvRetry i m mode region \<Rightarrow> (case retry_after_failure i m mode region r of None \<Rightarrow> r | Some (_, r') \<Rightarrow> r'))"

text \<open>No server registers with the largest 32-bit number as its capacity (whatever the limits are).\<close>

definition limited :: "registry_event \<Rightarrow> bool" where
  "limited e = (case e of EvRegister s l \<Rightarrow> gs_capacity_total s < - 1 | _ \<Rightarrow> True)"

lemma reserve_total:
  assumes "registry_ok r"
  shows "\<exists>res r'. reserve m mode region r = Some (res, r') \<and> registry_ok r'"
  using assms
proof (rule reserve_cases [of r m mode region])
  fix s cost free
  assume s: "bm_get r (gs_id s) = Some s" "placement_offer mode region s = Some (free, gs_failures s, gs_id s, cost)"
    and res: "reserve m mode region r = Some (Inr (gs_id s), bm_insert (gs_id s) (s\<lparr>
             gs_capacity_used := gs_capacity_used s + cost,
             gs_instances := bm_insert m \<lparr>in_match_id = m, in_cost = cost, in_state = InReserved,
               in_endpoint = None, in_connection_token = None\<rparr> (gs_instances s)\<rparr>) r)"
  have ok: "server_ok (gs_id s) s" using assms s(1) by (rule registry_okD)
  from placement_offerD(7) [OF s(2) ok]
  have fits: "unat (gs_capacity_used s) + unat cost \<le> unat (gs_capacity_total s)" .
  then have "unat (gs_capacity_used s + cost) = unat (gs_capacity_used s) + unat cost"
    using unat_less_exp [of "gs_capacity_total s"] by (simp add: unat_word_ariths)
  with fits have "gs_capacity_used s + cost \<le> gs_capacity_total s" by (simp add: word_le_nat_alt)
  with ok assms show ?thesis unfolding res
    by (auto simp: server_ok_def intro!: registry_ok_insert)
qed (use assms in auto)

lemma registry_ok_failures:
  "registry_ok r \<Longrightarrow> registry_ok (bm_update k (\<lambda>s. s\<lparr>gs_failures := sat_add (gs_failures s) 1\<rparr>) r)"
  by (rule registry_ok_update) (simp_all add: server_ok_def)

lemma retry_total:
  assumes "registry_ok r"
  shows "\<exists>res r'. retry_after_failure i m mode region r = Some (res, r') \<and> registry_ok r'"
proof -
  obtain e r1 where rel: "release i m r = (e, r1)" by (cases "release i m r")
  then have ok: "registry_ok r1" using registry_ok_release [OF assms, of i m] by simp
  show ?thesis
    using reserve_total [OF registry_ok_failures [OF ok]] ok
    by (cases e) (simp_all add: retry_after_failure_def rel)
qed

lemma registry_ok_step: "limited e \<Longrightarrow> registry_ok r \<Longrightarrow> registry_ok (registry_step e r)"
proof (cases e)
  case (EvReserve m mode region)
  then show "registry_ok r \<Longrightarrow> ?thesis"
    using reserve_total [of r m mode region] by (auto simp: registry_step_def)
next
  case (EvRetry i m mode region)
  then show "registry_ok r \<Longrightarrow> ?thesis"
    using retry_total [of r i m mode region] by (auto simp: registry_step_def)
qed (simp_all add: registry_step_def limited_def registry_ok_register registry_ok_heartbeat
    registry_ok_update_health registry_ok_reconcile registry_ok_transition registry_ok_release)

text \<open>A registry that refuses registrations above its limit.\<close>

interpretation registry_machine:
  invariant_machine "\<lambda>e r. if limited e then registry_step e r else r" registry_ok
  by unfold_locales (simp add: registry_ok_step)

lemma registry_run_limited:
  "\<forall>e \<in> set es. limited e \<Longrightarrow> fold registry_step es r = fold (\<lambda>e r. if limited e then registry_step e r else r) es r"
  by (induction es arbitrary: r) simp_all

lemma registry_run_ok: "\<forall>e \<in> set es. limited e \<Longrightarrow> registry_ok r \<Longrightarrow> registry_ok (fold registry_step es r)"
  using registry_machine.run_ok [of r es] by (simp add: registry_run_limited)

section \<open>Reservations\<close>

lemma reserve_SomeD:
  assumes "registry_ok r" and "reserve m mode region r = Some (Inr sid, r')"
  obtains s cost where "bm_get r sid = Some s" "gs_health s = Healthy" "gs_region s = region" "mode \<in> gs_modes s"
    "bm_get (gs_mode_costs s) mode = Some cost" "unfinished_count s < unat (gs_max_instances s)"
    "unat (gs_capacity_used s) + unat cost \<le> unat (gs_capacity_total s)"
    "r' = bm_insert sid (s\<lparr>gs_capacity_used := gs_capacity_used s + cost,
       gs_instances := bm_insert m \<lparr>in_match_id = m, in_cost = cost, in_state = InReserved,
         in_endpoint = None, in_connection_token = None\<rparr> (gs_instances s)\<rparr>) r"
proof (cases rule: reserve_cases [OF assms(1), of m mode region])
  case (2 s cost free)
  have ok: "server_ok (gs_id s) s" using assms(1) 2(1) by (rule registry_okD)
  have "sid = gs_id s" using assms(2) 2(5) by simp
  with that [of s cost] 2 assms(2) placement_offerD [OF 2(3) ok] show thesis by simp
qed (use assms(2) in simp)

lemma reserve_iff_feasible:
  assumes "registry_ok r"
  shows "(\<exists>sid r'. reserve m mode region r = Some (Inr sid, r')) \<longleftrightarrow> feasible r mode region"
  by (rule reserve_cases [OF assms, of m mode region]) auto

text \<open>The chosen server leaves the least capacity free, then has the fewest failures.\<close>

lemma reserve_best_fit:
  assumes "registry_ok r" "reserve m mode region r = Some (Inr sid, r')" "bm_get r sid = Some s"
    and "bm_get r k = Some t" "placement_offer mode region t = Some (free', fails', k', cost')"
  obtains free cost where "placement_offer mode region s = Some (free, gs_failures s, sid, cost)"
    "(free, gs_failures s, sid, cost) \<le> (free', fails', k', cost')"
proof (cases rule: reserve_cases [OF assms(1), of m mode region])
  case (2 s' cost free)
  have "sid = gs_id s'" using assms(2) 2(5) by simp
  then have "s' = s" using 2(1) assms(3) by simp
  with \<open>sid = gs_id s'\<close> 2(3) 2(4) [OF assms(4,5)] that show thesis by blast
qed (use assms(2) in simp)

text \<open>Releasing a fresh reservation restores the registry.\<close>

lemma release_reserved:
  assumes "bm_get r sid = Some s" and "bm_get (gs_instances s) m = None" and "live i" and "in_cost i = cost"
    and "unat (gs_capacity_used s) + unat cost \<le> unat (gs_capacity_total s)"
  shows "release sid m (bm_insert sid (s\<lparr>gs_capacity_used := gs_capacity_used s + cost,
    gs_instances := bm_insert m i (gs_instances s)\<rparr>) r) = (Inr (), r)"
proof -
  have "unat cost + unat (gs_capacity_used s) < 2 ^ LENGTH(32)"
    using assms(5) unat_less_exp [of "gs_capacity_total s"] by simp
  then have "cost \<le> cost + gs_capacity_used s" by (rule overflow_iff [THEN iffD1])
  then have "cost \<le> gs_capacity_used s + cost" by (simp only: add.commute)
  then have "sat_sub (gs_capacity_used s + cost) cost = gs_capacity_used s" by (simp add: sat_sub_def)
  moreover have "bm_insert sid s r = r" using assms(1) by (intro bm_eqI) (simp add: get_insert)
  moreover have "bm_remove m (bm_insert m i (gs_instances s)) = gs_instances s" using assms(2) by simp
  ultimately show ?thesis by (simp add: release_def assms(3,4))
qed

text \<open>The exact ledger: the capacity in use is the cost of the live instances.\<close>

definition live_cost :: "(match_id, inst) bmap \<Rightarrow> nat" where
  "live_cost m = bm_sum (\<lambda>i. if live i then unat (in_cost i) else 0) m"

definition ledger_exact :: "game_server \<Rightarrow> bool" where
  "ledger_exact s \<longleftrightarrow> unat (gs_capacity_used s) = live_cost (gs_instances s)"

lemma live_cost_insert_fresh:
  "bm_get m k = None \<Longrightarrow> live_cost (bm_insert k i m) = (if live i then unat (in_cost i) else 0) + live_cost m"
  by (simp add: live_cost_def bm_sum_insert_fresh)

lemma live_cost_remove:
  "bm_get m k = Some i \<Longrightarrow> live_cost (bm_remove k m) = live_cost m - (if live i then unat (in_cost i) else 0)"
  by (simp add: live_cost_def bm_sum_remove)

lemma reserve_exact:
  assumes "registry_ok r" "reserve m mode region r = Some (Inr sid, r')"
    and "\<And>s. bm_get r sid = Some s \<Longrightarrow> ledger_exact s \<and> bm_get (gs_instances s) m = None"
  shows "\<exists>s'. bm_get r' sid = Some s' \<and> ledger_exact s'"
proof (rule reserve_SomeD [OF assms(1,2)])
  fix s cost
  assume s: "bm_get r sid = Some s" and fits: "unat (gs_capacity_used s) + unat cost \<le> unat (gs_capacity_total s)"
    and r': "r' = bm_insert sid (s\<lparr>gs_capacity_used := gs_capacity_used s + cost,
       gs_instances := bm_insert m \<lparr>in_match_id = m, in_cost = cost, in_state = InReserved,
         in_endpoint = None, in_connection_token = None\<rparr> (gs_instances s)\<rparr>) r"
  have "unat (gs_capacity_used s + cost) = unat (gs_capacity_used s) + unat cost"
    using fits unat_less_exp [of "gs_capacity_total s"] by (simp add: unat_word_ariths)
  then show ?thesis
    using assms(3) [OF s] by (simp add: r' ledger_exact_def live_cost_insert_fresh live_def)
qed

lemma release_exact:
  assumes "bm_get r sid = Some s" "ledger_exact s" and "release sid m r = (res, r')"
  shows "res = Inr () \<and> (\<exists>s'. bm_get r' sid = Some s' \<and> ledger_exact s' \<and> bm_get (gs_instances s') m = None)"
  using assms
  by (cases "bm_get (gs_instances s) m")
    (auto simp: release_def ledger_exact_def live_cost_remove unat_sat_sub)

lemma checked_cost_Some:
  "checked_cost is used = Some u \<Longrightarrow> unat u = unat used + sum_list (map (\<lambda>i. unat (in_cost i)) is)"
  by (induction "is" arbitrary: used) (auto split: option.splits dest: checked_add_Some)

lemma live_cost_values: "live_cost m = sum_list (map (\<lambda>i. unat (in_cost i)) (filter live (bm_values m)))"
  by (simp add: live_cost_def sum_filter_values)

lemma unat_sum_list:
  fixes xs :: "u32 list"
  assumes "sum_list (map unat xs) < 2 ^ 32"
  shows "unat (sum_list xs) = sum_list (map unat xs)"
  using assms by (induction xs) (auto simp: unat_word_ariths)

lemma authoritative_used_exact:
  assumes "live_cost (gs_instances s) < 2 ^ 32"
  shows "unat (authoritative_used s) = live_cost (gs_instances s)"
  using assms unat_sum_list [of "map in_cost (filter live (bm_values (gs_instances s)))"]
  by (simp add: authoritative_used_def live_cost_values comp_def)

section \<open>Generations and reports\<close>

lemma merge_reportedD:
  "merge_reported rs m = Inr m' \<Longrightarrow>
    (bm_get m k = None \<longleftrightarrow> bm_get m' k = None)
    \<and> (\<forall>a. bm_get m k = Some a \<longrightarrow> (\<exists>a'. bm_get m' k = Some a' \<and> in_cost a' = in_cost a))"
proof (induction rs m rule: merge_reported.induct)
  case (2 k' rep rest m)
  then obtain a where a: "bm_get m k' = Some a" "in_cost a = in_cost rep"
    "merge_reported rest (bm_insert k' (adopt a rep) m) = Inr m'"
    by (auto split: option.splits if_splits)
  from 2 have "(bm_get (bm_insert k' (adopt a rep) m) k = None \<longleftrightarrow> bm_get m' k = None)
    \<and> (\<forall>b. bm_get (bm_insert k' (adopt a rep) m) k = Some b \<longrightarrow> (\<exists>a'. bm_get m' k = Some a' \<and> in_cost a' = in_cost b))"
    using a by (auto split: option.splits if_splits)
  then show ?case using a by (cases "k = k'") (auto simp: adopt_def)
qed auto

text \<open>A report moves an instance forward, revives a lost one with its connection details, or
  leaves its state.\<close>

definition advances :: "inst \<Rightarrow> inst \<Rightarrow> bool" where
  "advances a b \<longleftrightarrow> in_match_id b = in_match_id a \<and> in_cost b = in_cost a
     \<and> valid_reconciled_state (in_state a) (in_state b)"

lemma valid_reconciled_trans:
  "valid_reconciled_state a b \<Longrightarrow> valid_reconciled_state b c \<Longrightarrow> valid_reconciled_state a c"
  by (cases a; cases b; cases c) (auto simp: valid_reconciled_state_def instance_state_rank_def word_le_nat_alt split: if_splits)

lemma advances_refl [simp]: "advances a a"
  by (simp add: advances_def valid_reconciled_state_def)

lemma advances_trans: "advances a b \<Longrightarrow> advances b c \<Longrightarrow> advances a c"
  by (auto simp: advances_def intro: valid_reconciled_trans)

lemma advances_adopt:
  "in_cost a = in_cost rep \<Longrightarrow> valid_reconciled_state (in_state a) (in_state rep) \<Longrightarrow> advances a (adopt a rep)"
  by (simp add: advances_def adopt_def)

lemma reconcile_loop_advances:
  "bm_get m k = Some a \<Longrightarrow> \<exists>b. bm_get (snd (reconcile_loop rs m)) k = Some b \<and> advances a b"
proof (induction rs m arbitrary: a rule: reconcile_loop.induct)
  case (2 k' rep rest m)
  show ?case
  proof (cases "bm_get m k'")
    case (Some c)
    then show ?thesis
    proof (cases "in_cost c = in_cost rep \<and> valid_reconciled_state (in_state c) (in_state rep) \<and> valid_instance_payload rep")
      case True
      have "\<exists>b. bm_get (bm_insert k' (adopt c rep) m) k = Some b \<and> advances a b"
        using 2(2) Some True advances_adopt by (cases "k = k'") auto
      then obtain b where b: "bm_get (bm_insert k' (adopt c rep) m) k = Some b" "advances a b" by blast
      with "2.IH" [of c b] Some True show ?thesis by (auto intro: advances_trans)
    qed (use 2 Some in auto)
  qed (use 2 in auto)
qed auto

lemma reconcile_advances:
  assumes "bm_get r i = Some s" "bm_get (gs_instances s) k = Some a"
  shows "\<exists>s' b. bm_get (snd (reconcile i g m r)) i = Some s' \<and> bm_get (gs_instances s') k = Some b \<and> advances a b"
  using assms reconcile_loop_advances [OF assms(2), of "entries m"]
  by (auto simp: reconcile_def Let_def split: sum.splits prod.splits)

lemma merge_reported_advances:
  "merge_reported rs m = Inr m' \<Longrightarrow> bm_get m k = Some a \<Longrightarrow> \<exists>b. bm_get m' k = Some b \<and> advances a b"
proof (induction rs m arbitrary: a rule: merge_reported.induct)
  case (2 k' rep rest m)
  then obtain c where c: "bm_get m k' = Some c" "in_cost c = in_cost rep"
    "valid_reconciled_state (in_state c) (in_state rep)"
    "merge_reported rest (bm_insert k' (adopt c rep) m) = Inr m'" "valid_instance_payload rep"
    by (auto split: option.splits if_splits)
  then obtain b where b: "bm_get (bm_insert k' (adopt c rep) m) k = Some b" "advances a b"
    using 2(3) advances_adopt by (cases "k = k'") auto
  have "\<exists>b'. bm_get m' k = Some b' \<and> advances b b'"
    using "2.IH" [of c b] c b(1) by simp
  with b(2) show ?case by (auto intro: advances_trans)
qed auto

end
