(* ===== verification/Authority_Safety.thy ===== *)
theory Authority_Safety
  imports Authority_Frame Registry_Laws
begin

text \<open>
  The authority never panics and never overbooks a server. The invariant \<open>authority_ok\<close> is about
  the registry, the shape of the proposals and the configuration; every operation of the
  authority, run from a state where it holds, returns and leads to such a state.
\<close>

section \<open>The invariant\<close>

text \<open>A roster that the settlement of a result can index: eight teams, or two teams with a first player.\<close>

definition shaped :: "player_id list list \<Rightarrow> bool" where
  "shaped teams \<longleftrightarrow> length teams = 8 \<or> (\<exists>a as b bs rest. teams = (a # as) # (b # bs) # rest)"

definition authority_ok :: "authority \<Rightarrow> bool" where
  "authority_ok st \<longleftrightarrow> registry_ok (au_registry st)
     \<and> (\<forall>pid prop. bm_get (au_proposals st) pid = Some prop \<longrightarrow> shaped (pr_teams prop))
     \<and> i32_policy (rating_policy_of (au_config st))"

definition good_outcome :: "'a outcome \<Rightarrow> bool" where
  "good_outcome out \<longleftrightarrow> (\<exists>r st. out = Some (r, st) \<and> authority_ok st)"

lemma good_Some [simp]: "good_outcome (Some (r, st)) \<longleftrightarrow> authority_ok st"
  by (simp add: good_outcome_def)

lemma authority_okD:
  assumes "authority_ok st"
  shows "registry_ok (au_registry st)" "bm_get (au_proposals st) pid = Some q \<Longrightarrow> shaped (pr_teams q)"
    "i32_policy (rating_policy_of (au_config st))"
  using assms by (auto simp: authority_ok_def)

lemma authority_ok_core: "core_of s = core_of t \<Longrightarrow> authority_ok s = authority_ok t"
  using core_eqD [of s t] by (simp add: authority_ok_def)

lemma authority_ok_keep:
  "authority_ok st \<Longrightarrow> core_of st' = core_of st \<Longrightarrow> authority_ok st'"
  using authority_ok_core by blast

lemma authority_ok_fields:
  assumes "authority_ok st" "au_config st' = au_config st" "au_proposals st' = au_proposals st"
    "registry_ok (au_registry st')"
  shows "authority_ok st'"
  using assms by (simp add: authority_ok_def)

lemma authority_ok_registry: "authority_ok st \<Longrightarrow> registry_ok r \<Longrightarrow> authority_ok (with_registry st r)"
  by (rule authority_ok_fields) simp_all

section \<open>Creating proposals\<close>

lemma shaped_two: "map length teams = [Suc m, Suc n] \<Longrightarrow> shaped teams"
  by (auto simp: shaped_def length_Suc_conv map_eq_Cons_conv)

lemma built_shaped: "c \<in> set (build_for_mode mode ts) \<Longrightarrow> shaped (cd_teams c)"
proof (cases mode)
  case OneVsOne
  assume "c \<in> set (build_for_mode mode ts)"
  with OneVsOne have "c \<in> set (one_v_one_build ts)" by (simp add: build_for_mode_def)
  then obtain a b where "one_v_one_pair a b = Some c" "length (pt_members a) = 1" "length (pt_members b) = 1"
    by (rule one_v_one_build_in)
  then have "map length (cd_teams c) = [Suc 0, Suc 0]" by (auto simp: one_v_one_pair_def Let_def split: if_splits)
  then show ?thesis by (rule shaped_two)
next
  case FiveVsFive
  assume "c \<in> set (build_for_mode mode ts)"
  with FiveVsFive have "c \<in> set (five_v_five_build ts 1024)" by (simp add: build_for_mode_def)
  then obtain a b where "map length (cd_teams c) = [5, 5]" by (rule five_build_teams)
  then show ?thesis using shaped_two [of "cd_teams c" 4 4] by simp
next
  case FreeForAll
  assume "c \<in> set (build_for_mode mode ts)"
  with FreeForAll ffa_build_teams(1) show ?thesis by (simp add: build_for_mode_def shaped_def)
qed

lemma generated_shaped: "c \<in> set (generate (build_for_mode mode) budget ts) \<Longrightarrow> shaped (cd_teams c)"
  by (erule generate_built) (simp add: built_shaped)

definition commit_id :: "authority \<Rightarrow> proposal_id" where
  "commit_id st = from_uuid (fst (next_uuid 3 st))"

definition commit_proposal :: "platform \<Rightarrow> candidate \<Rightarrow> party_ticket list \<Rightarrow> authority \<Rightarrow> proposal" where
  "commit_proposal E c tickets st = from_candidate c (owners_of st (selected_parties c tickets)) (pf_now E)
     (ec_ready_timeout_seconds (au_config st) * 1000) (commit_id st)"

lemma take_tickets_fields [simp]:
  "au_config (snd (take_tickets is saved st)) = au_config st" "au_registry (snd (take_tickets is saved st)) = au_registry st"
  "au_proposals (snd (take_tickets is saved st)) = au_proposals st"
  "au_request_cache (snd (take_tickets is saved st)) = au_request_cache st"
  "au_sessions (snd (take_tickets is saved st)) = au_sessions st"
  "au_claims (snd (take_tickets is saved st)) = au_claims st"
  using take_tickets_core [of "is" saved st] by (auto dest: core_eqD)

lemma from_candidate_teams [simp]: "pr_teams (from_candidate c ps now timeout i) = cd_teams c"
  by (simp add: from_candidate_def)

text \<open>What a commit leaves and what it adds.\<close>

lemma announce_core [simp]: "core_of (announce E pid q st) = core_of st" "au_claims (announce E pid q st) = au_claims st"
  by (simp_all add: announce_def fold_frame [where f = core_of] fold_frame [where f = au_claims])

lemmas announce_fields [simp] = core_eqD [OF announce_core(1)]

lemma store_proposal_fields [simp]:
  "au_config (store_proposal E pid q saved st) = au_config st" "au_registry (store_proposal E pid q saved st) = au_registry st"
  "au_request_cache (store_proposal E pid q saved st) = au_request_cache st"
  "au_sessions (store_proposal E pid q saved st) = au_sessions st"
  "au_claims (store_proposal E pid q saved st) = au_claims st"
  "au_proposals (store_proposal E pid q saved st) = bm_insert pid q (au_proposals st)"
  by (simp_all add: store_proposal_def Let_def)

lemma commit_candidate_fields [simp]:
  "au_config (commit_candidate E c ts st) = au_config st" "au_registry (commit_candidate E c ts st) = au_registry st"
  "au_request_cache (commit_candidate E c ts st) = au_request_cache st"
  "au_sessions (commit_candidate E c ts st) = au_sessions st"
  "au_proposals (commit_candidate E c ts st)
     = bm_insert (commit_id st) (commit_proposal E c ts st) (au_proposals st)"
  by (simp_all add: commit_candidate_def Let_def case_prod_unfold commit_id_def commit_proposal_def)

lemma commit_candidate_ok: "shaped (cd_teams c) \<Longrightarrow> authority_ok st \<Longrightarrow> authority_ok (commit_candidate E c ts st)"
  by (auto simp: authority_ok_def get_insert commit_proposal_def)

text \<open>The loop over the candidates as a fold of one step.\<close>

definition commit_one :: "platform \<Rightarrow> party_ticket list \<Rightarrow> candidate \<Rightarrow> authority \<Rightarrow> authority" where
  "commit_one E tickets c st =
    (let (ok, active) = claims_commit c (ticket_valid st tickets) (au_claims st);
         st = st\<lparr>au_claims := active\<rparr>
     in if ok then on_metrics (\<lambda>m. m\<lparr>mt_commit_us := hist_observe (pf_elapsed_us E) (mt_commit_us m)\<rparr>)
          (commit_candidate E c tickets st) else st)"

lemma commit_candidates_fold: "snd (commit_candidates E ts cs st) = fold (commit_one E ts) cs st"
proof (induction cs arbitrary: st)
  case (Cons c cs)
  obtain ok active where c: "claims_commit c (ticket_valid st ts) (au_claims st) = (ok, active)" by fastforce
  have "snd (commit_candidates E ts (c # cs) st) = snd (commit_candidates E ts cs (commit_one E ts c st))"
    by (simp add: c commit_one_def Let_def case_prod_unfold)
  with Cons show ?case by simp
qed simp

lemma commit_one_fields [simp]:
  "au_config (commit_one E ts c st) = au_config st" "au_registry (commit_one E ts c st) = au_registry st"
  "au_request_cache (commit_one E ts c st) = au_request_cache st" "au_sessions (commit_one E ts c st) = au_sessions st"
  by (simp_all add: commit_one_def Let_def split: prod.split)

lemma commit_one_ok: "shaped (cd_teams c) \<Longrightarrow> authority_ok st \<Longrightarrow> authority_ok (commit_one E ts c st)"
proof -
  assume c: "shaped (cd_teams c)" and ok: "authority_ok st"
  have "authority_ok (commit_candidate E c ts (st\<lparr>au_claims := active\<rparr>))" for active
    using c ok by (intro commit_candidate_ok) (auto intro: authority_ok_keep)
  then have "authority_ok (on_metrics f (commit_candidate E c ts (st\<lparr>au_claims := active\<rparr>)))" for f active
    by (rule authority_ok_keep) simp
  moreover have "authority_ok (st\<lparr>au_claims := active\<rparr>)" for active
    using ok by (rule authority_ok_keep) simp
  ultimately show ?thesis by (simp add: commit_one_def Let_def split: prod.split)
qed

lemma commit_candidates_ok:
  "\<forall>c \<in> set cs. shaped (cd_teams c) \<Longrightarrow> authority_ok st \<Longrightarrow> authority_ok (snd (commit_candidates E ts cs st))"
  unfolding commit_candidates_fold by (rule fold_inv) (simp_all add: commit_one_ok)

lemma attempt_match_batch_ok: "authority_ok st \<Longrightarrow> authority_ok (snd (attempt_match_batch E mode region st))"
proof -
  assume ok: "authority_ok st"
  then have "authority_ok (on_metrics f (rebuild_ecs E st))" for f by (rule authority_ok_keep) simp
  then show ?thesis
    using ok by (auto simp: attempt_match_batch_def Let_def intro!: commit_candidates_ok generated_shaped)
qed

lemma attempt_all_matches_ok: "authority_ok st \<Longrightarrow> authority_ok (attempt_all_matches E st)"
  unfolding attempt_all_matches_def
  by (rule fold_inv) (simp_all add: case_prod_unfold attempt_match_batch_ok)

section \<open>Launching\<close>

text \<open>A server that holds one more instance.\<close>

definition reserved :: "match_id \<Rightarrow> u32 \<Rightarrow> game_server \<Rightarrow> game_server" where
  "reserved m cost s = s\<lparr>gs_capacity_used := gs_capacity_used s + cost,
     gs_instances := bm_insert m \<lparr>in_match_id = m, in_cost = cost, in_state = InReserved,
       in_endpoint = None, in_connection_token = None\<rparr> (gs_instances s)\<rparr>"

definition allowed_regions :: "authority \<Rightarrow> proposal_id \<Rightarrow> rstr set" where
  "allowed_regions st pid = unwrap_or {} (Option.bind (bm_get (au_proposal_tickets st) pid) common_regions)"

lemma launch_offerD:
  assumes "launch_offer st mode allowed s = Some (remaining, load, fails, n, sid)"
  obtains cost ch where "sid = gs_id s" "gs_health s = Healthy" "gs_region s \<in> allowed" "mode \<in> gs_modes s"
    "bm_get (gs_mode_costs s) mode = Some cost" "bm_get (au_controls st) sid = Some ch"
    "bm_size (gs_instances s) < unat (gs_max_instances s)"
    "unat (gs_capacity_used s) + unat cost \<le> unat (gs_capacity_total s)"
    "unat remaining = unat (gs_capacity_total s) - unat (gs_capacity_used s) - unat cost"
proof -
  obtain cost required where c: "bm_get (gs_mode_costs s) mode = Some cost"
    "checked_add (gs_capacity_used s) cost = Some required" "checked_sub (gs_capacity_total s) required = Some remaining"
    "gs_health s = Healthy" "gs_region s \<in> allowed" "mode \<in> gs_modes s" "sid = gs_id s"
    "bm_contains (au_controls st) (gs_id s)" "bm_size (gs_instances s) < unat (gs_max_instances s)"
    using assms by (auto simp: launch_offer_def simp del: contains_iff split: if_splits option.splits)
  have "unat required = unat (gs_capacity_used s) + unat cost" "unat required \<le> unat (gs_capacity_total s)"
    "unat remaining = unat (gs_capacity_total s) - unat required"
    using checked_add_Some [OF c(2)] checked_sub_Some [OF c(3)] by (simp_all add: word_le_nat_alt)
  with c that show thesis by auto
qed

lemma server_ok_reserved:
  assumes "server_ok k s" "unat (gs_capacity_used s) + unat cost \<le> unat (gs_capacity_total s)"
  shows "server_ok k (reserved m cost s)"
proof -
  have "unat (gs_capacity_used s + cost) = unat (gs_capacity_used s) + unat cost"
    using assms(2) unat_less_exp [of "gs_capacity_total s"] by (simp add: unat_word_ariths)
  with assms show ?thesis by (simp add: server_ok_def reserved_def word_le_nat_alt)
qed

text \<open>The outcomes of a launch: no proposal, no offer, or a reservation on the best offer that the
  control channel accepts or refuses.\<close>

lemma launch_cases:
  assumes ok: "registry_ok (au_registry st)"
  obtains (unknown) "bm_get (au_proposals st) pid = None" "launch E pid st = Some (Inl (not_found ''proposal''), st)"
  | (infeasible) q where "bm_get (au_proposals st) pid = Some q"
    "\<And>s. s \<in> set (bm_values (au_registry st)) \<Longrightarrow> launch_offer st (proposal_mode q) (allowed_regions st pid) s = None"
    "launch E pid st = Some (Inl (unavailable ''no feasible game server''), st)"
  | (placed) q s cost off m ch st1 sent st2 where "bm_get (au_proposals st) pid = Some q"
    "bm_get (au_registry st) (gs_id s) = Some s"
    "launch_offer st (proposal_mode q) (allowed_regions st pid) s = Some off"
    "\<And>t o'. t \<in> set (bm_values (au_registry st)) \<Longrightarrow>
       launch_offer st (proposal_mode q) (allowed_regions st pid) t = Some o' \<Longrightarrow> off \<le> o'"
    "bm_get (gs_mode_costs s) (proposal_mode q) = Some cost" "m = from_uuid (fst (next_uuid 4 st))"
    "unat (gs_capacity_used s) + unat cost \<le> unat (gs_capacity_total s)"
    "st1 = note_control_backlog ch (with_registry (snd (next_uuid 4 st)) (bm_insert (gs_id s) (reserved m cost s) (au_registry st)))"
    "try_send ch (Inr (launch_message E m (proposal_mode q) (pr_teams q) cost)) st1 = (sent, st2)"
    "launch E pid st = Some (if sent
       then (Inr m, st2\<lparr>au_launches := bm_insert m (gs_id s, pid) (au_launches st2),
               au_launch_deadlines := bm_insert m (placement_deadline E st2) (au_launch_deadlines st2)\<rparr>)
       else (Inl (resource_exhausted ''server control stream full''),
               with_registry st2 (snd (release (gs_id s) m (au_registry st2)))))"
    "bm_get (au_controls st) (gs_id s) = Some ch"
proof (cases "bm_get (au_proposals st) pid")
  case None
  with unknown show thesis by (simp add: launch_def)
next
  case q: (Some q)
  let ?offers = "List.map_filter (launch_offer st (proposal_mode q) (allowed_regions st pid)) (bm_values (au_registry st))"
  show thesis
  proof (cases "iter_min ?offers")
    case None
    then have "?offers = []" by simp
    then have "launch_offer st (proposal_mode q) (allowed_regions st pid) s = None" if "s \<in> set (bm_values (au_registry st))" for s
      using that in_set_map_filter [of _ "launch_offer st (proposal_mode q) (allowed_regions st pid)" "bm_values (au_registry st)"]
      by (cases "launch_offer st (proposal_mode q) (allowed_regions st pid) s") auto
    with infeasible [OF q] q None show thesis by (simp add: launch_def allowed_regions_def Let_def iter_min_def)
  next
    case (Some off)
    then have off: "off \<in> set ?offers" "\<And>o'. o' \<in> set ?offers \<Longrightarrow> off \<le> o'"
      by (simp_all add: iter_min_Some)
    then obtain k s where s: "bm_get (au_registry st) k = Some s"
      "launch_offer st (proposal_mode q) (allowed_regions st pid) s = Some off"
      by (auto simp: collect_simps values_iff)
    obtain remaining load fails n sid where tup: "off = (remaining, load, fails, n, sid)" by (cases off)
    obtain cost ch where c: "sid = gs_id s" "bm_get (gs_mode_costs s) (proposal_mode q) = Some cost"
      "bm_get (au_controls st) sid = Some ch" "unat (gs_capacity_used s) + unat cost \<le> unat (gs_capacity_total s)"
      using launch_offerD [OF s(2) [unfolded tup]] by metis
    have k: "k = gs_id s" using registry_okD [OF ok s(1)] by (simp add: server_ok_def)
    obtain u st0 where u: "next_uuid 4 st = (u, st0)" by fastforce
    then have st0: "core_of st0 = core_of st" using next_uuid_frame(1) [of 4 st] by simp
    let ?m = "from_uuid u :: match_id"
    let ?st1 = "note_control_backlog ch (with_registry st0 (bm_insert (gs_id s) (reserved ?m cost s) (au_registry st)))"
    obtain sent st2 where t: "try_send ch (Inr (launch_message E ?m (proposal_mode q) (pr_teams q) cost)) ?st1 = (sent, st2)"
      by fastforce
    have "launch E pid st = Some (if sent
       then (Inr ?m, st2\<lparr>au_launches := bm_insert ?m (gs_id s, pid) (au_launches st2),
               au_launch_deadlines := bm_insert ?m (placement_deadline E st2) (au_launch_deadlines st2)\<rparr>)
       else (Inl (resource_exhausted ''server control stream full''),
               with_registry st2 (snd (release (gs_id s) ?m (au_registry st2)))))"
      using q Some tup c s(1) k t u core_eqD [OF st0]
      by (simp add: launch_def allowed_regions_def [symmetric] Let_def reserved_def [symmetric])
    moreover have "off \<le> o'" if "t \<in> set (bm_values (au_registry st))"
      "launch_offer st (proposal_mode q) (allowed_regions st pid) t = Some o'" for t o'
      using off(2) that unfolding in_set_map_filter by blast
    ultimately show thesis using placed [of q s off cost ?m ?st1 ch sent st2] q s k c t u by simp
  qed
qed

lemma authority_ok_sent:
  assumes "authority_ok st" "try_send ch msg st = (sent, st')"
  shows "authority_ok st'"
  using assms(1) try_send_frame(1) [of ch msg st] authority_ok_keep by (simp add: assms(2))

lemma launch_good: "authority_ok st \<Longrightarrow> good_outcome (launch E pid st)"
proof (rule launch_cases [of st pid E])
  fix q s cost off m ch st1 sent st2
  assume ok: "authority_ok st" and s: "bm_get (au_registry st) (gs_id s) = Some s"
    and fits: "unat (gs_capacity_used s) + unat cost \<le> unat (gs_capacity_total s)"
    and st1: "st1 = note_control_backlog ch (with_registry (snd (next_uuid 4 st))
       (bm_insert (gs_id s) (reserved m cost s) (au_registry st)))"
    and sent: "try_send ch (Inr (launch_message E m (proposal_mode q) (pr_teams q) cost)) st1 = (sent, st2)"
    and res: "launch E pid st = Some (if sent
       then (Inr m, st2\<lparr>au_launches := bm_insert m (gs_id s, pid) (au_launches st2),
               au_launch_deadlines := bm_insert m (placement_deadline E st2) (au_launch_deadlines st2)\<rparr>)
       else (Inl (resource_exhausted ''server control stream full''),
               with_registry st2 (snd (release (gs_id s) m (au_registry st2)))))"
  have "registry_ok (bm_insert (gs_id s) (reserved m cost s) (au_registry st))"
    using authority_okD(1) [OF ok] s fits by (intro registry_ok_insert server_ok_reserved) (auto dest: registry_okD)
  then have "authority_ok st1"
    unfolding st1 using ok by (intro authority_ok_fields [OF ok]) simp_all
  then have ok2: "authority_ok st2" using sent by (rule authority_ok_sent)
  then have "authority_ok (st2\<lparr>au_launches := a, au_launch_deadlines := b\<rparr>)" for a b
    by (rule authority_ok_fields) (simp_all add: authority_okD(1) [OF ok2])
  moreover have "authority_ok (with_registry st2 (snd (release (gs_id s) m (au_registry st2))))"
    using ok2 by (intro authority_ok_registry registry_ok_release authority_okD(1))
  ultimately show ?thesis by (simp add: res)
qed (simp_all add: authority_okD(1))

lemma retry_placed:
  assumes "registry_ok r" "retry_after_failure failed m mode region r = Some (Inr sid, r')"
  obtains s i where "bm_get r' sid = Some s" "bm_get (gs_instances s) m = Some i"
proof -
  obtain e r1 where rel: "release failed m r = (e, r1)" by fastforce
  have ok1: "registry_ok (bm_update failed (\<lambda>s. s\<lparr>gs_failures := sat_add (gs_failures s) 1\<rparr>) r1)"
    using registry_ok_release [OF assms(1), of failed m] rel by (intro registry_ok_failures) simp
  have "reserve m mode region (bm_update failed (\<lambda>s. s\<lparr>gs_failures := sat_add (gs_failures s) 1\<rparr>) r1)
      = Some (Inr sid, r')"
    using assms(2) rel by (auto simp: retry_after_failure_def split: sum.splits)
  then show thesis by (rule reserve_SomeD [OF ok1]) (auto intro: that)
qed

text \<open>The outcomes of a retry.\<close>

lemma retry_launch_cases:
  assumes ok: "registry_ok (au_registry st)"
  obtains (unchanged) e where "retry_launch E m failed pid st = Some (Inl e, st)"
  | (unplaced) e r where "registry_ok r" "retry_launch E m failed pid st = Some (Inl e, with_registry st r)"
  | (unsent) e r sid st2 where "registry_ok r" "core_of st2 = core_of (with_registry st r)"
      "retry_launch E m failed pid st = Some (Inl e, with_registry st2 (snd (release sid m (au_registry st2))))"
  | (sent) r sid st2 where "registry_ok r" "core_of st2 = core_of (with_registry st r)"
      "retry_launch E m failed pid st = Some (Inr (), st2\<lparr>au_launches := bm_insert m (sid, pid) (au_launches st2),
         au_launch_deadlines := bm_insert m (placement_deadline E st2) (au_launch_deadlines st2)\<rparr>)"
proof (cases "bm_get (au_proposals st) pid")
  case None
  with unchanged show thesis by (simp add: retry_launch_def)
next
  case q: (Some q)
  let ?regions = "map_option sorted_list_of_set (Option.bind (bm_get (au_proposal_tickets st) pid) common_regions)"
  show thesis
  proof (cases "\<exists>region rest. ?regions = Some (region # rest)")
    case False
    then have "?regions = None \<or> ?regions = Some []" by (metis neq_Nil_conv option.exhaust)
    with q unchanged show thesis by (auto simp: retry_launch_def Let_def)
  next
    case True
    then obtain z region rest where reg: "Option.bind (bm_get (au_proposal_tickets st) pid) common_regions = Some z"
      "sorted_list_of_set z = region # rest" by auto
    obtain res r where ra: "retry_after_failure failed m (proposal_mode q) region (au_registry st) = Some (res, r)"
      and r: "registry_ok r" using retry_total [OF ok] by blast
    show thesis
    proof (cases res)
      case (Inl e)
      then have "retry_launch E m failed pid st = Some (Inl (unavailable ''no alternate game server''), with_registry st r)"
        using q reg ra by (simp add: retry_launch_def Let_def)
      with r show thesis by (rule unplaced)
    next
      case sid: (Inr sid)
      obtain s i where i: "bm_get r sid = Some s" "bm_get (gs_instances s) m = Some i"
        by (rule retry_placed [OF ok ra [unfolded sid]])
      let ?st = "with_registry st r"
      obtain sent st2 where t: "(case bm_get (au_controls st) sid of None \<Rightarrow> (False, ?st)
         | Some ch \<Rightarrow> try_send ch (Inr (launch_message E m (proposal_mode q) (pr_teams q) (in_cost i)))
             (note_control_backlog ch ?st)) = (sent, st2)" by fastforce
      then have core: "core_of st2 = core_of ?st"
        by (cases "bm_get (au_controls st) sid") (auto dest: arg_cong [where f = "\<lambda>x. core_of (snd x)"])
      have "retry_launch E m failed pid st = Some (if sent
        then (Inr (), st2\<lparr>au_launches := bm_insert m (sid, pid) (au_launches st2),
               au_launch_deadlines := bm_insert m (placement_deadline E st2) (au_launch_deadlines st2)\<rparr>)
        else (Inl (unavailable ''alternate game server control stream unavailable''),
               with_registry st2 (snd (release sid m (au_registry st2)))))"
        using q reg ra sid i t by (simp add: retry_launch_def Let_def)
      with unsent sent r core show thesis by (cases sent) auto
    qed
  qed
qed

lemma retry_launch_good: "authority_ok st \<Longrightarrow> good_outcome (retry_launch E m failed pid st)"
proof (rule retry_launch_cases [of st E m failed pid])
  fix e r sid st2
  assume ok: "authority_ok st" and r: "registry_ok r" and core: "core_of st2 = core_of (with_registry st r)"
  have ok2: "authority_ok st2" using authority_ok_registry [OF ok r] core by (rule authority_ok_keep)
  have "authority_ok (with_registry st2 (snd (release sid m (au_registry st2))))"
    using ok2 by (intro authority_ok_registry registry_ok_release authority_okD(1))
  moreover have "authority_ok (st2\<lparr>au_launches := a, au_launch_deadlines := b\<rparr>)" for a b
    using ok2 by (rule authority_ok_fields) (simp_all add: authority_okD(1) [OF ok2])
  ultimately show "retry_launch E m failed pid st = Some (Inl e, with_registry st2 (snd (release sid m (au_registry st2))))
      \<Longrightarrow> good_outcome (retry_launch E m failed pid st)"
    and "retry_launch E m failed pid st = Some (Inr (), st2\<lparr>au_launches := bm_insert m (sid, pid) (au_launches st2),
         au_launch_deadlines := bm_insert m (placement_deadline E st2) (au_launch_deadlines st2)\<rparr>)
      \<Longrightarrow> good_outcome (retry_launch E m failed pid st)" by simp_all
qed (simp_all add: authority_okD(1) authority_ok_registry)

section \<open>Reports of a launch\<close>

lemma put_instance_ok: "authority_ok st \<Longrightarrow> authority_ok (put_instance sid m i st)"
proof -
  assume ok: "authority_ok st"
  then have "registry_ok (bm_update sid (\<lambda>s. s\<lparr>gs_instances := bm_insert m i (gs_instances s)\<rparr>) (au_registry st))"
    by (intro registry_ok_update) (auto simp: server_ok_def dest: authority_okD(1))
  with ok show ?thesis unfolding put_instance_def by (rule authority_ok_registry)
qed

lemma publish_match_ok: "authority_ok st \<Longrightarrow> authority_ok (publish_match E sid m pid q i result st)"
proof -
  assume ok: "authority_ok st"
  let ?tell = "\<lambda>ev p st. send_event_noted E p ev
     (st\<lparr>au_player_match := bm_insert p m (au_player_match st), au_player_proposal := bm_remove p (au_player_proposal st)\<rparr>)"
  have told: "core_of (fold (?tell ev) ps st) = core_of st" for ev ps st
    by (rule fold_frame) (simp add: core_of_def)
  have emit: "core_of (fold (emit_party E) ps st) = core_of st" for ps st
    by (rule fold_frame) simp
  have marked: "core_of (snd (mark_matched is [] st)) = core_of st" for "is" st by (rule mark_matched_core)
  have start: "authority_ok (on_metrics f (st\<lparr>au_launch_deadlines := d\<rparr>))" for f d
    using ok by (rule authority_ok_fields) (simp_all add: authority_okD(1) [OF ok])
  show ?thesis
    unfolding publish_match_def Let_def case_prod_unfold
    by (rule authority_ok_keep [OF _ emit], rule authority_ok_keep [OF _ marked], rule put_instance_ok,
        rule authority_ok_keep [OF _ told]) (simp add: ok start split: option.split)
qed

lemma launch_result_good: "authority_ok st \<Longrightarrow> good_outcome (launch_result E sid result st)"
proof -
  assume ok: "authority_ok st"
  have retry: "good_outcome (retry_launch E m sid pid (on_metrics f st))" for m pid f
    using ok by (intro retry_launch_good) (auto intro: authority_ok_keep)
  have "authority_ok (put_instance sid m i st\<lparr>au_launch_deadlines := d\<rparr>)" for m i d
    using put_instance_ok [OF ok, of sid m i]
    by (rule authority_ok_fields) (simp_all add: authority_okD(1) [OF put_instance_ok [OF ok]])
  then show ?thesis
    using ok retry put_instance_ok [OF ok] publish_match_ok [OF ok]
    by (simp add: launch_result_def split: sum.split option.split)
qed

section \<open>Match results\<close>

lemma add_delta_total: "i32_policy p \<Longrightarrow> \<exists>x. add_delta r (delta E a b s n p) = Some x"
  using delta_bounded [of p E a b s n] by (auto simp: add_delta_def)

lemma one_vs_one_total: "i32_policy p \<Longrightarrow> \<exists>x y. one_vs_one E a b s m n p = Some (x, y)"
  using add_delta_total [of p a E a b s m] add_delta_total [of p b E b a "f_sub E (Fin 1) s" n]
  by (auto simp: one_vs_one_def)

lemma all_some_total: "(\<And>x. x \<in> set xs \<Longrightarrow> x \<noteq> None) \<Longrightarrow> \<exists>ys. all_some xs = Some ys"
proof (induction xs)
  case (Cons x xs)
  then obtain ys where "all_some xs = Some ys" by auto
  moreover obtain y where "x = Some y" using Cons.prems [of x] by auto
  ultimately show ?case by simp
qed simp

lemma team_update_total:
  assumes "i32_policy p" "length ws = length wc" "length ls = length lc"
  shows "\<exists>x y. team_update_with_completed E ws ls wc lc p = Some (x, y)"
proof -
  have "\<exists>ys. all_some (map (\<lambda>(rating, completed). add_delta rating (delta E rating m s completed p)) zs) = Some ys"
    for m s zs using add_delta_total [OF assms(1)] by (intro all_some_total) force
  note 1 = this [of "mean ls" "Fin 1" "zip ws wc"] and 2 = this [of "mean ws" "Fin 0" "zip ls lc"]
  from 1 2 show ?thesis using assms(2,3) by (auto simp: team_update_with_completed_def Let_def)
qed

lemma free_for_all_total:
  assumes "i32_policy p" "length ratings = length ranks"
  shows "\<exists>x. free_for_all E ratings ranks p = Some x"
proof -
  have "wrap_i32 (- rp_maximum_delta p) = - rp_maximum_delta p" "- rp_maximum_delta p \<le> rp_maximum_delta p"
    using assms(1) by (simp_all add: i32_policy_def in_i32_def)
  then show ?thesis using assms(2)
    by (auto simp: free_for_all_def Let_def add_delta_def i32_clamp_def intro!: all_some_total)
qed

text \<open>A rank table that passes the checks settles without a panic.\<close>

lemma check_ranks_total: "shaped (pr_teams q) \<Longrightarrow> \<exists>r. check_ranks q ranks = Some r"
  by (auto simp: check_ranks_def shaped_def proposal_mode_def)

lemma check_ranks_covers:
  "check_ranks q ranks = Some (Inr ()) \<Longrightarrow> p \<in> set (concat (pr_teams q)) \<Longrightarrow> \<exists>r. bm_get ranks p = Some r"
  using keys_iff [of p ranks] by (auto simp: check_ranks_def split: if_splits)

lemma settle_ratings_total:
  assumes "shaped (pr_teams q)" "check_ranks q ranks = Some (Inr ())" "i32_policy (rating_policy_of (au_config st))"
  shows "\<exists>r. settle_ratings E st q ranks = Some r"
proof (cases "proposal_mode q = FreeForAll")
  case True
  have "\<exists>rs. all_some (map (bm_get ranks) (concat (pr_teams q))) = Some rs"
    using check_ranks_covers [OF assms(2)] by (intro all_some_total) fastforce
  then obtain rs where rs: "all_some (map (bm_get ranks) (concat (pr_teams q))) = Some rs" by blast
  then have "map (bm_get ranks) (concat (pr_teams q)) = map Some rs" by (simp only: all_some_eq_Some)
  then have len: "length (concat (pr_teams q)) = length rs" by (metis length_map)
  obtain new where "free_for_all (pf_f64 E) (map (\<lambda>p. rating_of st p FreeForAll) (concat (pr_teams q))) rs
      (rating_policy_of (au_config st)) = Some new"
    using free_for_all_total [OF assms(3), of "map (\<lambda>p. rating_of st p FreeForAll) (concat (pr_teams q))" rs "pf_f64 E"] len
    by auto
  with True rs show ?thesis by (simp add: settle_ratings_def Let_def)
next
  case False
  then have "length (pr_teams q) \<noteq> 8" by (auto simp: proposal_mode_def)
  with assms(1) obtain a as b bs rest where t: "pr_teams q = (a # as) # (b # bs) # rest" by (auto simp: shaped_def)
  obtain ra rb where r: "bm_get ranks a = Some ra" "bm_get ranks b = Some rb"
    using check_ranks_covers [OF assms(2), of a] check_ranks_covers [OF assms(2), of b] t by auto
  show ?thesis
  proof (cases "proposal_mode q")
    case OneVsOne
    obtain x y where "one_vs_one (pf_f64 E) (rating_of st a OneVsOne) (rating_of st b OneVsOne)
        (if ra < rb then Fin 1 else if ra = rb then Fin (1 / 2) else Fin 0)
        (games_of st a OneVsOne) (games_of st b OneVsOne) (rating_policy_of (au_config st)) = Some (x, y)"
      using one_vs_one_total [OF assms(3)] by blast
    with OneVsOne t r show ?thesis by (simp add: settle_ratings_def Let_def)
  next
    case FiveVsFive
    have "\<exists>x y. team_update_with_completed (pf_f64 E) (map (\<lambda>p. rating_of st p FiveVsFive) ws)
        (map (\<lambda>p. rating_of st p FiveVsFive) ls) (map (\<lambda>p. games_of st p FiveVsFive) ws)
        (map (\<lambda>p. games_of st p FiveVsFive) ls) (rating_policy_of (au_config st)) = Some (x, y)" for ws ls
      by (rule team_update_total [OF assms(3)]) simp_all
    then have "(case team_update_with_completed (pf_f64 E) (map (\<lambda>p. rating_of st p FiveVsFive) ws)
        (map (\<lambda>p. rating_of st p FiveVsFive) ls) (map (\<lambda>p. games_of st p FiveVsFive) ws)
        (map (\<lambda>p. games_of st p FiveVsFive) ls) (rating_policy_of (au_config st)) of None \<Rightarrow> None
      | Some (nw, nl) \<Rightarrow> Some (g nw nl)) \<noteq> None" for ws ls and g :: "i32 list \<Rightarrow> i32 list \<Rightarrow> 'x"
      by (metis case_prod_conv option.case(2) option.distinct(1))
    note total = this
    show ?thesis
      unfolding settle_ratings_def Let_def FiveVsFive queue_mode.case t list.case r option.case prod.case
      by (cases "ra < rb") (simp_all only: if_True if_False prod.case not_None_eq [symmetric] total not_False_eq_True)
  qed (use False in simp)
qed

text \<open>What follows the settlement keeps everything but the registry, the launch and its proposal.\<close>

definition after_match :: "platform \<Rightarrow> proposal \<Rightarrow> authority \<Rightarrow> authority" where
  "after_match E q st = fold (emit_party_of E) (sort (remdups (bm_values (pr_parties q))))
     (fold free_party (sort (remdups (bm_values (pr_parties q))))
       (fold (finish_player (proposal_mode q)) (roster_of q) st))"

lemma after_match_core [simp]: "core_of (after_match E q st) = core_of st"
  by (simp add: after_match_def fold_frame [where f = core_of])

lemmas after_match_fields [simp] = core_eqD [OF after_match_core]

lemma close_match_cases:
  assumes "bm_get (au_registry st) sid = Some s"
  obtains r where "release sid m (au_registry st) = (Inr (), r)"
    "close_match E sid m pid q st = (Inr (), (with_registry (after_match E q st) r)\<lparr>
       au_launches := bm_remove m (au_launches st), au_launch_deadlines := bm_remove m (au_launch_deadlines st),
       au_proposal_tickets := bm_remove pid (au_proposal_tickets (after_match E q st)),
       au_proposals := bm_remove pid (au_proposals st)\<rparr>)"
proof -
  obtain r where r: "release sid m (au_registry st) = (Inr (), r)"
    using assms by (cases "bm_get (gs_instances s) m") (simp_all add: release_def)
  then have "close_match E sid m pid q st = (Inr (), (with_registry (after_match E q st) r)\<lparr>
       au_launches := bm_remove m (au_launches st), au_launch_deadlines := bm_remove m (au_launch_deadlines st),
       au_proposal_tickets := bm_remove pid (au_proposal_tickets (after_match E q st)),
       au_proposals := bm_remove pid (au_proposals st)\<rparr>)"
    by (simp add: close_match_def Let_def after_match_def [symmetric])
  with r that show thesis by blast
qed

text \<open>A result is refused with the state unchanged, or settled.\<close>

lemma finish_match_cases:
  assumes ok: "authority_ok st"
  obtains (refused) e where "finish_match E sid result st = Some (Inl e, st)"
  | (settled) m pid q s i ranks ratings where
    "id_from_str (pf_uuid E) ''MatchId'' (mr_match_id result) = Inr m"
    "bm_get (au_launches st) m = Some (sid, pid)" "bm_get (au_proposals st) pid = Some q"
    "bm_get (au_registry st) sid = Some s" "bm_get (gs_instances s) m = Some i" "in_state i = InRunning"
    "parse_placements E (mr_placements result) bm_empty = Inr ranks" "check_ranks q ranks = Some (Inr ())"
    "settle_ratings E st q ranks = Some ratings"
    "finish_match E sid result st = Some (close_match E sid m pid q (st\<lparr>au_ratings := ratings\<rparr>))"
proof (cases "\<exists>e. finish_match E sid result st = Some (Inl e, st)")
  case True
  with refused show thesis by blast
next
  case False
  then obtain m :: match_id where m: "id_from_str (pf_uuid E) ''MatchId'' (mr_match_id result) = Inr m"
    by (cases "id_from_str (pf_uuid E) ''MatchId'' (mr_match_id result) :: parse_id_error + match_id")
      (auto simp: finish_match_def)
  with False obtain pid where l: "bm_get (au_launches st) m = Some (sid, pid)"
    by (auto simp: finish_match_def split: option.splits if_splits)
  with False m obtain s i where i: "bm_get (au_registry st) sid = Some s" "bm_get (gs_instances s) m = Some i"
    by (cases "bm_get (au_registry st) sid") (auto simp: finish_match_def split: option.splits)
  have "\<exists>e. finish_match E sid result st = Some (Inl e, st)" if "in_state i \<noteq> InRunning"
    using that m l i by (simp add: finish_match_def)
  with False have run: "in_state i = InRunning" by blast
  with False m l i obtain q where q: "bm_get (au_proposals st) pid = Some q"
    by (auto simp: finish_match_def split: option.splits)
  with False m l i run obtain ranks where ranks: "parse_placements E (mr_placements result) bm_empty = Inr ranks"
    by (auto simp: finish_match_def split: sum.splits)
  have shape: "shaped (pr_teams q)" using authority_okD(2) [OF ok q] .
  then obtain c where c: "check_ranks q ranks = Some c" using check_ranks_total by blast
  with False m l i run q ranks have c': "check_ranks q ranks = Some (Inr ())"
    by (cases c) (auto simp: finish_match_def)
  then obtain ratings where ratings: "settle_ratings E st q ranks = Some ratings"
    using settle_ratings_total [OF shape c' authority_okD(3) [OF ok]] by blast
  with m l i run q ranks c' have "finish_match E sid result st
      = Some (close_match E sid m pid q (st\<lparr>au_ratings := ratings\<rparr>))"
    by (simp add: finish_match_def)
  with settled m l q i run ranks c' ratings show thesis by blast
qed

lemma authority_ok_ratings: "authority_ok st \<Longrightarrow> authority_ok (st\<lparr>au_ratings := r\<rparr>)"
  by (simp add: authority_ok_def)

lemma close_match_ok:
  assumes "authority_ok st" "bm_get (au_registry st) sid = Some s"
  shows "authority_ok (snd (close_match E sid m pid q st))"
proof (rule close_match_cases [OF assms(2), of m E pid q])
  fix r
  assume r: "release sid m (au_registry st) = (Inr (), r)"
    and res: "close_match E sid m pid q st = (Inr (), (with_registry (after_match E q st) r)\<lparr>
       au_launches := bm_remove m (au_launches st), au_launch_deadlines := bm_remove m (au_launch_deadlines st),
       au_proposal_tickets := bm_remove pid (au_proposal_tickets (after_match E q st)),
       au_proposals := bm_remove pid (au_proposals st)\<rparr>)"
  have "registry_ok r" using registry_ok_release [OF authority_okD(1) [OF assms(1)], of sid m] r by simp
  then show ?thesis
    using assms(1) by (auto simp: res authority_ok_def get_remove split: if_splits)
qed

lemma finish_match_good: "authority_ok st \<Longrightarrow> good_outcome (finish_match E sid result st)"
proof (rule finish_match_cases [of st E sid result])
  fix m pid q s i ranks ratings
  assume ok: "authority_ok st" and s: "bm_get (au_registry st) sid = Some s"
    and f: "finish_match E sid result st = Some (close_match E sid m pid q (st\<lparr>au_ratings := ratings\<rparr>))"
  show ?thesis
    using close_match_ok [OF authority_ok_ratings [OF ok, of ratings], of sid s E m pid q] s
    by (simp add: f good_outcome_def) (metis prod.collapse)
qed simp_all

lemma remember_completed_core [simp]: "core_of (remember_completed_match_result m st) = core_of st"
  by (simp add: remember_completed_match_result_def Let_def core_of_def split: list.split)

lemma match_report_good: "authority_ok st \<Longrightarrow> good_outcome (match_report E sid ch result st)"
proof -
  assume ok: "authority_ok st"
  obtain r st1 where f: "finish_match E sid result st = Some (r, st1)" "authority_ok st1"
    using finish_match_good [OF ok, of E sid result] by (auto simp: good_outcome_def)
  have keep: "authority_ok (remember_completed_match_result m st1)" for m
    using f(2) by (rule authority_ok_keep) simp
  have "authority_ok (snd (try_send ch msg s))" if "authority_ok s" for msg s
    using that by (rule authority_ok_keep) simp
  then show ?thesis
    using ok f keep by (auto simp: match_report_def Let_def case_prod_unfold split: sum.split)
qed

lemma instance_report_ok: "authority_ok st \<Longrightarrow> authority_ok (snd (instance_report E sid v st))"
  by (auto simp: instance_report_def Let_def put_instance_ok split: sum.split option.split)

lemma apply_server_control_good:
  "authority_ok st \<Longrightarrow> good_outcome (apply_server_control E sid generation ch msg st)"
proof -
  assume ok: "authority_ok st"
  let ?st = "st\<lparr>au_controls := bm_insert sid ch (au_controls st)\<rparr>"
  have ok': "authority_ok ?st" using ok by (simp add: authority_ok_def)
  have hb: "authority_ok (with_registry ?st r)" if "heartbeat sid generation now used (au_registry ?st) = (x, r)"
    for now used x r
    using registry_ok_heartbeat [OF authority_okD(1) [OF ok'], of sid generation now used] that ok'
    by (auto intro: authority_ok_registry)
  have "good_outcome (Some (instance_report E sid v ?st))" for v
    using instance_report_ok [OF ok', of E sid v] by (metis good_Some prod.collapse)
  then show ?thesis
    using ok ok' hb launch_result_good [OF ok'] match_report_good [OF ok']
    by (auto simp: apply_server_control_def Let_def split: option.split server_message.split prod.split sum.split)
qed

section \<open>The clock\<close>

text \<open>Updates outside the registry, the proposals and the configuration.\<close>

lemma authority_ok_update [simp]:
  "authority_ok (st\<lparr>au_parties := a\<rparr>) = authority_ok st" "authority_ok (st\<lparr>au_player_party := b\<rparr>) = authority_ok st"
  "authority_ok (st\<lparr>au_tickets := c\<rparr>) = authority_ok st" "authority_ok (st\<lparr>au_invites := d\<rparr>) = authority_ok st"
  "authority_ok (st\<lparr>au_request_cache := e\<rparr>) = authority_ok st" "authority_ok (st\<lparr>au_sessions := f\<rparr>) = authority_ok st"
  "authority_ok (st\<lparr>au_offline := g\<rparr>) = authority_ok st" "authority_ok (st\<lparr>au_disconnect_deadlines := h\<rparr>) = authority_ok st"
  "authority_ok (st\<lparr>au_launches := i\<rparr>) = authority_ok st" "authority_ok (st\<lparr>au_launch_deadlines := j\<rparr>) = authority_ok st"
  "authority_ok (st\<lparr>au_placement_waiting := k\<rparr>) = authority_ok st" "authority_ok (st\<lparr>au_credit := l\<rparr>) = authority_ok st"
  "authority_ok (st\<lparr>au_recent_credit_violations := m\<rparr>) = authority_ok st"
  "authority_ok (st\<lparr>au_credit_suspended_until := n\<rparr>) = authority_ok st"
  "authority_ok (st\<lparr>au_ratings := r\<rparr>) = authority_ok st" "authority_ok (st\<lparr>au_completed_games := q\<rparr>) = authority_ok st"
  "authority_ok (st\<lparr>au_current_session := s\<rparr>) = authority_ok st" "authority_ok (st\<lparr>au_events := t\<rparr>) = authority_ok st"
  "authority_ok (st\<lparr>au_controls := u\<rparr>) = authority_ok st" "authority_ok (st\<lparr>au_channels := v\<rparr>) = authority_ok st"
  "authority_ok (st\<lparr>au_logical_clock := w\<rparr>) = authority_ok st" "authority_ok (st\<lparr>au_pending_profile_saves := x\<rparr>) = authority_ok st"
  "authority_ok (st\<lparr>au_config := (au_config st)\<lparr>ec_drain_mode := y\<rparr>\<rparr>) = authority_ok st"
  by (simp_all add: authority_ok_def rating_policy_of_def)

lemma authority_ok_frames [simp]:
  "authority_ok (emit_party E p st) = authority_ok st" "authority_ok (on_metrics f st) = authority_ok st"
  "authority_ok (snd (next_uuid k st)) = authority_ok st" "authority_ok (rebuild_ecs E st) = authority_ok st"
  "authority_ok (cancel_proposal E pid infra st) = authority_ok st" "authority_ok (send_event_noted E q e st) = authority_ok st"
  by (rule authority_ok_core, simp)+

lemma drop_disconnected_ok: "authority_ok st \<Longrightarrow> authority_ok (drop_disconnected E p st)"
  by (auto simp: drop_disconnected_def Let_def authority_ok_def get_insert split: option.split)

lemma expire_teams [simp]: "pr_teams (snd (expire now q)) = pr_teams q"
  by (simp add: expire_def)

lemma expire_proposals_ok: "authority_ok st \<Longrightarrow> authority_ok (expire_proposals E st)"
proof -
  assume ok: "authority_ok st"
  have "authority_ok (st\<lparr>au_proposals := bm_map (\<lambda>_ p. snd (expire now p)) (au_proposals st)\<rparr>)" for now
    using ok by (auto simp: authority_ok_def)
  then show ?thesis unfolding expire_proposals_def Let_def by (rule fold_inv [where P = authority_ok, rotated]) simp_all
qed

lemma good_outcomeE:
  assumes "good_outcome out"
  obtains r st where "out = Some (r, st)" "authority_ok st"
  using assms by (auto simp: good_outcome_def)

lemma retry_waiting_ok: "authority_ok st \<Longrightarrow> \<exists>st'. retry_waiting E pid st = Some st' \<and> authority_ok st'"
  by (rule good_outcomeE [OF launch_good [of st E pid]])
    (auto simp: retry_waiting_def Let_def split: sum.split option.split)

lemma handle_lost_ok: "authority_ok st \<Longrightarrow> \<exists>st'. handle_lost E lost st = Some st' \<and> authority_ok st'"
proof -
  assume ok: "authority_ok st"
  obtain m run where lost: "lost = (m, run)" by fastforce
  show ?thesis
  proof (cases "bm_get (au_launches st) m")
    case (Some l)
    obtain server pid where l: "l = (server, pid)" by fastforce
    have told: "authority_ok (fold (\<lambda>p st. send_event_noted E p ev st) ps st)" for ev ps
      using ok by (rule fold_inv [where P = authority_ok, rotated]) simp
    show ?thesis
      using Some ok told
      by (cases rule: good_outcomeE [OF retry_launch_good [OF ok, of E m server pid]])
        (auto simp: handle_lost_def lost l Let_def split: sum.split option.split)
  qed (use ok in \<open>simp add: handle_lost_def lost\<close>)
qed

lemma retry_overdue_ok: "authority_ok st \<Longrightarrow> \<exists>st'. retry_overdue E m st = Some st' \<and> authority_ok st'"
proof -
  assume ok: "authority_ok st"
  show ?thesis
  proof (cases "bm_get (au_launches st) m")
    case (Some l)
    obtain server pid where l: "l = (server, pid)" by fastforce
    show ?thesis
      using Some ok
      by (cases rule: good_outcomeE [OF retry_launch_good [OF ok, of E m server pid]])
        (auto simp: retry_overdue_def l Let_def split: sum.split)
  qed (use ok in \<open>simp add: retry_overdue_def\<close>)
qed

interpretation waiting_loop: total_machine "retry_waiting E" authority_ok for E
  by unfold_locales (rule retry_waiting_ok)

interpretation lost_loop: total_machine "handle_lost E" authority_ok for E
  by unfold_locales (rule handle_lost_ok)

interpretation overdue_loop: total_machine "retry_overdue E" authority_ok for E
  by unfold_locales (rule retry_overdue_ok)

lemma tick_ok:
  assumes "authority_ok st"
  shows "\<exists>st'. tick E st = Some st' \<and> authority_ok st'"
proof -
  let ?s0 = "expire_proposals E (fold (drop_disconnected E) (overdue (pf_now E) (au_disconnect_deadlines st)) st)"
  have "authority_ok (fold (drop_disconnected E) ps st)" for ps
    using assms by (rule fold_inv [rotated]) (rule drop_disconnected_ok)
  then have "authority_ok ?s0" by (rule expire_proposals_ok)
  then obtain s1 where s1: "fold_opt (retry_waiting E) (bm_keys (au_placement_waiting ?s0)) ?s0 = Some s1" "authority_ok s1"
    using waiting_loop.run_total by blast
  obtain lost r where h: "update_health (pf_now E) (unhealthy_after_ms (au_config s1))
      (sat_mul (ec_lost_after_seconds (au_config s1)) 1000) (au_registry s1) = (lost, r)" by fastforce
  then have "registry_ok r" using registry_ok_update_health [OF authority_okD(1) [OF s1(2)]] by (metis snd_conv)
  then have "authority_ok (with_registry s1 r)" using s1(2) by (intro authority_ok_registry)
  then obtain s2 where s2: "fold_opt (handle_lost E) lost (with_registry s1 r) = Some s2" "authority_ok s2"
    using lost_loop.run_total by blast
  obtain s3 where s3: "fold_opt (retry_overdue E) (overdue (pf_now E) (au_launch_deadlines s2)) s2 = Some s3" "authority_ok s3"
    using overdue_loop.run_total [OF s2(2)] by blast
  have "tick E st = Some (attempt_all_matches E (rebuild_ecs E s3))"
    using s1(1) h s2(1) s3(1) by (simp add: tick_def Let_def)
  with s3(2) attempt_all_matches_ok show ?thesis by simp
qed

section \<open>The calls of players\<close>

lemma with_request_good:
  assumes "authority_ok st" "\<And>p. good_outcome (body p st)"
  shows "good_outcome (with_request m body st)"
proof -
  have "good_outcome (case body p st of Some (Inr v, st') \<Rightarrow> (let (v, st'') = remember p rid v st' in Some (Inr v, st''))
     | other \<Rightarrow> other)" for p rid
    by (rule good_outcomeE [OF assms(2) [of p]]) (auto simp: remember_def Let_def split: sum.split)
  then show ?thesis using assms(1) by (simp add: with_request_def split: sum.split option.split)
qed

lemma create_party_good: "authority_ok st \<Longrightarrow> good_outcome (create_party E m name st)"
  unfolding create_party_def create_party_body_def
  by (rule with_request_good) (simp_all add: Let_def case_prod_unfold split: sum.split)

lemma join_party_good: "authority_ok st \<Longrightarrow> good_outcome (join_party E m token st)"
  unfolding join_party_def join_party_body_def
  by (rule with_request_good) (simp_all add: Let_def split: sum.split option.split prod.split)

lemma leave_party_good: "authority_ok st \<Longrightarrow> good_outcome (leave_party E m pid rv st)"
  unfolding leave_party_def leave_party_body_def
  by (rule with_request_good) (simp_all add: Let_def split: sum.split option.split prod.split)

lemma kick_member_good: "authority_ok st \<Longrightarrow> good_outcome (kick_member E m pid rv player st)"
  unfolding kick_member_def kick_member_body_def
  by (rule with_request_good) (simp_all add: Let_def split: sum.split option.split prod.split)

lemma rename_party_good: "authority_ok st \<Longrightarrow> good_outcome (rename_party E m pid rv name st)"
  unfolding rename_party_def rename_party_body_def
  by (rule with_request_good) (simp_all add: Let_def split: sum.split option.split prod.split)

lemma enqueue_good: "authority_ok st \<Longrightarrow> good_outcome (enqueue E m pid rv mode regions st)"
  unfolding enqueue_def enqueue_body_def
  by (rule with_request_good) (simp_all add: Let_def case_prod_unfold split: sum.split option.split)

lemma cancel_queue_good: "authority_ok st \<Longrightarrow> good_outcome (cancel_queue E m pid rv st)"
  unfolding cancel_queue_def cancel_queue_body_def
  by (rule with_request_good) (simp_all add: Let_def split: sum.split option.split)

lemma create_invite_ok: "authority_ok st \<Longrightarrow> authority_ok (snd (create_invite E fresh m pid rv ttl uses st))"
  by (simp add: create_invite_def Let_def case_prod_unfold split: sum.split option.split prod.split)

lemma place_proposal_good: "authority_ok st \<Longrightarrow> good_outcome (place_proposal E pid st)"
proof -
  assume ok: "authority_ok st"
  let ?st = "case bm_get (au_proposals st) pid of None \<Rightarrow> st
     | Some q \<Rightarrow> (let created = sat_sub (pr_deadline q) (ec_ready_timeout_seconds (au_config st) * 1000)
        in on_metrics (\<lambda>mt. mt\<lparr>mt_ready_check_us := hist_observe
             (sat_mul (sat_sub (pf_now E) created) 1000) (mt_ready_check_us mt)\<rparr>) st)"
  have "authority_ok ?st" using ok by (simp add: Let_def split: option.split)
  then have "good_outcome (launch E pid ?st)" by (rule launch_good)
  then show ?thesis
    by (rule good_outcomeE) (auto simp: place_proposal_def Let_def split: sum.split)
qed

lemma respond_teams [simp]: "pr_teams (snd (respond i p a q)) = pr_teams q"
  by (cases rule: respond_cases [of i p a q]) (simp_all add: Let_def)

lemma proposal_response_good: "authority_ok st \<Longrightarrow> good_outcome (proposal_response E m i accepted st)"
  unfolding proposal_response_def proposal_response_body_def
proof (rule with_request_good)
  fix p
  assume ok: "authority_ok st"
  have upd: "authority_ok (st\<lparr>au_proposals := bm_insert pid q' (au_proposals st)\<rparr>)"
    if "bm_get (au_proposals st) pid = Some q" "respond pid p accepted q = (r, q')" for pid q r q'
    using ok that respond_teams [of pid p accepted q] by (auto simp: authority_ok_def get_insert)
  note place = place_proposal_good [of _ E]
  have answer: "good_outcome (case place_proposal E pid s of None \<Rightarrow> None
       | Some (Inl e, st) \<Rightarrow> Some (Inl e, st) | Some (Inr _, st) \<Rightarrow> Some (Inr v, st))"
    if "authority_ok s" for pid s and v :: operation_result
    by (rule good_outcomeE [OF place [OF that, of pid]]) (auto split: sum.split)
  show "good_outcome (case id_from_str (pf_uuid E) ''ProposalId'' i of
       Inl _ \<Rightarrow> Some (Inl (invalid_argument ''proposal_id''), st)
     | Inr pid \<Rightarrow>
        if bm_get (au_player_proposal st) p \<noteq> Some pid then Some (Inl (failed_precondition ''stale proposal''), st)
        else (case bm_get (au_proposals st) pid of None \<Rightarrow> Some (Inl (not_found ''proposal''), st)
        | Some prop \<Rightarrow> (case respond pid p accepted prop of
            (Inl e, prop') \<Rightarrow> Some (Inl (failed_precondition (proposal_error_text e)),
               st\<lparr>au_proposals := bm_insert pid prop' (au_proposals st)\<rparr>)
          | (Inr state, prop') \<Rightarrow>
             let st = st\<lparr>au_proposals := bm_insert pid prop' (au_proposals st)\<rparr>;
                 st = (if accepted then on_metrics (\<lambda>mt. mt\<lparr>mt_ready_accepts := counter_add 1 (mt_ready_accepts mt)\<rparr>) st
                       else st);
                 st = (if state = Cancelled then cancel_proposal E pid False st else st);
                 result = \<lparr>or_accepted = True, or_code = lit (if accepted then ''ACCEPTED'' else ''REJECTED''),
                   or_message = [], or_entity_id = id_to_string (pf_uuid E) pid, or_revision = 0\<rparr>
             in if state = AwaitingPlacement
                then (case place_proposal E pid st of None \<Rightarrow> None
                  | Some (Inl e, st) \<Rightarrow> Some (Inl e, st)
                  | Some (Inr _, st) \<Rightarrow> Some (Inr result, st))
                else Some (Inr result, st))))"
    using ok upd by (simp add: Let_def answer split: sum.split option.split prod.split)
qed

lemma open_session_job_ok: "authority_ok st \<Longrightarrow> authority_ok (snd (open_session_job E token p profile st))"
  by (simp add: open_session_job_def Let_def)

lemma disconnected_ok: "authority_ok st \<Longrightarrow> authority_ok (disconnected E p token st)"
  by (simp add: disconnected_def)

lemma begin_drain_ok: "authority_ok st \<Longrightarrow> authority_ok (begin_drain st)"
  by (simp add: begin_drain_def)

section \<open>The calls of game servers\<close>

lemma register_job_ok:
  assumes "authority_ok st" "rg_capacity_total req < - 1"
  shows "authority_ok (snd (register_job E sid req st))"
proof -
  have "authority_ok (with_registry st r)" if "register s l (au_registry st) = (e, r)" "gs_capacity_total s < - 1" for s l e r
    using registry_ok_register [OF authority_okD(1) [OF assms(1)] that(2), of l] that(1) assms(1)
    by (auto intro: authority_ok_registry)
  with assms show ?thesis
    by (auto simp: register_job_def Let_def split: sum.split option.split prod.split)
qed

lemma recover_launches_good: "authority_ok st \<Longrightarrow> good_outcome (recover_launches E sid rs st)"
proof (induction rs arbitrary: st)
  case (Cons ready rest)
  show ?case
    by (rule good_outcomeE [OF launch_result_good [OF Cons.prems, of E sid ready]])
      (auto simp: Cons split: sum.split)
qed simp

lemma reconcile_job_good: "authority_ok st \<Longrightarrow> good_outcome (reconcile_job E sid req st)"
proof -
  assume ok: "authority_ok st"
  have "authority_ok (with_registry st r)" if "reconcile sid g is (au_registry st) = (e, r)" for g "is" e r
    using registry_ok_reconcile [OF authority_okD(1) [OF ok], of sid g "is"] that ok
    by (auto intro: authority_ok_registry)
  with ok show ?thesis
    by (auto simp: reconcile_job_def recover_launches_good split: sum.split prod.split)
qed

section \<open>Every run of the authority\<close>

text \<open>
  The jobs the actor runs, each with what the platform answers during it, and the events of the
  environment that the authority sees: a control channel that is opened, drained or closed.
\<close>

datatype authority_event =
    OpenSession rstr player_id player_profile
  | Disconnected player_id rstr
  | BeginDrain
  | CreateParty "mutation_meta option" rstr
  | CreateInvite rstr "mutation_meta option" rstr u64 u32 u32
  | JoinParty "mutation_meta option" rstr
  | LeaveParty "mutation_meta option" rstr u64
  | KickMember "mutation_meta option" rstr u64 rstr
  | RenameParty "mutation_meta option" rstr u64 rstr
  | Enqueue "mutation_meta option" rstr u64 i32 "rstr list"
  | CancelQueue "mutation_meta option" rstr u64
  | AnswerProposal "mutation_meta option" rstr bool
  | RegisterServer server_id register_msg
  | ServerControl server_id server_generation channel_id "server_message option"
  | Reconcile server_id reconcile_msg
  | MatchBatch
  | Tick
  | Channel channel_id channel

definition state_after :: "'a outcome \<Rightarrow> authority option" where
  "state_after out = map_option snd out"

definition authority_step :: "platform \<times> authority_event \<Rightarrow> authority \<Rightarrow> authority option" where
  "authority_step e st = (case e of (E, ev) \<Rightarrow> (case ev of
      OpenSession token p profile \<Rightarrow> Some (snd (open_session_job E token p profile st))
    | Disconnected p token \<Rightarrow> Some (disconnected E p token st)
    | BeginDrain \<Rightarrow> Some (begin_drain st)
    | CreateParty m name \<Rightarrow> state_after (create_party E m name st)
    | CreateInvite fresh m pid rv ttl uses \<Rightarrow> Some (snd (create_invite E fresh m pid rv ttl uses st))
    | JoinParty m token \<Rightarrow> state_after (join_party E m token st)
    | LeaveParty m pid rv \<Rightarrow> state_after (leave_party E m pid rv st)
    | KickMember m pid rv player \<Rightarrow> state_after (kick_member E m pid rv player st)
    | RenameParty m pid rv name \<Rightarrow> state_after (rename_party E m pid rv name st)
    | Enqueue m pid rv mode regions \<Rightarrow> state_after (enqueue E m pid rv mode regions st)
    | CancelQueue m pid rv \<Rightarrow> state_after (cancel_queue E m pid rv st)
    | AnswerProposal m i accepted \<Rightarrow> state_after (proposal_response E m i accepted st)
    | RegisterServer sid req \<Rightarrow> Some (snd (register_job E sid req st))
    | ServerControl sid g ch msg \<Rightarrow> state_after (apply_server_control E sid g ch msg st)
    | Reconcile sid req \<Rightarrow> state_after (reconcile_job E sid req st)
    | MatchBatch \<Rightarrow> Some (rebuild_ecs E (attempt_all_matches E (rebuild_ecs E st)))
    | Tick \<Rightarrow> tick E st
    | Channel ch c \<Rightarrow> Some (st\<lparr>au_channels := bm_insert ch c (au_channels st)\<rparr>)))"

definition authority_run :: "(platform \<times> authority_event) list \<Rightarrow> authority \<Rightarrow> authority option" where
  "authority_run es st = fold_opt authority_step es st"

text \<open>The one restriction: a server does not report the largest 32-bit number as its capacity,
  for which the saturating comparison of the placement accepts a sum that overflows.\<close>

definition bounded_registration :: "platform \<times> authority_event \<Rightarrow> bool" where
  "bounded_registration e \<longleftrightarrow> (case snd e of RegisterServer sid req \<Rightarrow> rg_capacity_total req < - 1 | _ \<Rightarrow> True)"

lemma good_state_after: "good_outcome out \<Longrightarrow> \<exists>st. state_after out = Some st \<and> authority_ok st"
  by (auto simp: good_outcome_def state_after_def)

lemmas calls_good = create_party_good join_party_good leave_party_good kick_member_good rename_party_good
  enqueue_good cancel_queue_good proposal_response_good apply_server_control_good reconcile_job_good

lemma authority_step_total:
  assumes "bounded_registration e" "authority_ok st"
  shows "\<exists>st'. authority_step e st = Some st' \<and> authority_ok st'"
proof -
  obtain E ev where e: "e = (E, ev)" by fastforce
  show ?thesis
    using assms
    by (cases ev) (simp_all add: e authority_step_def bounded_registration_def good_state_after calls_good
        open_session_job_ok disconnected_ok begin_drain_ok create_invite_ok register_job_ok tick_ok attempt_all_matches_ok)
qed

interpretation actor: total_machine
  "\<lambda>e st. if bounded_registration e then authority_step e st else Some st" authority_ok
  by unfold_locales (simp add: authority_step_total)

lemma authority_run_total:
  assumes "\<forall>e \<in> set es. bounded_registration e" "authority_ok st"
  shows "\<exists>st'. authority_run es st = Some st' \<and> authority_ok st'"
proof -
  have "fold_opt authority_step es s = fold_opt (\<lambda>e st. if bounded_registration e then authority_step e st else Some st) es s"
    for s using assms(1) by (induction es arbitrary: s) (auto split: option.split)
  then show ?thesis using actor.run_total [OF assms(2), of es] by (simp add: authority_run_def)
qed

lemma authority_new_ok: "i32_policy (rating_policy_of config) \<Longrightarrow> authority_ok (authority_new config mt)"
  by (simp add: authority_ok_def authority_new_def)

end
