(* ===== verification/Authority_Requests.thy ===== *)
theory Authority_Requests
  imports Authority_Safety
begin

text \<open>
  Idempotent requests and the drain mode. A mutation call is a \<open>request_handler\<close>: the frame
  \<open>with_request\<close> around a body that leaves the sessions, the remembered answers and the
  configuration alone. An answered request keeps its answer for the whole life of the authority.
\<close>

section \<open>What nothing but the frame changes\<close>

definition completed_of :: "authority \<Rightarrow> match_id set \<times> match_id list" where
  "completed_of st = (au_completed_match_results st, au_completed_match_result_order st)"

definition reqs_of :: "authority \<Rightarrow> erps_config \<times> (rstr, player_id) bmap \<times> (player_id \<times> rstr, operation_result) bmap" where
  "reqs_of st = (au_config st, au_sessions st, au_request_cache st)"

definition quiet_of :: "authority \<Rightarrow> (erps_config \<times> (rstr, player_id) bmap \<times> (player_id \<times> rstr, operation_result) bmap)
    \<times> match_id set \<times> match_id list" where
  "quiet_of st = (reqs_of st, completed_of st)"

lemmas quiet_defs = quiet_of_def reqs_of_def completed_of_def

lemma quiet_of_update [simp]:
  "quiet_of (st\<lparr>au_parties := a\<rparr>) = quiet_of st" "quiet_of (st\<lparr>au_player_party := b\<rparr>) = quiet_of st"
  "quiet_of (st\<lparr>au_tickets := c\<rparr>) = quiet_of st" "quiet_of (st\<lparr>au_invites := d\<rparr>) = quiet_of st"
  "quiet_of (st\<lparr>au_offline := g\<rparr>) = quiet_of st" "quiet_of (st\<lparr>au_disconnect_deadlines := h\<rparr>) = quiet_of st"
  "quiet_of (st\<lparr>au_launches := i\<rparr>) = quiet_of st" "quiet_of (st\<lparr>au_launch_deadlines := j\<rparr>) = quiet_of st"
  "quiet_of (st\<lparr>au_placement_waiting := k\<rparr>) = quiet_of st" "quiet_of (st\<lparr>au_proposals := l\<rparr>) = quiet_of st"
  "quiet_of (st\<lparr>au_ratings := r\<rparr>) = quiet_of st" "quiet_of (st\<lparr>au_proposal_tickets := q\<rparr>) = quiet_of st"
  "quiet_of (st\<lparr>au_controls := u\<rparr>) = quiet_of st" "quiet_of (st\<lparr>au_channels := v\<rparr>) = quiet_of st"
  "quiet_of (st\<lparr>au_logical_clock := w\<rparr>) = quiet_of st" "quiet_of (st\<lparr>au_claims := x\<rparr>) = quiet_of st"
  "quiet_of (st\<lparr>au_player_match := a2\<rparr>) = quiet_of st" "quiet_of (st\<lparr>au_player_proposal := b2\<rparr>) = quiet_of st"
  "quiet_of (st\<lparr>au_pending_profile_saves := c2\<rparr>) = quiet_of st"
  "quiet_of (with_registry st y) = quiet_of st"
  by (simp_all add: quiet_defs with_registry_def)

lemma quiet_of_frames [simp]:
  "quiet_of (on_metrics f st) = quiet_of st" "quiet_of (snd (next_uuid k st)) = quiet_of st"
  "quiet_of (rebuild_ecs E st) = quiet_of st" "quiet_of (send_event_noted E q e st) = quiet_of st"
  "quiet_of (emit_party E p st) = quiet_of st" "quiet_of (emit_party_of E j st) = quiet_of st"
  "quiet_of (snd (try_send ch msg st)) = quiet_of st" "quiet_of (note_control_backlog ch st) = quiet_of st"
  "quiet_of (finish_player mode p' st) = quiet_of st" "quiet_of (free_party j st) = quiet_of st"
  "quiet_of (settle_decision E pid infra rd st) = quiet_of st" "quiet_of (restore_ticket pr infra en st) = quiet_of st"
proof -
  show metrics: "quiet_of (on_metrics f st) = quiet_of st" for f st by (simp add: on_metrics_def quiet_defs)
  have event: "quiet_of (send_event q e st) = quiet_of st" for q e st by (simp add: send_event_def quiet_defs)
  then show "quiet_of (send_event_noted E q e st) = quiet_of st" by (simp add: send_event_noted_def metrics)
  show party: "quiet_of (emit_party E p st) = quiet_of st" for p
    unfolding emit_party_def Let_def by (rule fold_frame) (simp add: event)
  show "quiet_of (emit_party_of E j st) = quiet_of st" by (simp add: emit_party_of_def party split: option.split)
  show "quiet_of (snd (next_uuid k st)) = quiet_of st" by (simp add: next_uuid_def Let_def quiet_defs)
  show "quiet_of (rebuild_ecs E st) = quiet_of st" by (simp add: rebuild_ecs_def on_metrics_def quiet_defs)
  show "quiet_of (snd (try_send ch msg st)) = quiet_of st"
    by (simp add: try_send_def quiet_defs split: option.split)
  show "quiet_of (note_control_backlog ch st) = quiet_of st" by (simp add: note_control_backlog_def metrics)
  show "quiet_of (finish_player mode p' st) = quiet_of st" by (simp add: finish_player_def Let_def quiet_defs)
  show "quiet_of (free_party j st) = quiet_of st" by (simp add: free_party_def quiet_defs)
  have "quiet_of (penalize E p c st) = quiet_of st" for p c st
    by (simp add: penalize_def Let_def on_metrics_def quiet_defs)
  then show "quiet_of (settle_decision E pid infra rd st) = quiet_of st"
    using event metrics by (simp add: settle_decision_def Let_def split: option.split credit_cause.split)
  show "quiet_of (restore_ticket pr infra en st) = quiet_of st"
    by (auto simp: restore_ticket_def quiet_defs split: prod.split option.split)
qed

lemma quiet_of_after_match [simp]: "quiet_of (after_match E q st) = quiet_of st"
  by (simp add: after_match_def fold_frame [where f = quiet_of])

lemma quiet_of_cancel [simp]: "quiet_of (cancel_proposal E pid infra st) = quiet_of st"
  by (simp add: cancel_proposal_def Let_def fold_frame [where f = quiet_of] split: option.split)

lemma quiet_of_taken [simp]: "quiet_of (snd (take_tickets is saved st)) = quiet_of st"
proof (induction "is" saved st rule: take_tickets.induct)
  case (2 i "is" saved st)
  then show ?case by (cases "bm_get (au_tickets st) i") (auto simp: Let_def)
qed simp

lemma quiet_of_marked [simp]: "quiet_of (snd (mark_matched is out st)) = quiet_of st"
proof (induction "is" out st rule: mark_matched.induct)
  case (2 i "is" out st)
  then show ?case by (cases "bm_get (au_parties st) i") (simp_all add: Let_def)
qed simp

lemma quiet_of_put [simp]: "quiet_of (put_instance sid m i st) = quiet_of st"
  by (simp add: put_instance_def)

lemma quiet_of_stored [simp]: "quiet_of (store_proposal E pid prop saved st) = quiet_of st"
  by (simp add: store_proposal_def announce_def Let_def fold_frame [where f = quiet_of])

lemma quiet_of_commit [simp]: "quiet_of (commit_one E ts c st) = quiet_of st"
proof -
  have u: "quiet_of s2 = quiet_of s1" if "next_uuid k s1 = (b, s2)" for k b s1 s2
    using quiet_of_frames(2) [of k s1] that by simp
  have t: "quiet_of s2 = quiet_of s1" if "take_tickets is saved s1 = (b, s2)" for "is" saved b s1 s2
    using quiet_of_taken [of "is" saved s1] that by simp
  show ?thesis by (auto simp: commit_one_def commit_candidate_def Let_def u t split: prod.split)
qed

lemma quiet_of_batch [simp]: "quiet_of (snd (attempt_match_batch E mode region st)) = quiet_of st"
  by (simp add: attempt_match_batch_def Let_def commit_candidates_fold fold_frame [where f = quiet_of])

lemma quiet_of_all_matches [simp]: "quiet_of (attempt_all_matches E st) = quiet_of st"
  unfolding attempt_all_matches_def by (rule fold_frame) (simp add: case_prod_unfold)

text \<open>An outcome whose state has the same sessions, answers and configuration.\<close>

definition keeps :: "'a outcome \<Rightarrow> authority \<Rightarrow> bool" where
  "keeps out st \<longleftrightarrow> (\<forall>r s. out = Some (r, s) \<longrightarrow> quiet_of s = quiet_of st)"

lemma keeps_simps [simp]: "keeps None st" "keeps (Some x) st \<longleftrightarrow> quiet_of (snd x) = quiet_of st"
  by (cases x; simp add: keeps_def)+

lemma keepsD: "keeps out st \<Longrightarrow> out = Some (r, s) \<Longrightarrow> quiet_of s = quiet_of st"
  by (simp add: keeps_def)

lemma launch_keeps: "keeps (launch E pid st) st"
proof -
  have t: "quiet_of s2 = quiet_of s1" if "try_send ch msg s1 = (b, s2)" for ch msg b s1 s2
    using quiet_of_frames(7) [of ch msg s1] that by simp
  have u: "quiet_of s2 = quiet_of s1" if "next_uuid k s1 = (b, s2)" for k b s1 s2
    using quiet_of_frames(2) [of k s1] that by simp
  show ?thesis by (auto simp: launch_def Let_def t u split: option.split prod.split)
qed

lemma retry_launch_keeps: "keeps (retry_launch E m failed pid st) st"
proof -
  have t: "quiet_of s2 = quiet_of s1" if "try_send ch msg s1 = (b, s2)" for ch msg b s1 s2
    using quiet_of_frames(7) [of ch msg s1] that by simp
  show ?thesis
    by (auto simp: retry_launch_def Let_def t split: option.split prod.split list.split sum.split)
qed

lemma publish_match_quiet [simp]: "quiet_of (publish_match E sid m pid q i result st) = quiet_of st"
proof -
  let ?tell = "\<lambda>ev p st. send_event_noted E p ev
     (st\<lparr>au_player_match := bm_insert p m (au_player_match st), au_player_proposal := bm_remove p (au_player_proposal st)\<rparr>)"
  have told: "quiet_of (fold (?tell ev) ps st) = quiet_of st" for ev ps st
    by (rule fold_frame) simp
  have emit: "quiet_of (fold (emit_party E) ps st) = quiet_of st" for ps st
    by (rule fold_frame) simp
  show ?thesis
    unfolding publish_match_def Let_def case_prod_unfold
    by (simp add: emit told split: option.split)
qed

lemma launch_result_keeps: "keeps (launch_result E sid result st) st"
proof -
  have "keeps (retry_launch E m sid pid (on_metrics f st)) st" for m pid f
    using retry_launch_keeps [of E m sid pid "on_metrics f st"] by (simp add: keeps_def)
  then show ?thesis by (simp add: launch_result_def split: sum.split option.split)
qed

lemma close_match_quiet [simp]: "quiet_of (snd (close_match E sid m pid q st)) = quiet_of st"
  by (simp add: close_match_def Let_def after_match_def [symmetric] split: prod.split sum.split)

lemma finish_match_keeps: "keeps (finish_match E sid result st) st"
proof -
  show ?thesis by (simp add: finish_match_def split: sum.split option.split)
qed

text \<open>A report of a server may settle a match, whose id is then remembered, and nothing else.\<close>

definition records :: "authority \<Rightarrow> authority \<Rightarrow> bool" where
  "records st s \<longleftrightarrow> reqs_of s = reqs_of st \<and> (completed_of s = completed_of st
     \<or> (\<exists>m. m \<notin> au_completed_match_results st \<and> completed_of s = completed_of (remember_completed_match_result m st)))"

lemma records_quiet: "quiet_of s = quiet_of st \<Longrightarrow> records st s"
  by (simp add: records_def quiet_of_def)

lemma remember_completed_of:
  "reqs_of (remember_completed_match_result m s) = reqs_of s"
  "completed_of s = completed_of st \<Longrightarrow>
    completed_of (remember_completed_match_result m s) = completed_of (remember_completed_match_result m st)"
  by (auto simp: remember_completed_match_result_def reqs_of_def completed_of_def Let_def split: list.split)

lemma records_from: "quiet_of st' = quiet_of st \<Longrightarrow> records st' s \<Longrightarrow> records st s"
  using remember_completed_of(2) [of st' st] by (auto simp: records_def quiet_of_def completed_of_def)

lemma records_to: "records st s \<Longrightarrow> quiet_of s' = quiet_of s \<Longrightarrow> records st s'"
  by (simp add: records_def quiet_of_def)

lemma match_report_records: "match_report E sid ch result st = Some (r, s) \<Longrightarrow> records st s"
proof -
  assume report: "match_report E sid ch result st = Some (r, s)"
  show ?thesis
  proof (cases "id_from_str (pf_uuid E) ''MatchId'' (mr_match_id result) :: parse_id_error + match_id")
    case (Inl e)
    with report show ?thesis by (simp add: match_report_def records_quiet)
  next
    case (Inr m)
    show ?thesis
    proof (cases "m \<in> au_completed_match_results st")
      case True
      with report Inr have "quiet_of s = quiet_of st"
        by (auto simp: match_report_def Let_def case_prod_unfold)
      then show ?thesis by (rule records_quiet)
    next
      case new: False
      obtain x where f: "finish_match E sid result st = Some x"
        using report Inr new by (cases "finish_match E sid result st") (simp_all add: match_report_def)
      obtain r' s' where x: "x = (r', s')" by fastforce
      have same: "quiet_of s' = quiet_of st" using finish_match_keeps f [unfolded x] by (rule keepsD)
      have "s = s' \<or> quiet_of s = quiet_of (remember_completed_match_result m s')"
        using report Inr new f x by (cases r') (auto simp: match_report_def Let_def case_prod_unfold)
      with same new remember_completed_of(1) [of m s'] remember_completed_of(2) [of s' st m] show ?thesis
        by (auto simp: records_def quiet_of_def)
    qed
  qed
qed

lemma apply_server_control_records: "apply_server_control E sid g ch msg st = Some (r, s) \<Longrightarrow> records st s"
proof -
  assume out: "apply_server_control E sid g ch msg st = Some (r, s)"
  let ?st = "st\<lparr>au_controls := bm_insert sid ch (au_controls st)\<rparr>"
  have here: "quiet_of ?st = quiet_of st" by simp
  show ?thesis
  proof (cases "is_current_generation sid g (au_registry st)")
    case False
    with out show ?thesis by (simp add: apply_server_control_def records_quiet)
  next
    case current: True
    have quiet: "records st s" if "keeps (apply_server_control E sid g ch msg st) st"
      using keepsD [OF that out] by (rule records_quiet)
    show ?thesis
    proof (cases msg)
      case None
      with current show ?thesis by (intro quiet) (simp add: apply_server_control_def)
    next
      case (Some x)
      show ?thesis
      proof (cases x)
        case (SmMatchResult result)
        with out current Some have "match_report E sid ch result ?st = Some (r, s)"
          by (simp add: apply_server_control_def)
        from records_from [OF here match_report_records [OF this]] show ?thesis .
      next
        case (SmHeartbeat used running)
        with current Some show ?thesis
          by (intro quiet) (simp add: apply_server_control_def Let_def split: prod.split sum.split)
      next
        case (SmLaunchResult result)
        have "keeps (launch_result E sid result ?st) st"
          using launch_result_keeps [of E sid result ?st] by (simp add: keeps_def)
        with current Some SmLaunchResult show ?thesis by (intro quiet) (simp add: apply_server_control_def)
      next
        case (SmInstance v)
        have "keeps (Some (instance_report E sid v ?st)) st"
          by (auto simp: instance_report_def Let_def split: sum.split option.split)
        with current Some SmInstance show ?thesis by (intro quiet) (simp add: apply_server_control_def)
      qed
    qed
  qed
qed

lemma recover_launches_keeps: "keeps (recover_launches E sid rs st) st"
proof (induction rs arbitrary: st)
  case (Cons ready rest)
  show ?case
  proof (cases "launch_result E sid ready st")
    case None
    then show ?thesis by (simp add: Cons split: sum.split)
  next
    case (Some x)
    obtain r s where x: "x = (r, s)" by fastforce
    have "quiet_of s = quiet_of st" using launch_result_keeps Some [unfolded x] by (rule keepsD)
    then have "keeps (recover_launches E sid rest s) st" using Cons [of s] by (simp add: keeps_def)
    with Some x \<open>quiet_of s = quiet_of st\<close> Cons show ?thesis by (simp split: sum.split)
  qed
qed simp

lemma reconcile_job_keeps: "keeps (reconcile_job E sid req st) st"
proof -
  have "keeps (recover_launches E sid rs (with_registry st r)) st" for rs r
    using recover_launches_keeps [of E sid rs "with_registry st r"] by (simp add: keeps_def)
  then show ?thesis by (simp add: reconcile_job_def split: sum.split prod.split)
qed

text \<open>The clock.\<close>

lemma drop_disconnected_quiet [simp]: "quiet_of (drop_disconnected E p st) = quiet_of st"
  by (simp add: drop_disconnected_def Let_def split: option.split)

lemma expire_proposals_quiet [simp]: "quiet_of (expire_proposals E st) = quiet_of st"
  by (simp add: expire_proposals_def Let_def fold_frame [where f = quiet_of])

lemma retry_waiting_quiet: "retry_waiting E pid st = Some st' \<Longrightarrow> quiet_of st' = quiet_of st"
  using launch_keeps [of E pid st]
  by (cases "launch E pid st")
    (auto simp: retry_waiting_def Let_def split: option.splits sum.splits if_splits)

lemma handle_lost_quiet: "handle_lost E lost st = Some st' \<Longrightarrow> quiet_of st' = quiet_of st"
proof -
  assume h: "handle_lost E lost st = Some st'"
  obtain m run where lost: "lost = (m, run)" by fastforce
  have told: "quiet_of (fold (\<lambda>p st. send_event_noted E p ev st) ps st) = quiet_of st" for ev ps
    by (rule fold_frame) simp
  have keep: "keeps (retry_launch E m server pid st) st" for server pid by (rule retry_launch_keeps)
  show ?thesis
  proof (cases "bm_get (au_launches st) m")
    case (Some l)
    obtain server pid where l: "l = (server, pid)" by fastforce
    show ?thesis
      using h Some l told keep [of server pid]
      by (cases "retry_launch E m server pid st")
        (auto simp: handle_lost_def lost Let_def split: option.splits sum.splits if_splits)
  qed (use h in \<open>simp add: handle_lost_def lost\<close>)
qed

lemma retry_overdue_quiet: "retry_overdue E m st = Some st' \<Longrightarrow> quiet_of st' = quiet_of st"
proof -
  assume h: "retry_overdue E m st = Some st'"
  have keep: "keeps (retry_launch E m server pid st) st" for server pid by (rule retry_launch_keeps)
  show ?thesis
  proof (cases "bm_get (au_launches st) m")
    case (Some l)
    obtain server pid where l: "l = (server, pid)" by fastforce
    show ?thesis
      using h Some l keep [of server pid]
      by (cases "retry_launch E m server pid st") (auto simp: retry_overdue_def Let_def split: sum.splits)
  qed (use h in \<open>simp add: retry_overdue_def\<close>)
qed

lemma fold_opt_frame:
  "(\<And>x s s'. g x s = Some s' \<Longrightarrow> f s' = f s) \<Longrightarrow> fold_opt g xs s = Some s' \<Longrightarrow> f s' = f s"
  by (induction xs arbitrary: s) (fastforce split: option.splits)+

lemma tick_quiet: "tick E st = Some st' \<Longrightarrow> quiet_of st' = quiet_of st"
proof -
  assume t: "tick E st = Some st'"
  let ?s0 = "expire_proposals E (fold (drop_disconnected E) (overdue (pf_now E) (au_disconnect_deadlines st)) st)"
  obtain s1 where s1: "fold_opt (retry_waiting E) (bm_keys (au_placement_waiting ?s0)) ?s0 = Some s1"
    using t by (auto simp: tick_def Let_def split: option.splits)
  obtain lost r where h: "update_health (pf_now E) (unhealthy_after_ms (au_config s1))
      (sat_mul (ec_lost_after_seconds (au_config s1)) 1000) (au_registry s1) = (lost, r)" by fastforce
  obtain s2 where s2: "fold_opt (handle_lost E) lost (with_registry s1 r) = Some s2"
    using t s1 h by (auto simp: tick_def Let_def split: option.splits)
  obtain s3 where s3: "fold_opt (retry_overdue E) (overdue (pf_now E) (au_launch_deadlines s2)) s2 = Some s3"
    using t s1 h s2 by (auto simp: tick_def Let_def split: option.splits)
  have "st' = attempt_all_matches E (rebuild_ecs E s3)"
    using t s1 h s2 s3 by (simp add: tick_def Let_def)
  then have "quiet_of st' = quiet_of s3" by simp
  also have "\<dots> = quiet_of s2" using s3 by (rule fold_opt_frame [rotated]) (rule retry_overdue_quiet)
  also have "\<dots> = quiet_of (with_registry s1 r)" using s2 by (rule fold_opt_frame [rotated]) (rule handle_lost_quiet)
  also have "\<dots> = quiet_of s1" by simp
  also have "\<dots> = quiet_of ?s0" using s1 by (rule fold_opt_frame [rotated]) (rule retry_waiting_quiet)
  also have "\<dots> = quiet_of st" by (simp add: fold_frame [where f = quiet_of])
  finally show ?thesis .
qed

section \<open>Request handlers\<close>

lemma request_meta_frame:
  "au_config s = au_config t \<Longrightarrow> au_sessions s = au_sessions t \<Longrightarrow> request_meta s m = request_meta t m"
proof -
  assume same: "au_config s = au_config t" "au_sessions s = au_sessions t"
  then have "player_for s = player_for t" by (intro ext) (simp add: player_for_def)
  with same show ?thesis by (simp add: request_meta_def split: option.split sum.split)
qed

lemma quiet_ofD:
  assumes "quiet_of s = quiet_of t"
  shows "au_config s = au_config t" "au_sessions s = au_sessions t" "au_request_cache s = au_request_cache t"
    "completed_of s = completed_of t"
  using assms by (simp_all add: quiet_defs)

locale request_handler =
  fixes handle :: "mutation_meta option \<Rightarrow> authority \<Rightarrow> operation_result outcome"
    and body :: "player_id \<Rightarrow> authority \<Rightarrow> operation_result outcome"
  assumes law_frame: "handle m = with_request m body"
    and law_body: "keeps (body p st) st"
begin

lemma draining: "ec_drain_mode (au_config st) \<Longrightarrow> handle m st = Some (Inl (unavailable ''ERPS is draining''), st)"
  by (simp add: law_frame with_request_def request_meta_def)

text \<open>Who is answered is authenticated; the answer is remembered under his request id.\<close>

lemma answer_remembered:
  assumes "handle m st = Some (Inr v, st')"
  obtains p rid where "request_meta st m = Inr (p, rid)" "request_meta st' m = Inr (p, rid)"
    "bm_get (au_request_cache st') (p, rid) = Some v"
proof -
  obtain p rid where meta: "request_meta st m = Inr (p, rid)"
    using assms by (auto simp: law_frame with_request_def split: sum.splits)
  show thesis
  proof (cases "cached st p rid")
    case (Some w)
    then have "st' = st" "w = v" using assms meta by (simp_all add: law_frame with_request_def)
    with Some meta that show thesis by (simp add: cached_def)
  next
    case None
    then obtain s where b: "body p st = Some (Inr v, s)"
      and st': "st' = s\<lparr>au_request_cache := bm_insert (p, rid) v (au_request_cache s)\<rparr>"
      using assms meta by (auto simp: law_frame with_request_def remember_def Let_def split: option.splits sum.splits)
    have "quiet_of s = quiet_of st" using law_body b by (rule keepsD)
    note same = quiet_ofD [OF this]
    have "request_meta st' m = request_meta st m"
      by (rule request_meta_frame) (simp_all add: st' same)
    with meta that st' show thesis by simp
  qed
qed

lemma answered_again:
  assumes "request_meta st m = Inr (p, rid)" "bm_get (au_request_cache st) (p, rid) = Some v"
  shows "handle m st = Some (Inr v, st)"
  using assms by (simp add: law_frame with_request_def cached_def)

text \<open>A call keeps the configuration, the sessions and every answer that is remembered.\<close>

lemma config_kept:
  assumes "handle m st = Some (r, st')"
  shows "au_config st' = au_config st" "au_sessions st' = au_sessions st"
    "bm_get (au_request_cache st) k = Some v \<Longrightarrow> bm_get (au_request_cache st') k = Some v"
    "completed_of st' = completed_of st"
proof -
  have "au_config st' = au_config st \<and> au_sessions st' = au_sessions st \<and> completed_of st' = completed_of st
    \<and> (bm_get (au_request_cache st) k = Some v \<longrightarrow> bm_get (au_request_cache st') k = Some v)"
  proof (cases "request_meta st m")
    case (Inl e)
    then show ?thesis using assms by (simp add: law_frame with_request_def)
  next
    case (Inr x)
    obtain p rid where x: "x = (p, rid)" by fastforce
    show ?thesis
    proof (cases "cached st p rid")
      case (Some w)
      then show ?thesis using assms Inr x by (simp add: law_frame with_request_def)
    next
      case None
      then obtain y where "body p st = Some y"
        using assms Inr x by (cases "body p st") (simp_all add: law_frame with_request_def)
      then obtain r' s where b: "body p st = Some (r', s)" by (cases y) blast
      then have st': "st' = s \<or> (\<exists>w. st' = s\<lparr>au_request_cache := bm_insert (p, rid) w (au_request_cache s)\<rparr>)"
        using assms Inr x None
        by (cases r') (auto simp: law_frame with_request_def remember_def)
      have "quiet_of s = quiet_of st" using law_body b by (rule keepsD)
      note same = quiet_ofD [OF this]
      have "completed_of st' = completed_of s" using st' by (auto simp: completed_of_def)
      with None st' show ?thesis by (auto simp: cached_def get_insert same)
    qed
  qed
  then show "au_config st' = au_config st" "au_sessions st' = au_sessions st"
    "bm_get (au_request_cache st) k = Some v \<Longrightarrow> bm_get (au_request_cache st') k = Some v"
    "completed_of st' = completed_of st" by blast+
qed

end

text \<open>The eight calls that carry a request id.\<close>

lemma party_bodies_keep:
  "keeps (create_party_body E name p st) st" "keeps (join_party_body E token p st) st"
  "keeps (leave_party_body E i rv p st) st" "keeps (kick_member_body E i rv player p st) st"
  "keeps (rename_party_body E i rv name p st) st"
  by (simp_all add: create_party_body_def join_party_body_def leave_party_body_def kick_member_body_def
      rename_party_body_def Let_def case_prod_unfold split: sum.split option.split)

lemma queue_bodies_keep:
  "keeps (enqueue_body E i rv mode regions p st) st" "keeps (cancel_queue_body E i rv p st) st"
  by (simp_all add: enqueue_body_def cancel_queue_body_def Let_def case_prod_unfold split: sum.split option.split)

lemma keeps_from: "keeps out s \<Longrightarrow> quiet_of s = quiet_of st \<Longrightarrow> keeps out st"
  by (simp add: keeps_def)

lemma place_proposal_keeps: "keeps (place_proposal E pid st) st"
proof -
  define s where "s = (case bm_get (au_proposals st) pid of None \<Rightarrow> st | Some q \<Rightarrow> on_metrics (\<lambda>mt.
      mt\<lparr>mt_ready_check_us := hist_observe (sat_mul (sat_sub (pf_now E)
        (sat_sub (pr_deadline q) (ec_ready_timeout_seconds (au_config st) * 1000))) 1000) (mt_ready_check_us mt)\<rparr>) st)"
  have s: "quiet_of s = quiet_of st" by (simp add: s_def split: option.split)
  have "keeps (place_proposal E pid st) s"
  proof (cases "launch E pid s")
    case None
    then show ?thesis unfolding place_proposal_def Let_def s_def [symmetric] by simp
  next
    case (Some x)
    obtain r s' where x: "x = (r, s')" by fastforce
    have "quiet_of s' = quiet_of s" using launch_keeps Some [unfolded x] by (rule keepsD)
    with Some x show ?thesis
      unfolding place_proposal_def Let_def s_def [symmetric] by (simp split: sum.split)
  qed
  then show ?thesis using s by (rule keeps_from)
qed

lemma proposal_response_body_keeps: "keeps (proposal_response_body E i accepted p st) st"
proof -
  have placed: "quiet_of s' = quiet_of s" if "place_proposal E pid s = Some (r, s')" for s pid r s'
    using place_proposal_keeps that by (rule keepsD)
  have "keeps (case place_proposal E pid s of None \<Rightarrow> None | Some (Inl e, st) \<Rightarrow> Some (Inl e, st)
      | Some (Inr _, st) \<Rightarrow> Some (Inr result, st)) st" if "quiet_of s = quiet_of st"
    for s pid and result :: operation_result
    using that placed [of pid s] by (cases "place_proposal E pid s") (auto split: sum.split)
  then show ?thesis
    by (cases "id_from_str (pf_uuid E) ''ProposalId'' i")
      (simp_all add: proposal_response_body_def Let_def split: sum.split option.split prod.split)
qed

interpretation create_call: request_handler "\<lambda>m. create_party E m name" "create_party_body E name" for E name
  by unfold_locales (simp_all add: create_party_def fun_eq_iff party_bodies_keep)

interpretation join_call: request_handler "\<lambda>m. join_party E m token" "join_party_body E token" for E token
  by unfold_locales (simp_all add: join_party_def fun_eq_iff party_bodies_keep)

interpretation leave_call: request_handler "\<lambda>m. leave_party E m i rv" "leave_party_body E i rv" for E i rv
  by unfold_locales (simp_all add: leave_party_def fun_eq_iff party_bodies_keep)

interpretation kick_call: request_handler "\<lambda>m. kick_member E m i rv player" "kick_member_body E i rv player"
  for E i rv player
  by unfold_locales (simp_all add: kick_member_def fun_eq_iff party_bodies_keep)

interpretation rename_call: request_handler "\<lambda>m. rename_party E m i rv name" "rename_party_body E i rv name"
  for E i rv name
  by unfold_locales (simp_all add: rename_party_def fun_eq_iff party_bodies_keep)

interpretation enqueue_call: request_handler "\<lambda>m. enqueue E m i rv mode regions" "enqueue_body E i rv mode regions"
  for E i rv mode regions
  by unfold_locales (simp_all add: enqueue_def fun_eq_iff queue_bodies_keep)

interpretation cancel_call: request_handler "\<lambda>m. cancel_queue E m i rv" "cancel_queue_body E i rv" for E i rv
  by unfold_locales (simp_all add: cancel_queue_def fun_eq_iff queue_bodies_keep)

interpretation answer_call: request_handler "\<lambda>m. proposal_response E m i accepted" "proposal_response_body E i accepted"
  for E i accepted
  by unfold_locales (simp_all add: proposal_response_def fun_eq_iff proposal_response_body_keeps)

section \<open>An answer for life\<close>

text \<open>The mutation that an event calls: its meta data and the call itself.\<close>

definition call_of :: "platform \<times> authority_event
    \<Rightarrow> (mutation_meta option \<times> (authority \<Rightarrow> operation_result outcome)) option" where
  "call_of e = (case e of (E, ev) \<Rightarrow> (case ev of
      CreateParty m name \<Rightarrow> Some (m, create_party E m name)
    | JoinParty m token \<Rightarrow> Some (m, join_party E m token)
    | LeaveParty m i rv \<Rightarrow> Some (m, leave_party E m i rv)
    | KickMember m i rv player \<Rightarrow> Some (m, kick_member E m i rv player)
    | RenameParty m i rv name \<Rightarrow> Some (m, rename_party E m i rv name)
    | Enqueue m i rv mode regions \<Rightarrow> Some (m, enqueue E m i rv mode regions)
    | CancelQueue m i rv \<Rightarrow> Some (m, cancel_queue E m i rv)
    | AnswerProposal m i accepted \<Rightarrow> Some (m, proposal_response E m i accepted)
    | _ \<Rightarrow> None))"

lemmas calls_keep_config = create_call.config_kept(1) join_call.config_kept(1) leave_call.config_kept(1)
  kick_call.config_kept(1) rename_call.config_kept(1) enqueue_call.config_kept(1) cancel_call.config_kept(1)
  answer_call.config_kept(1)
lemmas calls_keep_sessions = create_call.config_kept(2) join_call.config_kept(2) leave_call.config_kept(2)
  kick_call.config_kept(2) rename_call.config_kept(2) enqueue_call.config_kept(2) cancel_call.config_kept(2)
  answer_call.config_kept(2)
lemmas calls_keep_answers = create_call.config_kept(3) join_call.config_kept(3) leave_call.config_kept(3)
  kick_call.config_kept(3) rename_call.config_kept(3) enqueue_call.config_kept(3) cancel_call.config_kept(3)
  answer_call.config_kept(3)
lemmas calls_keep_completed = create_call.config_kept(4) join_call.config_kept(4) leave_call.config_kept(4)
  kick_call.config_kept(4) rename_call.config_kept(4) enqueue_call.config_kept(4) cancel_call.config_kept(4)
  answer_call.config_kept(4)
lemmas calls_draining = create_call.draining join_call.draining leave_call.draining kick_call.draining
  rename_call.draining enqueue_call.draining cancel_call.draining answer_call.draining
lemmas calls_answered_again = create_call.answered_again join_call.answered_again leave_call.answered_again
  kick_call.answered_again rename_call.answered_again enqueue_call.answered_again cancel_call.answered_again
  answer_call.answered_again
lemmas calls_remember = create_call.answer_remembered join_call.answer_remembered leave_call.answer_remembered
  kick_call.answer_remembered rename_call.answer_remembered enqueue_call.answer_remembered
  cancel_call.answer_remembered answer_call.answer_remembered

lemma call_step: "call_of e = Some (m, f) \<Longrightarrow> authority_step e st = state_after (f st)"
  by (auto simp: call_of_def authority_step_def split: prod.splits authority_event.splits)

lemma call_keeps:
  assumes "call_of e = Some (m, f)" "f st = Some (r, st')"
  shows "au_config st' = au_config st" "au_sessions st' = au_sessions st"
    "bm_get (au_request_cache st) k = Some v \<Longrightarrow> bm_get (au_request_cache st') k = Some v"
    "completed_of st' = completed_of st"
  using assms
  by (auto simp: call_of_def calls_keep_config calls_keep_sessions calls_keep_answers calls_keep_completed
      split: prod.splits authority_event.splits)

lemma call_draining:
  assumes "call_of e = Some (m, f)" "ec_drain_mode (au_config st)"
  shows "f st = Some (Inl (unavailable ''ERPS is draining''), st)"
  using assms by (auto simp: call_of_def calls_draining split: prod.splits authority_event.splits)

lemma call_again:
  assumes "call_of e = Some (m, f)" "request_meta st m = Inr (p, rid)" "bm_get (au_request_cache st) (p, rid) = Some v"
  shows "f st = Some (Inr v, st)"
  using assms by (auto simp: call_of_def calls_answered_again split: prod.splits authority_event.splits)

lemma call_remembers:
  assumes "call_of e = Some (m, f)" "f st = Some (Inr v, st')"
  obtains p rid where "request_meta st m = Inr (p, rid)" "request_meta st' m = Inr (p, rid)"
    "bm_get (au_request_cache st') (p, rid) = Some v"
  using assms by (auto simp: call_of_def elim: calls_remember split: prod.splits authority_event.splits)

text \<open>A step keeps every remembered answer, and the owner of a token that it does not open.\<close>

definition opens :: "rstr \<Rightarrow> platform \<times> authority_event \<Rightarrow> bool" where
  "opens token e \<longleftrightarrow> (case snd e of OpenSession t _ _ \<Rightarrow> t = token | _ \<Rightarrow> False)"

lemma create_invite_quiet: "quiet_of (snd (create_invite E fresh m i rv ttl uses st)) = quiet_of st"
  by (simp add: create_invite_def Let_def case_prod_unfold split: sum.split option.split)

lemma register_job_quiet: "quiet_of (snd (register_job E sid req st)) = quiet_of st"
  by (simp add: register_job_def Let_def split: sum.split option.split prod.split)

lemma disconnected_quiet: "quiet_of (disconnected E p token st) = quiet_of st"
  by (simp add: disconnected_def)

lemma step_rest:
  assumes "authority_step (E, ev) st = Some st'" "call_of (E, ev) = None"
    "\<And>token p profile. ev \<noteq> OpenSession token p profile" "ev \<noteq> BeginDrain"
  shows "records st st'"
proof -
  show ?thesis
  proof (cases ev)
    case (ServerControl sid g ch msg)
    then show ?thesis using assms(1)
      by (auto simp: authority_step_def state_after_def apply_server_control_records)
  next
    case (Reconcile sid req)
    then have "quiet_of st' = quiet_of st"
      using assms(1) reconcile_job_keeps [of E sid req st] by (auto simp: authority_step_def state_after_def keeps_def)
    then show ?thesis by (rule records_quiet)
  next
    case Tick
    then show ?thesis using assms(1) by (simp add: authority_step_def tick_quiet records_quiet)
  qed (use assms in \<open>auto simp: authority_step_def call_of_def create_invite_quiet register_job_quiet
      disconnected_quiet records_quiet\<close>)
qed

lemma step_keeps:
  assumes "authority_step e st = Some st'"
  shows "bm_get (au_request_cache st) k = Some v \<Longrightarrow> bm_get (au_request_cache st') k = Some v"
    and "\<not> opens token e \<Longrightarrow> bm_get (au_sessions st') token = bm_get (au_sessions st) token"
proof -
  obtain E ev where e: "e = (E, ev)" by fastforce
  have "(bm_get (au_request_cache st) k = Some v \<longrightarrow> bm_get (au_request_cache st') k = Some v)
    \<and> (\<not> opens token e \<longrightarrow> bm_get (au_sessions st') token = bm_get (au_sessions st) token)"
  proof (cases "call_of e")
    case (Some x)
    obtain m f where x: "x = (m, f)" by fastforce
    then obtain r where "f st = Some (r, st')"
      using assms call_step [OF Some [unfolded x]] by (auto simp: state_after_def)
    then show ?thesis using call_keeps [OF Some [unfolded x]] by simp
  next
    case None
    show ?thesis
    proof (cases ev)
      case (OpenSession t p profile)
      then show ?thesis using assms
        by (auto simp: e authority_step_def open_session_job_def Let_def opens_def get_insert)
    next
      case BeginDrain
      then show ?thesis using assms by (auto simp: e authority_step_def begin_drain_def)
    qed (use step_rest [OF assms [unfolded e] None [unfolded e]] in \<open>simp_all add: records_def reqs_of_def\<close>)
  qed
  then show "bm_get (au_request_cache st) k = Some v \<Longrightarrow> bm_get (au_request_cache st') k = Some v"
    and "\<not> opens token e \<Longrightarrow> bm_get (au_sessions st') token = bm_get (au_sessions st) token" by blast+
qed

lemma run_keeps:
  "authority_run es st = Some st' \<Longrightarrow> bm_get (au_request_cache st) k = Some v \<Longrightarrow> bm_get (au_request_cache st') k = Some v"
  "authority_run es st = Some st' \<Longrightarrow> \<forall>e \<in> set es. \<not> opens token e
    \<Longrightarrow> bm_get (au_sessions st') token = bm_get (au_sessions st) token"
  unfolding authority_run_def
  by (induction es arbitrary: st) (auto dest: step_keeps split: option.splits)

text \<open>The same request is authenticated as before, unless the authority drains.\<close>

lemma run_request_meta:
  assumes "request_meta st (Some meta) = Inr (p, rid)" "authority_run es st = Some st'"
    and "\<forall>e \<in> set es. \<not> opens (mm_session_token meta) e" "\<not> ec_drain_mode (au_config st')"
  shows "request_meta st' (Some meta) = Inr (p, rid)"
proof -
  have "player_for st' (mm_session_token meta) = player_for st (mm_session_token meta)"
    using run_keeps(2) [OF assms(2,3)] by (simp add: player_for_def)
  with assms(1,4) show ?thesis by (auto simp: request_meta_def split: if_splits sum.splits)
qed

text \<open>The drain mode is never left.\<close>

lemma step_drain:
  assumes "authority_step e st = Some st'" "ec_drain_mode (au_config st)"
  shows "ec_drain_mode (au_config st')"
proof -
  obtain E ev where e: "e = (E, ev)" by fastforce
  show ?thesis
  proof (cases "call_of e")
    case (Some x)
    obtain m f where x: "x = (m, f)" by fastforce
    then obtain r where "f st = Some (r, st')"
      using assms(1) call_step [OF Some [unfolded x]] by (auto simp: state_after_def)
    then show ?thesis using call_keeps(1) [OF Some [unfolded x]] assms(2) by simp
  next
    case None
    show ?thesis
    proof (cases ev)
      case (OpenSession t p profile)
      then show ?thesis using assms by (auto simp: e authority_step_def open_session_job_def Let_def)
    next
      case BeginDrain
      then show ?thesis using assms by (auto simp: e authority_step_def begin_drain_def)
    qed (use step_rest [OF assms(1) [unfolded e] None [unfolded e]] assms(2) in \<open>auto simp: records_def reqs_of_def\<close>)
  qed
qed

lemma run_drain:
  "authority_run es st = Some st' \<Longrightarrow> ec_drain_mode (au_config st) \<Longrightarrow> ec_drain_mode (au_config st')"
  unfolding authority_run_def by (induction es arbitrary: st) (auto dest: step_drain split: option.splits)

text \<open>The call of an invitation is the one mutation that neither looks for an earlier answer nor
  keeps its own: repeated with the same request id it creates another invitation.\<close>

lemma create_invite_again:
  assumes "create_invite E fresh m i rv ttl uses st = (Inr x, st1)"
  shows "\<exists>inv. au_invites st1 = bm_insert fresh inv (au_invites st)
    \<and> create_invite E again m i rv ttl uses st1 = (Inr (again, snd x), st1\<lparr>au_invites := bm_insert again inv (au_invites st1)\<rparr>)"
proof -
  obtain p rid party j where open_call: "request_meta st m = Inr (p, rid)" "party_for E i = Inr j"
    "bm_get (au_parties st) j = Some party" "pa_leader party = p" "pa_revision party = rv" "pa_state party = PIdle"
    using assms by (auto simp: create_invite_def split: sum.splits option.splits if_splits)
  let ?t = "ucast (max 1 (min 3600 ttl)) * 1000"
  let ?inv = "\<lparr>in_party = j, in_expires_at = sat_add (pf_now E) ?t, in_remaining_uses = max (max 1 (min 100 uses)) 1\<rparr>"
  have made: "st1 = st\<lparr>au_invites := bm_insert fresh ?inv (au_invites st)\<rparr>" "x = (fresh, as_i64 (pf_now E + ?t))"
    using assms open_call by (simp_all add: create_invite_def Let_def invite_create_def)
  have "request_meta st1 m = request_meta st m"
    by (rule request_meta_frame) (simp_all add: made(1))
  then have "create_invite E again m i rv ttl uses st1
      = (Inr (again, snd x), st1\<lparr>au_invites := bm_insert again ?inv (au_invites st1)\<rparr>)"
    using open_call by (simp add: create_invite_def Let_def invite_create_def made)
  then show ?thesis using made(1) by (intro exI [of _ ?inv]) simp
qed

lemma create_invite_request:
  assumes "rid \<noteq> []" "mm_request_id meta \<noteq> []"
  shows "create_invite E fresh (Some (meta\<lparr>mm_request_id := rid\<rparr>)) i rv ttl uses st
    = create_invite E fresh (Some meta) i rv ttl uses st"
  using assms
  by (cases "check_api (mm_api meta)"; cases "player_for st (mm_session_token meta)")
    (simp_all add: create_invite_def request_meta_def)

section \<open>Settled matches are remembered\<close>

text \<open>The set of settled matches and the order of their expiry agree, and both are bounded.\<close>

definition completed_ok :: "authority \<Rightarrow> bool" where
  "completed_ok st \<longleftrightarrow> au_completed_match_results st = set (au_completed_match_result_order st)
     \<and> distinct (au_completed_match_result_order st) \<and> length (au_completed_match_result_order st) \<le> COMPLETED_RESULTS"

text \<open>An id \<open>m\<close> with at most \<open>n\<close> ids behind it in the order of expiry.\<close>

definition behind :: "match_id \<Rightarrow> nat \<Rightarrow> authority \<Rightarrow> bool" where
  "behind m n st \<longleftrightarrow> (\<exists>xs ys. au_completed_match_result_order st = xs @ m # ys \<and> length ys \<le> n)"

lemma behind_remembered: "completed_ok st \<Longrightarrow> behind m n st \<Longrightarrow> m \<in> au_completed_match_results st"
proof -
  assume "completed_ok st" "behind m n st"
  then obtain xs ys where "au_completed_match_results st = set (xs @ m # ys)"
    unfolding behind_def completed_ok_def by metis
  then show ?thesis by simp
qed

lemma completed_eqD:
  assumes "completed_of s = completed_of st"
  shows "completed_ok s = completed_ok st" "behind m n s = behind m n st"
    "au_completed_match_results s = au_completed_match_results st"
  using assms by (simp_all add: completed_of_def completed_ok_def behind_def)

lemma remember_new:
  assumes ok: "completed_ok st" and new: "m \<notin> au_completed_match_results st"
  shows "completed_ok (remember_completed_match_result m st)"
    and "behind m 0 (remember_completed_match_result m st)"
    and "behind k n st \<Longrightarrow> n + 1 < COMPLETED_RESULTS \<Longrightarrow> behind k (n + 1) (remember_completed_match_result m st)"
proof -
  let ?order = "au_completed_match_result_order st"
  have same: "au_completed_match_results st = set ?order" "distinct ?order" "length ?order \<le> COMPLETED_RESULTS"
    using ok by (simp_all add: completed_ok_def)
  have order: "au_completed_match_result_order (remember_completed_match_result m st)
      = (if length ?order < COMPLETED_RESULTS then ?order else tl ?order) @ [m]"
    using new same(3) by (cases ?order) (auto simp: remember_completed_match_result_def Let_def)
  then show "behind m 0 (remember_completed_match_result m st)" unfolding behind_def by blast
  show "completed_ok (remember_completed_match_result m st)"
    using new same by (cases ?order) (auto simp: remember_completed_match_result_def completed_ok_def Let_def)
  assume "behind k n st" and n: "n + 1 < COMPLETED_RESULTS"
  then obtain xs ys where ys: "?order = xs @ k # ys" "length ys \<le> n" unfolding behind_def by blast
  have "\<exists>zs. (if length ?order < COMPLETED_RESULTS then ?order else tl ?order) = zs @ k # ys"
    using ys n by (cases xs) auto
  then obtain zs where "au_completed_match_result_order (remember_completed_match_result m st) = zs @ k # (ys @ [m])"
    using order by auto
  then show "behind k (n + 1) (remember_completed_match_result m st)"
    using ys(2) unfolding behind_def by (intro exI [of _ zs] exI [of _ "ys @ [m]"]) simp
qed

text \<open>The number of matches settled in a run: the steps after which another id is remembered.\<close>

fun settled_in :: "(platform \<times> authority_event) list \<Rightarrow> authority \<Rightarrow> nat" where
  "settled_in [] st = 0"
| "settled_in (e # es) st = (case authority_step e st of None \<Rightarrow> 0
    | Some s \<Rightarrow> (if au_completed_match_results s \<subseteq> au_completed_match_results st then 0 else 1) + settled_in es s)"

lemma completed_update [simp]:
  "completed_of (st\<lparr>au_sessions := a\<rparr>) = completed_of st" "completed_of (st\<lparr>au_offline := b\<rparr>) = completed_of st"
  "completed_of (st\<lparr>au_disconnect_deadlines := c\<rparr>) = completed_of st" "completed_of (on_metrics f st) = completed_of st"
  "completed_of (st\<lparr>au_current_session := d\<rparr>) = completed_of st" "completed_of (st\<lparr>au_credit := e\<rparr>) = completed_of st"
  "completed_of (st\<lparr>au_recent_credit_violations := g\<rparr>) = completed_of st"
  "completed_of (st\<lparr>au_credit_suspended_until := h\<rparr>) = completed_of st"
  "completed_of (st\<lparr>au_ratings := i\<rparr>) = completed_of st" "completed_of (st\<lparr>au_completed_games := j\<rparr>) = completed_of st"
  "completed_of (st\<lparr>au_events := k\<rparr>) = completed_of st" "completed_of (st\<lparr>au_config := l\<rparr>) = completed_of st"
  by (simp_all add: completed_of_def on_metrics_def)

lemma open_session_completed: "completed_of (snd (open_session_job E t p profile st)) = completed_of st"
  by (simp add: open_session_job_def Let_def)

lemma step_completed:
  assumes "authority_step e st = Some st'"
  shows "completed_of st' = completed_of st
    \<or> (\<exists>m. m \<notin> au_completed_match_results st \<and> completed_of st' = completed_of (remember_completed_match_result m st))"
proof -
  obtain E ev where e: "e = (E, ev)" by fastforce
  show ?thesis
  proof (cases "call_of e")
    case (Some x)
    obtain m f where x: "x = (m, f)" by fastforce
    then obtain r where "f st = Some (r, st')"
      using assms call_step [OF Some [unfolded x]] by (auto simp: state_after_def)
    then show ?thesis using call_keeps(4) [OF Some [unfolded x]] by simp
  next
    case None
    show ?thesis
    proof (cases ev)
      case (OpenSession t p profile)
      then have "completed_of st' = completed_of st" using assms
        by (auto simp: e authority_step_def open_session_completed)
      then show ?thesis ..
    next
      case BeginDrain
      then have "completed_of st' = completed_of st"
        using assms by (auto simp: e authority_step_def begin_drain_def)
      then show ?thesis ..
    qed (use step_rest [OF assms [unfolded e] None [unfolded e]] in \<open>simp_all add: records_def\<close>)
  qed
qed

lemma run_remembers:
  assumes "authority_run es st = Some st'" "completed_ok st" "behind m n st" "n + settled_in es st < COMPLETED_RESULTS"
  shows "completed_ok st' \<and> m \<in> au_completed_match_results st'"
  using assms
proof (induction es arbitrary: st n)
  case Nil
  then show ?case by (simp add: authority_run_def behind_remembered)
next
  case (Cons e es)
  then obtain s where s: "authority_step e st = Some s" and run: "authority_run es s = Some st'"
    by (auto simp: authority_run_def split: option.splits)
  from step_completed [OF s] show ?case
  proof
    assume "completed_of s = completed_of st"
    note same = completed_eqD [OF this]
    show ?thesis using Cons.IH [OF run] Cons.prems(2-4) s same by simp
  next
    assume "\<exists>k. k \<notin> au_completed_match_results st \<and> completed_of s = completed_of (remember_completed_match_result k st)"
    then obtain k where k: "k \<notin> au_completed_match_results st"
      and s': "completed_of s = completed_of (remember_completed_match_result k st)" by blast
    note kept = remember_new [OF Cons.prems(2) k] and same = completed_eqD [OF s']
    have "k \<in> au_completed_match_results s" using behind_remembered [OF kept(1,2)] same(3) by simp
    then have more: "settled_in (e # es) st = 1 + settled_in es s" using s k by auto
    with Cons.prems(4) have "n + 1 < COMPLETED_RESULTS" by simp
    with kept(1,3) same Cons.prems(3) have "completed_ok s" "behind m (n + 1) s" by simp_all
    with Cons.IH [OF run] more Cons.prems(4) show ?thesis by simp
  qed
qed

lemma run_completed_ok: "authority_run es st = Some st' \<Longrightarrow> completed_ok st \<Longrightarrow> completed_ok st'"
proof (induction es arbitrary: st)
  case (Cons e es)
  then obtain s where s: "authority_step e st = Some s" and run: "authority_run es s = Some st'"
    by (auto simp: authority_run_def split: option.splits)
  have "completed_ok s"
    using step_completed [OF s] remember_new(1) [OF Cons.prems(2)] completed_eqD(1) Cons.prems(2) by metis
  with Cons.IH [OF run] show ?case .
qed (simp add: authority_run_def)

end
