(* ===== verification/Authority_Effects.thy ===== *)
theory Authority_Effects
  imports Authority_Requests
begin

text \<open>
  What the larger operations of the authority leave behind: a launch, its failure, the
  cancellation of a proposal and the settlement of a match.
\<close>

section \<open>Launching\<close>

lemma try_send_sent:
  assumes "try_send ch msg st = (True, st')"
  obtains c where "bm_get (au_channels st) ch = Some c" "ch_open c" "length (ch_queue c) < ch_capacity c"
    "st' = st\<lparr>au_channels := bm_insert ch (c\<lparr>ch_queue := ch_queue c @ [msg]\<rparr>) (au_channels st)\<rparr>"
  using assms by (auto simp: try_send_def split: option.splits if_splits)

lemma try_send_full: "try_send ch msg st = (False, st') \<Longrightarrow> st' = st"
  by (auto simp: try_send_def split: option.splits if_splits)

lemma note_backlog_channels [simp]: "au_channels (note_control_backlog ch st) = au_channels st"
  by (simp add: note_control_backlog_def on_metrics_def)

lemma next_uuid_channels [simp]: "au_channels (snd (next_uuid k st)) = au_channels st"
  by (simp add: next_uuid_def Let_def)

lemma with_registry_channels [simp]: "au_channels (with_registry st r) = au_channels st"
  by (simp add: with_registry_def)

lemma launch_sent:
  assumes "registry_ok (au_registry st)" and "launch E pid st = Some (Inr m, st')"
  obtains q s cost ch c off where "bm_get (au_proposals st) pid = Some q"
    "bm_get (au_registry st) (gs_id s) = Some s"
    "launch_offer st (proposal_mode q) (allowed_regions st pid) s = Some off"
    "bm_get (gs_mode_costs s) (proposal_mode q) = Some cost"
    "unat (gs_capacity_used s) + unat cost \<le> unat (gs_capacity_total s)"
    "bm_get (au_channels st) ch = Some c" "ch_open c" "length (ch_queue c) < ch_capacity c"
    "au_channels st' = bm_insert ch (c\<lparr>ch_queue := ch_queue c @ [Inr (launch_message E m (proposal_mode q) (pr_teams q) cost)]\<rparr>) (au_channels st)"
    "au_registry st' = bm_insert (gs_id s) (reserved m cost s) (au_registry st)"
    "bm_get (au_launches st') m = Some (gs_id s, pid)"
    "m = from_uuid (fst (next_uuid 4 st))" "bm_get (au_controls st) (gs_id s) = Some ch"
proof (rule launch_cases [OF assms(1), of pid E])
  fix q s cost off m' ch st1 sent st2
  assume q: "bm_get (au_proposals st) pid = Some q" "bm_get (au_registry st) (gs_id s) = Some s"
    "launch_offer st (proposal_mode q) (allowed_regions st pid) s = Some off"
    and cost: "bm_get (gs_mode_costs s) (proposal_mode q) = Some cost" "m' = from_uuid (fst (next_uuid 4 st))"
      "unat (gs_capacity_used s) + unat cost \<le> unat (gs_capacity_total s)"
    and st1: "st1 = note_control_backlog ch (with_registry (snd (next_uuid 4 st)) (bm_insert (gs_id s) (reserved m' cost s) (au_registry st)))"
    and t: "try_send ch (Inr (launch_message E m' (proposal_mode q) (pr_teams q) cost)) st1 = (sent, st2)"
    and l: "launch E pid st = Some (if sent
       then (Inr m', st2\<lparr>au_launches := bm_insert m' (gs_id s, pid) (au_launches st2),
               au_launch_deadlines := bm_insert m' (placement_deadline E st2) (au_launch_deadlines st2)\<rparr>)
       else (Inl (resource_exhausted ''server control stream full''),
               with_registry st2 (snd (release (gs_id s) m' (au_registry st2)))))"
    and channel: "bm_get (au_controls st) (gs_id s) = Some ch"
  have sent and m: "m' = m" using l assms(2) by (auto split: if_splits)
  have "try_send ch (Inr (launch_message E m' (proposal_mode q) (pr_teams q) cost)) st1 = (True, st2)"
    using t \<open>sent\<close> by simp
  then obtain c where c: "bm_get (au_channels st1) ch = Some c" "ch_open c" "length (ch_queue c) < ch_capacity c"
    "st2 = st1\<lparr>au_channels := bm_insert ch (c\<lparr>ch_queue := ch_queue c @
       [Inr (launch_message E m' (proposal_mode q) (pr_teams q) cost)]\<rparr>) (au_channels st1)\<rparr>"
    by (rule try_send_sent)
  show thesis
    by (rule that [OF q cost(1,3)]) (use c l assms(2) \<open>sent\<close> m cost(2) channel in \<open>auto simp: st1\<close>)
qed (use assms(2) in simp_all)

lemma launch_failed:
  assumes "registry_ok (au_registry st)" and "launch E pid st = Some (Inl e, st')"
  shows "(list_all (\<lambda>s. bm_get (gs_instances s) (from_uuid (fst (next_uuid 4 st))) = None) (bm_values (au_registry st))
      \<longrightarrow> au_registry st' = au_registry st) \<and> au_launches st' = au_launches st \<and> au_proposals st' = au_proposals st
    \<and> au_channels st' = au_channels st \<and> queue_of st' = queue_of st"
proof (rule launch_cases [OF assms(1), of pid E])
  fix q s cost off m' ch st1 sent st2
  assume s: "bm_get (au_registry st) (gs_id s) = Some s"
    and cost: "m' = from_uuid (fst (next_uuid 4 st))" "unat (gs_capacity_used s) + unat cost \<le> unat (gs_capacity_total s)"
    and st1: "st1 = note_control_backlog ch (with_registry (snd (next_uuid 4 st)) (bm_insert (gs_id s) (reserved m' cost s) (au_registry st)))"
    and t: "try_send ch (Inr (launch_message E m' (proposal_mode q) (pr_teams q) cost)) st1 = (sent, st2)"
    and l: "launch E pid st = Some (if sent
       then (Inr m', st2\<lparr>au_launches := bm_insert m' (gs_id s, pid) (au_launches st2),
               au_launch_deadlines := bm_insert m' (placement_deadline E st2) (au_launch_deadlines st2)\<rparr>)
       else (Inl (resource_exhausted ''server control stream full''),
               with_registry st2 (snd (release (gs_id s) m' (au_registry st2)))))"
  have "\<not> sent" using l assms(2) by (auto split: if_splits)
  then have st2: "st2 = st1" using t try_send_full by simp
  have "release (gs_id s) m' (bm_insert (gs_id s) (reserved m' cost s) (au_registry st)) = (Inr (), au_registry st)"
    if fresh: "list_all (\<lambda>s. bm_get (gs_instances s) (from_uuid (fst (next_uuid 4 st))) = None) (bm_values (au_registry st))"
  proof -
    have "s \<in> set (bm_values (au_registry st))" using s by (auto simp: values_iff)
    with fresh have "bm_get (gs_instances s) m' = None" by (simp add: cost(1) list_all_iff)
    then show ?thesis unfolding reserved_def by (rule release_reserved [OF s _ _ _ cost(2)]) (simp_all add: live_def)
  qed
  with l \<open>\<not> sent\<close> assms(2) st2 show ?thesis by (auto simp: st1)
qed (use assms(2) in simp_all)

section \<open>Cancelling a proposal\<close>

text \<open>The tickets that come back: a fold over parties that differ.\<close>

definition returned :: "proposal \<Rightarrow> bool \<Rightarrow> party \<Rightarrow> bool" where
  "returned q infra p \<longleftrightarrow> infra \<or> \<not> list_ex (\<lambda>x. bm_get (pr_responses q) x = Some Rejected
     \<or> bm_get (pr_responses q) x = Some TimedOut) (pa_members p)"

lemma party_failed_returned:
  "bm_get (au_parties st) i = Some p \<Longrightarrow> (party_failed st q i \<and> \<not> infra) = (\<not> returned q infra p)"
  by (auto simp: party_failed_def returned_def list_ex_iff split: option.split)

lemma restore_ticket_get:
  assumes "bm_get (au_parties st) i = Some p"
  shows "bm_get (au_parties (restore_ticket q infra (i, t) st)) j = (if j = i
      then Some (p\<lparr>pa_state := (if returned q infra p then PQueued else PNotReady), pa_revision := sat_add (pa_revision p) 1\<rparr>)
      else bm_get (au_parties st) j)"
    and "bm_get (au_tickets (restore_ticket q infra (i, t) st)) j = (if j = i \<and> returned q infra p then Some t
      else bm_get (au_tickets st) j)"
  using party_failed_returned [OF assms] assms by (auto simp: restore_ticket_def get_insert)

lemma restore_ticket_other:
  "i \<noteq> j \<Longrightarrow> bm_get (au_parties (restore_ticket q infra (i, t) st)) j = bm_get (au_parties st) j"
  "i \<noteq> j \<Longrightarrow> bm_get (au_tickets (restore_ticket q infra (i, t) st)) j = bm_get (au_tickets st) j"
  by (auto simp: restore_ticket_def get_insert split: option.split)

lemma restore_others:
  "j \<notin> fst ` set saved \<Longrightarrow> bm_get (au_parties (fold (restore_ticket q infra) saved st)) j = bm_get (au_parties st) j
    \<and> bm_get (au_tickets (fold (restore_ticket q infra) saved st)) j = bm_get (au_tickets st) j"
proof (induction saved arbitrary: st)
  case (Cons e saved)
  obtain i t where e: "e = (i, t)" by fastforce
  with Cons restore_ticket_other [of i j q infra t st] show ?case by auto
qed simp

lemma restore_all:
  assumes "distinct (map fst saved)" and "(i, t) \<in> set saved" and "bm_get (au_parties st) i = Some p"
  shows "bm_get (au_parties (fold (restore_ticket q infra) saved st)) i
      = Some (p\<lparr>pa_state := (if returned q infra p then PQueued else PNotReady), pa_revision := sat_add (pa_revision p) 1\<rparr>)
    \<and> bm_get (au_tickets (fold (restore_ticket q infra) saved st)) i
      = (if returned q infra p then Some t else bm_get (au_tickets st) i)"
  using assms
proof (induction saved arbitrary: st)
  case (Cons e saved)
  obtain j u where e: "e = (j, u)" by fastforce
  show ?case
  proof (cases "j = i")
    case True
    with Cons.prems e have "u = t" "i \<notin> fst ` set saved" by (auto simp: rev_image_eqI)
    with True e restore_others [of i saved q infra "restore_ticket q infra (i, t) st"]
      restore_ticket_get [OF Cons.prems(3), of q infra t i] show ?thesis by simp
  next
    case False
    with Cons.prems e have "(i, t) \<in> set saved" "bm_get (au_parties (restore_ticket q infra (j, u) st)) i = Some p"
      by (auto simp: restore_ticket_other)
    with Cons e False restore_ticket_other(2) [of j i q infra u st] show ?thesis by simp
  qed
qed simp

lemma settle_all_frame:
  "queue_of (fold (settle_decision E pid infra) ds st) = queue_of st"
  "au_player_party (fold (settle_decision E pid infra) ds st) = au_player_party st"
  "core_of (fold (settle_decision E pid infra) ds st) = core_of st"
  by (rule fold_frame, simp)+

lemma settle_all_unbound:
  "bm_get (au_player_proposal (fold (settle_decision E pid infra) ds st)) x
    = (if x \<in> rd_player ` set ds then None else bm_get (au_player_proposal st) x)"
  by (induction ds arbitrary: st) (auto simp: get_remove)

text \<open>Only a player who refused or let the time pass is charged, and only if the infrastructure is
  not the cause.\<close>

lemma settle_credit:
  "bm_get (au_credit (settle_decision E pid infra d st)) x = (if \<not> infra \<and> x = rd_player d
      \<and> (rd_credit_cause d = Some CRejected \<or> rd_credit_cause d = Some CTimedOut)
    then Some (co_score (credit_apply (credit_of st x) (unwrap_or 0 (bm_get (au_recent_credit_violations st) x)) 0
      (the (rd_credit_cause d)) (config_credit_policy (au_config st))))
    else bm_get (au_credit st) x)"
  by (auto simp: settle_decision_def penalize_def Let_def get_insert on_metrics_def send_event_def credit_of_def
      split: option.split credit_cause.split)

lemma settle_all_credit:
  "(\<And>d. d \<in> set ds \<Longrightarrow> rd_player d = x \<Longrightarrow> infra \<or> (rd_credit_cause d \<noteq> Some CRejected \<and> rd_credit_cause d \<noteq> Some CTimedOut))
    \<Longrightarrow> bm_get (au_credit (fold (settle_decision E pid infra) ds st)) x = bm_get (au_credit st) x"
  by (induction ds arbitrary: st) (auto simp: settle_credit)

lemma save_profiles_frame:
  "core_of (fold (\<lambda>p st. st\<lparr>au_pending_profile_saves := au_pending_profile_saves st @ [(p, current_profile st p)]\<rparr>) ps st) = core_of st"
  "queue_of (fold (\<lambda>p st. st\<lparr>au_pending_profile_saves := au_pending_profile_saves st @ [(p, current_profile st p)]\<rparr>) ps st) = queue_of st"
  "au_player_proposal (fold (\<lambda>p st. st\<lparr>au_pending_profile_saves := au_pending_profile_saves st @ [(p, current_profile st p)]\<rparr>) ps st)
    = au_player_proposal st"
  "au_credit (fold (\<lambda>p st. st\<lparr>au_pending_profile_saves := au_pending_profile_saves st @ [(p, current_profile st p)]\<rparr>) ps st)
    = au_credit st"
  by (rule fold_frame, simp add: queue_of_def)+

lemma emit_changed_frame:
  "core_of (fold (\<lambda>i st. case bm_get (au_parties st) i of None \<Rightarrow> st | Some p \<Rightarrow> emit_party E p st) is st) = core_of st"
  "queue_of (fold (\<lambda>i st. case bm_get (au_parties st) i of None \<Rightarrow> st | Some p \<Rightarrow> emit_party E p st) is st) = queue_of st"
  "au_player_proposal (fold (\<lambda>i st. case bm_get (au_parties st) i of None \<Rightarrow> st | Some p \<Rightarrow> emit_party E p st) is st)
    = au_player_proposal st"
  "au_credit (fold (\<lambda>i st. case bm_get (au_parties st) i of None \<Rightarrow> st | Some p \<Rightarrow> emit_party E p st) is st) = au_credit st"
  by (rule fold_frame, simp split: option.split)+

text \<open>The cancellation up to the events and the saved profiles.\<close>

lemma cancel_proposal_view:
  assumes "bm_get (au_proposals st) pid = Some q"
  defines "saved \<equiv> unwrap_or [] (bm_get (au_proposal_tickets st) pid)"
  obtains st1 where "queue_of (cancel_proposal E pid infra st) = queue_of (fold (restore_ticket q infra) saved st1)"
    "au_player_proposal (cancel_proposal E pid infra st) = au_player_proposal st1"
    "au_credit (cancel_proposal E pid infra st) = au_credit st1"
    "st1 = fold (settle_decision E pid infra) (cancellation_decisions q infra)
      (st\<lparr>au_proposal_tickets := bm_remove pid (au_proposal_tickets st),
          au_claims := claims_release (pr_tickets q) (au_claims st),
          au_placement_waiting := bm_remove pid (au_placement_waiting st)\<rparr>)"
proof -
  let ?st1 = "fold (settle_decision E pid infra) (cancellation_decisions q infra)
      (st\<lparr>au_proposal_tickets := bm_remove pid (au_proposal_tickets st),
          au_claims := claims_release (pr_tickets q) (au_claims st),
          au_placement_waiting := bm_remove pid (au_placement_waiting st)\<rparr>)"
  have "au_player_proposal (fold (restore_ticket q infra) saved ?st1) = au_player_proposal ?st1"
    "au_credit (fold (restore_ticket q infra) saved ?st1) = au_credit ?st1"
    by (rule fold_frame, simp)+
  then show thesis
    by (intro that [of ?st1])
      (simp_all add: cancel_proposal_def assms(1) Let_def saved_def emit_changed_frame save_profiles_frame)
qed

section \<open>Settling a match\<close>

lemma finish_player_effects:
  "games_of (finish_player mode p st) x m = games_of st x m + (if x = p \<and> m = mode then 1 else 0)"
  "bm_get (au_player_match (finish_player mode p st)) x = (if x = p then None else bm_get (au_player_match st) x)"
  "au_ratings (finish_player mode p st) = au_ratings st" "au_parties (finish_player mode p st) = au_parties st"
  "map fst (au_pending_profile_saves (finish_player mode p st)) = map fst (au_pending_profile_saves st) @ [p]"
  by (auto simp: finish_player_def games_of_def get_insert get_remove Let_def)

lemma finish_players_effects:
  "distinct ps \<Longrightarrow> games_of (fold (finish_player mode) ps st) x m = games_of st x m + (if x \<in> set ps \<and> m = mode then 1 else 0)"
  "bm_get (au_player_match (fold (finish_player mode) ps st)) x = (if x \<in> set ps then None else bm_get (au_player_match st) x)"
  "au_ratings (fold (finish_player mode) ps st) = au_ratings st" "au_parties (fold (finish_player mode) ps st) = au_parties st"
  "map fst (au_pending_profile_saves (fold (finish_player mode) ps st)) = map fst (au_pending_profile_saves st) @ ps"
  by (induction ps arbitrary: st) (auto simp: finish_player_effects)

text \<open>The credit of a player after his match, from his score, and what he has played since he last
  recovered a point.\<close>

definition since_recovery :: "authority \<Rightarrow> player_id \<Rightarrow> u32" where
  "since_recovery st x = unwrap_or 0 (bm_get (au_completed_since_credit_recovery st) x)"

definition credit_played :: "authority \<Rightarrow> player_id \<Rightarrow> nat" where
  "credit_played st x = (if 3 \<le> since_recovery st x + 1 then min (unat (credit_of st x) + 1) 100
     else min (unat (credit_of st x)) 100)"

lemma finish_player_credit:
  "unat (credit_of (finish_player mode p st) x) = (if x = p then credit_played st x else unat (credit_of st x))"
  "bm_get (au_credit (finish_player mode p st)) x = (if x = p
    then Some (of_nat (credit_played st x)) else bm_get (au_credit st) x)"
  "since_recovery (finish_player mode p st) x = (if x = p
    then (if unat (credit_of st x) < credit_played st x then 0 else sat_add (since_recovery st x) 1)
    else since_recovery st x)"
proof -
  let ?score = "co_score (credit_apply (credit_of st p) (unwrap_or 0 (bm_get (au_recent_credit_violations st) p))
      (since_recovery st p) CompletedMatch default_credit_policy)"
  have score: "unat ?score = credit_played st p"
    unfolding credit_score_unat credit_played_def by (simp add: default_credit_policy_def penalty_def)
  have kept: "credit_of (st\<lparr>au_completed_games := g\<rparr>) p = credit_of st p" for g by (simp add: credit_of_def)
  have credit: "bm_get (au_credit (finish_player mode p st)) x = (if x = p then Some ?score else bm_get (au_credit st) x)"
    by (simp add: finish_player_def Let_def get_insert kept since_recovery_def)
  then show "unat (credit_of (finish_player mode p st) x) = (if x = p then credit_played st x else unat (credit_of st x))"
    using credit score
    by (simp add: credit_of_def [of "finish_player mode p st" x] credit_of_def [of st x, symmetric] split: if_splits)
  have "?score = of_nat (credit_played st p)" by (simp flip: score)
  with credit show "bm_get (au_credit (finish_player mode p st)) x = (if x = p
    then Some (of_nat (credit_played st x)) else bm_get (au_credit st) x)" by simp
  have "since_recovery (finish_player mode p st) x = (if x = p
      then (if credit_of st p < ?score then 0 else sat_add (since_recovery st p) 1) else since_recovery st x)"
    by (simp add: finish_player_def Let_def get_insert kept since_recovery_def)
  then show "since_recovery (finish_player mode p st) x = (if x = p
    then (if unat (credit_of st x) < credit_played st x then 0 else sat_add (since_recovery st x) 1)
    else since_recovery st x)" by (simp add: word_less_nat_alt score)
qed

lemma finish_players_credit:
  "distinct ps \<Longrightarrow> unat (credit_of (fold (finish_player mode) ps st) x)
    = (if x \<in> set ps then credit_played st x else unat (credit_of st x))
   \<and> since_recovery (fold (finish_player mode) ps st) x = (if x \<in> set ps
     then (if unat (credit_of st x) < credit_played st x then 0 else sat_add (since_recovery st x) 1)
     else since_recovery st x)"
proof (induction ps arbitrary: st)
  case (Cons p ps)
  have "credit_played (finish_player mode p st) x = credit_played st x" if "x \<noteq> p"
    using that by (simp add: credit_played_def finish_player_credit)
  with Cons show ?case by (auto simp: finish_player_credit)
qed simp

text \<open>The profile saved for a player is the one he has when all are finished.\<close>

lemma profile_kept:
  "x \<noteq> p \<Longrightarrow> current_profile (finish_player mode p st) x = current_profile st x"
proof -
  assume x: "x \<noteq> p"
  have "credit_of (finish_player mode p st) x = credit_of st x"
    using finish_player_credit(1) [of mode p st x] x by (simp add: word_unat_eq_iff)
  moreover have "au_recent_credit_violations (finish_player mode p st) = au_recent_credit_violations st"
    by (simp add: finish_player_def Let_def)
  moreover have "rating_of (finish_player mode p st) x m = rating_of st x m" for m
    by (simp add: rating_of_def finish_player_effects)
  ultimately show ?thesis using x by (simp add: current_profile_def finish_player_effects)
qed

lemma profiles_kept: "x \<notin> set ps \<Longrightarrow> current_profile (fold (finish_player mode) ps st) x = current_profile st x"
  by (induction ps arbitrary: st) (auto simp: profile_kept)

lemma saved_profile:
  "au_pending_profile_saves (finish_player mode p st)
    = au_pending_profile_saves st @ [(p, current_profile (finish_player mode p st) p)]"
  by (simp add: finish_player_def Let_def current_profile_def rating_of_def games_of_def credit_of_def)

lemma saved_profiles:
  "distinct ps \<Longrightarrow> au_pending_profile_saves (fold (finish_player mode) ps st)
    = au_pending_profile_saves st @ map (\<lambda>p. (p, current_profile (fold (finish_player mode) ps st) p)) ps"
proof (induction ps arbitrary: st)
  case (Cons p ps)
  then show ?case using saved_profile [of mode p st] by (simp add: profiles_kept)
qed simp

text \<open>The ratings of a list of players are replaced by a list of new ones.\<close>

lemma set_ratings:
  "distinct ps \<Longrightarrow> length rs = length ps
    \<Longrightarrow> map (\<lambda>p. bm_get (fold (set_rating mode) (zip ps rs) m) (p, mode)) ps = map Some rs"
  "x \<notin> set ps \<or> k \<noteq> mode \<Longrightarrow> bm_get (fold (set_rating mode) (zip ps rs) m) (x, k) = bm_get m (x, k)"
proof -
  show other: "x \<notin> set ps \<or> k \<noteq> mode \<Longrightarrow> bm_get (fold (set_rating mode) (zip ps rs) m) (x, k) = bm_get m (x, k)"
    for x k ps rs m
  proof (induction ps arbitrary: rs m)
    case (Cons p ps)
    then show ?case by (cases rs) (auto simp: set_rating_def get_insert)
  qed simp
  show "distinct ps \<Longrightarrow> length rs = length ps
    \<Longrightarrow> map (\<lambda>p. bm_get (fold (set_rating mode) (zip ps rs) m) (p, mode)) ps = map Some rs"
  proof (induction ps arbitrary: rs m)
    case (Cons p ps)
    then obtain r rs' where rs: "rs = r # rs'" by (cases rs) auto
    have "bm_get (set_rating mode (p, r) m) (p, mode) = Some r" by (simp add: set_rating_def)
    with Cons rs other [of p ps mode rs' "set_rating mode (p, r) m"] show ?case by simp
  qed simp
qed

lemma free_party_effects:
  "bm_get (au_parties (free_party i st)) j = (if j = i
    then map_option (\<lambda>p. p\<lparr>pa_state := PIdle, pa_revision := sat_add (pa_revision p) 1\<rparr>) (bm_get (au_parties st) i)
    else bm_get (au_parties st) j)"
  "au_completed_games (free_party i st) = au_completed_games st" "au_player_match (free_party i st) = au_player_match st"
  "au_ratings (free_party i st) = au_ratings st" "au_pending_profile_saves (free_party i st) = au_pending_profile_saves st"
  by (auto simp: free_party_def get_update)

lemma free_parties_effects:
  "distinct is \<Longrightarrow> bm_get (au_parties (fold free_party is st)) j = (if j \<in> set is
    then map_option (\<lambda>p. p\<lparr>pa_state := PIdle, pa_revision := sat_add (pa_revision p) 1\<rparr>) (bm_get (au_parties st) j)
    else bm_get (au_parties st) j)"
  "au_completed_games (fold free_party is st) = au_completed_games st" "au_player_match (fold free_party is st) = au_player_match st"
  "au_ratings (fold free_party is st) = au_ratings st"
  "au_pending_profile_saves (fold free_party is st) = au_pending_profile_saves st"
  by (induction "is" arbitrary: st) (auto simp: free_party_effects)

lemma emit_party_of_rest:
  "au_completed_games (emit_party_of E i st) = au_completed_games st" "au_ratings (emit_party_of E i st) = au_ratings st"
  "au_pending_profile_saves (emit_party_of E i st) = au_pending_profile_saves st"
proof -
  have "au_completed_games (emit_party E p st) = au_completed_games st \<and> au_ratings (emit_party E p st) = au_ratings st
    \<and> au_pending_profile_saves (emit_party E p st) = au_pending_profile_saves st" for p
    unfolding emit_party_def Let_def
    by (intro conjI; rule fold_frame; simp add: send_event_def)
  then show "au_completed_games (emit_party_of E i st) = au_completed_games st" "au_ratings (emit_party_of E i st) = au_ratings st"
    "au_pending_profile_saves (emit_party_of E i st) = au_pending_profile_saves st"
    by (simp_all add: emit_party_of_def split: option.split)
qed

lemma after_match_effects:
  "games_of (after_match E q st) x m = games_of st x m + (if x \<in> set (concat (pr_teams q)) \<and> m = proposal_mode q then 1 else 0)"
  "bm_get (au_player_match (after_match E q st)) x = (if x \<in> set (concat (pr_teams q)) then None else bm_get (au_player_match st) x)"
  "bm_get (au_parties (after_match E q st)) j = (if j \<in> set (bm_values (pr_parties q))
    then map_option (\<lambda>p. p\<lparr>pa_state := PIdle, pa_revision := sat_add (pa_revision p) 1\<rparr>) (bm_get (au_parties st) j)
    else bm_get (au_parties st) j)"
  "au_ratings (after_match E q st) = au_ratings st"
  "map fst (au_pending_profile_saves (after_match E q st)) = map fst (au_pending_profile_saves st) @ roster_of q"
proof -
  let ?is = "sort (remdups (bm_values (pr_parties q)))"
  have told: "au_completed_games (fold (emit_party_of E) is s) = au_completed_games s"
    "au_ratings (fold (emit_party_of E) is s) = au_ratings s" "au_parties (fold (emit_party_of E) is s) = au_parties s"
    "au_player_match (fold (emit_party_of E) is s) = au_player_match s"
    "au_pending_profile_saves (fold (emit_party_of E) is s) = au_pending_profile_saves s" for "is" s
    by (rule fold_frame, simp add: emit_party_of_rest)+
  have roster: "distinct (roster_of q)" "set (roster_of q) = set (concat (pr_teams q))"
    by (simp_all add: roster_of_def)
  show "games_of (after_match E q st) x m = games_of st x m + (if x \<in> set (concat (pr_teams q)) \<and> m = proposal_mode q then 1 else 0)"
    using finish_players_effects(1) [OF roster(1), of "proposal_mode q" st x m]
    by (simp only: games_of_def after_match_def told free_parties_effects roster(2))
  show "bm_get (au_player_match (after_match E q st)) x = (if x \<in> set (concat (pr_teams q)) then None else bm_get (au_player_match st) x)"
    by (simp only: after_match_def told free_parties_effects finish_players_effects roster(2))
  show "bm_get (au_parties (after_match E q st)) j = (if j \<in> set (bm_values (pr_parties q))
    then map_option (\<lambda>p. p\<lparr>pa_state := PIdle, pa_revision := sat_add (pa_revision p) 1\<rparr>) (bm_get (au_parties st) j)
    else bm_get (au_parties st) j)"
    using free_parties_effects(1) [of ?is "fold (finish_player (proposal_mode q)) (roster_of q) st" j]
    by (simp only: after_match_def told finish_players_effects set_sort set_remdups distinct_sort distinct_remdups simp_thms)
  show "au_ratings (after_match E q st) = au_ratings st"
    by (simp only: after_match_def told free_parties_effects finish_players_effects)
  show "map fst (au_pending_profile_saves (after_match E q st)) = map fst (au_pending_profile_saves st) @ roster_of q"
    by (simp only: after_match_def told free_parties_effects finish_players_effects)
qed

text \<open>Freeing the parties and telling their members leaves the profiles alone.\<close>

definition players_of :: "authority \<Rightarrow> (player_id \<times> queue_mode, i32) bmap \<times> (player_id \<times> queue_mode, u32) bmap
    \<times> (player_id, u8) bmap \<times> (player_id, u32) bmap \<times> (player_id, u32) bmap" where
  "players_of st = (au_ratings st, au_completed_games st, au_credit st, au_recent_credit_violations st,
     au_completed_since_credit_recovery st)"

lemma players_ofD:
  assumes "players_of s = players_of t"
  shows "current_profile s = current_profile t" "credit_of s = credit_of t" "since_recovery s = since_recovery t"
proof -
  have same: "au_ratings s = au_ratings t" "au_completed_games s = au_completed_games t" "au_credit s = au_credit t"
    "au_recent_credit_violations s = au_recent_credit_violations t"
    "au_completed_since_credit_recovery s = au_completed_since_credit_recovery t"
    using assms by (simp_all add: players_of_def)
  then show credit: "credit_of s = credit_of t" and "since_recovery s = since_recovery t"
    by (simp_all add: fun_eq_iff credit_of_def since_recovery_def)
  have "rating_of s = rating_of t" "games_of s = games_of t"
    by (simp_all add: fun_eq_iff rating_of_def games_of_def same)
  with credit same show "current_profile s = current_profile t" by (simp add: fun_eq_iff current_profile_def)
qed

lemma players_of_frames [simp]: "players_of (free_party i st) = players_of st"
  "players_of (emit_party_of E i st) = players_of st"
proof -
  show "players_of (free_party i st) = players_of st" by (simp add: free_party_def players_of_def)
  have "players_of (send_event p e s) = players_of s" for p e s by (simp add: send_event_def players_of_def)
  then have "players_of (emit_party E p st) = players_of st" for p
    unfolding emit_party_def Let_def by (rule fold_frame)
  then show "players_of (emit_party_of E i st) = players_of st" by (simp add: emit_party_of_def split: option.split)
qed

lemma after_match_players:
  "unat (credit_of (after_match E q st) x) = (if x \<in> set (concat (pr_teams q)) then credit_played st x else unat (credit_of st x))"
  "since_recovery (after_match E q st) x = (if x \<in> set (concat (pr_teams q))
    then (if unat (credit_of st x) < credit_played st x then 0 else sat_add (since_recovery st x) 1) else since_recovery st x)"
  "au_pending_profile_saves (after_match E q st)
    = au_pending_profile_saves st @ map (\<lambda>p. (p, current_profile (after_match E q st) p)) (roster_of q)"
proof -
  let ?done = "fold (finish_player (proposal_mode q)) (roster_of q) st"
  have roster: "distinct (roster_of q)" "set (roster_of q) = set (concat (pr_teams q))"
    by (simp_all add: roster_of_def)
  have "players_of (after_match E q st) = players_of ?done"
    by (simp add: after_match_def fold_frame [where f = players_of])
  note same = players_ofD [OF this]
  show "unat (credit_of (after_match E q st) x) = (if x \<in> set (concat (pr_teams q)) then credit_played st x else unat (credit_of st x))"
    "since_recovery (after_match E q st) x = (if x \<in> set (concat (pr_teams q))
      then (if unat (credit_of st x) < credit_played st x then 0 else sat_add (since_recovery st x) 1) else since_recovery st x)"
    using finish_players_credit [OF roster(1), of "proposal_mode q" st x] by (simp_all only: same roster(2))
  have "au_pending_profile_saves (fold (emit_party_of E) is s) = au_pending_profile_saves s" for "is" s
    by (rule fold_frame) (simp add: emit_party_of_rest)
  then have "au_pending_profile_saves (after_match E q st) = au_pending_profile_saves ?done"
    by (simp only: after_match_def free_parties_effects)
  then show "au_pending_profile_saves (after_match E q st)
    = au_pending_profile_saves st @ map (\<lambda>p. (p, current_profile (after_match E q st) p)) (roster_of q)"
    using saved_profiles [OF roster(1), of "proposal_mode q" st] by (simp add: same)
qed

text \<open>
  What the new ratings of the roster are: in one against one the two players play for 1, 1/2 or 0
  points by their placements; in five against five the team with the lower rank wins; in a free-for-all
  every player is rated against all others by the ranks.
\<close>

definition duel_score :: "u8 \<Rightarrow> u8 \<Rightarrow> f64" where
  "duel_score ra rb = (if ra < rb then Fin 1 else if ra = rb then Fin (1 / 2) else Fin 0)"

definition rated :: "platform \<Rightarrow> proposal \<Rightarrow> (player_id, u8) bmap \<Rightarrow> authority \<Rightarrow> authority \<Rightarrow> bool" where
  "rated E q ranks st st' \<longleftrightarrow>
    (let mode = proposal_mode q; policy = rating_policy_of (au_config st);
         old = (\<lambda>x. rating_of st x mode); new = (\<lambda>x. rating_of st' x mode); games = (\<lambda>x. games_of st x mode)
     in case mode of
       OneVsOne \<Rightarrow> (\<exists>a as b bs rest ra rb. pr_teams q = (a # as) # (b # bs) # rest
         \<and> bm_get ranks a = Some ra \<and> bm_get ranks b = Some rb
         \<and> one_vs_one (pf_f64 E) (old a) (old b) (duel_score ra rb) (games a) (games b) policy = Some (new a, new b))
     | FiveVsFive \<Rightarrow> (\<exists>winners losers rest rw rl. (pr_teams q = winners # losers # rest \<or> pr_teams q = losers # winners # rest)
         \<and> winners \<noteq> [] \<and> losers \<noteq> [] \<and> bm_get ranks (hd winners) = Some rw \<and> bm_get ranks (hd losers) = Some rl \<and> rw < rl
         \<and> team_update_with_completed (pf_f64 E) (map old winners) (map old losers) (map games winners) (map games losers) policy
           = Some (map new winners, map new losers))
     | FreeForAll \<Rightarrow> (\<exists>rs. map (bm_get ranks) (concat (pr_teams q)) = map Some rs
         \<and> free_for_all (pf_f64 E) (map old (concat (pr_teams q))) rs policy = Some (map new (concat (pr_teams q)))))"

lemma all_some_length: "all_some xs = Some ys \<Longrightarrow> length ys = length xs"
  by (simp add: all_some_eq_Some)

lemma settle_ratings_frame:
  assumes "settle_ratings E st q ranks = Some ratings" and "x \<notin> set (concat (pr_teams q)) \<or> k \<noteq> proposal_mode q"
  shows "bm_get ratings (x, k) = bm_get (au_ratings st) (x, k)"
proof (cases "proposal_mode q")
  case OneVsOne
  with assms show ?thesis
    by (auto simp: settle_ratings_def Let_def set_rating_def get_insert split: list.splits option.splits)
next
  case FiveVsFive
  then obtain a as b bs rest ra rb where teams: "pr_teams q = (a # as) # (b # bs) # rest"
    "bm_get ranks a = Some ra" "bm_get ranks b = Some rb"
    using assms(1) by (auto simp: settle_ratings_def Let_def split: list.splits option.splits)
  define w where "w = (if ra < rb then a # as else b # bs)"
  define l where "l = (if ra < rb then b # bs else a # as)"
  have "(if ra < rb then (a # as, b # bs) else (b # bs, a # as)) = (w, l)" by (simp add: w_def l_def)
  then obtain nw nl where "ratings = fold (set_rating FiveVsFive) (zip l nl) (fold (set_rating FiveVsFive) (zip w nw) (au_ratings st))"
    using assms(1) FiveVsFive teams by (auto simp: settle_ratings_def Let_def split: option.splits)
  moreover have "x \<notin> set w \<or> k \<noteq> FiveVsFive" "x \<notin> set l \<or> k \<noteq> FiveVsFive"
    using assms(2) FiveVsFive teams(1) by (auto simp: w_def l_def)
  ultimately show ?thesis by (simp add: set_ratings(2))
next
  case FreeForAll
  with assms show ?thesis
    by (auto simp: settle_ratings_def Let_def set_ratings(2) split: option.splits)
qed

lemma settle_ratings_rated:
  assumes "settle_ratings E st q ranks = Some (au_ratings st')" and "distinct (concat (pr_teams q))"
    and "check_ranks q ranks = Some (Inr ())"
  shows "rated E q ranks st st'"
proof -
  have differ: "ra \<noteq> rb" if "proposal_mode q = FiveVsFive" "pr_teams q = (a # as) # (b # bs) # rest"
    "bm_get ranks a = Some ra" "bm_get ranks b = Some rb" for a as b bs rest ra rb
    using assms(3) that by (auto simp: check_ranks_def team_rank_def split: if_splits option.splits)
  have new: "map (\<lambda>x. rating_of st' x mode) ps = rs"
    if "map (\<lambda>x. bm_get (au_ratings st') (x, mode)) ps = map Some rs" for mode ps rs
    using that by (auto simp: rating_of_def list_eq_iff_nth_eq)
  show ?thesis
  proof (cases "proposal_mode q")
    case OneVsOne
    then obtain a as b bs rest ra rb na nb where *: "pr_teams q = (a # as) # (b # bs) # rest"
      "bm_get ranks a = Some ra" "bm_get ranks b = Some rb"
      "one_vs_one (pf_f64 E) (rating_of st a OneVsOne) (rating_of st b OneVsOne) (duel_score ra rb)
        (games_of st a OneVsOne) (games_of st b OneVsOne) (rating_policy_of (au_config st)) = Some (na, nb)"
      "au_ratings st' = set_rating OneVsOne (b, nb) (set_rating OneVsOne (a, na) (au_ratings st))"
      using assms(1) by (auto simp: settle_ratings_def Let_def duel_score_def split: list.splits option.splits)
    have "a \<noteq> b" using assms(2) *(1) by auto
    then have "rating_of st' a OneVsOne = na" "rating_of st' b OneVsOne = nb"
      by (simp_all add: rating_of_def *(5) set_rating_def get_insert)
    with * OneVsOne show ?thesis by (simp add: rated_def)
  next
    case FiveVsFive
    then obtain a as b bs rest ra rb where teams: "pr_teams q = (a # as) # (b # bs) # rest"
      "bm_get ranks a = Some ra" "bm_get ranks b = Some rb"
      using assms(1) by (auto simp: settle_ratings_def Let_def split: list.splits option.splits)
    define w where "w = (if ra < rb then a # as else b # bs)"
    define l where "l = (if ra < rb then b # bs else a # as)"
    have sides: "(if ra < rb then (a # as, b # bs) else (b # bs, a # as)) = (w, l)" by (simp add: w_def l_def)
    obtain nw nl where up: "team_update_with_completed (pf_f64 E) (map (\<lambda>p. rating_of st p FiveVsFive) w)
        (map (\<lambda>p. rating_of st p FiveVsFive) l) (map (\<lambda>p. games_of st p FiveVsFive) w)
        (map (\<lambda>p. games_of st p FiveVsFive) l) (rating_policy_of (au_config st)) = Some (nw, nl)"
      "au_ratings st' = fold (set_rating FiveVsFive) (zip l nl) (fold (set_rating FiveVsFive) (zip w nw) (au_ratings st))"
      using assms(1) FiveVsFive teams sides by (auto simp: settle_ratings_def Let_def split: option.splits)
    have len: "length nw = length w" "length nl = length l"
      using up(1) by (auto simp: team_update_with_completed_def Let_def dest!: all_some_length split: option.splits if_splits)
    have distinct: "distinct w" "distinct l" "set w \<inter> set l = {}"
      using assms(2) teams(1) by (auto simp: w_def l_def)
    have "map (\<lambda>x. bm_get (au_ratings st') (x, FiveVsFive)) w = map Some nw"
      using set_ratings(1) [OF distinct(1) len(1), of FiveVsFive "au_ratings st"] distinct(3)
      by (simp add: up(2) set_ratings(2) disjoint_iff cong: map_cong)
    moreover have "map (\<lambda>x. bm_get (au_ratings st') (x, FiveVsFive)) l = map Some nl"
      using set_ratings(1) [OF distinct(2) len(2)] by (simp add: up(2))
    ultimately have *: "nw = map (\<lambda>x. rating_of st' x FiveVsFive) w" "nl = map (\<lambda>x. rating_of st' x FiveVsFive) l"
      using new by metis+
    have "pr_teams q = w # l # rest \<or> pr_teams q = l # w # rest" "w \<noteq> []" "l \<noteq> []"
      "bm_get ranks (hd w) = Some (min ra rb)" "bm_get ranks (hd l) = Some (max ra rb)"
      using teams by (auto simp: w_def l_def min_def max_def not_less)
    moreover have "min ra rb < max ra rb" using differ [OF FiveVsFive teams] by (auto simp: min_def max_def)
    ultimately show ?thesis using up(1) FiveVsFive unfolding * rated_def by (simp add: Let_def) blast
  next
    case FreeForAll
    then obtain rs new_ratings where *: "all_some (map (bm_get ranks) (concat (pr_teams q))) = Some rs"
      "free_for_all (pf_f64 E) (map (\<lambda>p. rating_of st p FreeForAll) (concat (pr_teams q))) rs (rating_policy_of (au_config st)) = Some new_ratings"
      "au_ratings st' = fold (set_rating FreeForAll) (zip (concat (pr_teams q)) new_ratings) (au_ratings st)"
      using assms(1) by (auto simp: settle_ratings_def Let_def split: option.splits)
    have "length new_ratings = length (concat (pr_teams q))"
      using *(2) by (auto simp: free_for_all_def dest!: all_some_length split: if_splits)
    from set_ratings(1) [OF assms(2) this, of FreeForAll "au_ratings st"]
    have "new_ratings = map (\<lambda>x. rating_of st' x FreeForAll) (concat (pr_teams q))" using new *(3) by metis
    with * FreeForAll show ?thesis by (auto simp: rated_def all_some_eq_Some)
  qed
qed

lemma finish_match_settled:
  assumes "authority_ok st" "finish_match E sid result st = Some (Inr u, st')"
  obtains m pid q ranks where "id_from_str (pf_uuid E) ''MatchId'' (mr_match_id result) = Inr m"
    "bm_get (au_launches st) m = Some (sid, pid)" "bm_get (au_proposals st) pid = Some q"
    "release sid m (au_registry st) = (Inr (), au_registry st')"
    "parse_placements E (mr_placements result) bm_empty = Inr ranks"
    "settle_ratings E st q ranks = Some (au_ratings st')"
    "au_launches st' = bm_remove m (au_launches st)" "au_proposals st' = bm_remove pid (au_proposals st)"
    "\<And>x mode. games_of st' x mode = games_of st x mode + (if x \<in> set (concat (pr_teams q)) \<and> mode = proposal_mode q then 1 else 0)"
    "\<And>x. bm_get (au_player_match st') x = (if x \<in> set (concat (pr_teams q)) then None else bm_get (au_player_match st) x)"
    "\<And>j. bm_get (au_parties st') j = (if j \<in> set (bm_values (pr_parties q))
      then map_option (\<lambda>p. p\<lparr>pa_state := PIdle, pa_revision := sat_add (pa_revision p) 1\<rparr>) (bm_get (au_parties st) j)
      else bm_get (au_parties st) j)"
    "au_pending_profile_saves st' = au_pending_profile_saves st @ map (\<lambda>p. (p, current_profile st' p)) (roster_of q)"
    "check_ranks q ranks = Some (Inr ())"
    "\<And>x. unat (credit_of st' x) = (if x \<in> set (concat (pr_teams q)) then credit_played st x else unat (credit_of st x))"
    "\<And>x. since_recovery st' x = (if x \<in> set (concat (pr_teams q))
      then (if unat (credit_of st x) < credit_played st x then 0 else sat_add (since_recovery st x) 1) else since_recovery st x)"
proof (rule finish_match_cases [OF assms(1), of E sid result])
  fix m pid q s i ranks ratings
  assume ids: "id_from_str (pf_uuid E) ''MatchId'' (mr_match_id result) = Inr m"
    "bm_get (au_launches st) m = Some (sid, pid)" "bm_get (au_proposals st) pid = Some q"
    and s: "bm_get (au_registry st) sid = Some s"
    and ranks: "parse_placements E (mr_placements result) bm_empty = Inr ranks" "settle_ratings E st q ranks = Some ratings"
    and checked: "check_ranks q ranks = Some (Inr ())"
    and f: "finish_match E sid result st = Some (close_match E sid m pid q (st\<lparr>au_ratings := ratings\<rparr>))"
  let ?s = "st\<lparr>au_ratings := ratings\<rparr>"
  have reg: "bm_get (au_registry ?s) sid = Some s" using s by simp
  obtain r where r: "release sid m (au_registry ?s) = (Inr (), r)"
    and c: "close_match E sid m pid q ?s = (Inr (), (with_registry (after_match E q ?s) r)\<lparr>
       au_launches := bm_remove m (au_launches ?s), au_launch_deadlines := bm_remove m (au_launch_deadlines ?s),
       au_proposal_tickets := bm_remove pid (au_proposal_tickets (after_match E q ?s)),
       au_proposals := bm_remove pid (au_proposals ?s)\<rparr>)"
    using reg by (rule close_match_cases)
  from f c assms(2) have st': "st' = (with_registry (after_match E q ?s) r)\<lparr>
       au_launches := bm_remove m (au_launches st), au_launch_deadlines := bm_remove m (au_launch_deadlines st),
       au_proposal_tickets := bm_remove pid (au_proposal_tickets (after_match E q ?s)),
       au_proposals := bm_remove pid (au_proposals st)\<rparr>" by simp
  have "players_of st' = players_of (after_match E q ?s)" by (simp add: st' with_registry_def players_of_def)
  note same = players_ofD [OF this]
  have before: "credit_played ?s = credit_played st" "credit_of ?s = credit_of st" "since_recovery ?s = since_recovery st"
    by (simp_all add: fun_eq_iff credit_played_def credit_of_def since_recovery_def)
  have saved: "au_pending_profile_saves st' = au_pending_profile_saves (after_match E q ?s)"
    by (simp add: st' with_registry_def)
  show thesis
    by (rule that [OF ids _ ranks(1)])
      (use r ranks(2) checked after_match_effects(1-4) [of E q ?s] after_match_players [of E q ?s] in
        \<open>simp_all add: same saved before, simp_all add: st' with_registry_def games_of_def\<close>)
qed (use assms(2) in simp)

end
