(* ===== verification/Queue_Refinement.thy ===== *)
theory Queue_Refinement
  imports Authority_Safety
begin

text \<open>
  The matcher reads its tickets from the entity world, which is rebuilt from the indexes of the
  authority and joined in an order that the storages choose. Here the detour is shown to be
  invisible: the tickets are those of the indexes, and no result depends on the order of joins.
\<close>

section \<open>The abstract queue\<close>

text \<open>The rating the matcher sees: only players with a session have an entity.\<close>

definition known_rating :: "authority \<Rightarrow> player_id \<Rightarrow> queue_mode \<Rightarrow> i32" where
  "known_rating st x mode = (if x \<in> set (bm_values (au_sessions st)) then rating_of st x mode else 1000)"

definition queue_ticket :: "platform \<Rightarrow> authority \<Rightarrow> queue_mode \<Rightarrow> rstr \<Rightarrow> party_id \<times> ticket_record \<Rightarrow> party_ticket option" where
  "queue_ticket E st mode region entry = (case entry of (pid, t) \<Rightarrow> (case bm_get (au_parties st) pid of
      None \<Rightarrow> None
    | Some p \<Rightarrow>
       if tr_mode t = mode \<and> region \<in> set (tr_regions t)
       then let ratings = map (\<lambda>x. known_rating st x mode) (pa_members p);
                waited = waited_seconds E (tr_queued_since_ms t)
            in map_option (\<lambda>rating. \<lparr>pt_id = tr_id t, pt_party = pid, pt_members = pa_members p, pt_ratings = ratings,
                 pt_effective_rating = rating, pt_enqueued_at = tr_enqueued_at t, pt_revision = pa_revision p,
                 pt_region = region, pt_mode = mode, pt_search_delta = config_search_delta (au_config st) waited,
                 pt_wait_seconds = waited\<rparr>) (config_effective_rating (au_config st) mode ratings)
       else None))"

definition queue_tickets :: "platform \<Rightarrow> authority \<Rightarrow> queue_mode \<Rightarrow> rstr \<Rightarrow> party_ticket list" where
  "queue_tickets E st mode region = List.map_filter (queue_ticket E st mode region) (entries (au_tickets st))"

text \<open>Every party is stored under its own id.\<close>

definition parties_keyed :: "authority \<Rightarrow> bool" where
  "parties_keyed st \<longleftrightarrow> (\<forall>i p. bm_get (au_parties st) i = Some p \<longrightarrow> pa_id p = i)"

section \<open>Joins as permutations\<close>

lemma map_filter_mset: "mset xs = mset ys \<Longrightarrow> mset (List.map_filter f xs) = mset (List.map_filter f ys)"
  by (simp add: List.map_filter_def)

lemma map_filter_append: "List.map_filter f (xs @ ys) = List.map_filter f xs @ List.map_filter f ys"
  by (simp add: List.map_filter_def)

lemma map_filter_map_Some: "(\<And>x. x \<in> set xs \<Longrightarrow> f (g x) = Some (h x)) \<Longrightarrow> List.map_filter f (map g xs) = map h xs"
  by (induction xs) (simp_all add: List.map_filter_simps)

lemma map_filter_map_None: "(\<And>x. x \<in> set xs \<Longrightarrow> f (g x) = None) \<Longrightarrow> List.map_filter f (map g xs) = []"
  by (induction xs) (simp_all add: List.map_filter_simps)

lemma map_filter_map: "List.map_filter f (map g xs) = List.map_filter (f \<circ> g) xs"
  by (simp add: List.map_filter_def comp_def filter_map)

lemma map_filter_same: "(\<And>x. x \<in> set xs \<Longrightarrow> f x = g x) \<Longrightarrow> List.map_filter f xs = List.map_filter g xs"
  by (induction xs) (simp_all add: List.map_filter_simps split: option.split)

lemma distinct_remdups_adj_sorted: "sorted xs \<Longrightarrow> distinct (remdups_adj xs)"
  by (induction xs rule: remdups_adj.induct) (auto split: if_splits)

lemma get_of_list_mset:
  assumes "mset xs = mset ys" "distinct (map fst ys)"
  shows "bm_get (bm_of_list xs) k = map_of ys k"
proof -
  have "set xs = set ys" "distinct (map fst xs)"
    using assms mset_eq_setD mset_eq_imp_distinct_iff [of "map fst xs" "map fst ys"] by (auto simp: mset_map)
  then have "map_of xs k = Some v \<longleftrightarrow> map_of ys k = Some v" for v
    using assms(2) by (simp add: map_of_eq_Some_iff)
  then have "map_of xs k = map_of ys k" by (metis not_None_eq)
  with \<open>distinct (map fst xs)\<close> show ?thesis by (simp add: get_of_list_distinct)
qed

section \<open>What the storages hold\<close>

lemma player_storages [simp]:
  "player_identity (player_entity st p) = Some p"
  "elo_rating (player_entity st p) = Some (bm_of_list [(OneVsOne, rating_of st p OneVsOne),
     (FiveVsFive, rating_of st p FiveVsFive), (FreeForAll, rating_of st p FreeForAll)])"
  "party_identity (player_entity st p) = None" "ticket_identity (player_entity st p) = None"
  by (simp_all add: storage_defs player_entity_def)

lemma party_storages [simp]:
  "player_identity (party_entity q) = None" "party_identity (party_entity q) = Some (pa_id q)"
  "party_members (party_entity q) = Some (pa_members q)" "party_revision (party_entity q) = Some (pa_revision q)"
  "ticket_identity (party_entity q) = None"
  by (simp_all add: storage_defs party_entity_def)

lemma ticket_storages [simp]:
  "player_identity (ticket_entity E st i t) = None" "party_identity (ticket_entity E st i t) = Some i"
  "party_members (ticket_entity E st i t) = None" "ticket_identity (ticket_entity E st i t) = Some (tr_id t)"
  "ticket_mode (ticket_entity E st i t) = Some (tr_mode t)" "ticket_regions (ticket_entity E st i t) = Some (tr_regions t)"
  "enqueued_at (ticket_entity E st i t) = Some (tr_enqueued_at t)"
  by (simp_all add: storage_defs ticket_entity_def Let_def)

lemma proposal_storages [simp]:
  "player_identity (proposal_entity q) = None" "party_identity (proposal_entity q) = None"
  by (simp_all add: storage_defs proposal_entity_def)

lemma server_storages [simp]: "player_identity (server_entity g) = None" "party_identity (server_entity g) = None"
  by (simp_all add: storage_defs server_entity_def)

section \<open>The refinement\<close>

lemma world_rebuilt [simp]: "au_world (rebuild_ecs E st) = world_of E st"
  by (simp add: rebuild_ecs_def on_metrics_def)

lemma join_ratings_get:
  assumes "mset (pf_join E (world_of E st)) = mset (world_of E st)"
  shows "unwrap_or 1000 (Option.bind (bm_get (join_ratings E (world_of E st)) x) (\<lambda>v. bm_get v mode)) = known_rating st x mode"
proof -
  let ?ps = "remdups_adj (sort (bm_values (au_sessions st)))"
  let ?f = "\<lambda>e. case (player_identity e, elo_rating e) of (Some p, Some r) \<Rightarrow> Some (p, r) | _ \<Rightarrow> None"
  let ?v = "\<lambda>p. bm_of_list [(OneVsOne, rating_of st p OneVsOne), (FiveVsFive, rating_of st p FiveVsFive),
     (FreeForAll, rating_of st p FreeForAll)]"
  have "List.map_filter ?f (world_of E st) = map (\<lambda>p. (p, ?v p)) ?ps"
  proof -
    have "List.map_filter ?f (map (player_entity st) ?ps) = map (\<lambda>p. (p, ?v p)) ?ps"
      by (rule map_filter_map_Some) simp
    then show ?thesis unfolding world_of_def map_filter_append by (simp add: map_filter_map_None case_prod_unfold)
  qed
  then have "mset (List.map_filter ?f (pf_join E (world_of E st))) = mset (map (\<lambda>p. (p, ?v p)) ?ps)"
    using map_filter_mset [OF assms, of ?f] by simp
  moreover have "distinct (map fst (map (\<lambda>p. (p, ?v p)) ?ps))"
    by (simp add: comp_def distinct_remdups_adj_sorted)
  ultimately have "bm_get (join_ratings E (world_of E st)) x = map_of (map (\<lambda>p. (p, ?v p)) ?ps) x"
    unfolding join_ratings_def by (rule get_of_list_mset)
  also have "\<dots> = (if x \<in> set (bm_values (au_sessions st)) then Some (?v x) else None)"
    by (simp add: map_of_map_restrict restrict_map_def)
  finally show ?thesis
    by (cases mode) (simp_all add: known_rating_def get_of_list_distinct)
qed

lemma join_parties_get:
  assumes "mset (pf_join E (world_of E st)) = mset (world_of E st)" and "parties_keyed st"
  shows "bm_get (join_parties E (world_of E st)) i
    = map_option (\<lambda>p. (pa_members p, pa_revision p)) (bm_get (au_parties st) i)"
proof -
  let ?f = "\<lambda>e. case (party_identity e, party_members e, party_revision e) of
       (Some i, Some ms, Some r) \<Rightarrow> if ticket_identity e = None then Some (i, (ms, r)) else None
     | _ \<Rightarrow> None"
  let ?kv = "\<lambda>p. (pa_id p, (pa_members p, pa_revision p))"
  have "List.map_filter ?f (world_of E st) = map ?kv (bm_values (au_parties st))"
  proof -
    have "List.map_filter ?f (map party_entity (bm_values (au_parties st))) = map ?kv (bm_values (au_parties st))"
      by (rule map_filter_map_Some) simp
    then show ?thesis unfolding world_of_def map_filter_append by (simp add: map_filter_map_None case_prod_unfold)
  qed
  moreover have "map ?kv (bm_values (au_parties st)) = map (\<lambda>(i, p). (i, (pa_members p, pa_revision p))) (entries (au_parties st))"
    using assms(2) by (auto simp: bm_values_def parties_keyed_def entry_iff [symmetric])
  ultimately have "mset (List.map_filter ?f (pf_join E (world_of E st)))
      = mset (map (\<lambda>(i, p). (i, (pa_members p, pa_revision p))) (entries (au_parties st)))"
    using map_filter_mset [OF assms(1), of ?f] by simp
  moreover have "distinct (map fst (map (\<lambda>(i, p). (i, (pa_members p, pa_revision p))) (entries (au_parties st))))"
    by (simp add: comp_def case_prod_unfold)
  ultimately have "bm_get (join_parties E (world_of E st)) i
      = map_of (map (\<lambda>(i, p). (i, (pa_members p, pa_revision p))) (entries (au_parties st))) i"
    unfolding join_parties_def by (rule get_of_list_mset)
  then show ?thesis by (simp add: map_of_map bm_get_def)
qed

lemma ecs_tickets_queue:
  assumes join: "\<And>w. mset (pf_join E w) = mset w" and keyed: "parties_keyed st"
  shows "mset (ecs_tickets E (rebuild_ecs E st) mode region) = mset (queue_tickets E st mode region)"
proof -
  let ?f = "joined_ticket E (rebuild_ecs E st) mode region (join_parties E (world_of E st)) (join_ratings E (world_of E st))"
  have ticket: "?f (ticket_entity E st i t) = queue_ticket E st mode region (i, t)" if "bm_get (au_tickets st) i = Some t" for i t
    using that by (auto simp: joined_ticket_def queue_ticket_def join_parties_get [OF join keyed]
        join_ratings_get [OF join] Let_def split: option.split)
  have "List.map_filter ?f (world_of E st) = List.map_filter (queue_ticket E st mode region) (entries (au_tickets st))"
  proof -
    have "List.map_filter ?f (map (\<lambda>(i, t). ticket_entity E st i t) (entries (au_tickets st)))
        = List.map_filter (queue_ticket E st mode region) (entries (au_tickets st))"
      unfolding map_filter_map
      by (intro map_filter_same) (auto simp: ticket entry_iff)
    then show ?thesis
      unfolding world_of_def map_filter_append by (simp add: map_filter_map_None joined_ticket_def)
  qed
  then have "mset (List.map_filter ?f (pf_join E (world_of E st))) = mset (queue_tickets E st mode region)"
    using map_filter_mset [OF join [of "world_of E st"], of ?f] by (simp add: queue_tickets_def)
  then show ?thesis by (simp add: ecs_tickets_def)
qed

section \<open>No result depends on the order of joins\<close>

definition tickets_distinct :: "authority \<Rightarrow> bool" where
  "tickets_distinct st \<longleftrightarrow> distinct (map tr_id (bm_values (au_tickets st)))"

lemma queue_tickets_distinct: "tickets_distinct st \<Longrightarrow> distinct (map pt_id (queue_tickets E st mode region))"
proof -
  have id: "queue_ticket E st mode region e = Some t \<Longrightarrow> pt_id t = tr_id (snd e)" for e t
    by (auto simp: queue_ticket_def Let_def split: prod.splits option.splits if_splits)
  have "distinct (map (tr_id \<circ> snd) es) \<Longrightarrow> distinct (map pt_id (List.map_filter (queue_ticket E st mode region) es))" for es
  proof (induction es)
    case (Cons e es)
    have "pt_id t \<notin> pt_id ` set (List.map_filter (queue_ticket E st mode region) es)"
      if "queue_ticket E st mode region e = Some t" for t
    proof
      assume "pt_id t \<in> pt_id ` set (List.map_filter (queue_ticket E st mode region) es)"
      then obtain e' u where "e' \<in> set es" "queue_ticket E st mode region e' = Some u" "pt_id t = pt_id u"
        by (auto simp: in_set_map_filter)
      then have "tr_id (snd e) = (tr_id \<circ> snd) e'" using id [OF that] id [of e' u] by simp
      then have "tr_id (snd e) \<in> (tr_id \<circ> snd) ` set es" using \<open>e' \<in> set es\<close> by (rule image_eqI)
      with Cons.prems show False by simp
    qed
    with Cons show ?case by (simp add: List.map_filter_simps split: option.split)
  qed (simp add: List.map_filter_simps)
  then show "tickets_distinct st \<Longrightarrow> ?thesis"
    by (simp add: tickets_distinct_def queue_tickets_def bm_values_def)
qed

lemma same_tickets:
  assumes "mset ts = mset us" "distinct (map pt_id us)"
  shows "ticket_valid st ts = ticket_valid st us" "selected_parties c ts = selected_parties c us"
proof -
  have set: "set ts = set us" using assms(1) by (rule mset_eq_setD)
  then show "ticket_valid st ts = ticket_valid st us" by (intro ext) (simp add: ticket_valid_def list_ex_iff)
  have "distinct (map pt_id ts)" using assms mset_eq_imp_distinct_iff [of "map pt_id ts" "map pt_id us"] by (simp add: mset_map)
  have found: "find (\<lambda>t. pt_id t = i) xs = Some t \<longleftrightarrow> t \<in> set xs \<and> pt_id t = i" if "distinct (map pt_id xs)" for i t xs
    using that by (induction xs) auto
  then have "find (\<lambda>t. pt_id t = i) ts = Some t \<longleftrightarrow> find (\<lambda>t. pt_id t = i) us = Some t" for i t
    using found [of ts i t] found [of us i t] assms(2) \<open>distinct (map pt_id ts)\<close> set by simp
  then have "find (\<lambda>t. pt_id t = i) ts = find (\<lambda>t. pt_id t = i) us" for i by (metis not_None_eq)
  then show "selected_parties c ts = selected_parties c us" by (simp add: selected_parties_def)
qed

lemma commit_same_tickets:
  assumes "mset ts = mset us" "distinct (map pt_id us)"
  shows "commit_candidates E ts cs st = commit_candidates E us cs st"
  using same_tickets [OF assms] by (induction cs arbitrary: st) (simp_all add: commit_candidate_def Let_def case_prod_unfold)

text \<open>Creating proposals never joins.\<close>

lemma commit_join: "commit_candidates (E\<lparr>pf_join := j\<rparr>) ts cs st = commit_candidates E ts cs st"
proof -
  have noted: "send_event_noted (E\<lparr>pf_join := j\<rparr>) = send_event_noted E" by (simp add: fun_eq_iff send_event_noted_def)
  have "commit_candidate (E\<lparr>pf_join := j\<rparr>) = commit_candidate E"
    by (simp add: fun_eq_iff commit_candidate_def store_proposal_def announce_def noted observe_commit_def [abs_def]
        oldest_queued_since_def [abs_def])
  then show ?thesis by (induction cs arbitrary: st) (simp_all add: Let_def case_prod_unfold)
qed

lemma rebuild_join: "rebuild_ecs (E\<lparr>pf_join := j\<rparr>) st = rebuild_ecs E st"
proof -
  have "ticket_entity (E\<lparr>pf_join := j\<rparr>) st = ticket_entity E st"
    by (simp add: fun_eq_iff ticket_entity_def waited_seconds_def)
  then show ?thesis by (simp add: rebuild_ecs_def world_of_def)
qed

lemma batch_from_queue:
  assumes join: "\<And>w. mset (pf_join E w) = mset w" and "parties_keyed st" "tickets_distinct st"
  shows "attempt_match_batch E mode region st =
    (if \<not> feasible (au_registry st) mode region then (0, st)
     else commit_candidates E (queue_tickets E st mode region)
       (generate (build_for_mode mode) 1024 (snapshot_new (queue_tickets E st mode region)))
       (on_metrics (\<lambda>m. m\<lparr>mt_candidate_compute_us := hist_observe (pf_elapsed_us E) (mt_candidate_compute_us m)\<rparr>) (rebuild_ecs E st)))"
proof -
  note same = ecs_tickets_queue [OF join assms(2), of mode region]
  have dist: "distinct (map pt_id (queue_tickets E st mode region))" by (rule queue_tickets_distinct [OF assms(3)])
  then have "distinct (map pt_id (ecs_tickets E (rebuild_ecs E st) mode region))"
    using mset_eq_imp_distinct_iff [of "map pt_id (ecs_tickets E (rebuild_ecs E st) mode region)"
        "map pt_id (queue_tickets E st mode region)"] same by (simp add: mset_map)
  from snapshot_new_order [OF same this] commit_same_tickets [OF same dist] show ?thesis
    by (simp add: attempt_match_batch_def Let_def)
qed

end
