(* ===== verification/Samples.thy ===== *)
theory Samples
  imports Authority_Effects Queue_Refinement Registry_Laws
begin

text \<open>
  Concrete values: two tickets and their candidate, a proposal, a party, a game server, and a
  platform. The properties are applied to them where a property has hypotheses.
\<close>

definition ticket_1 :: party_ticket where
  "ticket_1 = \<lparr>pt_id = UuidId 1, pt_party = UuidId 11, pt_members = [UuidId 21], pt_ratings = [1000],
     pt_effective_rating = 1000, pt_enqueued_at = 5, pt_revision = 1, pt_region = lit ''tw'',
     pt_mode = OneVsOne, pt_search_delta = 100, pt_wait_seconds = 0\<rparr>"

definition ticket_2 :: party_ticket where
  "ticket_2 = ticket_1\<lparr>pt_id := UuidId 2, pt_party := UuidId 12, pt_members := [UuidId 22],
     pt_ratings := [1040], pt_effective_rating := 1040, pt_enqueued_at := 7\<rparr>"

definition duel :: candidate where
  "duel = \<lparr>cd_tickets = [UuidId 1, UuidId 2], cd_teams = [[UuidId 21], [UuidId 22]],
     cd_oldest_enqueued_at = 5, cd_quality_key = (40, 0, 0), cd_owner_shard = 0\<rparr>"

lemma duel_generated: "generate (build_for_mode OneVsOne) 8 [ticket_1, ticket_2] = [duel]"
  by code_simp

definition duel_proposal :: proposal where
  "duel_proposal = from_candidate duel (bm_of_list [(UuidId 21, UuidId 11), (UuidId 22, UuidId 12)]) 1000 15000 (UuidId 7)"

definition refused_duel :: proposal where
  "refused_duel = proposal_run [Answer (UuidId 21) False] duel_proposal"

definition pair :: party where
  "pair = \<lparr>pa_id = UuidId 11, pa_name = lit ''pair'', pa_leader = UuidId 21, pa_members = [UuidId 21, UuidId 22],
     pa_revision = 4, pa_state = PIdle\<rparr>"

definition game_host :: game_server where
  "game_host = \<lparr>gs_id = UuidId 40, gs_generation = 3, gs_endpoint = lit ''host:9'', gs_region = lit ''tw'',
     gs_modes = {OneVsOne}, gs_capacity_total = 10, gs_capacity_used = 0, gs_max_instances = 2,
     gs_mode_costs = bm_insert OneVsOne 4 bm_empty, gs_last_heartbeat = 900, gs_health = Healthy,
     gs_failures = 0, gs_instances = bm_empty\<rparr>"

definition hosts :: registry where
  "hosts = bm_insert (UuidId 40) game_host bm_empty"

definition busy_host :: game_server where
  "busy_host = game_host\<lparr>gs_capacity_used := 4, gs_instances := bm_insert (UuidId 5) \<lparr>in_match_id = UuidId 5,
     in_cost = 4, in_state = InReserved, in_endpoint = None, in_connection_token = None\<rparr> bm_empty\<rparr>"

definition busy_hosts :: registry where
  "busy_hosts = bm_insert (UuidId 40) busy_host bm_empty"

definition limits :: server_limits where
  "limits = \<lparr>sl_max_capacity = 10, sl_max_instances = 2\<rparr>"

lemma host_text: "\<not> blank (lit ''host:9'')" "\<not> blank (lit ''tw'')"
  by (simp_all add: blank_iff lit_def is_whitespace_def)

lemma host_registered: "register game_host limits bm_empty = (Inr (), hosts)"
  by (simp add: register_def registration_invalid_def hosts_def game_host_def limits_def bm_keys_def bm_values_def
      bm_size_def host_text)

lemma host_reserved: "reserve (UuidId 5) OneVsOne (lit ''tw'') hosts = Some (Inr (UuidId 40), busy_hosts)"
  by code_simp

lemma host_lookup: "bm_get hosts (UuidId 40) = Some game_host" "bm_get busy_hosts (UuidId 40) = Some busy_host"
  by (simp_all add: hosts_def busy_hosts_def)

lemma hosts_ok: "registry_ok hosts" "registry_ok busy_hosts"
  by (simp_all add: hosts_def busy_hosts_def busy_host_def game_host_def registry_ok_insert server_ok_def)

definition plain_text :: unicode_env where
  "plain_text = \<lparr>ue_nfc = (\<lambda>s. s), ue_alphanumeric = (\<lambda>c. 48 \<le> c \<and> c < 123)\<rparr>"

text \<open>A configuration with small queues, and identifiers printed as sixteen bytes.\<close>

definition small_config :: erps_config where
  "small_config = \<lparr>
     ec_deterministic_seed = 7, ec_command_queue_capacity = 4,
     ec_event_queue_capacity = 4, ec_control_queue_capacity = 4, ec_batch_window_ms = 3,
     ec_initial_elo_delta = 100, ec_elo_step = 50, ec_elo_step_seconds = 5,
     ec_maximum_elo_delta = 600, ec_max_party_rating_spread = 600,
     ec_party_size_rating_adjustment = 10, ec_party_spread_rating_adjustment = 1,
     ec_elo_established_k = Fin 20, ec_elo_provisional_k = Fin 40, ec_elo_provisional_matches = 10,
     ec_elo_maximum_match_delta = 40, ec_ready_timeout_seconds = 15,
     ec_placement_timeout_seconds = 15, ec_disconnect_grace_seconds = 30,
     ec_reject_credit_penalty = 2, ec_timeout_credit_penalty = 5, ec_minimum_credit = 60,
     ec_credit_suspension_base_seconds = 60, ec_heartbeat_interval_seconds = 2,
     ec_unhealthy_after_missed = 3, ec_lost_after_seconds = 10,
     ec_allow_development_plaintext = False, ec_drain_mode = False,
     ec_graceful_shutdown_seconds = 10, ec_tls_certificate_path = None,
     ec_tls_private_key_path = None, ec_server_classes = bm_empty\<rparr>"

unbundle bit_operations_syntax

definition byte_codec :: uuid_codec where
  "byte_codec = \<lparr>uc_parse = (\<lambda>s. Some (fold (\<lambda>b a. push_bit 8 a OR of_nat b) s 0)),
     uc_show = (\<lambda>u. map (\<lambda>i. unat (drop_bit (8 * i) u AND 255)) (rev [0..<16]))\<rparr>"

definition site :: platform where
  "site = \<lparr>pf_uuid = byte_codec, pf_unicode = plain_text, pf_f64 = \<lparr>fe_fl = Fin, fe_pow10 = (\<lambda>_. Fin 1)\<rparr>, pf_join = (\<lambda>es. es),
     pf_now = 1000, pf_elapsed_us = 5, pf_event_backlog = (\<lambda>_. 0)\<rparr>"

definition request_1 :: mutation_meta where
  "request_1 = \<lparr>mm_api = Some \<lparr>av_major = 1, av_minor = 0, av_capabilities = []\<rparr>, mm_request_id = lit ''r'', mm_session_token = lit ''t''\<rparr>"

definition signed_in :: authority where
  "signed_in = (authority_new small_config metrics_new)\<lparr>au_sessions := bm_insert (lit ''t'') (UuidId 21) bm_empty\<rparr>"

text \<open>Two players in a ready check that has succeeded, with a server that is connected; and the
  same two during their match.\<close>

definition queued :: "ticket_id \<Rightarrow> ticket_record" where
  "queued i = \<lparr>tr_id = i, tr_mode = OneVsOne, tr_regions = [lit ''tw''], tr_enqueued_at = 3, tr_queued_since_ms = 500\<rparr>"

definition solo :: "party_id \<Rightarrow> player_id \<Rightarrow> party" where
  "solo i p = \<lparr>pa_id = i, pa_name = lit ''solo'', pa_leader = p, pa_members = [p], pa_revision = 4, pa_state = PAwaitingAccept\<rparr>"

definition placing :: authority where
  "placing = (authority_new small_config metrics_new)\<lparr>au_registry := hosts, au_controls := bm_insert (UuidId 40) 0 bm_empty,
     au_channels := bm_insert 0 \<lparr>ch_capacity = 4, ch_open = True, ch_queue = []\<rparr> bm_empty,
     au_proposals := bm_insert (UuidId 7) duel_proposal bm_empty,
     au_parties := bm_of_list [(UuidId 11, solo (UuidId 11) (UuidId 21)), (UuidId 12, solo (UuidId 12) (UuidId 22))],
     au_proposal_tickets := bm_insert (UuidId 7) [(UuidId 11, queued (UuidId 1)), (UuidId 12, queued (UuidId 2))] bm_empty\<rparr>"

definition playing :: authority where
  "playing = placing\<lparr>au_registry := bm_insert (UuidId 40) (game_host\<lparr>gs_capacity_used := 4, gs_instances :=
      bm_insert (UuidId 5) \<lparr>in_match_id = UuidId 5, in_cost = 4, in_state = InRunning, in_endpoint = None,
        in_connection_token = None\<rparr> bm_empty\<rparr>) bm_empty,
     au_launches := bm_insert (UuidId 5) (UuidId 40, UuidId 7) bm_empty\<rparr>"

definition verdict :: match_result_msg where
  "verdict = \<lparr>mr_match_id = id_to_string byte_codec (UuidId 5 :: match_id), mr_placements =
     [\<lparr>pl_player_id = id_to_string byte_codec (UuidId 21 :: player_id), pl_rank = 1\<rparr>,
      \<lparr>pl_player_id = id_to_string byte_codec (UuidId 22 :: player_id), pl_rank = 2\<rparr>]\<rparr>"

lemma placing_registry: "registry_ok (au_registry placing)"
  by (simp add: placing_def hosts_ok)

lemma playing_ok: "authority_ok playing"
proof -
  have "shaped (pr_teams duel_proposal)" by (simp add: duel_proposal_def duel_def shaped_def)
  then show ?thesis
    by (simp add: playing_def placing_def authority_ok_def registry_ok_insert server_ok_def game_host_def get_insert
        authority_new_def small_config_def rating_policy_of_def i32_policy_def)
qed

end
