(* ===== verification/Matching_Properties.thy ===== *)
theory Matching_Properties
  imports Samples
begin

text \<open>
  The properties of candidate generation: claims, selections of tickets, shapes of teams, the
  exhaustive search for groups, shards, search windows and the ready check.
\<close>

section \<open>Claims and candidates\<close>

text \<open>C4: Whatever the order in which candidates reach the claims, and whatever the validity
  checks answer, the committed candidates share no ticket with each other or with the tickets
  claimed before, and exactly their tickets are added to the claims.\<close>

theorem claims_exclusive:
  "sorted_wrt (\<lambda>c d. set (cd_tickets c) \<inter> set (cd_tickets d) = {}) (fst (commit_run cs active))
   \<and> \<Union> ((\<lambda>c. set (cd_tickets c)) ` set (fst (commit_run cs active))) \<inter> active = {}
   \<and> snd (commit_run cs active) = active \<union> \<Union> ((\<lambda>c. set (cd_tickets c)) ` set (fst (commit_run cs active)))"
proof -
  obtain r a where r: "commit_run cs active = (r, a)" by (cases "commit_run cs active")
  show ?thesis using commit_run_active [OF r] commit_run_disjoint [OF r] by (auto simp: r)
qed

text \<open>C23: A candidate that the dispatcher generates is made of tickets of the snapshot (each at
  most as often as it is there): it names exactly their ids, its teams hold exactly their
  members, all of them queue for one region and one mode, and the ratings of any two differ by
  at most the search window of either, for ratings whose differences fit 32 bits.\<close>

theorem generated_candidates_sound:
  assumes "c \<in> set (generate (build_for_mode mode) budget ts)" and "moderate ts"
  shows "\<exists>sel region m. sel \<noteq> [] \<and> mset sel \<subseteq># mset ts \<and> cd_tickets c = map pt_id sel
    \<and> mset (concat (cd_teams c)) = mset (concat (map pt_members sel))
    \<and> (\<forall>t \<in> set sel. pt_region t = region \<and> pt_mode t = m)
    \<and> (\<forall>x \<in> set sel. \<forall>y \<in> set sel. \<bar>pt_effective_rating x - pt_effective_rating y\<bar> \<le> pt_search_delta x)"
proof (rule mode_builder.generate_selection [OF assms(1)])
  fix sel region m
  assume "sel \<noteq> []" "mset sel \<subseteq># mset ts" "made_of c sel"
    "\<forall>t \<in> set sel. pt_region t = region \<and> pt_mode t = m" "moderate ts \<Longrightarrow> within_windows sel"
  with assms(2) show ?thesis unfolding made_of_def within_windows_def by blast
qed

theorem generated_candidates_sound_witness:
  "\<exists>sel region m. sel \<noteq> [] \<and> mset sel \<subseteq># mset [ticket_1, ticket_2] \<and> cd_tickets duel = map pt_id sel
    \<and> mset (concat (cd_teams duel)) = mset (concat (map pt_members sel))
    \<and> (\<forall>t \<in> set sel. pt_region t = region \<and> pt_mode t = m)
    \<and> (\<forall>x \<in> set sel. \<forall>y \<in> set sel. \<bar>pt_effective_rating x - pt_effective_rating y\<bar> \<le> pt_search_delta x)"
  by (rule generated_candidates_sound [of duel OneVsOne 8])
    (simp add: duel_generated, simp add: moderate_def ticket_1_def ticket_2_def)

text \<open>The team sizes of a mode.\<close>

definition team_sizes :: "queue_mode \<Rightarrow> nat list" where
  "team_sizes mode = (case mode of OneVsOne \<Rightarrow> [1, 1] | FiveVsFive \<Rightarrow> [5, 5] | FreeForAll \<Rightarrow> replicate 8 1)"

lemma built_sizes: "c \<in> set (build_for_mode mode ts) \<Longrightarrow> map length (cd_teams c) = team_sizes mode"
proof (cases mode)
  case OneVsOne
  assume "c \<in> set (build_for_mode mode ts)"
  with OneVsOne obtain a b where "one_v_one_pair a b = Some c" "length (pt_members a) = 1" "length (pt_members b) = 1"
    by (auto simp: build_for_mode_def elim: one_v_one_build_in)
  with OneVsOne show ?thesis by (auto simp: team_sizes_def dest: one_v_one_pairD)
next
  case FiveVsFive
  assume "c \<in> set (build_for_mode mode ts)"
  with FiveVsFive show ?thesis by (auto simp: build_for_mode_def team_sizes_def elim: five_build_teams)
next
  case FreeForAll
  assume "c \<in> set (build_for_mode mode ts)"
  with FreeForAll have "c \<in> set (free_for_all_build ts 1024)" by (simp add: build_for_mode_def)
  from ffa_build_teams [OF this] have "map length (cd_teams c) = replicate 8 1"
    by (intro replicate_eqI) auto
  with FreeForAll show ?thesis by (simp add: team_sizes_def)
qed

text \<open>C24: A generated candidate has the teams its mode plays with (two single players, two teams
  of five, or eight single players), and a player stands in it at most as often as in all tickets of the
  snapshot together: provided no player is in two tickets, nobody stands twice in it. (The authority does
  not exclude a player in two tickets: \<open>stranger_in_two_parties\<close>.)\<close>

theorem generated_teams:
  assumes "c \<in> set (generate (build_for_mode mode) budget ts)"
  shows "map length (cd_teams c) = team_sizes mode
    \<and> mset (concat (cd_teams c)) \<subseteq># mset (concat (map pt_members ts))
    \<and> (distinct (concat (map pt_members ts)) \<longrightarrow> distinct (concat (cd_teams c)))"
proof -
  obtain rest c0 owner where "c0 \<in> set (build_for_mode mode rest)" "c = c0\<lparr>cd_owner_shard := owner\<rparr>"
    using assms by (rule generate_built)
  then have "map length (cd_teams c) = team_sizes mode" by (simp add: built_sizes)
  moreover have "mset (concat (cd_teams c)) \<subseteq># mset (concat (map pt_members ts))"
  proof (rule mode_builder.generate_selection [OF assms])
    fix sel
    assume "mset sel \<subseteq># mset ts" "made_of c sel"
    then show ?thesis by (simp add: made_of_def mset_concat_mono)
  qed
  moreover from this have "distinct (concat (map pt_members ts)) \<longrightarrow> distinct (concat (cd_teams c))"
    by (auto intro: distinct_submset)
  ultimately show ?thesis by blast
qed

theorem generated_teams_witness:
  "map length (cd_teams duel) = team_sizes OneVsOne \<and> distinct (concat (cd_teams duel))"
  using generated_teams [of duel OneVsOne 8 "[ticket_1, ticket_2]"]
  by (simp add: duel_generated) (simp add: ticket_1_def ticket_2_def)

section \<open>The search for groups of five\<close>

text \<open>C28: The backtracking search for groups of five players agrees with its declarative
  description, unless the budget stops it: the groups are the strictly increasing index lists
  whose tickets have one to five members each and five in total, no other list is returned, and
  the budget bounds their number.\<close>

theorem groups_exhaustive:
  "length (subsets t 5 budget) \<le> budget
   \<and> set (subsets t 5 budget) \<subseteq> {g. subseq g [0..<length t] \<and> sum_list (map (\<lambda>i. length (pt_members (t ! i))) g) = 5
        \<and> list_all (\<lambda>i. pt_members (t ! i) \<noteq> [] \<and> length (pt_members (t ! i)) \<le> 5) g}
   \<and> (if length (subsets t 5 budget) < budget
      then set (subsets t 5 budget) = {g. subseq g [0..<length t] \<and> sum_list (map (\<lambda>i. length (pt_members (t ! i))) g) = 5
        \<and> list_all (\<lambda>i. pt_members (t ! i) \<noteq> [] \<and> length (pt_members (t ! i)) \<le> 5) g}
      else True)"
proof -
  have spec: "completes t [0..<length t] 5 g \<longleftrightarrow> subseq g [0..<length t] \<and> sum_list (map (\<lambda>i. length (pt_members (t ! i))) g) = 5
        \<and> list_all (\<lambda>i. pt_members (t ! i) \<noteq> [] \<and> length (pt_members (t ! i)) \<le> 5) g" for g
    by (auto simp: completes_def group_size_def ticket_size_def list_all_iff Suc_le_eq cong: map_cong)
  show ?thesis
    using subsets_bound [of t budget] subsets_sound [of _ t budget] subsets_complete [of t budget]
    unfolding spec [symmetric] by auto
qed

section \<open>Shards\<close>


text \<open>C27: The result of a generation is ordered by age, quality, shard and tickets, has at most
  one budget of candidates for each rating bucket, and does not depend on the order in which
  the tickets of the queue were read.\<close>

theorem generation_deterministic:
  assumes "mset ts = mset us" and "distinct (map pt_id ts)"
  shows "generate (build_for_mode mode) budget (snapshot_new ts) = generate (build_for_mode mode) budget (snapshot_new us)
    \<and> sorted (map (\<lambda>c. (cd_oldest_enqueued_at c, cd_quality_key c, cd_owner_shard c, sort (cd_tickets c)))
      (generate (build_for_mode mode) budget (snapshot_new ts)))
    \<and> length (generate (build_for_mode mode) budget (snapshot_new ts))
      \<le> budget * card ((\<lambda>t. (pt_region t, pt_mode t, pt_effective_rating t div 100)) ` set ts)"
proof (intro conjI)
  show "generate (build_for_mode mode) budget (snapshot_new ts) = generate (build_for_mode mode) budget (snapshot_new us)"
    by (simp only: snapshot_new_order [OF assms])
  have order: "candidate_order = (\<lambda>c. (cd_oldest_enqueued_at c, cd_quality_key c, cd_owner_shard c, sort (cd_tickets c)))"
    by (simp add: fun_eq_iff candidate_order_def stable_ticket_ids_def)
  show "sorted (map (\<lambda>c. (cd_oldest_enqueued_at c, cd_quality_key c, cd_owner_shard c, sort (cd_tickets c)))
      (generate (build_for_mode mode) budget (snapshot_new ts)))"
    unfolding order [symmetric] by (rule generate_sorted)
  have owner: "owner_of = (\<lambda>t. (pt_region t, pt_mode t, pt_effective_rating t div 100))"
    by (simp add: fun_eq_iff owner_of_def)
  show "length (generate (build_for_mode mode) budget (snapshot_new ts))
      \<le> budget * card ((\<lambda>t. (pt_region t, pt_mode t, pt_effective_rating t div 100)) ` set ts)"
    using generate_length [of "build_for_mode mode" budget "snapshot_new ts"] unfolding owner by simp
qed

theorem generation_deterministic_witness:
  "generate (build_for_mode OneVsOne) 8 (snapshot_new [ticket_1, ticket_2])
     = generate (build_for_mode OneVsOne) 8 (snapshot_new [ticket_2, ticket_1])"
  by (rule generation_deterministic [THEN conjunct1]) (simp_all add: ticket_1_def ticket_2_def)

text \<open>The search window of a ticket never shrinks while it waits, and never exceeds the
  configured maximum.\<close>

lemma search_window_grows:
  assumes "0 \<le> step" and "now \<le> now'"
  shows "search_delta initial step step_seconds maximum enqueued now \<le> search_delta initial step step_seconds maximum enqueued now'
    \<and> search_delta initial step step_seconds maximum enqueued now' \<le> maximum"
  using search_delta_mono [OF assms] search_delta_max by blast

lemma search_window_grows_witness:
  "search_delta 100 50 5 600 0 10 \<le> search_delta 100 50 5 600 0 60 \<and> search_delta 100 50 5 600 0 60 \<le> 600"
  using search_window_grows [of 50 10 60 100 5 600 0] by simp

section \<open>The ready check\<close>

text \<open>C29: A proposal made from a candidate goes on to placement only if every player of its
  teams has accepted it himself, and once it is decided, to be placed or cancelled, no further answer
  and no clock reading changes it. (These are the proposal's own operations. The authority can still cancel
  one that waits for its placement, when a player stays away too long or no server is found in time.)\<close>

theorem ready_check_unanimous:
  fixes c parties now timeout i
  defines "p \<equiv> from_candidate c parties now timeout i"
  assumes "pr_state (proposal_run es p) \<noteq> AwaitingAccept"
  shows "(pr_state (proposal_run es p) = AwaitingPlacement \<longrightarrow> (\<forall>k \<in> set (concat (cd_teams c)). Answer k True \<in> set es))
    \<and> proposal_run (es @ fs) p = proposal_run es p"
proof (intro conjI impI ballI)
  fix k
  assume placed: "pr_state (proposal_run es p) = AwaitingPlacement" and k: "k \<in> set (concat (cd_teams c))"
  have wf: "proposal_wf (proposal_run es p)" unfolding p_def by (rule proposal_wf_run [OF proposal_wf_new])
  have pending: "bm_get (pr_responses p) k = Some Pending" using k by (simp only: p_def get_from_candidate) simp
  then have "bm_get (pr_responses (proposal_run es p)) k \<noteq> None" by (simp add: proposal_run_keys)
  then obtain s where s: "bm_get (pr_responses (proposal_run es p)) k = Some s" by blast
  then have "s \<in> set (bm_values (pr_responses (proposal_run es p)))" by (auto simp: values_iff)
  with wf placed have "s = Accepted" by (simp add: proposal_wf_def)
  with s have "bm_get (pr_responses (proposal_run es p)) k = Some Accepted" by simp
  from proposal_run_accepted [OF this] pending show "Answer k True \<in> set es" by simp
next
  have "proposal_run fs q = q" if "pr_state q \<noteq> AwaitingAccept" for q
    using that by (induction fs) (simp_all add: proposal_decided)
  with assms(2) show "proposal_run (es @ fs) p = proposal_run es p" by simp
qed

lemma duel_accepted:
  "pr_state (proposal_run [Answer (UuidId 21) True, Answer (UuidId 22) True]
     (from_candidate duel bm_empty 1000 15000 (UuidId 7))) = AwaitingPlacement"
  by code_simp

theorem ready_check_unanimous_witness:
  "Answer (UuidId 22) True \<in> set [Answer (UuidId 21) True, Answer (UuidId 22) True]
   \<and> proposal_run ([Answer (UuidId 21) True, Answer (UuidId 22) True] @ [Clock 20000])
       (from_candidate duel bm_empty 1000 15000 (UuidId 7))
     = proposal_run [Answer (UuidId 21) True, Answer (UuidId 22) True]
         (from_candidate duel bm_empty 1000 15000 (UuidId 7))"
  using ready_check_unanimous [of "[Answer (UuidId 21) True, Answer (UuidId 22) True]" duel bm_empty 1000 15000
      "UuidId 7" "[Clock 20000]"] duel_accepted by simp

text \<open>At every moment the state of a proposal is determined by its answers: to be placed
  means all accepted, waiting means nobody refused and somebody has not answered, cancelled
  means a refusal or a timeout; and the players asked are those of the teams.\<close>

lemma ready_check_invariant:
  "let p = proposal_run es (from_candidate c parties now timeout i); answers = set (bm_values (pr_responses p)) in
     (case pr_state p of
        AwaitingPlacement \<Rightarrow> answers = {Accepted}
      | AwaitingAccept \<Rightarrow> answers \<subseteq> {Pending, Accepted} \<and> answers \<noteq> {Accepted}
      | Cancelled \<Rightarrow> answers = {} \<or> Rejected \<in> answers \<or> TimedOut \<in> answers)
     \<and> set (bm_keys (pr_responses p)) = set (concat (cd_teams c)) \<and> pr_id p = i"
proof -
  let ?q = "from_candidate c parties now timeout i"
  have "proposal_wf (proposal_run es ?q)" by (rule proposal_wf_run [OF proposal_wf_new])
  moreover have "k \<in> set (bm_keys (pr_responses (proposal_run es ?q))) \<longleftrightarrow> k \<in> set (concat (cd_teams c))" for k
    by (simp only: keys_iff proposal_run_keys get_from_candidate) simp
  moreover have "pr_id (proposal_run es q) = pr_id q" for q by (induction es arbitrary: q) simp_all
  ultimately show ?thesis
    by (auto simp: proposal_wf_def Let_def from_candidate_def split: proposal_state.splits)
qed

text \<open>What a cancellation decides for a player: he goes back to the queue exactly if
  neither he nor a player of his party refused or let the time pass, and he is charged exactly
  if he did so himself and the cause is not the infrastructure.\<close>

lemma cancellation_fair:
  assumes "d \<in> set (cancellation_decisions p infra)"
  shows "(rd_requeue d \<longleftrightarrow> \<not> (\<exists>q s. bm_get (pr_responses p) q = Some s \<and> (s = Rejected \<or> s = TimedOut)
        \<and> (q = rd_player d \<or> (\<exists>party. bm_get (pr_parties p) q = Some party \<and> bm_get (pr_parties p) (rd_player d) = Some party))))
    \<and> (rd_credit_cause d \<in> {Some CRejected, Some CTimedOut}
       \<longleftrightarrow> \<not> infra \<and> bm_get (pr_responses p) (rd_player d) \<in> {Some Rejected, Some TimedOut})"
proof -
  obtain s where s: "bm_get (pr_responses p) (rd_player d) = Some s"
    "rd_party_not_ready d = (\<exists>party. bm_get (pr_parties p) (rd_player d) = Some party \<and> party \<in> set (failed_parties p))"
    "rd_requeue d = (\<not> rd_party_not_ready d \<and> \<not> failed_response s)"
    "rd_credit_cause d = (if infra then Some InfrastructureFailure else if s = Rejected then Some CRejected
           else if s = TimedOut then Some CTimedOut else None)"
    using decision_in [OF assms] by blast
  then show ?thesis by (auto simp: failed_parties_iff failed_response_def)
qed

definition innocent :: requeue_decision where
  "innocent = \<lparr>rd_player = UuidId 22, rd_requeue = True, rd_party_not_ready = False, rd_credit_cause = None\<rparr>"

lemma innocent_decided: "innocent \<in> set (cancellation_decisions refused_duel False)"
  by code_simp

lemma cancellation_fair_witness:
  "\<not> (\<exists>q s. bm_get (pr_responses refused_duel) q = Some s \<and> (s = Rejected \<or> s = TimedOut)
        \<and> (q = UuidId 22 \<or> (\<exists>party. bm_get (pr_parties refused_duel) q = Some party
          \<and> bm_get (pr_parties refused_duel) (UuidId 22) = Some party)))"
  using cancellation_fair [OF innocent_decided] unfolding innocent_def requeue_decision.simps by blast

end
