(* ===== verification/Session.thy ===== *)
theory Session
  imports Components
begin

text \<open>
  \<open>core/src/session.rs\<close> (sessions with a reconnect grace period) and
  \<open>core/src/command.rs\<close> (deterministic ordering of command envelopes and the cache that makes
  requests idempotent). A fresh \<open>SessionId\<close> is random in the code, so it is an argument here.
\<close>

section \<open>Sessions\<close>

record session =
  se_id :: session_id
  se_player :: player_id
  se_disconnected_at :: "u64 option"

type_synonym sessions = "(session_id, session) bmap"

definition sess_connect :: "session_id \<Rightarrow> player_id \<Rightarrow> sessions \<Rightarrow> session_id \<times> sessions" where
  "sess_connect fresh player s =
     (fresh, bm_insert fresh \<lparr>se_id = fresh, se_player = player, se_disconnected_at = None\<rparr> s)"

definition sess_disconnect :: "session_id \<Rightarrow> u64 \<Rightarrow> sessions \<Rightarrow> sessions" where
  "sess_disconnect sid now s = bm_update sid (\<lambda>x. x\<lparr>se_disconnected_at := Some now\<rparr>) s"

definition sess_reconnect :: "session_id \<Rightarrow> u64 \<Rightarrow> u64 \<Rightarrow> sessions \<Rightarrow> bool \<times> sessions" where
  "sess_reconnect sid now grace s = (case bm_get s sid of
      None \<Rightarrow> (False, s)
    | Some x \<Rightarrow>
        if (case se_disconnected_at x of None \<Rightarrow> False | Some at \<Rightarrow> sat_sub now at \<le> grace)
        then (True, bm_insert sid (x\<lparr>se_disconnected_at := None\<rparr>) s)
        else (False, s))"

definition expired_players :: "u64 \<Rightarrow> u64 \<Rightarrow> sessions \<Rightarrow> player_id list" where
  "expired_players now grace s =
     List.map_filter (\<lambda>x. case se_disconnected_at x of
         None \<Rightarrow> None
       | Some at \<Rightarrow> if sat_sub now at > grace then Some (se_player x) else None)
     (bm_values s)"

definition session_wf :: "sessions \<Rightarrow> bool" where
  "session_wf s \<longleftrightarrow> (\<forall>sid x. bm_get s sid = Some x \<longrightarrow> se_id x = sid)"

lemma session_wf_empty: "session_wf bm_empty"
  by (simp add: session_wf_def)

lemma session_wf_connect: "session_wf s \<Longrightarrow> session_wf (snd (sess_connect f p s))"
  by (auto simp: session_wf_def sess_connect_def get_insert)

lemma session_wf_disconnect: "session_wf s \<Longrightarrow> session_wf (sess_disconnect i now s)"
  by (auto simp: session_wf_def sess_disconnect_def get_update split: if_splits)

lemma session_wf_reconnect: "session_wf s \<Longrightarrow> session_wf (snd (sess_reconnect i now g s))"
  by (auto simp: session_wf_def sess_reconnect_def get_insert split: option.splits)

lemma expired_players_iff:
  "p \<in> set (expired_players now grace s) \<longleftrightarrow>
    (\<exists>sid x at. bm_get s sid = Some x \<and> se_player x = p \<and> se_disconnected_at x = Some at
       \<and> grace < sat_sub now at)"
  by (force simp: expired_players_def List.map_filter_def values_iff split: option.splits if_splits)

section \<open>Commands\<close>

record 'c command_envelope =
  ce_sequence :: u64
  ce_request_id :: rstr
  ce_session :: session_id
  ce_player :: player_id
  ce_command :: 'c

definition command_key :: "'c command_envelope \<Rightarrow> u64 \<times> player_id \<times> rstr" where
  "command_key e = (ce_sequence e, ce_player e, ce_request_id e)"

definition sort_commands :: "'c command_envelope list \<Rightarrow> 'c command_envelope list" where
  "sort_commands cs = sort_key command_key cs"

type_synonym 'r request_cache = "(session_id \<times> rstr, 'r) bmap"

definition cache_get :: "'r request_cache \<Rightarrow> session_id \<Rightarrow> rstr \<Rightarrow> 'r option" where
  "cache_get c s r = bm_get c (s, r)"

definition cache_record :: "session_id \<Rightarrow> rstr \<Rightarrow> 'r \<Rightarrow> 'r request_cache \<Rightarrow> 'r \<times> 'r request_cache" where
  "cache_record s r v c = (v, bm_insert (s, r) v c)"

text \<open>
  Running a batch against the cache: a request that was answered before gets its first answer,
  a new one is executed and remembered.
\<close>

definition run_cached :: "session_id \<Rightarrow> rstr \<Rightarrow> ('s \<Rightarrow> 'r \<times> 's) \<Rightarrow> 'r request_cache \<times> 's
    \<Rightarrow> 'r \<times> 'r request_cache \<times> 's" where
  "run_cached s r f cs = (case cache_get (fst cs) s r of
      Some v \<Rightarrow> (v, cs)
    | None \<Rightarrow> (let (v, st) = f (snd cs); (w, c) = cache_record s r v (fst cs) in (w, c, st)))"

lemma run_cached_again:
  "run_cached s r f cs = (v, cs') \<Longrightarrow> run_cached s r g cs' = (v, cs')"
  by (auto simp: run_cached_def cache_get_def cache_record_def split: option.splits prod.splits)

lemma sort_commands_mset [simp]: "mset (sort_commands cs) = mset cs"
  by (simp add: sort_commands_def)

lemma sort_commands_sorted: "sorted (map command_key (sort_commands cs))"
  by (simp add: sort_commands_def)

lemma sort_commands_arrival_order:
  "mset cs = mset ds \<Longrightarrow> inj_on command_key (set cs) \<Longrightarrow> sort_commands cs = sort_commands ds"
  unfolding sort_commands_def by (rule sort_key_perm_eq)

end
