(* ===== verification/Service_Properties.thy ===== *)
theory Service_Properties
  imports Samples Session Resources Registry_Laws
begin

text \<open>
  The properties of the components around the matcher: parties and invitations, credit,
  sessions, commands, profiles, identifiers, configuration, ratings, the registry of servers
  and the placement, and the measurements.
\<close>

section \<open>Parties\<close>

datatype party_event = Rename player_id u64 rstr | Join player_id | Kick player_id u64 player_id | Leave player_id

text \<open>A party lives until the last member has left it.\<close>

definition party_step :: "unicode_env \<Rightarrow> party_event \<Rightarrow> party \<Rightarrow> party option" where
  "party_step u e p = (case e of
      Rename actor rv name \<Rightarrow> Some (snd (party_rename u actor rv name p))
    | Join player \<Rightarrow> Some (snd (party_join player p))
    | Kick actor rv player \<Rightarrow> Some (snd (party_kick actor rv player p))
    | Leave player \<Rightarrow> (case party_leave player p of (Inr True, _) \<Rightarrow> None | (_, q) \<Rightarrow> Some q))"

definition party_sound :: "unicode_env \<Rightarrow> party \<Rightarrow> bool" where
  "party_sound u p \<longleftrightarrow> pa_leader p \<in> set (pa_members p) \<and> distinct (pa_members p) \<and> sorted (pa_members p)
     \<and> 1 \<le> length (pa_name p) \<and> length (pa_name p) \<le> 24 \<and> list_all (ue_alphanumeric u) (pa_name p)"

lemma normalized_name:
  "normalize_name u s = Inr n \<Longrightarrow> 1 \<le> length n \<and> length n \<le> 24 \<and> list_all (ue_alphanumeric u) n"
  by (auto simp: normalize_name_def Let_def split: if_splits)

lemma party_step_sound: "party_sound u p \<Longrightarrow> party_step u e p = Some q \<Longrightarrow> party_sound u q"
proof (cases e)
  case (Rename actor rv name)
  assume "party_sound u p" "party_step u e p = Some q"
  with Rename show ?thesis
    by (auto simp: party_step_def party_rename_def party_sound_def dest!: normalized_name split: sum.splits)
next
  case (Leave player)
  assume p: "party_sound u p" "party_step u e p = Some q"
  obtain rest where rest: "filter (\<lambda>m. m \<noteq> player) (pa_members p) = rest" "distinct rest" "sorted rest"
    "set rest = set (pa_members p) - {player}"
    using p(1) by (force simp: party_sound_def sorted_wrt_filter)
  with Leave p show ?thesis
    by (cases rest) (auto simp: party_step_def party_leave_def party_sound_def Let_def split: if_splits)
qed (auto simp: party_step_def party_join_def party_kick_def party_sound_def editable_def sorted_wrt_filter
    distinct_insort split: sum.splits if_splits)

text \<open>C34: From its creation on, whatever members and strangers do to a party (rename, join, kick,
  leave, with current or stale revisions), it has a leader who is a member, no member twice,
  its members in canonical order, and a name of 1 to 24 admissible characters.\<close>

theorem party_always_sound:
  assumes "party_new u i leader name = Inr p" and "fold_opt (party_step u) es p = Some q"
  shows "pa_leader q \<in> set (pa_members q) \<and> distinct (pa_members q) \<and> sorted (pa_members q)
    \<and> 1 \<le> length (pa_name q) \<and> length (pa_name q) \<le> 24 \<and> list_all (ue_alphanumeric u) (pa_name q)"
proof -
  have "party_sound u p" using assms(1) by (auto simp: party_new_def party_sound_def dest!: normalized_name split: sum.splits)
  moreover have "party_sound u p \<Longrightarrow> fold_opt (party_step u) es p = Some q \<Longrightarrow> party_sound u q" for p
    by (induction es arbitrary: p) (auto split: option.splits dest: party_step_sound)
  ultimately show ?thesis using assms(2) by (simp add: party_sound_def)
qed

definition duo :: party where
  "duo = \<lparr>pa_id = UuidId 11, pa_name = lit ''duo'', pa_leader = UuidId 22, pa_members = [UuidId 22],
     pa_revision = 2, pa_state = PIdle\<rparr>"

lemma duo_made:
  "party_new plain_text (UuidId 11) (UuidId 21) (lit ''duo'') = Inr (duo\<lparr>pa_leader := UuidId 21,
     pa_members := [UuidId 21], pa_revision := 0\<rparr>)"
  "fold_opt (party_step plain_text) [Join (UuidId 22), Leave (UuidId 21)] (duo\<lparr>pa_leader := UuidId 21,
     pa_members := [UuidId 21], pa_revision := 0\<rparr>) = Some duo"
  by code_simp+

theorem party_always_sound_witness: "pa_leader duo \<in> set (pa_members duo) \<and> distinct (pa_members duo)"
  using party_always_sound [OF duo_made] by blast

text \<open>Two edits of a party (renaming, kicking) prepared against the same revision never both
  succeed: after the first one the second is refused and changes nothing.\<close>

lemma concurrent_edits_conflict:
  assumes "(case edit of Inl name \<Rightarrow> party_rename u actor base name p | Inr player \<Rightarrow> party_kick actor base player p) = (Inr r, q)"
  shows "\<exists>err. (case edit' of Inl name \<Rightarrow> party_rename u actor' base name q | Inr player \<Rightarrow> party_kick actor' base player q) = (Inl err, q)"
proof -
  have "base = pa_revision p \<and> pa_revision q = pa_revision p + 1"
  proof (cases edit)
    case (Inl name)
    then have e: "(\<lambda>(actor, name) r. party_rename u actor r name) (actor, name) base p = (Inr r, q)" using assms by simp
    show ?thesis using rename_edit.edit_base [OF e] rename_edit.law_bump [OF e] by simp
  next
    case (Inr player)
    then have e: "(\<lambda>(actor, player) r. party_kick actor r player) (actor, player) base p = (Inr r, q)" using assms by simp
    show ?thesis using kick_edit.edit_base [OF e] kick_edit.law_bump [OF e] by simp
  qed
  then have stale: "base \<noteq> pa_revision q" by simp
  show ?thesis
  proof (cases edit')
    case (Inl name)
    then show ?thesis using rename_edit.law_stale [OF stale, where a = "(actor', name)"] by simp
  next
    case (Inr player)
    then show ?thesis using kick_edit.law_stale [OF stale, where a = "(actor', player)"] by simp
  qed
qed

lemma concurrent_edits_conflict_witness:
  "\<exists>err. party_rename plain_text (UuidId 21) 4 (lit ''other'') (pair\<lparr>pa_members := [UuidId 21], pa_revision := 5\<rparr>)
     = (Inl err, pair\<lparr>pa_members := [UuidId 21], pa_revision := 5\<rparr>)"
  using concurrent_edits_conflict [where edit = "Inr (UuidId 22)" and u = plain_text and actor = "UuidId 21" and base = 4 and p = pair
      and r = "()" and q = "pair\<lparr>pa_members := [UuidId 21], pa_revision := 5\<rparr>" and edit' = "Inl (lit ''other'')"
      and actor' = "UuidId 21"]
  by (simp add: pair_def party_kick_def editable_def)

text \<open>An invitation made for n uses (at least one) lets at most n players into its party,
  whenever they come, and none after it has expired.\<close>

lemma invitation_bounded:
  "let s1 = snd (invite_create token party now ttl uses s) in
     fst (consume_run token moments s1) \<le> max (unat uses) 1
     \<and> (if later \<le> sat_add now ttl then fst (invite_consume token later s1) = Some party
        else invite_consume token later s1 = (None, s1))"
proof -
  let ?s1 = "snd (invite_create token party now ttl uses s)"
  have get: "bm_get ?s1 token = Some \<lparr>in_party = party, in_expires_at = sat_add now ttl, in_remaining_uses = max uses 1\<rparr>"
    by (simp add: invite_create_def)
  have uses: "unat (max uses 1) = max (unat uses) 1" by (simp add: max_def word_le_nat_alt)
  then have "max uses 1 \<noteq> 0" by (metis max.cobounded2 not_one_le_zero unsigned_0)
  then have "if later \<le> sat_add now ttl then fst (invite_consume token later ?s1) = Some party
      else invite_consume token later ?s1 = (None, ?s1)"
    by (simp add: invite_consume_def get not_le del: snd_conv)
  with consume_run_le [OF get, of moments] show ?thesis by (simp add: uses Let_def)
qed

section \<open>Credit\<close>

text \<open>The credit score after any event, as a number: a completed match restores one point
  once enough matches were completed, refusals and timeouts subtract their penalty and stop at
  zero, and the score never exceeds 100.\<close>

lemma credit_exact:
  "unat (co_score (credit_apply score violations completed cause p)) =
    (if cause = CompletedMatch \<and> cp_recovery_matches p \<le> completed + 1 then min (unat score + 1) 100
     else min (unat score) 100 - (case cause of CRejected \<Rightarrow> unat (cp_reject_penalty p)
       | CTimedOut \<Rightarrow> unat (cp_timeout_penalty p) | _ \<Rightarrow> 0))
   \<and> unat (co_score (credit_apply score violations completed cause p)) \<le> 100"
  using credit_score_unat [of score violations completed cause p] credit_score_le_100 [of score violations completed cause p]
  by (simp add: penalty_def cong: if_cong)

section \<open>Commands, profiles and identifiers\<close>

text \<open>The commands of a batch are executed in an order that does not depend on the order in
  which they arrived, for commands that differ in sequence, player or request.\<close>

lemma command_order_canonical:
  assumes "mset cs = mset ds" and "distinct (map (\<lambda>c. (ce_sequence c, ce_player c, ce_request_id c)) cs)"
  shows "sort_commands cs = sort_commands ds \<and> sorted (map ce_sequence (sort_commands cs))"
proof
  have key: "command_key = (\<lambda>c. (ce_sequence c, ce_player c, ce_request_id c))" by (simp add: fun_eq_iff command_key_def)
  have "inj_on command_key (set cs)" using assms(2) unfolding key [symmetric] by (simp add: distinct_map)
  with assms(1) show "sort_commands cs = sort_commands ds" by (rule sort_commands_arrival_order)
  have "sorted (map fst (map command_key (sort_commands cs)))"
    using sort_commands_sorted [of cs] by (auto simp: sorted_map command_key_def less_eq_prod_def elim!: sorted_wrt_mono_rel [rotated])
  then show "sorted (map ce_sequence (sort_commands cs))" by (simp add: command_key_def comp_def)
qed

definition command :: "u64 \<Rightarrow> unit command_envelope" where
  "command n = \<lparr>ce_sequence = n, ce_request_id = lit ''r'', ce_session = UuidId 1, ce_player = UuidId 2, ce_command = ()\<rparr>"

lemma command_order_canonical_witness:
  "sort_commands [command 2, command 1] = sort_commands [command 1, command 2]"
  by (rule command_order_canonical [THEN conjunct1]) (simp_all add: command_def)

text \<open>The profile store loses no update: of two writers that both read the profile e, the
  second to save is told of the conflict and the first update stays, if it changed anything;
  and saving for one player never touches another.\<close>

lemma profile_no_lost_update:
  assumes "mem_save p (Some e) u1 s = (Inr (), s1)" and "u1 \<noteq> e"
  shows "(\<exists>err. mem_save p (Some e) u2 s1 = (Inl err, s1)) \<and> mem_load s1 p = Inr u1
    \<and> (if q = p then True else mem_load s1 q = mem_load s q)"
  using memory.first_writer_kept [OF assms, of u2] memory.law_load_other [OF assms(1), of q] by auto

lemma profile_no_lost_update_witness:
  "\<exists>err. mem_save (UuidId 1) (Some default_profile) default_profile
       (bm_insert (UuidId 1) (default_profile\<lparr>pp_credit := 90\<rparr>) bm_empty)
     = (Inl err, bm_insert (UuidId 1) (default_profile\<lparr>pp_credit := 90\<rparr>) bm_empty)"
  using profile_no_lost_update [of "UuidId 1" default_profile "default_profile\<lparr>pp_credit := 90\<rparr>" bm_empty]
  by (simp add: mem_save_def default_profile_def)

text \<open>An identifier survives printing and parsing for every printer and parser of UUIDs that
  agree, and different identifiers have different texts.\<close>

lemma identifier_round_trip:
  assumes "uuid_text c"
  shows "id_from_str c kind (id_to_string c i) = Inr i \<and> (id_to_string c i = id_to_string c j) = (i = j)"
proof -
  show ?thesis using uuid_text.from_to_string [OF assms] uuid_text.to_string_eq [OF assms] by blast
qed

lemma identifier_round_trip_witness:
  "id_from_str simple_codec ''MatchId'' (id_to_string simple_codec (UuidId 77 :: match_id)) = Inr (UuidId 77 :: match_id)"
  by (rule identifier_round_trip [OF simple_text.uuid_text_axioms, THEN conjunct1])

text \<open>The numbers that the allocator hands out for one kind never repeat, as long as fewer
  than 2^64 are asked for.\<close>

lemma allocated_numbers_distinct:
  assumes "length kinds < 2 ^ 64"
  shows "distinct (fst (alloc_many kinds bm_empty))"
  using alloc_many_distinct [of bm_empty kinds] assms by simp

lemma allocated_numbers_distinct_witness:
  "distinct (fst (alloc_many [lit ''party'', lit ''ticket'', lit ''party''] bm_empty))"
  by (rule allocated_numbers_distinct) simp

section \<open>Configuration and ratings\<close>

text \<open>A rating moves by at most \<open>m\<close>. The addition of the code wraps at the ends of the 32-bit range; away
  from them the new rating is at most \<open>m\<close> points from the old one.\<close>

definition moved_within :: "int \<Rightarrow> i32 \<Rightarrow> i32 \<Rightarrow> bool" where
  "moved_within m old new \<longleftrightarrow> (\<exists>d. \<bar>d\<bar> \<le> m \<and> new = wrap_i32 (old + d))
     \<and> (in_i32 (old - m) \<and> in_i32 (old + m) \<longrightarrow> \<bar>new - old\<bar> \<le> m)"

lemma moved_by: "\<bar>d\<bar> \<le> m \<Longrightarrow> moved_within m old (wrap_i32 (old + d))"
proof -
  assume d: "\<bar>d\<bar> \<le> m"
  have "in_i32 (old + d)" if "in_i32 (old - m)" "in_i32 (old + m)"
    using that d by (auto simp: in_i32_def)
  with d show ?thesis by (auto simp: moved_within_def)
qed

lemma delta_moves:
  assumes "i32_policy p"
  shows "\<exists>new. add_delta old (delta E c o' act n p) = Some new \<and> moved_within (rp_maximum_delta p) old new"
  using delta_bounded [OF assms, of E c o' act n] by (auto simp: add_delta_def moved_by)

lemma clamp_moves:
  assumes "i32_policy p"
  shows "\<exists>new. add_delta old (i32_clamp (wrap_i32 (- rp_maximum_delta p)) (rp_maximum_delta p) raw) = Some new
    \<and> moved_within (rp_maximum_delta p) old new"
proof -
  have "wrap_i32 (- rp_maximum_delta p) = - rp_maximum_delta p" "- rp_maximum_delta p \<le> rp_maximum_delta p"
    "\<bar>clamp_int (- rp_maximum_delta p) (rp_maximum_delta p) raw\<bar> \<le> rp_maximum_delta p"
    using assms by (auto simp: clamp_int_def i32_policy_def in_i32_def)
  then show ?thesis by (simp add: add_delta_def i32_clamp_def moved_by)
qed

lemma all_some_related:
  "(\<And>x. x \<in> set xs \<Longrightarrow> \<exists>y. f x = Some y \<and> R (g x) y) \<Longrightarrow> \<exists>ys. all_some (map f xs) = Some ys \<and> list_all2 R (map g xs) ys"
proof (induction xs)
  case (Cons x xs)
  obtain y where "f x = Some y" "R (g x) y" using Cons.prems [of x] by auto
  moreover obtain ys where "all_some (map f xs) = Some ys" "list_all2 R (map g xs) ys" using Cons by auto
  ultimately show ?case by (intro exI [of _ "y # ys"]) simp
qed simp

lemma side_moves:
  assumes "i32_policy p" and "length ratings = length completed"
  shows "\<exists>new. all_some (map (\<lambda>(rating, n). add_delta rating (delta E rating opponents act n p)) (zip ratings completed)) = Some new
    \<and> list_all2 (moved_within (rp_maximum_delta p)) ratings new"
proof -
  define f where "f = (\<lambda>(rating, n). add_delta rating (delta E rating opponents act n p))"
  have "\<exists>new. f x = Some new \<and> moved_within (rp_maximum_delta p) (fst x) new" for x
    using delta_moves [OF assms(1)] by (simp add: f_def case_prod_unfold)
  from all_some_related [where g = fst and f = f and R = "moved_within (rp_maximum_delta p)", OF this]
  have "\<exists>ys. all_some (map f (zip ratings completed)) = Some ys
    \<and> list_all2 (moved_within (rp_maximum_delta p)) (map fst (zip ratings completed)) ys" .
  then show ?thesis using assms(2) by (simp add: f_def)
qed

text \<open>C33: With a configuration that passed validation, the rating functions of the three modes never panic
  (the clamp of the code does when its bounds are in the wrong order), and no rating that they return
  differs by more than the configured maximum from the one before, whatever the number of games and the
  rounding of the floating-point arithmetic; the addition wraps only for a rating within that maximum of
  an end of the 32-bit range.\<close>

theorem rating_change_bounded:
  assumes "validate c = Inr ()" and "in_i32 (ec_elo_maximum_match_delta c)"
    and "length winners = length winner_games" and "length losers = length loser_games" and "length players = length ranks"
  shows "(\<exists>a' b'. one_vs_one E a b score a_games b_games (rating_policy_of c) = Some (a', b')
      \<and> moved_within (ec_elo_maximum_match_delta c) a a' \<and> moved_within (ec_elo_maximum_match_delta c) b b')
    \<and> (\<exists>winners' losers'. team_update_with_completed E winners losers winner_games loser_games (rating_policy_of c)
          = Some (winners', losers')
      \<and> list_all2 (moved_within (ec_elo_maximum_match_delta c)) winners winners'
      \<and> list_all2 (moved_within (ec_elo_maximum_match_delta c)) losers losers')
    \<and> (\<exists>players'. free_for_all E players ranks (rating_policy_of c) = Some players'
      \<and> list_all2 (moved_within (ec_elo_maximum_match_delta c)) players players')"
proof (intro conjI)
  let ?p = "rating_policy_of c"
  have p: "i32_policy ?p" using validated_policy [OF assms(1,2)] by (simp add: finite_policy_def)
  have m: "rp_maximum_delta ?p = ec_elo_maximum_match_delta c" by (simp add: rating_policy_of_def)
  show "\<exists>a' b'. one_vs_one E a b score a_games b_games ?p = Some (a', b')
      \<and> moved_within (ec_elo_maximum_match_delta c) a a' \<and> moved_within (ec_elo_maximum_match_delta c) b b'"
    using delta_moves [OF p, of a E a b score a_games] delta_moves [OF p, of b E b a "f_sub E (Fin 1) score" b_games]
    by (auto simp: one_vs_one_def m)
  show "\<exists>winners' losers'. team_update_with_completed E winners losers winner_games loser_games ?p = Some (winners', losers')
      \<and> list_all2 (moved_within (ec_elo_maximum_match_delta c)) winners winners'
      \<and> list_all2 (moved_within (ec_elo_maximum_match_delta c)) losers losers'"
    using side_moves [OF p assms(3), of E "mean losers" "Fin 1"] side_moves [OF p assms(4), of E "mean winners" "Fin 0"]
    by (auto simp: team_update_with_completed_def Let_def assms(3,4) m)
  let ?raw = "\<lambda>i. f_as_i32 (f_round (f_div E (f_mul E (rp_established_k ?p) (ffa_sum E players ranks i))
             (f_of_int (int (max (length players - 1) 1)))))"
  define f where "f = (\<lambda>(i, rating). let raw = ?raw i in
        add_delta rating (i32_clamp (wrap_i32 (- rp_maximum_delta ?p)) (rp_maximum_delta ?p) raw))"
  have "\<exists>new. f x = Some new \<and> moved_within (rp_maximum_delta ?p) (snd x) new" for x
    using clamp_moves [OF p] by (simp add: f_def case_prod_unfold Let_def)
  from all_some_related [where g = snd and f = f and R = "moved_within (rp_maximum_delta ?p)", OF this]
  have "\<exists>ys. all_some (map f (enumerate 0 players)) = Some ys
    \<and> list_all2 (moved_within (rp_maximum_delta ?p)) (map snd (enumerate 0 players)) ys" .
  then show "\<exists>players'. free_for_all E players ranks ?p = Some players'
      \<and> list_all2 (moved_within (ec_elo_maximum_match_delta c)) players players'"
    by (simp add: free_for_all_def assms(5) m f_def)
qed

theorem rating_change_bounded_witness:
  "\<exists>a' b'. one_vs_one exact_env 1000 1400 (Fin 1) 3 30 (rating_policy_of default_config) = Some (a', b')
    \<and> \<bar>a' - 1000\<bar> \<le> 40 \<and> \<bar>b' - 1400\<bar> \<le> 40"
proof -
  have m: "ec_elo_maximum_match_delta default_config = 40" "in_i32 (ec_elo_maximum_match_delta default_config)"
    by (simp_all add: default_config_def in_i32_def)
  obtain a' b' where "one_vs_one exact_env 1000 1400 (Fin 1) 3 30 (rating_policy_of default_config) = Some (a', b')"
    "moved_within 40 1000 a'" "moved_within 40 1400 b'"
    using rating_change_bounded [OF default_config_valid m(2), of "[1000]" "[3]" "[1400]" "[4]" "[1000, 900]" "[1, 2]"
        exact_env 1000 1400 "Fin 1" 3 30] unfolding m(1) by auto
  then show ?thesis by (simp add: moved_within_def in_i32_def)
qed

text \<open>Over any IEEE-like arithmetic (rounding is monotone and exact on 0, 1, 2 and 1/2), a
  win never costs rating points, a loss never gains any, and a win against a stronger opponent
  gains at least as much.\<close>

lemma stronger_opponent_pays_more:
  assumes "f64_arith E" and "finite_policy p"
    and "in_i32 (weak - a)" and "in_i32 (strong - a)" and "weak \<le> strong"
  shows "\<exists>d d' l. delta E a weak (Fin 1) n p = Some d \<and> delta E a strong (Fin 1) n p = Some d'
    \<and> delta E a weak (Fin 0) n p = Some l \<and> 0 \<le> d \<and> d \<le> d' \<and> l \<le> 0"
  using f64_arith.upset_pays [OF assms, of n] f64_arith.winner_gains [OF assms(1,2), of a weak n]
    f64_arith.loser_drops [OF assms(1,2), of a weak n] by auto

lemma stronger_opponent_pays_more_witness:
  "\<exists>d d' l. delta exact_env 1000 900 (Fin 1) 3 (rating_policy_of default_config) = Some d
    \<and> delta exact_env 1000 1200 (Fin 1) 3 (rating_policy_of default_config) = Some d'
    \<and> delta exact_env 1000 900 (Fin 0) 3 (rating_policy_of default_config) = Some l \<and> 0 \<le> d \<and> d \<le> d' \<and> l \<le> 0"
  by (rule stronger_opponent_pays_more [OF exact.f64_arith_axioms validated_policy [OF default_config_valid]])
    (simp_all add: default_config_def in_i32_def)

text \<open>A match between players of equal rating and equal experience is zero-sum: what the
  winner gains is what the loser drops.\<close>

lemma equal_match_zero_sum:
  assumes "f64_arith E" and "finite_policy p"
  shows "\<exists>d. 0 \<le> d \<and> d \<le> rp_maximum_delta p
    \<and> one_vs_one E a a (Fin 1) n n p = Some (wrap_i32 (a + d), wrap_i32 (a - d))"
proof -
  obtain d where d: "delta E a a (Fin 1) n p = Some d" "0 \<le> d"
    using f64_arith.winner_gains [OF assms] by blast
  have loss: "delta E a a (Fin 0) n p = Some (- d)"
    using f64_arith.equal_ratings_symmetric [OF assms refl] d(1) by simp
  have "f_sub E (Fin 1) (Fin 1) = Fin 0"
    using f64_arith.law_exact(1) [OF assms(1)] by (simp add: f_sub_def)
  then have "one_vs_one E a a (Fin 1) n n p = Some (wrap_i32 (a + d), wrap_i32 (a - d))"
    by (simp add: one_vs_one_def d loss add_delta_def)
  moreover have "d \<le> rp_maximum_delta p"
    using delta_bounded [of p E a a "Fin 1" n] assms(2) d by (auto simp: finite_policy_def)
  ultimately show ?thesis using d(2) by blast
qed

lemma equal_match_zero_sum_witness:
  "\<exists>d. 0 \<le> d \<and> d \<le> 40 \<and> one_vs_one exact_env 1000 1000 (Fin 1) 3 3 (rating_policy_of default_config)
     = Some (wrap_i32 (1000 + d), wrap_i32 (1000 - d))"
  using equal_match_zero_sum [OF exact.f64_arith_axioms validated_policy [OF default_config_valid], of 1000 3]
  by (simp add: default_config_def rating_policy_of_def in_i32_def)

section \<open>Measurements\<close>

text \<open>A latency histogram holds exactly the last 4096 values observed; its summary is always
  defined (no index is out of range, also for an empty one) and its percentiles are ordered.\<close>

lemma histogram_summarised:
  "hist_run vs = drop (length vs - 4096) vs
   \<and> (\<exists>s. hist_summary (hist_run vs) = Some s \<and> hs_p50 s \<le> hs_p95 s \<and> hs_p95 s \<le> hs_p99 s)"
proof
  show "hist_run vs = drop (length vs - 4096) vs" by (rule hist_run_last)
  let ?s = "sort (hist_run vs)"
  obtain a b c where q: "percentile ?s 50 = Some a" "percentile ?s 95 = Some b" "percentile ?s 99 = Some c"
    by (cases "?s = []") (simp_all add: percentile_Some, simp_all add: percentile_def)
  then show "\<exists>s. hist_summary (hist_run vs) = Some s \<and> hs_p50 s \<le> hs_p95 s \<and> hs_p95 s \<le> hs_p99 s"
    using percentile_mono [OF _ _ _ q(1,2)] percentile_mono [OF _ _ _ q(2,3)]
    by (simp add: hist_summary_def Let_def)
qed

end
