(* ===== verification/Registry_Properties.thy ===== *)
theory Registry_Properties
  imports Samples
begin

text \<open>
  The properties of the registry of game servers and of the placement of matches on them.
\<close>

section \<open>Capacity\<close>

text \<open>C30: Whatever sequence of registrations, heartbeats, health checks, reconciliations,
  reservations, transitions, releases and retries a registry goes through, with whatever limits, every
  server is stored under its own id and uses at most its total capacity, and a reservation never panics,
  provided no server registers with the largest 32-bit number as its capacity (\<open>limited\<close>; for such a
  server the saturating test of the placement lets a sum above its capacity pass).\<close>

theorem registry_capacity_safe:
  assumes "list_all limited es" and "bm_get (fold registry_step es bm_empty) k = Some s"
  shows "gs_id s = k \<and> gs_capacity_used s \<le> gs_capacity_total s
    \<and> reserve m mode region (fold registry_step es bm_empty) \<noteq> None"
proof -
  have ok: "registry_ok (fold registry_step es bm_empty)"
    using assms(1) by (intro registry_run_ok) (simp_all add: list_all_iff)
  from registry_okD [OF ok assms(2)] reserve_total [OF ok, of m mode region] show ?thesis
    by (auto simp: server_ok_def)
qed

theorem registry_capacity_safe_witness:
  "gs_id busy_host = UuidId 40 \<and> gs_capacity_used busy_host \<le> gs_capacity_total busy_host
    \<and> reserve (UuidId 7) OneVsOne (lit ''tw'')
        (fold registry_step [EvRegister game_host limits, EvReserve (UuidId 5) OneVsOne (lit ''tw'')] bm_empty) \<noteq> None"
proof -
  have "gs_capacity_total game_host < - 1" by (simp add: game_host_def)
  then show ?thesis
    by (intro registry_capacity_safe) (simp_all add: limited_def registry_step_def host_registered host_reserved host_lookup)
qed

text \<open>A reservation picks a healthy server of the region that supports the mode and has room
  for the cost and one more instance; it charges exactly the cost there and records the match;
  and among all servers that could take the match, none would be left with less free capacity.\<close>

lemma placement_best_fit:
  assumes "registry_ok r" and "reserve m mode region r = Some (Inr sid, r')"
    and "bm_get r k = Some t" and "placement_offer mode region t = Some (free, fails, k, c)"
  shows "\<exists>s cost. bm_get r sid = Some s \<and> gs_health s = Healthy \<and> gs_region s = region \<and> mode \<in> gs_modes s
    \<and> bm_get (gs_mode_costs s) mode = Some cost \<and> unfinished_count s < unat (gs_max_instances s)
    \<and> unat (gs_capacity_used s) + unat cost \<le> unat (gs_capacity_total s)
    \<and> r' = bm_insert sid (s\<lparr>gs_capacity_used := gs_capacity_used s + cost,
        gs_instances := bm_insert m \<lparr>in_match_id = m, in_cost = cost, in_state = InReserved,
          in_endpoint = None, in_connection_token = None\<rparr> (gs_instances s)\<rparr>) r
    \<and> unat (gs_capacity_total s) - unat (gs_capacity_used s) - unat cost
      \<le> unat (gs_capacity_total t) - unat (gs_capacity_used t) - unat c"
proof -
  obtain s cost where s: "bm_get r sid = Some s" "gs_health s = Healthy" "gs_region s = region" "mode \<in> gs_modes s"
    "bm_get (gs_mode_costs s) mode = Some cost" "unfinished_count s < unat (gs_max_instances s)"
    "unat (gs_capacity_used s) + unat cost \<le> unat (gs_capacity_total s)"
    "r' = bm_insert sid (s\<lparr>gs_capacity_used := gs_capacity_used s + cost,
       gs_instances := bm_insert m \<lparr>in_match_id = m, in_cost = cost, in_state = InReserved,
         in_endpoint = None, in_connection_token = None\<rparr> (gs_instances s)\<rparr>) r"
    using assms(1,2) by (rule reserve_SomeD)
  obtain left cost' where best: "placement_offer mode region s = Some (left, gs_failures s, sid, cost')"
    "(left, gs_failures s, sid, cost') \<le> (free, fails, k, c)"
    using assms(1,2) s(1) assms(3,4) by (rule reserve_best_fit)
  note offer_s = placement_offerD [OF best(1) registry_okD [OF assms(1) s(1)]]
  note offer_t = placement_offerD [OF assms(4) registry_okD [OF assms(1,3)]]
  have "cost' = cost" using offer_s(2) s(5) by simp
  have "left \<le> free" using best(2) by (auto simp: less_eq_prod_def)
  then have "unat left \<le> unat free" by (simp add: word_le_nat_alt)
  then show ?thesis using s offer_s(8) offer_t(8) \<open>cost' = cost\<close> by auto
qed

lemma host_offer: "placement_offer OneVsOne (lit ''tw'') game_host = Some (6, 0, UuidId 40, 4)"
  by code_simp

lemma placement_best_fit_witness:
  "\<exists>s cost. bm_get hosts (UuidId 40) = Some s \<and> gs_health s = Healthy
    \<and> bm_get (gs_mode_costs s) OneVsOne = Some cost
    \<and> unat (gs_capacity_used s) + unat cost \<le> unat (gs_capacity_total s)"
  using placement_best_fit [OF hosts_ok(1) host_reserved host_lookup(1) host_offer] by blast

text \<open>The error of a reservation is exact: it reports that there is no capacity, and changes
  nothing, exactly if no server of the region is healthy, supports the mode, and has room for
  its cost and for one more instance.\<close>

lemma placement_refused_iff:
  assumes "registry_ok r"
  shows "(reserve m mode region r = Some (Inl NoCapacity, r)) = (\<not> (\<exists>k s cost. bm_get r k = Some s
    \<and> gs_health s = Healthy \<and> gs_region s = region \<and> mode \<in> gs_modes s \<and> bm_get (gs_mode_costs s) mode = Some cost
    \<and> unat (gs_capacity_used s) + unat cost \<le> unat (gs_capacity_total s)
    \<and> unfinished_count s < unat (gs_max_instances s)))"
proof -
  have offer: "(\<exists>off. placement_offer mode region s = Some off) \<longleftrightarrow> (\<exists>cost. gs_health s = Healthy \<and> gs_region s = region
      \<and> mode \<in> gs_modes s \<and> bm_get (gs_mode_costs s) mode = Some cost
      \<and> unat (gs_capacity_used s) + unat cost \<le> unat (gs_capacity_total s)
      \<and> unfinished_count s < unat (gs_max_instances s))" if "bm_get r k = Some s" for k s
  proof -
    have "gs_capacity_total s < - 1" using registry_okD [OF assms that] by (simp add: server_ok_def)
    then have "unat (gs_capacity_total s) < 2 ^ 32 - 1"
      by (simp add: word_less_nat_alt unat_word_max)
    then have "sat_add (gs_capacity_used s) cost > gs_capacity_total s
      \<longleftrightarrow> unat (gs_capacity_total s) < unat (gs_capacity_used s) + unat cost" for cost
      by (simp add: word_less_nat_alt sat_unat)
    then show ?thesis by (auto simp: placement_offer_def not_less split: option.splits)
  qed
  have "feasible r mode region \<longleftrightarrow> (\<exists>k s. bm_get r k = Some s \<and> (\<exists>off. placement_offer mode region s = Some off))"
    unfolding feasible_offer by (meson values_iff)
  with offer have feasible: "feasible r mode region \<longleftrightarrow> (\<exists>k s cost. bm_get r k = Some s
    \<and> gs_health s = Healthy \<and> gs_region s = region \<and> mode \<in> gs_modes s \<and> bm_get (gs_mode_costs s) mode = Some cost
    \<and> unat (gs_capacity_used s) + unat cost \<le> unat (gs_capacity_total s)
    \<and> unfinished_count s < unat (gs_max_instances s))" by blast
  show ?thesis
    unfolding feasible [symmetric]
    by (rule reserve_cases [OF assms, of m mode region]) auto
qed

lemma placement_refused_iff_witness:
  "(reserve (UuidId 5) OneVsOne (lit ''eu'') hosts = Some (Inl NoCapacity, hosts)) = (\<not> (\<exists>k s cost. bm_get hosts k = Some s
    \<and> gs_health s = Healthy \<and> gs_region s = lit ''eu'' \<and> OneVsOne \<in> gs_modes s \<and> bm_get (gs_mode_costs s) OneVsOne = Some cost
    \<and> unat (gs_capacity_used s) + unat cost \<le> unat (gs_capacity_total s)
    \<and> unfinished_count s < unat (gs_max_instances s)))"
  by (rule placement_refused_iff [OF hosts_ok(1)])

text \<open>Releasing a reservation gives back the registry as it was before the reservation.\<close>

lemma reserve_release_round_trip:
  assumes "registry_ok r" and "reserve m mode region r = Some (Inr sid, r')"
    and "bm_get r sid = Some s" and "bm_get (gs_instances s) m = None"
  shows "release sid m r' = (Inr (), r)"
proof -
  obtain cost where fits: "unat (gs_capacity_used s) + unat cost \<le> unat (gs_capacity_total s)"
    and r': "r' = bm_insert sid (s\<lparr>gs_capacity_used := gs_capacity_used s + cost,
       gs_instances := bm_insert m \<lparr>in_match_id = m, in_cost = cost, in_state = InReserved,
         in_endpoint = None, in_connection_token = None\<rparr> (gs_instances s)\<rparr>) r"
    using reserve_SomeD [OF assms(1,2)] assms(3) by (metis option.inject)
  show ?thesis unfolding r' by (rule release_reserved [OF assms(3,4) _ _ fits]) (simp_all add: live_def)
qed

lemma reserve_release_round_trip_witness: "release (UuidId 40) (UuidId 5) busy_hosts = (Inr (), hosts)"
  by (rule reserve_release_round_trip [OF hosts_ok(1) host_reserved host_lookup(1)]) (simp add: game_host_def)

section \<open>Reports of a server\<close>

lemma register_advances:
  assumes "bm_get r (gs_id new) = Some s" and "bm_get (gs_instances s) k = Some a"
  shows "\<exists>s1 b. bm_get (snd (register new l r)) (gs_id new) = Some s1 \<and> bm_get (gs_instances s1) k = Some b \<and> advances a b"
proof (cases "register new l r")
  case (Pair e r')
  show ?thesis
  proof (cases "gs_generation s \<ge> gs_generation new \<or> r' = r")
    case True
    then show ?thesis using Pair assms by (auto simp: register_def split: if_splits)
  next
    case False
    then obtain merged used where m: "merge_reported (entries (gs_instances new)) (gs_instances s) = Inr merged"
      "r' = bm_insert (gs_id new) (new\<lparr>gs_instances := merged, gs_capacity_used := used, gs_failures := gs_failures s\<rparr>) r"
      using Pair assms(1) by (auto simp: register_def not_le split: if_splits sum.splits option.splits)
    with merge_reported_advances [OF m(1) assms(2)] Pair show ?thesis by auto
  qed
qed

text \<open>The life of an instance: reserved, accepted, ready, running. A report may skip stages; an end, finished
  or lost, comes from elsewhere, and only a lost instance may come back, as ready or running.\<close>

definition later_states :: "instance_state \<Rightarrow> instance_state set" where
  "later_states a = (case a of
      InReserved \<Rightarrow> {InReserved, InAccepted, InReady, InRunning}
    | InAccepted \<Rightarrow> {InAccepted, InReady, InRunning}
    | InReady \<Rightarrow> {InReady, InRunning}
    | InRunning \<Rightarrow> {InRunning}
    | InFinished \<Rightarrow> {InFinished}
    | InServerLost \<Rightarrow> {InServerLost, InReady, InRunning})"

lemma reconciled_later: "valid_reconciled_state a b \<Longrightarrow> b \<in> later_states a"
  by (cases a; cases b) (simp_all add: valid_reconciled_state_def later_states_def instance_state_rank_def word_le_nat_alt)

text \<open>C31: Neither a reconciliation report nor a new registration of the server (also by a newer
  process) makes the registry forget one of its instances, change its match or its cost, or
  move it backwards in its life: its new state is the old one or a later stage (\<open>later_states\<close>), never an
  end it had not reached; a lost one may come back as ready or running.\<close>

theorem reports_never_lose_instances:
  assumes "bm_get r i = Some s" and "bm_get (gs_instances s) k = Some a"
  shows "(\<exists>s1 b. bm_get (snd (reconcile i g reported r)) i = Some s1 \<and> bm_get (gs_instances s1) k = Some b
      \<and> in_match_id b = in_match_id a \<and> in_cost b = in_cost a \<and> in_state b \<in> later_states (in_state a))
    \<and> (\<exists>s1 b. bm_get (snd (register (new\<lparr>gs_id := i\<rparr>) l r)) i = Some s1 \<and> bm_get (gs_instances s1) k = Some b
      \<and> in_match_id b = in_match_id a \<and> in_cost b = in_cost a \<and> in_state b \<in> later_states (in_state a))"
  using reconcile_advances [OF assms, of g reported] register_advances [of r "new\<lparr>gs_id := i\<rparr>" s k a l] assms
  unfolding advances_def by (auto dest: reconciled_later)

lemma busy_instance: "bm_get (gs_instances busy_host) (UuidId 5) = Some \<lparr>in_match_id = UuidId 5,
     in_cost = 4, in_state = InReserved, in_endpoint = None, in_connection_token = None\<rparr>"
  by (simp add: busy_host_def)

theorem reports_never_lose_instances_witness:
  "\<exists>s1 b. bm_get (snd (reconcile (UuidId 40) 3 bm_empty busy_hosts)) (UuidId 40) = Some s1
    \<and> bm_get (gs_instances s1) (UuidId 5) = Some b \<and> in_cost b = 4"
  using reports_never_lose_instances [OF host_lookup(2) busy_instance, THEN conjunct1, of 3 bm_empty] by auto

text \<open>A report of another generation of the process than the registered one changes nothing,
  neither as a heartbeat nor as a reconciliation.\<close>

lemma stale_reports_rejected:
  assumes "\<not> is_current_generation i g r"
  shows "heartbeat i g now used r = (Inl StaleGeneration, r) \<and> reconcile i g reported r = (Inl StaleGeneration, r)"
  using assms by (auto simp: is_current_generation_def heartbeat_def reconcile_def split: option.splits)

lemma stale_reports_rejected_witness:
  "heartbeat (UuidId 40) 2 5000 9 busy_hosts = (Inl StaleGeneration, busy_hosts)"
  by (rule stale_reports_rejected [THEN conjunct1])
    (simp add: is_current_generation_def host_lookup busy_host_def game_host_def)

text \<open>C32: A server that has been silent for longer than the limit is lost: it holds no capacity
  and no live instance any more, and every instance it held is reported, with whether its match
  was running; a server that is not silent keeps its instances and its capacity.\<close>

theorem silent_server_lost:
  assumes "bm_get r k = Some s"
  shows "\<exists>s1. bm_get (snd (update_health now unhealthy_after lost_after r)) k = Some s1
    \<and> (if lost_after < sat_sub now (gs_last_heartbeat s)
       then gs_health s1 = Lost \<and> gs_capacity_used s1 = 0 \<and> live_cost (gs_instances s1) = 0
         \<and> (\<lambda>i. (in_match_id i, in_state i = InRunning)) ` {i \<in> set (bm_values (gs_instances s)). live i}
           \<subseteq> set (fst (update_health now unhealthy_after lost_after r))
       else gs_health s1 \<noteq> Lost \<and> gs_instances s1 = gs_instances s \<and> gs_capacity_used s1 = gs_capacity_used s)"
proof -
  let ?s = "age_server now unhealthy_after lost_after s"
  have get: "bm_get (snd (update_health now unhealthy_after lost_after r)) k = Some ?s"
    using assms by (simp add: update_health_def)
  have "s \<in> set (bm_values r)" using assms by (auto simp: values_iff)
  moreover have "live_cost (lose_instances m) = 0" for m
    by (auto simp: live_cost_def lose_instances_def bm_sum_map live_def)
  ultimately have "if lost_after < sat_sub now (gs_last_heartbeat s)
       then gs_health ?s = Lost \<and> gs_capacity_used ?s = 0 \<and> live_cost (gs_instances ?s) = 0
         \<and> (\<lambda>i. (in_match_id i, in_state i = InRunning)) ` {i \<in> set (bm_values (gs_instances s)). live i}
           \<subseteq> set (fst (update_health now unhealthy_after lost_after r))
       else gs_health ?s \<noteq> Lost \<and> gs_instances ?s = gs_instances s \<and> gs_capacity_used ?s = gs_capacity_used s"
    by (force simp: update_health_def age_server_def aged_health_def Let_def)
  with get show ?thesis by blast
qed

theorem silent_server_lost_witness:
  "\<exists>s1. bm_get (snd (update_health 90000 3000 10000 busy_hosts)) (UuidId 40) = Some s1 \<and> gs_health s1 = Lost
    \<and> gs_capacity_used s1 = 0"
  using silent_server_lost [OF host_lookup(2), of 90000 3000 10000]
  by (simp add: busy_host_def game_host_def sat_sub_def) blast

end
