(* ===== verification/Client.thy ===== *)
theory Client
  imports Authority_Rpc
begin

text \<open>
  \<open>client/src/lib.rs\<close>, the typed client library. The generated stub of the service is a record of
  functions on the state of the other side (\<open>matchmaking_service\<close>), dialling is a function of the
  options; \<open>Client_Laws\<close> puts the authority there. A call returns its result, the client and the
  state of the other side. The request id that \<open>meta\<close> draws at random is an argument.
\<close>

section \<open>Request messages\<close>

record connect_request =
  cq_api :: "api_version option"
  cq_auth_token :: rstr

record create_party_request =
  cp_meta :: "mutation_meta option"
  cp_name :: rstr

record party_request =
  yq_meta :: "mutation_meta option"
  yq_party_id :: rstr
  yq_revision :: u64

record invite_request =
  iq_meta :: "mutation_meta option"
  iq_party_id :: rstr
  iq_revision :: u64
  iq_ttl_seconds :: u32
  iq_uses :: u32

record invite_response =
  ir_token :: rstr
  ir_expires_at_ms :: i64

record join_party_request =
  jq_meta :: "mutation_meta option"
  jq_invite_token :: rstr

record rename_party_request =
  nq_meta :: "mutation_meta option"
  nq_party_id :: rstr
  nq_revision :: u64
  nq_name :: rstr

record member_request =
  mq_meta :: "mutation_meta option"
  mq_party_id :: rstr
  mq_revision :: u64
  mq_player_id :: rstr

record enqueue_request =
  eq_meta :: "mutation_meta option"
  eq_party_id :: rstr
  eq_revision :: u64
  eq_mode :: i32
  eq_allowed_regions :: "rstr list"

record proposal_response_request =
  rq_meta :: "mutation_meta option"
  rq_proposal_id :: rstr

record state_request =
  tq_session_token :: rstr
  tq_api :: "api_version option"

record watch_events_request =
  wq_session_token :: rstr
  wq_api :: "api_version option"

text \<open>The stub. A stream of events is the list of items it delivers until it ends.\<close>

record 's matchmaking_service =
  sv_open_session :: "connect_request \<Rightarrow> 's \<Rightarrow> (status + connect_response) \<times> 's"
  sv_create_party :: "create_party_request \<Rightarrow> 's \<Rightarrow> (status + operation_result) \<times> 's"
  sv_create_invite :: "invite_request \<Rightarrow> 's \<Rightarrow> (status + invite_response) \<times> 's"
  sv_join_party :: "join_party_request \<Rightarrow> 's \<Rightarrow> (status + operation_result) \<times> 's"
  sv_leave_party :: "party_request \<Rightarrow> 's \<Rightarrow> (status + operation_result) \<times> 's"
  sv_kick_member :: "member_request \<Rightarrow> 's \<Rightarrow> (status + operation_result) \<times> 's"
  sv_rename_party :: "rename_party_request \<Rightarrow> 's \<Rightarrow> (status + operation_result) \<times> 's"
  sv_enqueue :: "enqueue_request \<Rightarrow> 's \<Rightarrow> (status + operation_result) \<times> 's"
  sv_cancel_queue :: "party_request \<Rightarrow> 's \<Rightarrow> (status + operation_result) \<times> 's"
  sv_accept_match :: "proposal_response_request \<Rightarrow> 's \<Rightarrow> (status + operation_result) \<times> 's"
  sv_reject_match :: "proposal_response_request \<Rightarrow> 's \<Rightarrow> (status + operation_result) \<times> 's"
  sv_get_state :: "state_request \<Rightarrow> 's \<Rightarrow> (status + client_state) \<times> 's"
  sv_watch_events :: "watch_events_request \<Rightarrow> 's \<Rightarrow> (status + (status + client_event) list) \<times> 's"

section \<open>Values of the library\<close>

definition API_MAJOR :: u32 where "API_MAJOR = 1"
definition API_MINOR :: u32 where "API_MINOR = 0"

text \<open>A transport error carries the text of the transport library.\<close>

datatype client_error = ClientTransport rstr | ClientRpc status | ClientRejected rstr rstr
  | NotConnected | ClientProtocol string

record connect_options =
  op_endpoint :: rstr
  op_auth_token :: rstr
  op_tls_domain :: "rstr option"
  op_tls_ca_pem :: "nat list option"
  op_connect_timeout_ms :: nat

definition plaintext_loopback :: "rstr \<Rightarrow> rstr \<Rightarrow> connect_options" where
  "plaintext_loopback endpoint auth_token = \<lparr>op_endpoint = endpoint, op_auth_token = auth_token,
     op_tls_domain = None, op_tls_ca_pem = None, op_connect_timeout_ms = 5000\<rparr>"

definition tls_options :: "rstr \<Rightarrow> rstr \<Rightarrow> rstr \<Rightarrow> connect_options" where
  "tls_options endpoint auth_token domain = \<lparr>op_endpoint = endpoint, op_auth_token = auth_token,
     op_tls_domain = Some domain, op_tls_ca_pem = None, op_connect_timeout_ms = 5000\<rparr>"

definition tls_with_ca :: "rstr \<Rightarrow> rstr \<Rightarrow> rstr \<Rightarrow> nat list \<Rightarrow> connect_options" where
  "tls_with_ca endpoint auth_token domain ca_pem = \<lparr>op_endpoint = endpoint, op_auth_token = auth_token,
     op_tls_domain = Some domain, op_tls_ca_pem = Some ca_pem, op_connect_timeout_ms = 5000\<rparr>"

text \<open>The library's own \<open>QueueMode\<close> has the constructors of the one of the core.\<close>

definition mode_wire :: "queue_mode \<Rightarrow> i32" where
  "mode_wire m = (case m of OneVsOne \<Rightarrow> 1 | FiveVsFive \<Rightarrow> 2 | FreeForAll \<Rightarrow> 3)"

definition mode_from_wire :: "i32 \<Rightarrow> queue_mode option" where
  "mode_from_wire v = (if v = 1 then Some OneVsOne else if v = 2 then Some FiveVsFive
     else if v = 3 then Some FreeForAll else None)"

record sdk_operation =
  so_entity_id :: rstr
  so_revision :: u64

record sdk_player =
  sp_id :: rstr
  sp_rating :: i32
  sp_rating_one_v_one :: i32
  sp_rating_five_v_five :: i32
  sp_rating_free_for_all :: i32
  sp_credit :: u32

record sdk_party =
  sy_id :: rstr
  sy_name :: rstr
  sy_leader_id :: rstr
  sy_members :: "rstr list"
  sy_player_details :: "sdk_player list"
  sy_revision :: u64
  sy_state :: rstr

record sdk_state =
  ss_player_id :: rstr
  ss_profile :: "sdk_player option"
  ss_credit_suspended_until_ms :: "i64 option"
  ss_queue_mode :: "queue_mode option"
  ss_allowed_regions :: "rstr list"
  ss_proposal_deadline_ms :: "i64 option"
  ss_party :: "sdk_party option"
  ss_ticket_id :: "rstr option"
  ss_proposal_id :: "rstr option"
  ss_match_id :: "rstr option"

datatype sdk_event = SdkParty sdk_party
  | SdkProposal rstr i64
  | SdkMatched rstr queue_mode "rstr list list" rstr rstr
  | SdkServerLost rstr
  | SdkProposalCancelled rstr rstr u32 bool "i64 option"
  | SdkState sdk_state

section \<open>Decoding the messages of the service\<close>

definition api_sent :: api_version where
  "api_sent = \<lparr>av_major = API_MAJOR, av_minor = API_MINOR, av_capabilities = [lit ''state-reconcile'']\<rparr>"

definition operation :: "operation_result \<Rightarrow> client_error + sdk_operation" where
  "operation v = (if or_accepted v then Inr \<lparr>so_entity_id = or_entity_id v, so_revision = or_revision v\<rparr>
     else Inl (ClientRejected (or_code v) (or_message v)))"

definition decode_player :: "player_view \<Rightarrow> sdk_player" where
  "decode_player p = \<lparr>sp_id = pv_player_id p, sp_rating = pv_rating p, sp_rating_one_v_one = pv_rating_one_v_one p,
     sp_rating_five_v_five = pv_rating_five_v_five p, sp_rating_free_for_all = pv_rating_free_for_all p,
     sp_credit = pv_credit p\<rparr>"

definition decode_party :: "party_view \<Rightarrow> sdk_party" where
  "decode_party v = (let details = map decode_player (yv_members v)
     in \<lparr>sy_id = yv_party_id v, sy_name = yv_name v, sy_leader_id = yv_leader_id v,
         sy_members = map sp_id details, sy_player_details = details, sy_revision = yv_revision v,
         sy_state = yv_state v\<rparr>)"

definition nonempty :: "rstr \<Rightarrow> rstr option" where
  "nonempty v = (if v = [] then None else Some v)"

definition positive :: "i64 \<Rightarrow> i64 option" where
  "positive v = (if v > 0 then Some v else None)"

definition decode_state :: "client_state \<Rightarrow> sdk_state" where
  "decode_state v = \<lparr>ss_player_id = cs_player_id v, ss_profile = map_option decode_player (cs_profile v),
     ss_credit_suspended_until_ms = positive (cs_credit_suspended_until_ms v),
     ss_queue_mode = mode_from_wire (cs_queue_mode v), ss_allowed_regions = cs_allowed_regions v,
     ss_proposal_deadline_ms = positive (cs_proposal_deadline_ms v),
     ss_party = map_option decode_party (cs_party v), ss_ticket_id = nonempty (cs_ticket_id v),
     ss_proposal_id = nonempty (cs_proposal_id v), ss_match_id = nonempty (cs_match_id v)\<rparr>"

definition decode_event :: "client_event \<Rightarrow> client_error + sdk_event" where
  "decode_event v = (case ev_event v of None \<Rightarrow> Inl (ClientProtocol ''event payload missing'')
    | Some body \<Rightarrow> (case body of
        EvParty p \<Rightarrow> Inr (SdkParty (decode_party p))
      | EvProposalId i \<Rightarrow> Inr (SdkProposal i (ev_deadline_ms v))
      | EvMatched m \<Rightarrow> (case mode_from_wire (me_mode m) of
            None \<Rightarrow> Inl (ClientProtocol ''matched event queue mode missing'')
          | Some mode \<Rightarrow> Inr (SdkMatched (me_match_id m) mode (map tm_player_ids (me_teams m)) (me_endpoint m)
              (me_connection_token m)))
      | EvServerLost i \<Rightarrow> Inr (SdkServerLost i)
      | EvState s \<Rightarrow> Inr (SdkState (decode_state s))
      | EvProposalCancelled c \<Rightarrow> Inr (SdkProposalCancelled (pc_proposal_id c) (pc_reason c) (pc_credit c)
          (pc_eligible c) (positive (pc_credit_suspended_until_ms c)))))"

section \<open>The client\<close>

record client =
  cl_options :: connect_options
  cl_session_token :: "rstr option"
  cl_player_id :: "rstr option"

record 's transport =
  tr_dial :: "connect_options \<Rightarrow> 's \<Rightarrow> (rstr + unit) \<times> 's"
  tr_service :: "'s matchmaking_service"

text \<open>\<open>self.rpc.f(request).await?\<close> followed by a conversion of the answer.\<close>

definition rpc_call :: "('q \<Rightarrow> 's \<Rightarrow> (status + 'v) \<times> 's) \<Rightarrow> ('v \<Rightarrow> client_error + 'r) \<Rightarrow> 'q \<Rightarrow> 's
    \<Rightarrow> (client_error + 'r) \<times> 's" where
  "rpc_call f convert request s = (case f request s of
      (Inl e, s) \<Rightarrow> (Inl (ClientRpc e), s)
    | (Inr v, s) \<Rightarrow> (convert v, s))"

definition client_open_session :: "'s transport \<Rightarrow> client \<Rightarrow> 's \<Rightarrow> (client_error + unit) \<times> client \<times> 's" where
  "client_open_session tp c s = (case rpc_call (sv_open_session (tr_service tp)) Inr
       \<lparr>cq_api = Some api_sent, cq_auth_token = op_auth_token (cl_options c)\<rparr> s of
      (Inl e, s) \<Rightarrow> (Inl e, c, s)
    | (Inr response, s) \<Rightarrow> (Inr (), c\<lparr>cl_session_token := Some (cr_session_token response),
        cl_player_id := Some (cr_player_id response)\<rparr>, s))"

definition client_connect :: "'s transport \<Rightarrow> connect_options \<Rightarrow> 's \<Rightarrow> (client_error + client) \<times> 's" where
  "client_connect tp options s = (case tr_dial tp options s of
      (Inl e, s) \<Rightarrow> (Inl (ClientTransport e), s)
    | (Inr _, s) \<Rightarrow> (case client_open_session tp
          \<lparr>cl_options = options, cl_session_token = None, cl_player_id = None\<rparr> s of
        (Inl e, _, s) \<Rightarrow> (Inl e, s)
      | (Inr _, c, s) \<Rightarrow> (Inr c, s)))"

definition client_token :: "client \<Rightarrow> client_error + rstr" where
  "client_token c = (case cl_session_token c of None \<Rightarrow> Inl NotConnected | Some t \<Rightarrow> Inr t)"

definition client_meta :: "rstr \<Rightarrow> client \<Rightarrow> client_error + mutation_meta" where
  "client_meta rid c = (case client_token c of Inl e \<Rightarrow> Inl e
    | Inr t \<Rightarrow> Inr \<lparr>mm_api = Some api_sent, mm_request_id = rid, mm_session_token = t\<rparr>)"

definition client_shutdown :: "client \<Rightarrow> client" where
  "client_shutdown c = c\<lparr>cl_session_token := None, cl_player_id := None\<rparr>"

definition client_get_state :: "'s transport \<Rightarrow> client \<Rightarrow> 's \<Rightarrow> (client_error + sdk_state) \<times> 's" where
  "client_get_state tp c s = (case client_token c of Inl e \<Rightarrow> (Inl e, s)
    | Inr t \<Rightarrow> rpc_call (sv_get_state (tr_service tp)) (\<lambda>v. Inr (decode_state v))
        \<lparr>tq_session_token = t, tq_api = Some api_sent\<rparr> s)"

definition client_reconnect :: "'s transport \<Rightarrow> client \<Rightarrow> 's \<Rightarrow> (client_error + sdk_state) \<times> client \<times> 's" where
  "client_reconnect tp c s = (case tr_dial tp (cl_options c) s of
      (Inl e, s) \<Rightarrow> (Inl (ClientTransport e), c, s)
    | (Inr _, s) \<Rightarrow> (case client_open_session tp c s of
        (Inl e, c, s) \<Rightarrow> (Inl e, c, s)
      | (Inr _, c, s) \<Rightarrow> (case client_get_state tp c s of (r, s) \<Rightarrow> (r, c, s))))"

section \<open>Calls\<close>

definition client_create_party :: "'s transport \<Rightarrow> rstr \<Rightarrow> rstr \<Rightarrow> client \<Rightarrow> 's
    \<Rightarrow> (client_error + sdk_operation) \<times> 's" where
  "client_create_party tp rid name c s = (case client_meta rid c of Inl e \<Rightarrow> (Inl e, s)
    | Inr m \<Rightarrow> rpc_call (sv_create_party (tr_service tp)) operation \<lparr>cp_meta = Some m, cp_name = name\<rparr> s)"

definition client_create_invite :: "'s transport \<Rightarrow> rstr \<Rightarrow> rstr \<Rightarrow> u64 \<Rightarrow> u32 \<Rightarrow> u32 \<Rightarrow> client \<Rightarrow> 's
    \<Rightarrow> (client_error + rstr) \<times> 's" where
  "client_create_invite tp rid party_id revision ttl_seconds uses c s = (case client_meta rid c of Inl e \<Rightarrow> (Inl e, s)
    | Inr m \<Rightarrow> rpc_call (sv_create_invite (tr_service tp)) (\<lambda>v. Inr (ir_token v))
        \<lparr>iq_meta = Some m, iq_party_id = party_id, iq_revision = revision, iq_ttl_seconds = ttl_seconds,
         iq_uses = uses\<rparr> s)"

definition client_join_party :: "'s transport \<Rightarrow> rstr \<Rightarrow> rstr \<Rightarrow> client \<Rightarrow> 's
    \<Rightarrow> (client_error + sdk_operation) \<times> 's" where
  "client_join_party tp rid token c s = (case client_meta rid c of Inl e \<Rightarrow> (Inl e, s)
    | Inr m \<Rightarrow> rpc_call (sv_join_party (tr_service tp)) operation \<lparr>jq_meta = Some m, jq_invite_token = token\<rparr> s)"

definition client_leave_party :: "'s transport \<Rightarrow> rstr \<Rightarrow> rstr \<Rightarrow> u64 \<Rightarrow> client \<Rightarrow> 's
    \<Rightarrow> (client_error + sdk_operation) \<times> 's" where
  "client_leave_party tp rid party_id revision c s = (case client_meta rid c of Inl e \<Rightarrow> (Inl e, s)
    | Inr m \<Rightarrow> rpc_call (sv_leave_party (tr_service tp)) operation
        \<lparr>yq_meta = Some m, yq_party_id = party_id, yq_revision = revision\<rparr> s)"

definition client_kick_member :: "'s transport \<Rightarrow> rstr \<Rightarrow> rstr \<Rightarrow> u64 \<Rightarrow> rstr \<Rightarrow> client \<Rightarrow> 's
    \<Rightarrow> (client_error + sdk_operation) \<times> 's" where
  "client_kick_member tp rid party_id revision player_id c s = (case client_meta rid c of Inl e \<Rightarrow> (Inl e, s)
    | Inr m \<Rightarrow> rpc_call (sv_kick_member (tr_service tp)) operation
        \<lparr>mq_meta = Some m, mq_party_id = party_id, mq_revision = revision, mq_player_id = player_id\<rparr> s)"

definition client_rename_party :: "'s transport \<Rightarrow> rstr \<Rightarrow> rstr \<Rightarrow> u64 \<Rightarrow> rstr \<Rightarrow> client \<Rightarrow> 's
    \<Rightarrow> (client_error + sdk_operation) \<times> 's" where
  "client_rename_party tp rid party_id revision name c s = (case client_meta rid c of Inl e \<Rightarrow> (Inl e, s)
    | Inr m \<Rightarrow> rpc_call (sv_rename_party (tr_service tp)) operation
        \<lparr>nq_meta = Some m, nq_party_id = party_id, nq_revision = revision, nq_name = name\<rparr> s)"

definition client_enqueue :: "'s transport \<Rightarrow> rstr \<Rightarrow> rstr \<Rightarrow> u64 \<Rightarrow> queue_mode \<Rightarrow> rstr list \<Rightarrow> client \<Rightarrow> 's
    \<Rightarrow> (client_error + sdk_operation) \<times> 's" where
  "client_enqueue tp rid party_id revision mode regions c s = (case client_meta rid c of Inl e \<Rightarrow> (Inl e, s)
    | Inr m \<Rightarrow> rpc_call (sv_enqueue (tr_service tp)) operation
        \<lparr>eq_meta = Some m, eq_party_id = party_id, eq_revision = revision, eq_mode = mode_wire mode,
         eq_allowed_regions = regions\<rparr> s)"

definition client_cancel_queue :: "'s transport \<Rightarrow> rstr \<Rightarrow> rstr \<Rightarrow> u64 \<Rightarrow> client \<Rightarrow> 's
    \<Rightarrow> (client_error + sdk_operation) \<times> 's" where
  "client_cancel_queue tp rid party_id revision c s = (case client_meta rid c of Inl e \<Rightarrow> (Inl e, s)
    | Inr m \<Rightarrow> rpc_call (sv_cancel_queue (tr_service tp)) operation
        \<lparr>yq_meta = Some m, yq_party_id = party_id, yq_revision = revision\<rparr> s)"

definition client_proposal :: "'s transport \<Rightarrow> rstr \<Rightarrow> rstr \<Rightarrow> bool \<Rightarrow> client \<Rightarrow> 's
    \<Rightarrow> (client_error + sdk_operation) \<times> 's" where
  "client_proposal tp rid i accept c s = (case client_meta rid c of Inl e \<Rightarrow> (Inl e, s)
    | Inr m \<Rightarrow> rpc_call (if accept then sv_accept_match (tr_service tp) else sv_reject_match (tr_service tp)) operation
        \<lparr>rq_meta = Some m, rq_proposal_id = i\<rparr> s)"

section \<open>The stream of events\<close>

text \<open>
  The task behind \<open>events\<close>. The receiver takes \<open>el_room\<close> more items before it is dropped; sending
  to a dropped receiver ends the task. The time slept is counted, not spent.
\<close>

record event_loop =
  el_client :: client
  el_backoff_ms :: nat
  el_room :: nat
  el_sent :: "(client_error + sdk_event) list"
  el_slept :: "nat list"
  el_running :: bool

definition send_item :: "client_error + sdk_event \<Rightarrow> event_loop \<Rightarrow> event_loop" where
  "send_item item l = (if el_room l = 0 then l\<lparr>el_running := False\<rparr>
     else l\<lparr>el_room := el_room l - 1, el_sent := el_sent l @ [item]\<rparr>)"

fun forward_items :: "(status + client_event) list \<Rightarrow> event_loop \<Rightarrow> event_loop" where
  "forward_items [] l = l"
| "forward_items (Inl e # items) l = l"
| "forward_items (Inr v # items) l = (let l = send_item (decode_event v) l
     in if el_running l then forward_items items l else l)"

definition events_start :: "nat \<Rightarrow> client \<Rightarrow> client_error + event_loop" where
  "events_start room c = (case client_token c of Inl e \<Rightarrow> Inl e
    | Inr _ \<Rightarrow> Inr \<lparr>el_client = c, el_backoff_ms = 100, el_room = room, el_sent = [], el_slept = [],
        el_running = True\<rparr>)"

definition forward_opened :: "status + (status + client_event) list \<Rightarrow> event_loop \<Rightarrow> event_loop" where
  "forward_opened opened l = (case opened of Inl _ \<Rightarrow> l
    | Inr items \<Rightarrow> forward_items items (l\<lparr>el_backoff_ms := 100\<rparr>))"

definition reconnect_after :: "'s transport \<Rightarrow> event_loop \<Rightarrow> 's \<Rightarrow> event_loop \<times> 's" where
  "reconnect_after tp l s =
    (let l = l\<lparr>el_slept := el_slept l @ [el_backoff_ms l]\<rparr>
     in case client_reconnect tp (el_client l) s of
        (Inr reconciled, c, s) \<Rightarrow>
          (send_item (Inr (SdkState reconciled)) (l\<lparr>el_client := c, el_backoff_ms := 100\<rparr>), s)
      | (Inl e, c, s) \<Rightarrow>
          (send_item (Inl e) (l\<lparr>el_client := c, el_backoff_ms := min (el_backoff_ms l * 2) 5000\<rparr>), s))"

definition event_round :: "'s transport \<Rightarrow> event_loop \<times> 's \<Rightarrow> event_loop \<times> 's" where
  "event_round tp x = (case x of (l, s) \<Rightarrow>
    if \<not> el_running l then (l, s)
    else case client_token (el_client l) of
      Inl e \<Rightarrow> ((send_item (Inl e) l)\<lparr>el_running := False\<rparr>, s)
    | Inr token \<Rightarrow>
       (case sv_watch_events (tr_service tp) \<lparr>wq_session_token = token, wq_api = Some api_sent\<rparr> s of (opened, s) \<Rightarrow>
        let l = forward_opened opened l
        in if \<not> el_running l then (l, s) else reconnect_after tp l s))"

end
