(* ===== verification/Client_Ffi.thy ===== *)
theory Client_Ffi
  imports Client
begin

text \<open>
  \<open>client-ffi/src/lib.rs\<close>, the C interface of the client library. A string argument is a null
  pointer, text that is not UTF-8, or text; a pointer to a client or an event that may be null is an
  option; a call returns its code, the client and the state of the other side. Of the two shared
  variables with interior mutability only the values are kept: every call locks them for its whole
  duration. Freeing memory (\<open>erps_client_destroy\<close>, \<open>erps_event_release\<close>) is not modelled.
\<close>

section \<open>Codes and strings\<close>

definition ERPS_ABI_VERSION :: u32 where "ERPS_ABI_VERSION = 1"

abbreviation ERPS_OK :: i32 where "ERPS_OK \<equiv> 0"
abbreviation ERPS_NO_EVENT :: i32 where "ERPS_NO_EVENT \<equiv> 1"
abbreviation ERPS_INVALID_ARGUMENT :: i32 where "ERPS_INVALID_ARGUMENT \<equiv> - 1"
abbreviation ERPS_RUNTIME_ERROR :: i32 where "ERPS_RUNTIME_ERROR \<equiv> - 2"
abbreviation ERPS_PANIC :: i32 where "ERPS_PANIC \<equiv> - 3"
abbreviation ERPS_THREAD_MISUSE :: i32 where "ERPS_THREAD_MISUSE \<equiv> - 4"

datatype c_text = NullPtr | InvalidUtf8 | Utf8 rstr

definition c_arg :: "c_text \<Rightarrow> rstr option" where
  "c_arg p = (case p of NullPtr \<Rightarrow> None | InvalidUtf8 \<Rightarrow> None | Utf8 s \<Rightarrow> Some s)"

definition cstring :: "rstr \<Rightarrow> rstr" where
  "cstring v = (if 0 \<in> set v then lit ''invalid-string'' else v)"

definition ffi_mode :: "queue_mode \<Rightarrow> u32" where
  "ffi_mode m = (case m of OneVsOne \<Rightarrow> 1 | FiveVsFive \<Rightarrow> 2 | FreeForAll \<Rightarrow> 3)"

text \<open>A closure that panics has the value \<open>None\<close>.\<close>

definition ffi_guard :: "(i32 \<times> 'c) option \<Rightarrow> 'c \<Rightarrow> i32 \<times> 'c" where
  "ffi_guard result unwound = (case result of None \<Rightarrow> (ERPS_PANIC, unwound) | Some r \<Rightarrow> r)"

text \<open>The \<open>Display\<close> text of the library's errors; that of a gRPC status is a parameter.\<close>

definition client_error_text :: "(status \<Rightarrow> rstr) \<Rightarrow> client_error \<Rightarrow> rstr" where
  "client_error_text st_txt e = (case e of ClientTransport t \<Rightarrow> lit ''transport: '' @ t
     | ClientRpc s \<Rightarrow> lit ''rpc: '' @ st_txt s
     | ClientRejected code msg \<Rightarrow> lit ''server rejected operation '' @ code @ lit '': '' @ msg
     | NotConnected \<Rightarrow> lit ''not connected''
     | ClientProtocol p \<Rightarrow> lit ''protocol: '' @ lit p)"

section \<open>Events\<close>

record erps_player =
  ep_id :: rstr
  ep_rating :: i32
  ep_rating_one_v_one :: i32
  ep_rating_five_v_five :: i32
  ep_rating_free_for_all :: i32
  ep_credit :: u32

record erps_event =
  ee_kind :: u32
  ee_deadline_ms :: i64
  ee_entity_id :: rstr
  ee_revision :: u64
  ee_endpoint :: rstr
  ee_connection_token :: rstr
  ee_party_id :: rstr
  ee_ticket_id :: rstr
  ee_proposal_id :: rstr
  ee_match_id :: rstr
  ee_party_name :: rstr
  ee_party_leader_id :: rstr
  ee_party_state :: rstr
  ee_party_members :: "erps_player list"
  ee_reason :: rstr
  ee_player_rating_one_v_one :: i32
  ee_player_rating_five_v_five :: i32
  ee_player_rating_free_for_all :: i32
  ee_player_credit :: u32
  ee_player_eligible :: bool
  ee_credit_suspended_until_ms :: i64
  ee_queue_mode :: u32
  ee_allowed_regions :: "rstr list"
  ee_teams :: "rstr list list"

text \<open>The fields that an event does not use.\<close>

definition plain_event :: "u32 \<Rightarrow> rstr \<Rightarrow> erps_event" where
  "plain_event kind entity = \<lparr>ee_kind = kind, ee_deadline_ms = 0, ee_entity_id = cstring entity, ee_revision = 0,
     ee_endpoint = [], ee_connection_token = [], ee_party_id = [], ee_ticket_id = [], ee_proposal_id = [],
     ee_match_id = [], ee_party_name = [], ee_party_leader_id = [], ee_party_state = [], ee_party_members = [],
     ee_reason = [], ee_player_rating_one_v_one = 0, ee_player_rating_five_v_five = 0,
     ee_player_rating_free_for_all = 0, ee_player_credit = 0, ee_player_eligible = True,
     ee_credit_suspended_until_ms = 0, ee_queue_mode = 0, ee_allowed_regions = [], ee_teams = []\<rparr>"

definition mapped_player :: "sdk_player \<Rightarrow> erps_player" where
  "mapped_player p = \<lparr>ep_id = cstring (sp_id p), ep_rating = sp_rating p,
     ep_rating_one_v_one = sp_rating_one_v_one p, ep_rating_five_v_five = sp_rating_five_v_five p,
     ep_rating_free_for_all = sp_rating_free_for_all p, ep_credit = sp_credit p\<rparr>"

definition mapped_party :: "sdk_party \<Rightarrow> erps_event" where
  "mapped_party v = (plain_event 1 (sy_id v))\<lparr>ee_revision := sy_revision v, ee_party_id := cstring (sy_id v),
     ee_party_name := cstring (sy_name v), ee_party_leader_id := cstring (sy_leader_id v),
     ee_party_state := cstring (sy_state v), ee_party_members := map mapped_player (sy_player_details v)\<rparr>"

definition mapped_state :: "sdk_state \<Rightarrow> erps_event" where
  "mapped_state v = (let text_of = (\<lambda>f. cstring (case ss_party v of None \<Rightarrow> [] | Some p \<Rightarrow> f p))
     in (plain_event 5 (ss_player_id v))\<lparr>
       ee_deadline_ms := unwrap_or 0 (ss_proposal_deadline_ms v),
       ee_party_id := text_of sy_id,
       ee_ticket_id := cstring (unwrap_or [] (ss_ticket_id v)),
       ee_proposal_id := cstring (unwrap_or [] (ss_proposal_id v)),
       ee_match_id := cstring (unwrap_or [] (ss_match_id v)),
       ee_party_name := text_of sy_name,
       ee_party_leader_id := text_of sy_leader_id,
       ee_party_state := text_of sy_state,
       ee_party_members := (case ss_party v of None \<Rightarrow> [] | Some p \<Rightarrow> map mapped_player (sy_player_details p)),
       ee_player_rating_one_v_one := (case ss_profile v of None \<Rightarrow> 0 | Some p \<Rightarrow> sp_rating_one_v_one p),
       ee_player_rating_five_v_five := (case ss_profile v of None \<Rightarrow> 0 | Some p \<Rightarrow> sp_rating_five_v_five p),
       ee_player_rating_free_for_all := (case ss_profile v of None \<Rightarrow> 0 | Some p \<Rightarrow> sp_rating_free_for_all p),
       ee_player_credit := (case ss_profile v of None \<Rightarrow> 0 | Some p \<Rightarrow> sp_credit p),
       ee_player_eligible := (ss_credit_suspended_until_ms v = None),
       ee_credit_suspended_until_ms := unwrap_or 0 (ss_credit_suspended_until_ms v),
       ee_queue_mode := (case ss_queue_mode v of None \<Rightarrow> 0 | Some m \<Rightarrow> ffi_mode m),
       ee_allowed_regions := map cstring (ss_allowed_regions v)\<rparr>)"

definition mapped_event :: "sdk_event \<Rightarrow> erps_event" where
  "mapped_event event = (case event of
      SdkParty v \<Rightarrow> mapped_party v
    | SdkProposal i deadline \<Rightarrow> (plain_event 2 i)\<lparr>ee_deadline_ms := deadline, ee_proposal_id := cstring i\<rparr>
    | SdkMatched i mode teams endpoint token \<Rightarrow> (plain_event 3 i)\<lparr>ee_endpoint := cstring endpoint,
        ee_connection_token := cstring token, ee_match_id := cstring i, ee_queue_mode := ffi_mode mode,
        ee_teams := map (map cstring) teams\<rparr>
    | SdkServerLost i \<Rightarrow> (plain_event 4 i)\<lparr>ee_match_id := cstring i\<rparr>
    | SdkState v \<Rightarrow> mapped_state v
    | SdkProposalCancelled i reason credit eligible until \<Rightarrow> (plain_event 6 i)\<lparr>ee_proposal_id := cstring i,
        ee_reason := cstring reason, ee_player_credit := credit, ee_player_eligible := eligible,
        ee_credit_suspended_until_ms := unwrap_or 0 until\<rparr>)"

section \<open>The client object\<close>

text \<open>
  The task that forwards the stream of events: not started, started with a copy of the client,
  forwarding, or stopped.
\<close>

datatype pump = PumpOff | PumpOpening client | PumpRunning | PumpStopped

record erps_client =
  fc_client :: client
  fc_events :: "erps_event list"
  fc_events_started :: bool
  fc_event_stream_failed :: bool
  fc_poll_thread :: "nat option"
  fc_last_error :: rstr
  fc_pump :: pump

abbreviation EVENT_QUEUE :: nat where "EVENT_QUEUE \<equiv> 1024"

definition fail_with :: "rstr \<Rightarrow> erps_client \<Rightarrow> i32 \<times> erps_client" where
  "fail_with e c = (ERPS_RUNTIME_ERROR, c\<lparr>fc_last_error := cstring e\<rparr>)"

text \<open>
  \<open>create_client\<close>. Whether \<open>out\<close> is null and whether the runtime could be built are arguments; the
  pointer written to \<open>out\<close> is the second component.
\<close>

definition create_client :: "'s transport \<Rightarrow> bool \<Rightarrow> c_text \<Rightarrow> c_text \<Rightarrow> c_text \<Rightarrow> c_text \<Rightarrow> bool \<Rightarrow> 's
    \<Rightarrow> i32 \<times> erps_client option \<times> 's" where
  "create_client tp runtime_built endpoint auth_token tls_domain ca_pem out_null s =
    (if out_null then (ERPS_INVALID_ARGUMENT, None, s)
     else case c_arg endpoint of None \<Rightarrow> (ERPS_INVALID_ARGUMENT, None, s)
     | Some endpoint \<Rightarrow> (case c_arg auth_token of None \<Rightarrow> (ERPS_INVALID_ARGUMENT, None, s)
     | Some auth \<Rightarrow>
        if \<not> runtime_built then (ERPS_RUNTIME_ERROR, None, s)
        else let options = (case c_arg tls_domain of
               None \<Rightarrow> plaintext_loopback endpoint auth
             | Some domain \<Rightarrow> (case c_arg ca_pem of None \<Rightarrow> tls_options endpoint auth domain
                 | Some ca \<Rightarrow> tls_with_ca endpoint auth domain (utf8_bytes ca)))
          in case client_connect tp options s of
               (Inl _, s) \<Rightarrow> (ERPS_RUNTIME_ERROR, None, s)
             | (Inr client, s) \<Rightarrow> (ERPS_OK, Some \<lparr>fc_client = client, fc_events = [], fc_events_started = False,
                 fc_event_stream_failed = False, fc_poll_thread = None, fc_last_error = [], fc_pump = PumpOff\<rparr>, s)))"

definition erps_client_create :: "'s transport \<Rightarrow> bool \<Rightarrow> c_text \<Rightarrow> c_text \<Rightarrow> bool \<Rightarrow> 's
    \<Rightarrow> i32 \<times> erps_client option \<times> 's" where
  "erps_client_create tp runtime_built endpoint auth_token out_null s =
     create_client tp runtime_built endpoint auth_token NullPtr NullPtr out_null s"

definition erps_client_create_tls :: "'s transport \<Rightarrow> bool \<Rightarrow> c_text \<Rightarrow> c_text \<Rightarrow> c_text \<Rightarrow> bool \<Rightarrow> 's
    \<Rightarrow> i32 \<times> erps_client option \<times> 's" where
  "erps_client_create_tls tp runtime_built endpoint auth_token tls_domain out_null s =
    (if tls_domain = NullPtr then (ERPS_INVALID_ARGUMENT, None, s)
     else create_client tp runtime_built endpoint auth_token tls_domain NullPtr out_null s)"

definition erps_client_create_tls_with_ca :: "'s transport \<Rightarrow> bool \<Rightarrow> c_text \<Rightarrow> c_text \<Rightarrow> c_text \<Rightarrow> c_text
    \<Rightarrow> bool \<Rightarrow> 's \<Rightarrow> i32 \<times> erps_client option \<times> 's" where
  "erps_client_create_tls_with_ca tp runtime_built endpoint auth_token tls_domain ca_pem out_null s =
    (if tls_domain = NullPtr \<or> ca_pem = NullPtr then (ERPS_INVALID_ARGUMENT, None, s)
     else create_client tp runtime_built endpoint auth_token tls_domain ca_pem out_null s)"

definition erps_client_shutdown :: "erps_client option \<Rightarrow> i32 \<times> erps_client option" where
  "erps_client_shutdown client = (case client of None \<Rightarrow> (ERPS_INVALID_ARGUMENT, None)
    | Some c \<Rightarrow> (ERPS_OK, Some (c\<lparr>fc_client := client_shutdown (fc_client c)\<rparr>)))"

section \<open>Calls\<close>

text \<open>A call on the client library whose answer only matters for the code.\<close>

definition operation_error :: "(status \<Rightarrow> rstr) \<Rightarrow> client_error + 'r \<Rightarrow> erps_client \<Rightarrow> i32 \<times> erps_client" where
  "operation_error st_txt result c = (case result of Inr _ \<Rightarrow> (ERPS_OK, c)
    | Inl e \<Rightarrow> fail_with (client_error_text st_txt e) c)"

definition ffi_call :: "(status \<Rightarrow> rstr) \<Rightarrow> (client \<Rightarrow> 's \<Rightarrow> (client_error + 'r) \<times> 's) \<Rightarrow> erps_client \<Rightarrow> 's
    \<Rightarrow> i32 \<times> erps_client option \<times> 's" where
  "ffi_call st_txt call c s = (case call (fc_client c) s of (result, s) \<Rightarrow>
     (case operation_error st_txt result c of (code, c) \<Rightarrow> (code, Some c, s)))"

definition erps_client_create_party :: "'s transport \<Rightarrow> (status \<Rightarrow> rstr) \<Rightarrow> rstr \<Rightarrow> c_text
    \<Rightarrow> erps_client option \<Rightarrow> 's \<Rightarrow> i32 \<times> erps_client option \<times> 's" where
  "erps_client_create_party tp st_txt rid name client s = (case client of
      None \<Rightarrow> (ERPS_INVALID_ARGUMENT, None, s)
    | Some c \<Rightarrow> (case c_arg name of None \<Rightarrow> (ERPS_INVALID_ARGUMENT, client, s)
      | Some name \<Rightarrow> ffi_call st_txt (client_create_party tp rid name) c s))"

text \<open>The buffer for the token is its bytes, or a null pointer.\<close>

definition erps_client_create_invite :: "'s transport \<Rightarrow> (status \<Rightarrow> rstr) \<Rightarrow> rstr \<Rightarrow> c_text \<Rightarrow> u64 \<Rightarrow> u32 \<Rightarrow> u32
    \<Rightarrow> nat list option \<Rightarrow> erps_client option \<Rightarrow> 's \<Rightarrow> i32 \<times> nat list option \<times> erps_client option \<times> 's" where
  "erps_client_create_invite tp st_txt rid party_id revision ttl_seconds uses out_token client s = (case client of
      None \<Rightarrow> (ERPS_INVALID_ARGUMENT, out_token, None, s)
    | Some c \<Rightarrow> (case c_arg party_id of None \<Rightarrow> (ERPS_INVALID_ARGUMENT, out_token, client, s)
      | Some party_id \<Rightarrow>
         (case out_token of None \<Rightarrow> (ERPS_INVALID_ARGUMENT, out_token, client, s)
          | Some buffer \<Rightarrow>
             if buffer = [] then (ERPS_INVALID_ARGUMENT, out_token, client, s)
             else let buffer = buffer[0 := 0]
               in (case client_create_invite tp rid party_id revision ttl_seconds uses (fc_client c) s of
                    (Inr token, s) \<Rightarrow>
                      let bytes = utf8_bytes token
                      in if length bytes < length buffer
                         then (ERPS_OK, Some (bytes @ [0] @ drop (length bytes + 1) buffer), client, s)
                         else (ERPS_INVALID_ARGUMENT, Some buffer, client, s)
                  | (Inl e, s) \<Rightarrow> (case fail_with (client_error_text st_txt e) c of
                      (code, c) \<Rightarrow> (code, Some buffer, Some c, s))))))"

definition erps_client_join_party :: "'s transport \<Rightarrow> (status \<Rightarrow> rstr) \<Rightarrow> rstr \<Rightarrow> c_text
    \<Rightarrow> erps_client option \<Rightarrow> 's \<Rightarrow> i32 \<times> erps_client option \<times> 's" where
  "erps_client_join_party tp st_txt rid invite_token client s = (case client of
      None \<Rightarrow> (ERPS_INVALID_ARGUMENT, None, s)
    | Some c \<Rightarrow> (case c_arg invite_token of None \<Rightarrow> (ERPS_INVALID_ARGUMENT, client, s)
      | Some token \<Rightarrow> ffi_call st_txt (client_join_party tp rid token) c s))"

text \<open>\<open>value.unwrap()\<close> panics when there is no value; the guard turns that into \<open>ERPS_PANIC\<close>.\<close>

definition party_mutation :: "'s transport \<Rightarrow> (status \<Rightarrow> rstr) \<Rightarrow> rstr \<Rightarrow> c_text \<Rightarrow> u64 \<Rightarrow> c_text \<Rightarrow> nat
    \<Rightarrow> erps_client option \<Rightarrow> 's \<Rightarrow> i32 \<times> erps_client option \<times> 's" where
  "party_mutation tp st_txt rid party_id revision value op client s = ffi_guard (case client of
      None \<Rightarrow> Some (ERPS_INVALID_ARGUMENT, None, s)
    | Some c \<Rightarrow> (case c_arg party_id of None \<Rightarrow> Some (ERPS_INVALID_ARGUMENT, client, s)
      | Some party_id \<Rightarrow>
         if op \<noteq> 0 \<and> c_arg value = None then Some (ERPS_INVALID_ARGUMENT, client, s)
         else if op = 0 then Some (ffi_call st_txt (client_leave_party tp rid party_id revision) c s)
         else if op = 1 then (case c_arg value of None \<Rightarrow> None
           | Some v \<Rightarrow> Some (ffi_call st_txt (client_kick_member tp rid party_id revision v) c s))
         else if op = 2 then (case c_arg value of None \<Rightarrow> None
           | Some v \<Rightarrow> Some (ffi_call st_txt (client_rename_party tp rid party_id revision v) c s))
         else Some (ERPS_INVALID_ARGUMENT, client, s))) (client, s)"

definition erps_client_leave_party :: "'s transport \<Rightarrow> (status \<Rightarrow> rstr) \<Rightarrow> rstr \<Rightarrow> c_text \<Rightarrow> u64
    \<Rightarrow> erps_client option \<Rightarrow> 's \<Rightarrow> i32 \<times> erps_client option \<times> 's" where
  "erps_client_leave_party tp st_txt rid party_id revision = party_mutation tp st_txt rid party_id revision NullPtr 0"

definition erps_client_kick_member :: "'s transport \<Rightarrow> (status \<Rightarrow> rstr) \<Rightarrow> rstr \<Rightarrow> c_text \<Rightarrow> u64 \<Rightarrow> c_text
    \<Rightarrow> erps_client option \<Rightarrow> 's \<Rightarrow> i32 \<times> erps_client option \<times> 's" where
  "erps_client_kick_member tp st_txt rid party_id revision player_id = party_mutation tp st_txt rid party_id revision player_id 1"

definition erps_client_rename_party :: "'s transport \<Rightarrow> (status \<Rightarrow> rstr) \<Rightarrow> rstr \<Rightarrow> c_text \<Rightarrow> u64 \<Rightarrow> c_text
    \<Rightarrow> erps_client option \<Rightarrow> 's \<Rightarrow> i32 \<times> erps_client option \<times> 's" where
  "erps_client_rename_party tp st_txt rid party_id revision name = party_mutation tp st_txt rid party_id revision name 2"

definition mode_of_ffi :: "u32 \<Rightarrow> queue_mode option" where
  "mode_of_ffi v = (if v = 1 then Some OneVsOne else if v = 2 then Some FiveVsFive
     else if v = 3 then Some FreeForAll else None)"

definition erps_client_enqueue :: "'s transport \<Rightarrow> (status \<Rightarrow> rstr) \<Rightarrow> rstr \<Rightarrow> c_text \<Rightarrow> u64 \<Rightarrow> u32 \<Rightarrow> c_text
    \<Rightarrow> erps_client option \<Rightarrow> 's \<Rightarrow> i32 \<times> erps_client option \<times> 's" where
  "erps_client_enqueue tp st_txt rid party_id revision mode region client s = (case client of
      None \<Rightarrow> (ERPS_INVALID_ARGUMENT, None, s)
    | Some c \<Rightarrow> (case (c_arg party_id, c_arg region) of
        (Some party, Some region) \<Rightarrow>
          (case mode_of_ffi mode of None \<Rightarrow> (ERPS_INVALID_ARGUMENT, client, s)
           | Some mode \<Rightarrow> ffi_call st_txt (client_enqueue tp rid party revision mode [region]) c s)
      | _ \<Rightarrow> (ERPS_INVALID_ARGUMENT, client, s)))"

definition erps_client_cancel_queue :: "'s transport \<Rightarrow> (status \<Rightarrow> rstr) \<Rightarrow> rstr \<Rightarrow> c_text \<Rightarrow> u64
    \<Rightarrow> erps_client option \<Rightarrow> 's \<Rightarrow> i32 \<times> erps_client option \<times> 's" where
  "erps_client_cancel_queue tp st_txt rid party_id revision client s = (case client of
      None \<Rightarrow> (ERPS_INVALID_ARGUMENT, None, s)
    | Some c \<Rightarrow> (case c_arg party_id of None \<Rightarrow> (ERPS_INVALID_ARGUMENT, client, s)
      | Some party_id \<Rightarrow> ffi_call st_txt (client_cancel_queue tp rid party_id revision) c s))"

definition ffi_proposal :: "'s transport \<Rightarrow> (status \<Rightarrow> rstr) \<Rightarrow> rstr \<Rightarrow> c_text \<Rightarrow> bool
    \<Rightarrow> erps_client option \<Rightarrow> 's \<Rightarrow> i32 \<times> erps_client option \<times> 's" where
  "ffi_proposal tp st_txt rid i accept client s = (case client of
      None \<Rightarrow> (ERPS_INVALID_ARGUMENT, None, s)
    | Some c \<Rightarrow> (case c_arg i of None \<Rightarrow> (ERPS_INVALID_ARGUMENT, client, s)
      | Some i \<Rightarrow> ffi_call st_txt (client_proposal tp rid i accept) c s))"

definition erps_client_accept :: "'s transport \<Rightarrow> (status \<Rightarrow> rstr) \<Rightarrow> rstr \<Rightarrow> c_text
    \<Rightarrow> erps_client option \<Rightarrow> 's \<Rightarrow> i32 \<times> erps_client option \<times> 's" where
  "erps_client_accept tp st_txt rid i = ffi_proposal tp st_txt rid i True"

definition erps_client_reject :: "'s transport \<Rightarrow> (status \<Rightarrow> rstr) \<Rightarrow> rstr \<Rightarrow> c_text
    \<Rightarrow> erps_client option \<Rightarrow> 's \<Rightarrow> i32 \<times> erps_client option \<times> 's" where
  "erps_client_reject tp st_txt rid i = ffi_proposal tp st_txt rid i False"

section \<open>The queue of events\<close>

text \<open>\<open>SyncSender::try_send\<close> on the queue; the receiver lives as long as the client.\<close>

definition offer_event :: "erps_event \<Rightarrow> erps_client \<Rightarrow> erps_client option" where
  "offer_event e c = (if length (fc_events c) < EVENT_QUEUE then Some (c\<lparr>fc_events := fc_events c @ [e]\<rparr>) else None)"

definition erps_client_get_state :: "'s transport \<Rightarrow> (status \<Rightarrow> rstr) \<Rightarrow> erps_client option \<Rightarrow> 's
    \<Rightarrow> i32 \<times> erps_client option \<times> 's" where
  "erps_client_get_state tp st_txt client s = (case client of
      None \<Rightarrow> (ERPS_INVALID_ARGUMENT, None, s)
    | Some c \<Rightarrow> (case client_get_state tp (fc_client c) s of
        (Inr state, s) \<Rightarrow> (case offer_event (mapped_event (SdkState state)) c of
            Some c \<Rightarrow> (ERPS_OK, Some c, s)
          | None \<Rightarrow> (case fail_with (lit ''state event queue full: sending on a full channel'') c of
              (code, c) \<Rightarrow> (code, Some c, s)))
      | (Inl e, s) \<Rightarrow> (case fail_with (client_error_text st_txt e) c of (code, c) \<Rightarrow> (code, Some c, s))))"

definition erps_client_start_events :: "erps_client option \<Rightarrow> i32 \<times> erps_client option" where
  "erps_client_start_events client = (case client of None \<Rightarrow> (ERPS_INVALID_ARGUMENT, None)
    | Some c \<Rightarrow> if fc_events_started c then (ERPS_INVALID_ARGUMENT, client)
       else (ERPS_OK, Some (c\<lparr>fc_events_started := True, fc_pump := PumpOpening (fc_client c)\<rparr>)))"

definition stop_pump :: "string \<Rightarrow> erps_client \<Rightarrow> erps_client" where
  "stop_pump reason c = c\<lparr>fc_last_error := cstring (lit reason), fc_event_stream_failed := True, fc_pump := PumpStopped\<rparr>"

text \<open>The steps of the forwarding task: opening the stream, and one item (\<open>None\<close>: the stream ended).\<close>

definition pump_open :: "erps_client \<Rightarrow> erps_client" where
  "pump_open c = (case fc_pump c of PumpOpening network \<Rightarrow>
      (case events_start 256 network of Inr _ \<Rightarrow> c\<lparr>fc_pump := PumpRunning\<rparr>
       | Inl _ \<Rightarrow> stop_pump ''failed to open event stream; call GetState'' c)
    | _ \<Rightarrow> c)"

definition pump_item :: "(status \<Rightarrow> rstr) \<Rightarrow> (client_error + sdk_event) option \<Rightarrow> erps_client \<Rightarrow> erps_client" where
  "pump_item st_txt item c = (if fc_pump c \<noteq> PumpRunning then c else case item of
      Some (Inr event) \<Rightarrow> (case offer_event (mapped_event event) c of Some c \<Rightarrow> c
        | None \<Rightarrow> stop_pump ''event stream stopped because the bounded local queue is full; drain events and call GetState'' c)
    | Some (Inl e) \<Rightarrow> c\<lparr>fc_last_error := cstring (lit ''event stream reconnecting after transient error: ''
        @ client_error_text st_txt e)\<rparr>
    | None \<Rightarrow> stop_pump ''event stream ended; call GetState before reconnecting'' c)"

definition erps_client_poll :: "nat \<Rightarrow> bool \<Rightarrow> erps_client option \<Rightarrow> i32 \<times> erps_event option \<times> erps_client option" where
  "erps_client_poll thread out_null client =
    (if out_null then (ERPS_INVALID_ARGUMENT, None, client)
     else case client of None \<Rightarrow> (ERPS_INVALID_ARGUMENT, None, client)
     | Some c \<Rightarrow>
        if fc_poll_thread c \<noteq> None \<and> fc_poll_thread c \<noteq> Some thread then (ERPS_THREAD_MISUSE, None, client)
        else let c = c\<lparr>fc_poll_thread := Some thread\<rparr>
          in case fc_events c of
               v # rest \<Rightarrow> (ERPS_OK, Some v, Some (c\<lparr>fc_events := rest\<rparr>))
             | [] \<Rightarrow> (if fc_event_stream_failed c then ERPS_RUNTIME_ERROR else ERPS_NO_EVENT, None, Some c))"

section \<open>Reading an event\<close>

text \<open>A null pointer as the answer is \<open>None\<close>; an index beyond the end is answered like a null event.\<close>

definition at_index :: "'a list \<Rightarrow> nat \<Rightarrow> 'a option" where
  "at_index xs i = (if i < length xs then Some (xs ! i) else None)"

definition erps_abi_version :: u32 where "erps_abi_version = ERPS_ABI_VERSION"

definition erps_event_kind :: "erps_event option \<Rightarrow> u32" where
  "erps_event_kind event = (case event of None \<Rightarrow> 0 | Some v \<Rightarrow> ee_kind v)"

definition erps_event_deadline_ms :: "erps_event option \<Rightarrow> i64" where
  "erps_event_deadline_ms event = (case event of None \<Rightarrow> 0 | Some v \<Rightarrow> ee_deadline_ms v)"

definition erps_event_revision :: "erps_event option \<Rightarrow> u64" where
  "erps_event_revision event = (case event of None \<Rightarrow> 0 | Some v \<Rightarrow> ee_revision v)"

definition erps_event_player_credit :: "erps_event option \<Rightarrow> u32" where
  "erps_event_player_credit event = (case event of None \<Rightarrow> 0 | Some v \<Rightarrow> ee_player_credit v)"

definition erps_event_credit_suspended_until_ms :: "erps_event option \<Rightarrow> i64" where
  "erps_event_credit_suspended_until_ms event = (case event of None \<Rightarrow> 0 | Some v \<Rightarrow> ee_credit_suspended_until_ms v)"

definition erps_event_queue_mode :: "erps_event option \<Rightarrow> u32" where
  "erps_event_queue_mode event = (case event of None \<Rightarrow> 0 | Some v \<Rightarrow> ee_queue_mode v)"

definition erps_event_entity_id :: "erps_event option \<Rightarrow> rstr option" where
  "erps_event_entity_id event = map_option ee_entity_id event"

definition erps_event_endpoint :: "erps_event option \<Rightarrow> rstr option" where
  "erps_event_endpoint event = map_option ee_endpoint event"

definition erps_event_connection_token :: "erps_event option \<Rightarrow> rstr option" where
  "erps_event_connection_token event = map_option ee_connection_token event"

definition erps_event_party_id :: "erps_event option \<Rightarrow> rstr option" where
  "erps_event_party_id event = map_option ee_party_id event"

definition erps_event_ticket_id :: "erps_event option \<Rightarrow> rstr option" where
  "erps_event_ticket_id event = map_option ee_ticket_id event"

definition erps_event_proposal_id :: "erps_event option \<Rightarrow> rstr option" where
  "erps_event_proposal_id event = map_option ee_proposal_id event"

definition erps_event_match_id :: "erps_event option \<Rightarrow> rstr option" where
  "erps_event_match_id event = map_option ee_match_id event"

definition erps_event_party_name :: "erps_event option \<Rightarrow> rstr option" where
  "erps_event_party_name event = map_option ee_party_name event"

definition erps_event_party_leader_id :: "erps_event option \<Rightarrow> rstr option" where
  "erps_event_party_leader_id event = map_option ee_party_leader_id event"

definition erps_event_party_state :: "erps_event option \<Rightarrow> rstr option" where
  "erps_event_party_state event = map_option ee_party_state event"

definition erps_event_reason :: "erps_event option \<Rightarrow> rstr option" where
  "erps_event_reason event = map_option ee_reason event"

definition erps_event_player_eligible :: "erps_event option \<Rightarrow> u32" where
  "erps_event_player_eligible event = (case event of None \<Rightarrow> 0 | Some v \<Rightarrow> if ee_player_eligible v then 1 else 0)"

definition erps_event_party_member_count :: "erps_event option \<Rightarrow> nat" where
  "erps_event_party_member_count event = (case event of None \<Rightarrow> 0 | Some v \<Rightarrow> length (ee_party_members v))"

definition erps_event_allowed_region_count :: "erps_event option \<Rightarrow> nat" where
  "erps_event_allowed_region_count event = (case event of None \<Rightarrow> 0 | Some v \<Rightarrow> length (ee_allowed_regions v))"

definition erps_event_team_count :: "erps_event option \<Rightarrow> nat" where
  "erps_event_team_count event = (case event of None \<Rightarrow> 0 | Some v \<Rightarrow> length (ee_teams v))"

definition member_at :: "erps_event option \<Rightarrow> nat \<Rightarrow> erps_player option" where
  "member_at event i = Option.bind event (\<lambda>v. at_index (ee_party_members v) i)"

definition erps_event_party_member_id :: "erps_event option \<Rightarrow> nat \<Rightarrow> rstr option" where
  "erps_event_party_member_id event i = map_option ep_id (member_at event i)"

definition erps_event_party_member_rating :: "erps_event option \<Rightarrow> nat \<Rightarrow> i32" where
  "erps_event_party_member_rating event i = (case member_at event i of None \<Rightarrow> 0 | Some p \<Rightarrow> ep_rating p)"

definition erps_event_party_member_rating_for_mode :: "erps_event option \<Rightarrow> nat \<Rightarrow> u32 \<Rightarrow> i32" where
  "erps_event_party_member_rating_for_mode event i mode = (case member_at event i of None \<Rightarrow> 0
    | Some p \<Rightarrow> if mode = 1 then ep_rating_one_v_one p else if mode = 2 then ep_rating_five_v_five p
       else if mode = 3 then ep_rating_free_for_all p else 0)"

definition erps_event_party_member_credit :: "erps_event option \<Rightarrow> nat \<Rightarrow> u32" where
  "erps_event_party_member_credit event i = (case member_at event i of None \<Rightarrow> 0 | Some p \<Rightarrow> ep_credit p)"

definition erps_event_player_rating_for_mode :: "erps_event option \<Rightarrow> u32 \<Rightarrow> i32" where
  "erps_event_player_rating_for_mode event mode = (case event of None \<Rightarrow> 0
    | Some v \<Rightarrow> if mode = 1 then ee_player_rating_one_v_one v else if mode = 2 then ee_player_rating_five_v_five v
       else if mode = 3 then ee_player_rating_free_for_all v else 0)"

definition erps_event_allowed_region :: "erps_event option \<Rightarrow> nat \<Rightarrow> rstr option" where
  "erps_event_allowed_region event i = Option.bind event (\<lambda>v. at_index (ee_allowed_regions v) i)"

definition erps_event_team_player_count :: "erps_event option \<Rightarrow> nat \<Rightarrow> nat" where
  "erps_event_team_player_count event i =
    (case Option.bind event (\<lambda>v. at_index (ee_teams v) i) of None \<Rightarrow> 0 | Some team \<Rightarrow> length team)"

definition erps_event_team_player_id :: "erps_event option \<Rightarrow> nat \<Rightarrow> nat \<Rightarrow> rstr option" where
  "erps_event_team_player_id event i j =
    Option.bind (Option.bind event (\<lambda>v. at_index (ee_teams v) i)) (\<lambda>team. at_index team j)"

definition erps_client_last_error :: "erps_client option \<Rightarrow> rstr option" where
  "erps_client_last_error client = map_option fc_last_error client"

end
