(* ===== verification/Client_Laws.thy ===== *)
theory Client_Laws
  imports Client_Ffi Authority_Requests
begin

text \<open>
  The client library against the service: the stub bound to the handlers of the authority, the
  event loop of the client and the queue of events of the C interface as invariants of their
  steps.
\<close>

section \<open>The service behind the stub\<close>

text \<open>An answer of the actor. A panic ends the actor, and the call fails.\<close>

definition answered :: "'a outcome \<Rightarrow> authority \<Rightarrow> (status + 'a) \<times> authority" where
  "answered out st = (case out of None \<Rightarrow> (Inl (unavailable ''ERPS authority stopped''), st) | Some r \<Rightarrow> r)"

text \<open>
  The platform, the validator of tokens, the profile store, the random session and invitation
  tokens and the events that reach a watching player are given by the environment.
\<close>

definition authority_service :: "platform \<Rightarrow> (rstr \<Rightarrow> status + player_id) \<Rightarrow> (player_id \<Rightarrow> profile_error + player_profile)
    \<Rightarrow> rstr \<Rightarrow> (player_id \<Rightarrow> (status + client_event) list) \<Rightarrow> authority matchmaking_service" where
  "authority_service E validator load fresh items = \<lparr>
     sv_open_session = (\<lambda>q. open_session E validator load fresh (cq_api q) (cq_auth_token q)),
     sv_create_party = (\<lambda>q st. answered (create_party E (cp_meta q) (cp_name q) st) st),
     sv_create_invite = (\<lambda>q st. case create_invite E fresh (iq_meta q) (iq_party_id q) (iq_revision q)
         (iq_ttl_seconds q) (iq_uses q) st of
         (Inl e, st) \<Rightarrow> (Inl e, st)
       | (Inr (token, expires), st) \<Rightarrow> (Inr \<lparr>ir_token = token, ir_expires_at_ms = expires\<rparr>, st)),
     sv_join_party = (\<lambda>q st. answered (join_party E (jq_meta q) (jq_invite_token q) st) st),
     sv_leave_party = (\<lambda>q st. answered (leave_party E (yq_meta q) (yq_party_id q) (yq_revision q) st) st),
     sv_kick_member = (\<lambda>q st. answered (kick_member E (mq_meta q) (mq_party_id q) (mq_revision q) (mq_player_id q) st) st),
     sv_rename_party = (\<lambda>q st. answered (rename_party E (nq_meta q) (nq_party_id q) (nq_revision q) (nq_name q) st) st),
     sv_enqueue = (\<lambda>q st. answered (enqueue E (eq_meta q) (eq_party_id q) (eq_revision q) (eq_mode q)
       (eq_allowed_regions q) st) st),
     sv_cancel_queue = (\<lambda>q st. answered (cancel_queue E (yq_meta q) (yq_party_id q) (yq_revision q) st) st),
     sv_accept_match = (\<lambda>q st. answered (proposal_response E (rq_meta q) (rq_proposal_id q) True st) st),
     sv_reject_match = (\<lambda>q st. answered (proposal_response E (rq_meta q) (rq_proposal_id q) False st) st),
     sv_get_state = (\<lambda>q st. (get_state E (tq_api q) (tq_session_token q) st, st)),
     sv_watch_events = (\<lambda>q st. (map_sum id items (watch_events (wq_api q) (wq_session_token q) st), st))\<rparr>"

definition authority_link :: "platform \<Rightarrow> (rstr \<Rightarrow> status + player_id) \<Rightarrow> (player_id \<Rightarrow> profile_error + player_profile)
    \<Rightarrow> rstr \<Rightarrow> (player_id \<Rightarrow> (status + client_event) list) \<Rightarrow> authority transport" where
  "authority_link E validator load fresh items =
     \<lparr>tr_dial = (\<lambda>_ st. (Inr (), st)), tr_service = authority_service E validator load fresh items\<rparr>"

lemma check_api_sent [simp]: "check_api (Some api_sent) = Inr ()"
  by (simp add: check_api_def api_sent_def API_MAJOR_def)

lemma mode_from_wire_pb [simp]: "mode_from_wire (pb_mode m) = Some m"
  by (cases m) (simp_all add: mode_from_wire_def pb_mode_def)

lemma mode_of_wire [simp]: "mode_of (mode_wire m) = Inr m"
  by (cases m) (simp_all add: mode_of_def mode_wire_def)

lemma mode_of_ffi_mode [simp]: "mode_of_ffi (ffi_mode m) = Some m"
  by (cases m) (simp_all add: mode_of_ffi_def ffi_mode_def)

lemma c_arg_simps [simp]: "c_arg NullPtr = None" "c_arg InvalidUtf8 = None" "c_arg (Utf8 v) = Some v"
  by (simp_all add: c_arg_def)

lemma client_get_state_linked:
  assumes "cl_session_token c = Some t" and "bm_get (au_sessions st) t = Some p"
  shows "client_get_state (authority_link E validator load fresh items) c st
    = (Inr (decode_state (client_state_of E st p)), st)"
  using assms by (simp add: client_get_state_def client_token_def rpc_call_def authority_link_def
      authority_service_def get_state_def player_for_def)

lemma client_meta_Some: "cl_session_token c = Some t
    \<Longrightarrow> client_meta rid c = Inr \<lparr>mm_api = Some api_sent, mm_request_id = rid, mm_session_token = t\<rparr>"
  by (simp add: client_meta_def client_token_def)

section \<open>The event loop\<close>

text \<open>What every round keeps: the waits stay between 100 ms and 5 s, and the loop only ends when
  the receiver is gone.\<close>

definition loop_ok :: "event_loop \<Rightarrow> bool" where
  "loop_ok l \<longleftrightarrow> 100 \<le> el_backoff_ms l \<and> el_backoff_ms l \<le> 5000
     \<and> list_all (\<lambda>w. 100 \<le> w \<and> w \<le> 5000) (el_slept l)
     \<and> cl_session_token (el_client l) \<noteq> None \<and> (el_running l \<or> el_room l = 0)"

lemma send_item_ok: "loop_ok l \<Longrightarrow> loop_ok (send_item x l)"
  by (auto simp: send_item_def loop_ok_def)

lemma send_item_fields [simp]:
  "el_client (send_item x l) = el_client l" "el_backoff_ms (send_item x l) = el_backoff_ms l"
  "el_slept (send_item x l) = el_slept l"
  by (simp_all add: send_item_def)

lemma forward_items_ok: "loop_ok l \<Longrightarrow> loop_ok (forward_items items l)"
  by (induction items l rule: forward_items.induct) (simp_all add: send_item_ok Let_def)

lemma forward_items_fields [simp]:
  "el_client (forward_items items l) = el_client l" "el_backoff_ms (forward_items items l) = el_backoff_ms l"
  by (induction items l rule: forward_items.induct) (simp_all add: Let_def)

lemma open_session_token:
  "cl_session_token c \<noteq> None \<Longrightarrow> cl_session_token (fst (snd (client_open_session tp c s))) \<noteq> None"
  by (auto simp: client_open_session_def split: prod.split sum.split)

lemma reconnect_token:
  "cl_session_token c \<noteq> None \<Longrightarrow> cl_session_token (fst (snd (client_reconnect tp c s))) \<noteq> None"
  using open_session_token [of c tp] by (auto simp: client_reconnect_def split: prod.split sum.split)
    (metis fst_conv snd_conv)+


lemma forward_opened_ok: "loop_ok l \<Longrightarrow> loop_ok (forward_opened opened l)"
  by (auto simp: forward_opened_def split: sum.split intro!: forward_items_ok) (simp add: loop_ok_def)

lemma reconnect_after_ok:
  assumes "loop_ok l"
  shows "loop_ok (fst (reconnect_after tp l s))"
proof -
  let ?l = "l\<lparr>el_slept := el_slept l @ [el_backoff_ms l]\<rparr>"
  obtain r c s' where r: "client_reconnect tp (el_client l) s = (r, c, s')" by (metis prod_cases3)
  have "cl_session_token c \<noteq> None"
    using reconnect_token [of "el_client l" tp s] assms by (simp add: r loop_ok_def)
  then have ok: "loop_ok (?l\<lparr>el_client := c, el_backoff_ms := b\<rparr>)" if "100 \<le> b" "b \<le> 5000" for b
    using assms that by (auto simp: loop_ok_def)
  have "loop_ok (send_item (Inl e) (?l\<lparr>el_client := c, el_backoff_ms := min (el_backoff_ms l * 2) 5000\<rparr>))" for e
    by (rule send_item_ok [OF ok]) (use assms in \<open>auto simp: loop_ok_def\<close>)
  moreover have "loop_ok (send_item i (?l\<lparr>el_client := c, el_backoff_ms := 100\<rparr>))" for i
    by (rule send_item_ok [OF ok]) simp_all
  ultimately show ?thesis
    by (cases r) (simp_all add: reconnect_after_def r Let_def)
qed

lemma event_round_ok:
  assumes "loop_ok l"
  shows "loop_ok (fst (event_round tp (l, s)))"
proof -
  obtain t where "cl_session_token (el_client l) = Some t" using assms by (auto simp: loop_ok_def)
  with assms show ?thesis
    by (auto simp: event_round_def client_token_def Let_def case_prod_unfold forward_opened_ok reconnect_after_ok)
qed

lemma event_rounds_ok: "loop_ok l \<Longrightarrow> loop_ok (fst ((event_round tp ^^ n) (l, s)))"
proof (induction n)
  case (Suc n)
  then show ?case using event_round_ok [of "fst ((event_round tp ^^ n) (l, s))" tp "snd ((event_round tp ^^ n) (l, s))"]
    by simp
qed simp

text \<open>While every round fails, the waits double up to the limit.\<close>

definition failing :: "'s transport \<Rightarrow> bool" where
  "failing tp \<longleftrightarrow> (\<forall>q s. isl (fst (sv_watch_events (tr_service tp) q s))) \<and> (\<forall>o' s. isl (fst (tr_dial tp o' s)))"

lemma failing_round:
  assumes "failing tp" and "loop_ok l" and "el_running l" and "0 < el_room l"
  shows "\<exists>e s'. event_round tp (l, s) = (l\<lparr>el_slept := el_slept l @ [el_backoff_ms l],
    el_backoff_ms := min (el_backoff_ms l * 2) 5000, el_room := el_room l - 1, el_sent := el_sent l @ [Inl e]\<rparr>, s')"
proof -
  obtain t where t: "cl_session_token (el_client l) = Some t" using assms(2) by (auto simp: loop_ok_def)
  obtain e s1 where o: "sv_watch_events (tr_service tp) \<lparr>wq_session_token = t, wq_api = Some api_sent\<rparr> s = (Inl e, s1)"
    using assms(1) by (metis failing_def isl_def prod.collapse)
  obtain e' s2 where d: "tr_dial tp (cl_options (el_client l)) s1 = (Inl e', s2)"
    using assms(1) by (metis failing_def isl_def prod.collapse)
  show ?thesis
    using assms(3,4) t o d by (simp add: event_round_def client_token_def client_reconnect_def send_item_def Let_def
        forward_opened_def reconnect_after_def) blast
qed

section \<open>The queue of the C interface\<close>

text \<open>The forwarding task and the polls of a program, in any order. A run returns the events handed
  out.\<close>

datatype queue_step = Deliver "(client_error + sdk_event) option" | PollBy nat

fun queue_run :: "(status \<Rightarrow> rstr) \<Rightarrow> queue_step list \<Rightarrow> erps_client \<Rightarrow> erps_event list \<times> erps_client" where
  "queue_run st_txt [] c = ([], c)"
| "queue_run st_txt (Deliver item # steps) c = queue_run st_txt steps (pump_item st_txt item c)"
| "queue_run st_txt (PollBy thread # steps) c =
    (case erps_client_poll thread False (Some c) of (_, event, c') \<Rightarrow>
      (case queue_run st_txt steps (unwrap_or c c') of (out, c'') \<Rightarrow>
        ((case event of None \<Rightarrow> out | Some e \<Rightarrow> e # out), c'')))"

definition offered :: "queue_step list \<Rightarrow> erps_event list" where
  "offered steps = List.map_filter (\<lambda>s. case s of Deliver (Some (Inr e)) \<Rightarrow> Some (mapped_event e) | _ \<Rightarrow> None) steps"

lemma offered_simps [simp]:
  "offered [] = []" "offered (Deliver (Some (Inr e)) # steps) = mapped_event e # offered steps"
  "offered (Deliver (Some (Inl x)) # steps) = offered steps" "offered (Deliver None # steps) = offered steps"
  "offered (PollBy t # steps) = offered steps"
  by (simp_all add: offered_def List.map_filter_def)

lemma stopped_item: "fc_pump c \<noteq> PumpRunning \<Longrightarrow> pump_item st_txt item c = c"
  by (simp add: pump_item_def)

lemma poll_cases:
  obtains (misuse) "erps_client_poll t False (Some c) = (ERPS_THREAD_MISUSE, None, Some c)"
  | (event) v rest where "fc_events c = v # rest"
      "erps_client_poll t False (Some c) = (ERPS_OK, Some v, Some (c\<lparr>fc_poll_thread := Some t, fc_events := rest\<rparr>))"
  | (empty) code where "fc_events c = []"
      "erps_client_poll t False (Some c) = (code, None, Some (c\<lparr>fc_poll_thread := Some t\<rparr>))"
  by (cases "fc_poll_thread c \<noteq> None \<and> fc_poll_thread c \<noteq> Some t"; cases "fc_events c")
    (auto simp: erps_client_poll_def Let_def)

lemma poll_keeps:
  assumes "erps_client_poll t False (Some c) = (code, event, c')"
  shows "\<exists>c1. c' = Some c1 \<and> fc_events c = (case event of None \<Rightarrow> [] | Some e \<Rightarrow> [e]) @ fc_events c1
    \<and> fc_pump c1 = fc_pump c \<and> fc_event_stream_failed c1 = fc_event_stream_failed c"
  using assms by (cases rule: poll_cases [of t c]) auto

text \<open>Once the task has stopped, the polls drain the queue and nothing is added.\<close>

lemma queue_run_stopped:
  assumes "fc_pump c = PumpStopped"
  shows "case queue_run st_txt steps c of (out, c') \<Rightarrow> fc_events c = out @ fc_events c'
    \<and> fc_event_stream_failed c' = fc_event_stream_failed c"
  using assms
proof (induction st_txt steps c rule: queue_run.induct)
  case (2 st_txt item steps c)
  then have "pump_item st_txt item c = c" by (intro stopped_item) simp
  with 2 show ?case by simp
next
  case (3 st_txt t steps c)
  obtain code event c1 where p: "erps_client_poll t False (Some c) = (code, event, Some c1)"
    "fc_events c = (case event of None \<Rightarrow> [] | Some e \<Rightarrow> [e]) @ fc_events c1"
    "fc_pump c1 = fc_pump c" "fc_event_stream_failed c1 = fc_event_stream_failed c"
    using poll_keeps [of t c] by (metis prod_cases3)
  have "case queue_run st_txt steps c1 of (out, c') \<Rightarrow> fc_events c1 = out @ fc_events c'
      \<and> fc_event_stream_failed c' = fc_event_stream_failed c1"
    using 3(1) [of code "(event, Some c1)" event "Some c1"] 3(2) p(1,3) by simp
  with p show ?case by (auto split: prod.splits option.splits)
qed simp

lemma queue_run_fifo:
  assumes "fc_pump c = PumpRunning" and "length (fc_events c) \<le> EVENT_QUEUE"
  shows "case queue_run st_txt steps c of (out, c') \<Rightarrow>
    (\<exists>lost. fc_events c @ offered steps = out @ fc_events c' @ lost \<and> (fc_event_stream_failed c' \<or> lost = []))
    \<and> length (fc_events c') \<le> EVENT_QUEUE"
  using assms
proof (induction st_txt steps c rule: queue_run.induct)
  case (2 st_txt item steps c)
  consider (pushed) e where "item = Some (Inr e)" "length (fc_events c) < EVENT_QUEUE"
    | (trouble) x where "item = Some (Inl x)"
    | (stopped) reason where "pump_item st_txt item c = stop_pump reason c"
    using 2(2) by (cases item; cases "the item"; cases "length (fc_events c) < EVENT_QUEUE")
      (auto simp: pump_item_def offer_event_def)
  then show ?case
  proof cases
    case pushed
    with 2 show ?thesis by (auto simp: pump_item_def offer_event_def)
  next
    case trouble
    with 2 show ?thesis by (simp add: pump_item_def)
  next
    case stopped
    then have "case queue_run st_txt steps (pump_item st_txt item c) of (out, c') \<Rightarrow> fc_events c = out @ fc_events c'
        \<and> fc_event_stream_failed c'"
      using queue_run_stopped [of "pump_item st_txt item c" st_txt steps] by (simp add: stop_pump_def)
    with 2(3) show ?thesis by (auto split: prod.splits)
  qed
next
  case (3 st_txt t steps c)
  obtain code event c1 where p: "erps_client_poll t False (Some c) = (code, event, Some c1)"
    "fc_events c = (case event of None \<Rightarrow> [] | Some e \<Rightarrow> [e]) @ fc_events c1"
    "fc_pump c1 = fc_pump c" "fc_event_stream_failed c1 = fc_event_stream_failed c"
    using poll_keeps [of t c] by (metis prod_cases3)
  have "length (fc_events c1) \<le> EVENT_QUEUE" using 3(3) p(2) by simp
  then have "case queue_run st_txt steps c1 of (out, c') \<Rightarrow>
      (\<exists>lost. fc_events c1 @ offered steps = out @ fc_events c' @ lost \<and> (fc_event_stream_failed c' \<or> lost = []))
      \<and> length (fc_events c') \<le> EVENT_QUEUE"
    using 3(1) [of code "(event, Some c1)" event "Some c1"] 3(2) p(1,3) by simp
  with p show ?case by (auto split: prod.splits option.splits)
qed simp

end
