(* ===== verification/Client_Properties.thy ===== *)
theory Client_Properties
  imports Client_Laws Samples
begin








text \<open>A client without a session (never connected, or shut down) fails every call by itself and
  sends nothing to the server.\<close>

lemma no_session_no_traffic:
  "let c' = client_shutdown c in
     client_create_party tp rid name c' s = (Inl NotConnected, s)
   \<and> client_create_invite tp rid i revision ttl uses c' s = (Inl NotConnected, s)
   \<and> client_join_party tp rid token c' s = (Inl NotConnected, s)
   \<and> client_leave_party tp rid i revision c' s = (Inl NotConnected, s)
   \<and> client_kick_member tp rid i revision player c' s = (Inl NotConnected, s)
   \<and> client_rename_party tp rid i revision name c' s = (Inl NotConnected, s)
   \<and> client_enqueue tp rid i revision mode regions c' s = (Inl NotConnected, s)
   \<and> client_cancel_queue tp rid i revision c' s = (Inl NotConnected, s)
   \<and> client_proposal tp rid i accept c' s = (Inl NotConnected, s)
   \<and> client_get_state tp c' s = (Inl NotConnected, s)
   \<and> events_start room c' = Inl NotConnected"
  by (simp add: client_shutdown_def client_meta_def client_token_def client_create_party_def
      client_create_invite_def client_join_party_def client_leave_party_def client_kick_member_def
      client_rename_party_def client_enqueue_def client_cancel_queue_def client_proposal_def
      client_get_state_def events_start_def Let_def)

text \<open>C20: The event stream never gives up while somebody reads it: whatever the network and the server
  answer, after any number of rounds the loop still runs or its receiver is gone, and every wait
  between two attempts lies between 100 ms and 5 s.\<close>

theorem event_stream_persists:
  assumes "events_start room c = Inr l"
  shows "let (l', s') = (event_round tp ^^ n) (l, s) in
    (el_running l' \<or> el_room l' = 0) \<and> list_all (\<lambda>w. 100 \<le> w \<and> w \<le> 5000) (el_slept l')"
proof -
  have "loop_ok l"
    using assms by (auto simp: events_start_def client_token_def loop_ok_def split: option.splits)
  then have "loop_ok (fst ((event_round tp ^^ n) (l, s)))" by (rule event_rounds_ok)
  then show ?thesis by (simp add: loop_ok_def case_prod_unfold Let_def)
qed

definition sdk_client :: client where
  "sdk_client = \<lparr>cl_options = plaintext_loopback (lit ''http://host'') (lit ''auth''),
     cl_session_token = Some (lit ''t''), cl_player_id = None\<rparr>"

definition site_link :: "authority transport" where
  "site_link = authority_link site development_validate (\<lambda>_. Inr default_profile) (lit ''n'') (\<lambda>_. [])"

theorem event_stream_persists_witness:
  "\<exists>l. events_start 3 sdk_client = Inr l \<and> (let (l', s') = (event_round site_link ^^ 2) (l, signed_in) in
    (el_running l' \<or> el_room l' = 0) \<and> list_all (\<lambda>w. 100 \<le> w \<and> w \<le> 5000) (el_slept l'))"
proof -
  obtain l where "events_start 3 sdk_client = Inr l"
    by (simp add: events_start_def client_token_def sdk_client_def)
  with event_stream_persists [OF this, where tp = site_link and n = 2 and s = signed_in] show ?thesis by blast
qed

text \<open>C19: The C program gets the events of the stream in their order, each once, from a queue of at
  most 1024: what it has polled and what is still queued is a prefix of the stream, and unless that
  is everything, the failure of the stream is recorded, so that a later poll reports it.\<close>

theorem c_events_in_order:
  assumes "fc_pump c = PumpRunning" and "fc_events c = []"
  shows "case queue_run st_txt steps c of (out, c') \<Rightarrow> length (fc_events c') \<le> 1024
    \<and> (\<exists>lost. out @ fc_events c' @ lost = offered steps \<and> (fc_event_stream_failed c' \<or> lost = []))"
  using queue_run_fifo [OF assms(1), where st_txt = st_txt and steps = steps] assms(2) by (auto split: prod.splits)

definition c_client :: erps_client where
  "c_client = \<lparr>fc_client = sdk_client, fc_events = [], fc_events_started = True, fc_event_stream_failed = False,
     fc_poll_thread = None, fc_last_error = [], fc_pump = PumpRunning\<rparr>"

theorem c_events_in_order_witness:
  "case queue_run (\<lambda>_. []) [Deliver (Some (Inr (SdkServerLost [1]))), PollBy 7, Deliver None] c_client of (out, c') \<Rightarrow>
    length (fc_events c') \<le> 1024 \<and> (\<exists>lost. out @ fc_events c' @ lost
      = offered [Deliver (Some (Inr (SdkServerLost [1]))), PollBy 7, Deliver None] \<and> (fc_event_stream_failed c' \<or> lost = []))"
  by (rule c_events_in_order) (simp_all add: c_client_def)

text \<open>C21: Creating an invitation through the C interface never writes outside the caller's buffer, and
  after success the buffer holds the whole token with its terminating zero.\<close>

theorem invite_buffer_safe:
  "case erps_client_create_invite tp st_txt rid party revision ttl uses (Some buffer) (Some c) s of
     (code, out, _, _) \<Rightarrow> (\<exists>written. out = Some written \<and> length written = length buffer
       \<and> (if code = ERPS_OK then \<exists>i token. c_arg party = Some i
            \<and> fst (client_create_invite tp rid i revision ttl uses (fc_client c) s) = Inr token
            \<and> length (utf8_bytes token) < length buffer
            \<and> take (length (utf8_bytes token) + 1) written = utf8_bytes token @ [0]
            \<and> drop (length (utf8_bytes token) + 1) written = drop (length (utf8_bytes token) + 1) buffer
          else tl written = tl buffer))"
proof (cases "c_arg party")
  case (Some i)
  obtain r s' where r: "client_create_invite tp rid i revision ttl uses (fc_client c) s = (r, s')" by fastforce
  show ?thesis
    using Some r by (cases r; cases buffer)
      (auto simp: erps_client_create_invite_def fail_with_def Let_def min_def)
qed (simp add: erps_client_create_invite_def)

text \<open>A domain that is not UTF-8 is treated like no domain: the client connects without TLS.\<close>

lemma invalid_domain_connects_in_plaintext:
  "erps_client_create_tls tp built endpoint auth InvalidUtf8 out_null s = erps_client_create tp built endpoint auth out_null s"
  by (cases out_null; cases "c_arg endpoint"; cases "c_arg auth"; cases built)
    (simp_all add: erps_client_create_tls_def erps_client_create_def create_client_def)

section \<open>In front of the authority\<close>

definition printable :: "uuid_codec \<Rightarrow> bool" where
  "printable u \<longleftrightarrow> (\<forall>i. uc_show u i \<noteq> [] \<and> 0 \<notin> set (uc_show u i))"

lemma cstring_id: "printable u \<Longrightarrow> cstring (id_to_string u i) = id_to_string u i"
  by (simp add: printable_def cstring_def id_to_string_def)

lemma nonempty_id: "printable u \<Longrightarrow> cstring (unwrap_or [] (nonempty (show_id_opt u x))) = show_id_opt u x"
  by (cases x) (simp_all add: show_id_opt_def nonempty_def cstring_id, simp add: cstring_def, simp add: cstring_def)

text \<open>C17: What a C program reads from the event of a state query is what the authority holds about its
  player: his identity, his ratings in every mode, his credit, the ids of his proposal and of his
  match, his party with all its members, and the mode he queues or plays in; and a query changes
  nothing at the server.\<close>

theorem c_program_sees_the_authority:
  assumes "cl_session_token (fc_client c) = Some t" and "bm_get (au_sessions st) t = Some p"
    and "length (fc_events c) < 1024" and "printable (pf_uuid E)"
  shows "\<exists>ev. erps_client_get_state (authority_link E validator load fresh items) st_txt (Some c) st
      = (ERPS_OK, Some (c\<lparr>fc_events := fc_events c @ [ev]\<rparr>), st)
    \<and> erps_event_kind (Some ev) = 5
    \<and> erps_event_entity_id (Some ev) = Some (id_to_string (pf_uuid E) p)
    \<and> (\<forall>m. erps_event_player_rating_for_mode (Some ev) (ffi_mode m) = rating_of st p m)
    \<and> erps_event_player_credit (Some ev) = ucast (credit_of st p)
    \<and> erps_event_proposal_id (Some ev) = Some (show_id_opt (pf_uuid E) (bm_get (au_player_proposal st) p))
    \<and> erps_event_match_id (Some ev) = Some (show_id_opt (pf_uuid E) (bm_get (au_player_match st) p))
    \<and> (case Option.bind (bm_get (au_player_party st) p) (bm_get (au_parties st)) of
         None \<Rightarrow> erps_event_party_id (Some ev) = Some [] \<and> erps_event_party_member_count (Some ev) = 0
       | Some q \<Rightarrow> erps_event_party_id (Some ev) = Some (id_to_string (pf_uuid E) (pa_id q))
           \<and> erps_event_party_leader_id (Some ev) = Some (id_to_string (pf_uuid E) (pa_leader q))
           \<and> map (erps_event_party_member_id (Some ev)) [0..<erps_event_party_member_count (Some ev)]
               = map (\<lambda>x. Some (id_to_string (pf_uuid E) x)) (pa_members q)
           \<and> (\<forall>tk. bm_get (au_tickets st) (pa_id q) = Some tk
               \<longrightarrow> erps_event_queue_mode (Some ev) = ffi_mode (tr_mode tk)
                 \<and> erps_event_ticket_id (Some ev) = Some (id_to_string (pf_uuid E) (tr_id tk))))"
proof -
  let ?ev = "mapped_state (decode_state (client_state_of E st p))"
  have run: "erps_client_get_state (authority_link E validator load fresh items) st_txt (Some c) st
      = (ERPS_OK, Some (c\<lparr>fc_events := fc_events c @ [?ev]\<rparr>), st)"
    using assms(3) by (simp add: erps_client_get_state_def client_get_state_linked [OF assms(1,2)] offer_event_def mapped_event_def)
  have members: "map (erps_event_party_member_id (Some ev)) [0..<erps_event_party_member_count (Some ev)]
      = map (\<lambda>x. Some (ep_id x)) (ee_party_members ev)" for ev
    by (rule nth_equalityI) (simp_all add: erps_event_party_member_id_def erps_event_party_member_count_def
        member_at_def at_index_def)
  note view = mapped_state_def plain_event_def decode_state_def client_state_of_def Let_def cstring_id [OF assms(4)]
    nonempty_id [OF assms(4)]
  have ratings: "erps_event_player_rating_for_mode (Some ?ev) (ffi_mode m) = rating_of st p m" for m
    by (cases m) (simp_all add: view erps_event_player_rating_for_mode_def ffi_mode_def decode_player_def player_view_of_def)
  have party: "case Option.bind (bm_get (au_player_party st) p) (bm_get (au_parties st)) of
      None \<Rightarrow> erps_event_party_id (Some ?ev) = Some [] \<and> erps_event_party_member_count (Some ?ev) = 0
    | Some q \<Rightarrow> erps_event_party_id (Some ?ev) = Some (id_to_string (pf_uuid E) (pa_id q))
        \<and> erps_event_party_leader_id (Some ?ev) = Some (id_to_string (pf_uuid E) (pa_leader q))
        \<and> map (\<lambda>x. Some (ep_id x)) (ee_party_members ?ev) = map (\<lambda>x. Some (id_to_string (pf_uuid E) x)) (pa_members q)
        \<and> (\<forall>tk. bm_get (au_tickets st) (pa_id q) = Some tk
            \<longrightarrow> erps_event_queue_mode (Some ?ev) = ffi_mode (tr_mode tk)
              \<and> erps_event_ticket_id (Some ?ev) = Some (id_to_string (pf_uuid E) (tr_id tk)))"
  proof (cases "Option.bind (bm_get (au_player_party st) p) (bm_get (au_parties st))")
    case None
    then show ?thesis
      by (simp add: view erps_event_party_id_def erps_event_party_member_count_def cstring_def)
  next
    case (Some q)
    then show ?thesis
      by (simp add: view erps_event_party_id_def erps_event_party_leader_id_def erps_event_queue_mode_def
          erps_event_ticket_id_def decode_party_def party_view_of_def mapped_player_def decode_player_def
          player_view_of_def)
        (simp add: show_id_opt_def)
  qed
  have basics: "erps_event_kind (Some ?ev) = 5 \<and> erps_event_entity_id (Some ?ev) = Some (id_to_string (pf_uuid E) p)
    \<and> erps_event_player_credit (Some ?ev) = ucast (credit_of st p)
    \<and> erps_event_proposal_id (Some ?ev) = Some (show_id_opt (pf_uuid E) (bm_get (au_player_proposal st) p))
    \<and> erps_event_match_id (Some ?ev) = Some (show_id_opt (pf_uuid E) (bm_get (au_player_match st) p))"
    by (simp add: view erps_event_kind_def erps_event_entity_id_def erps_event_player_credit_def
        erps_event_proposal_id_def erps_event_match_id_def decode_player_def player_view_of_def)
  show ?thesis
    by (rule exI [of _ ?ev]) (use run basics ratings party in \<open>simp add: members split: option.splits\<close>)
qed

definition letter_site :: platform where
  "letter_site = site\<lparr>pf_uuid := byte_codec\<lparr>uc_show := (\<lambda>u. map Suc (uc_show byte_codec u))\<rparr>\<rparr>"

definition letter_link :: "authority transport" where
  "letter_link = authority_link letter_site development_validate (\<lambda>_. Inr default_profile) (lit ''n'') (\<lambda>_. [])"

theorem c_program_sees_the_authority_witness:
  "\<exists>ev. erps_client_get_state letter_link (\<lambda>_. []) (Some c_client) signed_in
      = (ERPS_OK, Some (c_client\<lparr>fc_events := [ev]\<rparr>), signed_in)
    \<and> erps_event_entity_id (Some ev) = Some (id_to_string (pf_uuid letter_site) (UuidId 21 :: player_id))"
proof -
  have "cl_session_token (fc_client c_client) = Some (lit ''t'')" by (simp add: c_client_def sdk_client_def)
  moreover have "bm_get (au_sessions signed_in) (lit ''t'') = Some (UuidId 21)" by (simp add: signed_in_def)
  moreover have "length (fc_events c_client) < 1024" by (simp add: c_client_def)
  moreover have "printable (pf_uuid letter_site)" by (auto simp: printable_def letter_site_def byte_codec_def)
  ultimately show ?thesis
    using c_program_sees_the_authority [of c_client "lit ''t''" signed_in "UuidId 21" letter_site development_validate
        "\<lambda>_. Inr default_profile" "lit ''n''" "\<lambda>_. []" "\<lambda>_. []"]
    by (fastforce simp: letter_link_def c_client_def)
qed

text \<open>C18: Client and server agree on a new party: when the client's call succeeds (with a request id
  that was not used before), its next state query shows the party under the id and revision of the
  answer, with the normalised name and the caller as leader and only member.\<close>

theorem created_party_is_visible:
  assumes "cl_session_token c = Some t" and "bm_get (au_sessions st) t = Some p" and "cached st p rid = None"
    and "client_create_party (authority_link E validator load fresh items) rid name c st = (Inr op, st')"
  shows "\<exists>s y. client_get_state (authority_link E validator load fresh items) c st' = (Inr s, st')
    \<and> ss_party s = Some y \<and> sy_id y = so_entity_id op \<and> sy_revision y = so_revision op
    \<and> normalize_name (pf_unicode E) name = Inr (sy_name y)
    \<and> sy_leader_id y = id_to_string (pf_uuid E) p \<and> sy_members y = [id_to_string (pf_uuid E) p]"
proof -
  let ?m = "\<lparr>mm_api = Some api_sent, mm_request_id = rid, mm_session_token = t\<rparr>"
  obtain v where v: "create_party E (Some ?m) name st = Some (Inr v, st')" "operation v = Inr op"
    using assms(4) by (auto simp: client_create_party_def client_meta_Some [OF assms(1)] rpc_call_def authority_link_def
        authority_service_def answered_def split: option.splits sum.splits prod.splits)
  have meta: "request_meta st (Some ?m) = Inr (p, rid)"
    using v(1) by (auto simp: create_party_def with_request_def request_meta_def player_for_def assms(2)
        split: if_splits)
  obtain st1 where b: "create_party_body E name p st = Some (Inr v, st1)"
    and st': "st' = snd (remember p rid v st1)"
    using v(1) by (auto simp: create_party_def with_request_def meta assms(3) remember_def
        split: option.splits sum.splits prod.splits)
  let ?i = "from_uuid (fst (next_uuid 1 st)) :: party_id"
  obtain n where n: "normalize_name (pf_unicode E) name = Inr n"
    using b by (auto simp: create_party_body_def party_new_def split: if_splits sum.splits)
  let ?q = "\<lparr>pa_id = ?i, pa_name = n, pa_leader = p, pa_members = [p], pa_revision = 0, pa_state = PIdle\<rparr>"
  let ?e = "emit_party E ?q (snd (next_uuid 1 st))"
  have v1: "v = ok_result (id_to_string (pf_uuid E) ?i) 0"
    and st1: "st1 = ?e\<lparr>au_parties := bm_insert ?i ?q (au_parties ?e),
      au_player_party := bm_insert p ?i (au_player_party ?e)\<rparr>"
    using b by (auto simp: create_party_body_def party_new_def n case_prod_unfold Let_def split: if_splits)
  have "core_of ?e = core_of st" by simp
  then have token: "bm_get (au_sessions st') t = Some p"
    using assms(2) by (simp add: st' st1 remember_def core_of_def)
  have party: "Option.bind (bm_get (au_player_party st') p) (bm_get (au_parties st')) = Some ?q"
    by (simp add: st' st1 remember_def)
  have state: "client_get_state (authority_link E validator load fresh items) c st'
      = (Inr (decode_state (client_state_of E st' p)), st')"
    by (rule client_get_state_linked [OF assms(1) token])
  have "ss_party (decode_state (client_state_of E st' p)) = Some (decode_party (party_view_of E st' ?q))"
    using party by (simp add: decode_state_def client_state_of_def Let_def)
  moreover have "so_entity_id op = id_to_string (pf_uuid E) ?i \<and> so_revision op = 0"
    using v(2) by (auto simp: v1 operation_def ok_result_def)
  ultimately show ?thesis
    using state n by (simp add: decode_party_def party_view_of_def decode_player_def player_view_of_def)
qed

theorem created_party_is_visible_witness:
  "\<exists>op st' s y. client_create_party letter_link (lit ''r'') (lit ''duo'') sdk_client signed_in = (Inr op, st')
    \<and> client_get_state letter_link sdk_client st' = (Inr s, st') \<and> ss_party s = Some y \<and> sy_id y = so_entity_id op"
proof -
  have "case client_create_party letter_link (lit ''r'') (lit ''duo'') sdk_client signed_in of (Inr _, _) \<Rightarrow> True | _ \<Rightarrow> False"
    by code_simp
  then obtain op st' where made: "client_create_party letter_link (lit ''r'') (lit ''duo'') sdk_client signed_in = (Inr op, st')"
    by (auto split: prod.splits sum.splits)
  have "cl_session_token sdk_client = Some (lit ''t'')" by (simp add: sdk_client_def)
  moreover have "bm_get (au_sessions signed_in) (lit ''t'') = Some (UuidId 21)" by (simp add: signed_in_def)
  moreover have "cached signed_in (UuidId 21) (lit ''r'') = None" by (simp add: cached_def signed_in_def authority_new_def)
  ultimately show ?thesis
    using created_party_is_visible [OF _ _ _ made [unfolded letter_link_def]] made unfolding letter_link_def by blast
qed

end
