(* ===== verification/Authority_Consistency.thy ===== *)
theory Authority_Consistency
  imports Client_Laws Queue_Refinement
begin

text \<open>
  What every reachable state of the authority satisfies about its indexes: parties are stored under
  their own ids, no two tickets share an id (in the queue or saved with a proposal), and every
  event sent to a client can be decoded by the client library. The relation \<open>evolves\<close> says that a
  state came from another one without breaking this and without a new ticket; it composes along
  the calls, and only \<open>enqueue\<close> makes a ticket.
\<close>

section \<open>The relation\<close>

definition decodable :: "client_event \<Rightarrow> bool" where
  "decodable ev \<longleftrightarrow> \<not> isl (decode_event ev)"

definition ticket_ids :: "authority \<Rightarrow> ticket_id multiset" where
  "ticket_ids st = image_mset (tr_id \<circ> snd) (mset (entries (au_tickets st)))
     + (\<Sum>e \<in># mset (entries (au_proposal_tickets st)). image_mset (tr_id \<circ> snd) (mset (snd e)))"

definition seed_of :: "authority \<Rightarrow> u64" where
  "seed_of st = ec_deterministic_seed (au_config st)"

definition told_ok :: "authority \<Rightarrow> bool" where
  "told_ok st \<longleftrightarrow> list_all (\<lambda>x. decodable (snd x)) (au_outbox st)"

text \<open>Who is in which party: everything about parties except their state, name and revision.\<close>

definition roster :: "authority \<Rightarrow> (party_id \<Rightarrow> (party_id \<times> player_id list \<times> player_id) option)
    \<times> (player_id \<Rightarrow> party_id option)" where
  "roster st = (\<lambda>i. map_option (\<lambda>p. (pa_id p, pa_members p, pa_leader p)) (bm_get (au_parties st) i),
     bm_get (au_player_party st))"

definition evolves :: "authority \<Rightarrow> authority \<Rightarrow> bool" where
  "evolves s t \<longleftrightarrow> roster t = roster s \<and> (told_ok s \<longrightarrow> told_ok t) \<and> seed_of t = seed_of s
     \<and> au_next_domain_id s \<le> au_next_domain_id t \<and> ticket_ids t \<subseteq># ticket_ids s"

definition indexes_of :: "authority \<Rightarrow> (party_id, party) bmap \<times> (party_id, ticket_record) bmap
    \<times> (proposal_id, (party_id \<times> ticket_record) list) bmap \<times> (player_id \<times> client_event) list \<times> u64 \<times> u64
    \<times> (player_id, party_id) bmap" where
  "indexes_of st = (au_parties st, au_tickets st, au_proposal_tickets st, au_outbox st, au_next_domain_id st, seed_of st,
     au_player_party st)"

lemma evolves_refl [simp]: "evolves s s"
  by (simp add: evolves_def)

lemma evolves_trans [trans]: "evolves s t \<Longrightarrow> evolves t u \<Longrightarrow> evolves s u"
  unfolding evolves_def by (auto intro: subset_mset.order_trans)

lemma evolves_same: "indexes_of t = indexes_of s \<Longrightarrow> evolves s t"
  by (simp add: evolves_def indexes_of_def ticket_ids_def roster_def told_ok_def)

lemma evolves_fold: "(\<And>x s. evolves s (g x s)) \<Longrightarrow> evolves s (fold g xs s)"
  by (induction xs arbitrary: s) (auto intro: evolves_trans)

lemma evolves_fold_opt:
  "(\<And>x s t. g x s = Some t \<Longrightarrow> evolves s t) \<Longrightarrow> fold_opt g xs s = Some t \<Longrightarrow> evolves s t"
proof (induction xs arbitrary: s)
  case (Cons x xs)
  then obtain u where "g x s = Some u" "fold_opt g xs u = Some t" by (auto split: option.splits)
  with Cons.IH [of u] Cons.prems(1) show ?case by (blast intro: evolves_trans)
qed simp

text \<open>Updates that the relation does not see.\<close>

lemma indexes_of_update [simp]:
  "indexes_of (st\<lparr>au_invites := d\<rparr>) = indexes_of st"
  "indexes_of (st\<lparr>au_offline := g\<rparr>) = indexes_of st" "indexes_of (st\<lparr>au_disconnect_deadlines := h\<rparr>) = indexes_of st"
  "indexes_of (st\<lparr>au_launches := i\<rparr>) = indexes_of st" "indexes_of (st\<lparr>au_launch_deadlines := j\<rparr>) = indexes_of st"
  "indexes_of (st\<lparr>au_placement_waiting := k\<rparr>) = indexes_of st" "indexes_of (st\<lparr>au_proposals := l\<rparr>) = indexes_of st"
  "indexes_of (st\<lparr>au_ratings := r\<rparr>) = indexes_of st" "indexes_of (st\<lparr>au_controls := u\<rparr>) = indexes_of st"
  "indexes_of (st\<lparr>au_channels := v\<rparr>) = indexes_of st" "indexes_of (st\<lparr>au_claims := x\<rparr>) = indexes_of st"
  "indexes_of (with_registry st y) = indexes_of st" "indexes_of (on_metrics f st) = indexes_of st"
  "indexes_of (st\<lparr>au_player_proposal := z\<rparr>) = indexes_of st" "indexes_of (st\<lparr>au_player_match := z1\<rparr>) = indexes_of st"
  "indexes_of (rebuild_ecs E st) = indexes_of st" "indexes_of (put_instance sid m i0 st) = indexes_of st"
  "indexes_of (st\<lparr>au_request_cache := z2\<rparr>) = indexes_of st" "indexes_of (st\<lparr>au_pending_profile_saves := z3\<rparr>) = indexes_of st"
  "indexes_of (st\<lparr>au_credit := z4\<rparr>) = indexes_of st" "indexes_of (st\<lparr>au_sessions := z5\<rparr>) = indexes_of st"
  "indexes_of (penalize E p cause st) = indexes_of st" "indexes_of (finish_player mode p st) = indexes_of st"
  "indexes_of (remember_completed_match_result m st) = indexes_of st"
  by (simp_all add: indexes_of_def seed_of_def with_registry_def on_metrics_def rebuild_ecs_def put_instance_def
      penalize_def finish_player_def remember_completed_match_result_def Let_def split: list.split)

lemma indexes_of_channels [simp]:
  "indexes_of (snd (try_send ch msg st)) = indexes_of st" "indexes_of (note_control_backlog ch st) = indexes_of st"
  by (simp_all add: try_send_def note_control_backlog_def Let_def split: option.split)

section \<open>Parties, tickets and events\<close>

lemma evolves_parties: "roster (st\<lparr>au_parties := ps\<rparr>) = roster st \<Longrightarrow> evolves st (st\<lparr>au_parties := ps\<rparr>)"
  by (simp add: evolves_def told_ok_def ticket_ids_def seed_of_def)

lemma evolves_put:
  "bm_get (au_parties st) i = Some q \<Longrightarrow> (pa_id p, pa_members p, pa_leader p) = (pa_id q, pa_members q, pa_leader q)
    \<Longrightarrow> evolves st (st\<lparr>au_parties := bm_insert i p (au_parties st)\<rparr>)"
  by (rule evolves_parties) (simp add: roster_def get_insert fun_eq_iff)

lemma evolves_update:
  "(\<And>q. (pa_id (f q), pa_members (f q), pa_leader (f q)) = (pa_id q, pa_members q, pa_leader q))
    \<Longrightarrow> evolves st (st\<lparr>au_parties := bm_update i f (au_parties st)\<rparr>)"
  by (rule evolves_parties) (simp add: roster_def get_update fun_eq_iff option.map_comp comp_def)

lemma entries_remove_submset: "mset (entries (bm_remove k m)) \<subseteq># mset (entries m)"
  by (simp add: bm_remove.rep_eq multiset_filter_subset)

lemma entries_insert: "mset (entries (bm_insert k v m)) = add_mset (k, v) (mset (entries (bm_remove k m)))"
  using mset_entries_split [of "bm_insert k v m" k v] by (simp add: remove_insert_same)

lemma image_sum_submset: "M \<subseteq># N \<Longrightarrow> (\<Sum>e \<in># M. f e) \<subseteq># (\<Sum>e \<in># N. f e)" for f :: "'a \<Rightarrow> 'b multiset"
  by (metis image_mset_union mset_subset_eq_exists_conv sum_mset.union subset_mset.le_add_same_cancel1 subset_mset.zero_le)

lemma ticket_ids_remove:
  "ticket_ids (st\<lparr>au_tickets := bm_remove i (au_tickets st)\<rparr>) \<subseteq># ticket_ids st"
  "ticket_ids (st\<lparr>au_proposal_tickets := bm_remove pid (au_proposal_tickets st)\<rparr>) \<subseteq># ticket_ids st"
  by (simp_all add: ticket_ids_def image_mset_subseteq_mono entries_remove_submset image_sum_submset
      subset_mset.add_mono)

lemma ticket_ids_take:
  "bm_get (au_tickets st) i = Some tk
    \<Longrightarrow> add_mset (tr_id tk) (ticket_ids (st\<lparr>au_tickets := bm_remove i (au_tickets st)\<rparr>)) = ticket_ids st"
  by (simp add: ticket_ids_def mset_entries_split [of "au_tickets st" i tk] del: bm_remove.rep_eq)

lemma ticket_ids_unsave:
  "bm_get (au_proposal_tickets st) pid = Some saved
    \<Longrightarrow> image_mset (tr_id \<circ> snd) (mset saved) + ticket_ids (st\<lparr>au_proposal_tickets := bm_remove pid (au_proposal_tickets st)\<rparr>)
      = ticket_ids st"
  by (simp add: ticket_ids_def mset_entries_split [of "au_proposal_tickets st" pid saved] del: bm_remove.rep_eq)

lemma ticket_ids_put:
  "ticket_ids (st\<lparr>au_tickets := bm_insert i tk (au_tickets st)\<rparr>) \<subseteq># add_mset (tr_id tk) (ticket_ids st)"
  using ticket_ids_remove(1) [of i st] by (simp add: ticket_ids_def entries_insert del: bm_remove.rep_eq bm_insert.rep_eq)

lemma ticket_ids_save:
  "ticket_ids (st\<lparr>au_proposal_tickets := bm_insert pid saved (au_proposal_tickets st)\<rparr>)
    \<subseteq># image_mset (tr_id \<circ> snd) (mset saved) + ticket_ids st"
proof -
  have "ticket_ids (st\<lparr>au_proposal_tickets := bm_insert pid saved (au_proposal_tickets st)\<rparr>)
      = image_mset (tr_id \<circ> snd) (mset saved) + ticket_ids (st\<lparr>au_proposal_tickets := bm_remove pid (au_proposal_tickets st)\<rparr>)"
    by (simp add: ticket_ids_def entries_insert del: bm_remove.rep_eq bm_insert.rep_eq)
  then show ?thesis using ticket_ids_remove(2) [of pid st] by simp
qed

lemma evolves_drop_ticket: "evolves st (st\<lparr>au_tickets := bm_remove i (au_tickets st)\<rparr>)"
  using ticket_ids_remove(1) [of i st] by (simp add: evolves_def told_ok_def roster_def seed_of_def)

lemma evolves_drop_saved: "evolves st (st\<lparr>au_proposal_tickets := bm_remove pid (au_proposal_tickets st)\<rparr>)"
  using ticket_ids_remove(2) [of pid st] by (simp add: evolves_def told_ok_def roster_def seed_of_def)

lemma evolves_send: "decodable ev \<Longrightarrow> evolves st (send_event p ev st)"
  by (simp add: send_event_def evolves_def told_ok_def roster_def seed_of_def ticket_ids_def)

lemma evolves_send_noted: "decodable ev \<Longrightarrow> evolves st (send_event_noted E p ev st)"
  by (auto simp: send_event_noted_def intro!: evolves_trans [OF evolves_same evolves_send])

lemma evolves_next_uuid: "evolves st (snd (next_uuid k st))"
  by (simp add: next_uuid_def Let_def evolves_def told_ok_def roster_def seed_of_def ticket_ids_def sat_add_mono)

lemma decodable_simps [simp]:
  "decodable \<lparr>ev_event = Some (EvParty v), ev_deadline_ms = d\<rparr>"
  "decodable \<lparr>ev_event = Some (EvProposalId i), ev_deadline_ms = d\<rparr>"
  "decodable \<lparr>ev_event = Some (EvServerLost i), ev_deadline_ms = d\<rparr>"
  "decodable \<lparr>ev_event = Some (EvProposalCancelled x), ev_deadline_ms = d\<rparr>"
  "me_mode m = pb_mode mode \<Longrightarrow> decodable \<lparr>ev_event = Some (EvMatched m), ev_deadline_ms = d\<rparr>"
  by (simp_all add: decodable_def decode_event_def)

lemma evolves_emit: "evolves st (emit_party E p st)"
  unfolding emit_party_def Let_def by (rule evolves_fold) (rule evolves_send, simp)

lemma evolves_emit_of: "evolves st (emit_party_of E i st)"
  by (simp add: emit_party_of_def evolves_emit split: option.split)

section \<open>Operations that move tickets\<close>

definition saved_ids :: "(party_id \<times> ticket_record) list \<Rightarrow> ticket_id multiset" where
  "saved_ids saved = image_mset (tr_id \<circ> snd) (mset saved)"

definition evolves_with :: "ticket_id multiset \<Rightarrow> authority \<Rightarrow> authority \<Rightarrow> bool" where
  "evolves_with N s t \<longleftrightarrow> roster t = roster s \<and> (told_ok s \<longrightarrow> told_ok t) \<and> seed_of t = seed_of s
     \<and> au_next_domain_id s \<le> au_next_domain_id t \<and> ticket_ids t \<subseteq># N + ticket_ids s"

lemma evolves_with_none: "evolves_with {#} s t = evolves s t"
  by (simp add: evolves_with_def evolves_def)

lemma evolves_with_trans: "evolves_with M s t \<Longrightarrow> evolves_with N t u \<Longrightarrow> evolves_with (M + N) s u"
proof -
  assume a: "evolves_with M s t" and b: "evolves_with N t u"
  have "ticket_ids u \<subseteq># N + ticket_ids t" "N + ticket_ids t \<subseteq># N + (M + ticket_ids s)"
    using a b by (simp_all add: evolves_with_def)
  then have "ticket_ids u \<subseteq># M + N + ticket_ids s"
    by (metis subset_mset.order_trans union_assoc union_commute)
  with a b show ?thesis by (auto simp: evolves_with_def)
qed

lemma evolves_with_step: "evolves s t \<Longrightarrow> evolves_with N t u \<Longrightarrow> evolves_with N s u"
  using evolves_with_trans [of "{#}" s t N u] by (simp add: evolves_with_none)

lemma evolves_with_after: "evolves_with N s t \<Longrightarrow> evolves t u \<Longrightarrow> evolves_with N s u"
  using evolves_with_trans [of N s t "{#}" u] by (simp add: evolves_with_none)

text \<open>Tickets that were set aside come back.\<close>

lemma evolves_regain:
  assumes "evolves s u" and "evolves_with N u t" and "N + ticket_ids u \<subseteq># ticket_ids s"
  shows "evolves s t"
proof -
  have "ticket_ids t \<subseteq># ticket_ids s"
    using assms(2,3) unfolding evolves_with_def by (blast intro: subset_mset.order_trans)
  then show ?thesis using assms(1,2) by (auto simp: evolves_def evolves_with_def)
qed

lemma evolves_put_ticket: "evolves_with {#tr_id tk#} st (st\<lparr>au_tickets := bm_insert i tk (au_tickets st)\<rparr>)"
  using ticket_ids_put [of i tk st] by (simp add: evolves_with_def told_ok_def roster_def seed_of_def)

lemma evolves_save: "evolves_with (saved_ids saved) st (st\<lparr>au_proposal_tickets := bm_insert pid saved (au_proposal_tickets st)\<rparr>)"
  using ticket_ids_save [of pid saved st]
  by (simp add: evolves_with_def told_ok_def roster_def seed_of_def saved_ids_def)

lemma settle_decision_evolves: "evolves st (settle_decision E pid infra d st)"
  unfolding settle_decision_def Let_def
  by (rule evolves_trans [OF evolves_same evolves_send]) (simp_all split: option.split credit_cause.split)

lemma restore_ticket_evolves: "evolves_with {#tr_id (snd e)#} st (restore_ticket q infra e st)"
proof (cases e)
  case (Pair i tk)
  show ?thesis
  proof (cases "bm_get (au_parties st) i")
    case None
    then show ?thesis by (simp add: Pair restore_ticket_def evolves_with_def)
  next
    case (Some p)
    let ?put = "\<lambda>s. st\<lparr>au_parties := bm_insert i (p\<lparr>pa_state := s, pa_revision := sat_add (pa_revision p) 1\<rparr>) (au_parties st)\<rparr>"
    have put: "evolves st (?put s)" for s by (rule evolves_put [OF Some]) simp
    have "evolves_with {#tr_id tk#} st ((?put s)\<lparr>au_tickets := bm_insert i tk (au_tickets st)\<rparr>)" for s
      using evolves_with_step [OF put [of s] evolves_put_ticket [of tk "?put s" i]] by simp
    moreover have "evolves_with {#tr_id tk#} st (?put s)" for s
      using put [of s] by (auto simp: evolves_with_def evolves_def intro: subset_mset.order_trans)
    ultimately show ?thesis by (simp add: Pair restore_ticket_def Some)
  qed
qed

lemma restore_all_evolves: "evolves_with (saved_ids saved) st (fold (restore_ticket q infra) saved st)"
proof (induction saved arbitrary: st)
  case Nil
  then show ?case by (simp add: saved_ids_def evolves_with_none)
next
  case (Cons e saved)
  from evolves_with_trans [OF restore_ticket_evolves [of e st q infra] Cons] show ?case
    by (simp add: saved_ids_def add.commute)
qed

lemma cancel_proposal_evolves: "evolves st (cancel_proposal E pid infra st)"
proof (cases "bm_get (au_proposals st) pid")
  case (Some q)
  let ?saved = "unwrap_or [] (bm_get (au_proposal_tickets st) pid)"
  let ?s0 = "st\<lparr>au_proposal_tickets := bm_remove pid (au_proposal_tickets st),
      au_claims := claims_release (pr_tickets q) (au_claims st),
      au_placement_waiting := bm_remove pid (au_placement_waiting st)\<rparr>"
  let ?s1 = "fold (settle_decision E pid infra) (cancellation_decisions q infra) ?s0"
  let ?s2 = "fold (restore_ticket q infra) ?saved ?s1"
  have "evolves st ?s0"
    by (rule evolves_trans [OF evolves_drop_saved [of st pid] evolves_same]) (simp add: indexes_of_def seed_of_def)
  moreover have s1: "evolves ?s0 ?s1" by (rule evolves_fold) (rule settle_decision_evolves)
  ultimately have "evolves st ?s1" by (rule evolves_trans)
  moreover have "evolves_with (saved_ids ?saved) ?s1 ?s2" by (rule restore_all_evolves)
  moreover have "saved_ids ?saved + ticket_ids ?s1 \<subseteq># ticket_ids st"
  proof -
    have "ticket_ids ?s0 = ticket_ids (st\<lparr>au_proposal_tickets := bm_remove pid (au_proposal_tickets st)\<rparr>)"
      by (simp add: ticket_ids_def)
    then have "saved_ids ?saved + ticket_ids ?s0 \<subseteq># ticket_ids st"
      using ticket_ids_unsave [of st pid] ticket_ids_remove(2) [of pid st]
      by (cases "bm_get (au_proposal_tickets st) pid") (simp_all add: saved_ids_def)
    moreover have "saved_ids ?saved + ticket_ids ?s1 \<subseteq># saved_ids ?saved + ticket_ids ?s0"
      using s1 by (simp add: evolves_def)
    ultimately show ?thesis by (rule subset_mset.order_trans [rotated])
  qed
  ultimately have regained: "evolves st ?s2" by (rule evolves_regain)
  have told: "evolves s (fold (\<lambda>i st. case bm_get (au_parties st) i of None \<Rightarrow> st | Some p \<Rightarrow> emit_party E p st) is s)" for "is" s
    by (rule evolves_fold) (simp add: evolves_emit split: option.split)
  have saves: "evolves s (fold (\<lambda>p st. st\<lparr>au_pending_profile_saves := au_pending_profile_saves st @ [(p, current_profile st p)]\<rparr>) ps s)"
    for ps s by (rule evolves_fold) (rule evolves_same, simp)
  show ?thesis
    unfolding cancel_proposal_def Some option.case Let_def
    by (rule evolves_trans [OF evolves_trans [OF regained told] saves])
qed (simp add: cancel_proposal_def)

lemma take_tickets_evolves:
  "take_tickets is saved st = (saved', t) \<Longrightarrow> evolves st t \<and> saved_ids saved' + ticket_ids t \<subseteq># saved_ids saved + ticket_ids st"
proof (induction "is" saved st rule: take_tickets.induct)
  case (1 saved st)
  then show ?case by simp
next
  case (2 i "is" saved st)
  define x where "x = (case bm_get (au_tickets st) i of None \<Rightarrow> (saved, st)
    | Some tk \<Rightarrow> (saved @ [(i, tk)], st\<lparr>au_tickets := bm_remove i (au_tickets st)\<rparr>))"
  define u where "u = (snd x)\<lparr>au_parties := bm_update i (\<lambda>p. p\<lparr>pa_state := PAwaitingAccept, pa_revision := pa_revision p + 1\<rparr>)
      (au_parties (snd x))\<rparr>"
  have x: "evolves st (snd x) \<and> saved_ids (fst x) + ticket_ids (snd x) \<subseteq># saved_ids saved + ticket_ids st"
    using ticket_ids_take [of st i] by (simp add: x_def evolves_drop_ticket saved_ids_def split: option.split)
  have u: "evolves (snd x) u" unfolding u_def by (rule evolves_update) simp
  moreover have "ticket_ids u = ticket_ids (snd x)" by (simp add: u_def ticket_ids_def)
  moreover have "take_tickets is (fst x) u = (saved', t)"
    using 2(2) by (simp add: u_def x_def case_prod_unfold Let_def)
  then have "evolves u t \<and> saved_ids saved' + ticket_ids t \<subseteq># saved_ids (fst x) + ticket_ids u"
    using 2(1) [of x "fst x" "snd x" u] by (simp add: u_def x_def)
  ultimately show ?case using x by (metis evolves_trans subset_mset.order_trans)
qed

lemma announce_evolves: "evolves st (announce E pid q st)"
  unfolding announce_def by (rule evolves_fold) (rule evolves_trans [OF evolves_same evolves_send_noted], simp_all)

lemma store_proposal_evolves: "evolves_with (saved_ids saved) st (store_proposal E pid q saved st)"
  unfolding store_proposal_def Let_def
  by (rule evolves_with_after [OF evolves_save]) (rule evolves_trans [OF announce_evolves evolves_same], simp)

lemma commit_candidate_evolves: "evolves st (commit_candidate E c tickets st)"
proof -
  let ?s0 = "on_metrics (observe_commit E c (oldest_queued_since E (snd (next_uuid 3 st)) (selected_parties c tickets)))
    (snd (next_uuid 3 st))"
  obtain saved t where taken: "take_tickets (selected_parties c tickets) [] ?s0 = (saved, t)" by fastforce
  have s0: "evolves st ?s0" by (rule evolves_trans [OF evolves_next_uuid evolves_same]) simp
  have t: "evolves ?s0 t" "saved_ids saved + ticket_ids t \<subseteq># ticket_ids ?s0"
    using take_tickets_evolves [OF taken] by (simp_all add: saved_ids_def)
  have "saved_ids saved + ticket_ids t \<subseteq># ticket_ids st"
    using t(2) s0 by (auto simp: evolves_def intro: subset_mset.order_trans)
  with evolves_trans [OF s0 t(1)] store_proposal_evolves have "evolves st (store_proposal E pid q saved t)" for pid q
    by (rule evolves_regain)
  then show ?thesis
    by (simp add: commit_candidate_def Let_def case_prod_unfold taken)
qed

section \<open>The calls\<close>

lemma attempt_match_batch_evolves: "evolves st (snd (attempt_match_batch E mode region st))"
proof -
  have one: "evolves s (commit_one E ts c s)" for ts c s
  proof -
    have committed: "evolves s (commit_candidate E c ts (s\<lparr>au_claims := a\<rparr>))" for a
      by (rule evolves_trans [OF evolves_same commit_candidate_evolves]) simp
    have "evolves s (on_metrics f (commit_candidate E c ts (s\<lparr>au_claims := a\<rparr>)))" for f a
      by (rule evolves_trans [OF committed evolves_same]) simp
    then show ?thesis by (auto simp: commit_one_def Let_def evolves_same split: prod.split)
  qed
  have all: "evolves s (fold (commit_one E ts) cs s)" for ts cs s by (rule evolves_fold) (rule one)
  have "evolves st (fold (commit_one E ts) cs (on_metrics f (rebuild_ecs E st)))" for ts cs f
    by (rule evolves_trans [OF evolves_same all]) simp
  then show ?thesis by (simp add: attempt_match_batch_def Let_def commit_candidates_fold)
qed

lemma attempt_all_matches_evolves: "evolves st (attempt_all_matches E st)"
  unfolding attempt_all_matches_def by (rule evolves_fold) (simp add: case_prod_unfold attempt_match_batch_evolves)

definition advances_to :: "'a outcome \<Rightarrow> authority \<Rightarrow> bool" where
  "advances_to out st \<longleftrightarrow> (\<forall>r s. out = Some (r, s) \<longrightarrow> evolves st s)"

lemma advances_to_simps [simp]: "advances_to None st" "advances_to (Some x) st \<longleftrightarrow> evolves st (snd x)"
  by (cases x; simp add: advances_to_def)+

lemma advances_toD: "advances_to out st \<Longrightarrow> out = Some (r, s) \<Longrightarrow> evolves st s"
  by (simp add: advances_to_def)

lemma advances_to_from: "advances_to out s \<Longrightarrow> evolves st s \<Longrightarrow> advances_to out st"
  by (auto simp: advances_to_def intro: evolves_trans)

lemma launch_evolves: "advances_to (launch E pid st) st"
proof -
  have t: "indexes_of s2 = indexes_of s1" if "try_send ch msg s1 = (b, s2)" for ch msg b s1 s2
    using indexes_of_channels(1) [of ch msg s1] that by simp
  have u: "evolves st s" if "next_uuid k st = (b, s1)" "indexes_of s = indexes_of s1" for k b s1 s
    using evolves_next_uuid [of st k] that by (auto intro: evolves_trans evolves_same)
  show ?thesis
    by (auto simp: launch_def Let_def split: option.split prod.split intro!: u dest: t)
qed

lemma retry_launch_evolves: "advances_to (retry_launch E m failed pid st) st"
proof -
  have t: "indexes_of s2 = indexes_of s1" if "try_send ch msg s1 = (b, s2)" for ch msg b s1 s2
    using indexes_of_channels(1) [of ch msg s1] that by simp
  show ?thesis
    by (auto simp: retry_launch_def Let_def split: option.split prod.split list.split sum.split intro!: evolves_same dest: t)
qed

lemma mark_matched_evolves: "evolves st (snd (mark_matched is out st))"
proof (induction "is" out st rule: mark_matched.induct)
  case (2 i "is" out st)
  show ?case
  proof (cases "bm_get (au_parties st) i")
    case (Some p)
    have "evolves st (st\<lparr>au_parties := bm_insert i (p\<lparr>pa_state := PMatched\<rparr>) (au_parties st)\<rparr>)"
      by (rule evolves_put [OF Some]) simp
    with 2(2) [OF Some] Some show ?thesis by (simp add: Let_def evolves_trans)
  qed (use 2 in simp)
qed simp

lemma publish_match_evolves: "evolves st (publish_match E sid m pid q i result st)"
proof -
  let ?tell = "\<lambda>ev p st. send_event_noted E p ev
     (st\<lparr>au_player_match := bm_insert p m (au_player_match st), au_player_proposal := bm_remove p (au_player_proposal st)\<rparr>)"
  have told: "evolves s (fold (?tell ev) ps s)" if "decodable ev" for ev ps s
    by (rule evolves_fold) (rule evolves_trans [OF evolves_same evolves_send_noted [OF that]], simp add: indexes_of_def seed_of_def)
  have emit: "evolves s (fold (emit_party E) ps s)" for ps s by (rule evolves_fold) (rule evolves_emit)
  define s0 where "s0 = (case bm_get (au_launch_deadlines st) m of None \<Rightarrow> st
      | Some deadline \<Rightarrow> on_metrics (\<lambda>mt. mt\<lparr>mt_launch_us := hist_observe (sat_mul (sat_sub (pf_now E)
          (sat_sub deadline (ec_placement_timeout_seconds (au_config st) * 1000))) 1000) (mt_launch_us mt)\<rparr>)
          (st\<lparr>au_launch_deadlines := bm_remove m (au_launch_deadlines st)\<rparr>))"
  let ?matched = "\<lparr>me_match_id = id_to_string (pf_uuid E) m, me_mode = pb_mode (proposal_mode q),
     me_teams = wire_teams E (pr_teams q), me_endpoint = lr_endpoint result, me_connection_token = lr_connection_token result\<rparr>"
  let ?s1 = "fold (?tell \<lparr>ev_event = Some (EvMatched ?matched), ev_deadline_ms = 0\<rparr>) (bm_keys (pr_responses q)) s0"
  have "evolves st s0" by (rule evolves_same) (simp add: s0_def split: option.split)
  moreover have "evolves s0 ?s1" by (rule told) simp
  ultimately have "evolves st (put_instance sid m j ?s1)" for j
    by (rule evolves_trans [OF evolves_trans evolves_same]) simp
  then have "evolves st (snd (mark_matched is [] (put_instance sid m j ?s1)))" for "is" j
    by (rule evolves_trans) (rule mark_matched_evolves)
  then show ?thesis
    unfolding publish_match_def Let_def case_prod_unfold s0_def [symmetric]
    by (rule evolves_trans) (rule emit)
qed

lemma launch_result_evolves: "advances_to (launch_result E sid result st) st"
proof -
  have "advances_to (retry_launch E m sid pid (on_metrics f st)) st" for m pid f
    by (rule advances_to_from [OF retry_launch_evolves evolves_same]) simp
  moreover have "evolves st (put_instance sid m i st)" "evolves st ((put_instance sid m i st)\<lparr>au_launch_deadlines := d\<rparr>)"
    for m i d by (rule evolves_same, simp)+
  ultimately show ?thesis by (simp add: launch_result_def publish_match_evolves split: sum.split option.split)
qed

lemma after_match_evolves: "evolves st (after_match E q st)"
proof -
  have "evolves s (fold (finish_player mode) ps s)" for mode ps s
    by (rule evolves_fold) (rule evolves_same, simp)
  moreover have "evolves s (fold free_party is s)" for "is" s
    by (rule evolves_fold) (auto simp: free_party_def intro!: evolves_update)
  moreover have "evolves s (fold (emit_party_of E) is s)" for "is" s
    by (rule evolves_fold) (rule evolves_emit_of)
  ultimately show ?thesis unfolding after_match_def by (blast intro: evolves_trans)
qed

lemma close_match_evolves: "evolves st (snd (close_match E sid m pid q st))"
proof -
  have "evolves s ((with_registry s r)\<lparr>au_launches := l, au_launch_deadlines := d,
      au_proposal_tickets := bm_remove pid (au_proposal_tickets s), au_proposals := qs\<rparr>)" for s r l d qs
    by (rule evolves_trans [OF evolves_drop_saved [of s pid] evolves_same])
      (simp add: indexes_of_def seed_of_def with_registry_def)
  moreover have "evolves s (with_registry s r)" for s r by (rule evolves_same) simp
  ultimately show ?thesis using after_match_evolves [of st E q]
    by (auto simp: close_match_def Let_def after_match_def [symmetric] split: prod.split sum.split intro: evolves_trans)
qed

lemma finish_match_evolves: "advances_to (finish_match E sid result st) st"
proof -
  have "evolves st (snd (close_match E sid m pid q (st\<lparr>au_ratings := r\<rparr>)))" for m pid q r
    by (rule evolves_trans [OF evolves_same close_match_evolves]) simp
  then show ?thesis by (simp add: finish_match_def split: sum.split option.split)
qed

lemma match_report_evolves: "advances_to (match_report E sid ch result st) st"
proof -
  have send: "evolves s (snd (try_send c msg s))" for c msg s by (rule evolves_same) simp
  show ?thesis
  proof (cases "finish_match E sid result st")
    case None
    then show ?thesis by (simp add: match_report_def Let_def case_prod_unfold send split: sum.split)
  next
    case (Some x)
    obtain r s where x: "x = (r, s)" by fastforce
    have s: "evolves st s" using finish_match_evolves Some [unfolded x] by (rule advances_toD)
    then have "evolves st (snd (try_send c msg (remember_completed_match_result m s)))" for c msg m
      by (rule evolves_trans) (rule evolves_same, simp)
    with s show ?thesis
      by (simp add: Some x match_report_def Let_def case_prod_unfold send split: sum.split)
  qed
qed

lemma apply_server_control_evolves: "advances_to (apply_server_control E sid g ch msg st) st"
proof -
  let ?st = "st\<lparr>au_controls := bm_insert sid ch (au_controls st)\<rparr>"
  have st: "evolves st ?st" by (rule evolves_same) simp
  have "advances_to (launch_result E sid result ?st) st" "advances_to (match_report E sid ch mr ?st) st" for result mr
    using advances_to_from [OF launch_result_evolves st] advances_to_from [OF match_report_evolves st] by blast+
  moreover have "evolves st (snd (instance_report E sid v ?st))" for v
    by (auto simp: instance_report_def Let_def st split: sum.split option.split intro!: evolves_same)
  moreover have "evolves st (with_registry ?st r)" for r by (rule evolves_same) simp
  ultimately show ?thesis
    by (auto simp: apply_server_control_def Let_def st split: option.split server_message.split prod.split sum.split)
qed

lemma recover_launches_evolves: "advances_to (recover_launches E sid rs st) st"
proof (induction rs arbitrary: st)
  case (Cons ready rest)
  show ?case
  proof (cases "launch_result E sid ready st")
    case None
    then show ?thesis by (simp add: Cons split: sum.split)
  next
    case (Some x)
    obtain r s where x: "x = (r, s)" by fastforce
    have s: "evolves st s" using launch_result_evolves Some [unfolded x] by (rule advances_toD)
    then have "advances_to (recover_launches E sid rest s) st" by (rule advances_to_from [OF Cons])
    with Some x s Cons show ?thesis by (simp split: sum.split)
  qed
qed simp

lemma reconcile_job_evolves: "advances_to (reconcile_job E sid req st) st"
proof -
  have r: "evolves st (with_registry st r)" for r by (rule evolves_same) simp
  then have "advances_to (recover_launches E sid rs (with_registry st r)) st" for rs r
    by (rule advances_to_from [OF recover_launches_evolves])
  with r show ?thesis by (simp add: reconcile_job_def split: sum.split prod.split)
qed

lemma drop_disconnected_evolves: "evolves st (drop_disconnected E p st)"
proof -
  let ?st = "st\<lparr>au_disconnect_deadlines := bm_remove p (au_disconnect_deadlines st)\<rparr>"
  have st: "evolves st ?st" by (rule evolves_same) simp
  have "evolves st (cancel_proposal E pid False (?st\<lparr>au_proposals := q\<rparr>))" for pid q
    by (rule evolves_trans [OF evolves_same cancel_proposal_evolves]) simp
  moreover have "evolves st (cancel_proposal E pid False ?st)" for pid
    by (rule evolves_trans [OF st cancel_proposal_evolves])
  moreover have "evolves st (?st\<lparr>au_tickets := bm_remove i (au_tickets st), au_parties := bm_update i
      (\<lambda>q. q\<lparr>pa_state := PIdle, pa_revision := sat_add (pa_revision q) 1\<rparr>) (au_parties st)\<rparr>)" for i
    using evolves_trans [OF evolves_trans [OF st evolves_drop_ticket [of ?st i]] evolves_update
      [of "\<lambda>q. q\<lparr>pa_state := PIdle, pa_revision := sat_add (pa_revision q) 1\<rparr>" "?st\<lparr>au_tickets := bm_remove i (au_tickets ?st)\<rparr>" i]]
    by simp
  ultimately show ?thesis by (simp add: drop_disconnected_def Let_def st split: option.split)
qed

lemma expire_proposals_evolves: "evolves st (expire_proposals E st)"
proof -
  have "evolves s (fold (\<lambda>pid st. cancel_proposal E pid False st) ps s)" for ps s
    by (rule evolves_fold) (rule cancel_proposal_evolves)
  note cancelled = this
  show ?thesis
    unfolding expire_proposals_def Let_def by (rule evolves_trans [OF evolves_same cancelled]) simp
qed

lemma cancel_then_evolves: "evolves st s \<Longrightarrow> evolves st (cancel_proposal E pid infra s)"
  by (rule evolves_trans [OF _ cancel_proposal_evolves])

lemma evolves_cong: "indexes_of t = indexes_of u \<Longrightarrow> evolves s t \<longleftrightarrow> evolves s u"
  by (simp add: evolves_def indexes_of_def ticket_ids_def roster_def told_ok_def)

lemma evolves_unseen [simp]:
  "evolves s (t\<lparr>au_launches := l\<rparr>) \<longleftrightarrow> evolves s t" "evolves s (t\<lparr>au_launch_deadlines := d\<rparr>) \<longleftrightarrow> evolves s t"
  "evolves s (t\<lparr>au_placement_waiting := w\<rparr>) \<longleftrightarrow> evolves s t"
  by (rule evolves_cong, simp)+

lemma retry_launch_Some: "retry_launch E m failed pid st = Some (r, s) \<Longrightarrow> evolves st s"
  using retry_launch_evolves by (rule advances_toD)

lemma retry_waiting_evolves: "retry_waiting E pid st = Some t \<Longrightarrow> evolves st t"
proof (cases "launch E pid st")
  case (Some x)
  assume h: "retry_waiting E pid st = Some t"
  obtain r s where x: "x = (r, s)" by fastforce
  have s: "evolves st s" using launch_evolves Some [unfolded x] by (rule advances_toD)
  then have w: "evolves st (s\<lparr>au_placement_waiting := a\<rparr>)" for a by (rule evolves_trans) (rule evolves_same, simp)
  show ?thesis
    using h s w by (auto simp: retry_waiting_def Some x Let_def intro: evolves_trans [OF w cancel_proposal_evolves]
        split: option.splits sum.splits if_splits)
qed (simp add: retry_waiting_def)

lemma handle_lost_evolves: "handle_lost E lost st = Some t \<Longrightarrow> evolves st t"
proof -
  assume h: "handle_lost E lost st = Some t"
  obtain m run where lost: "lost = (m, run)" by fastforce
  have told: "evolves st (fold (\<lambda>p st. send_event_noted E p ev st) ps st)" if "decodable ev" for ev ps
    by (rule evolves_fold) (rule evolves_send_noted [OF that])
  show ?thesis
  proof (cases "bm_get (au_launches st) m")
    case (Some l)
    obtain server pid where l: "l = (server, pid)" by fastforce
    show ?thesis
    proof (cases "retry_launch E m server pid st")
      case None
      with h Some l told show ?thesis by (auto simp: handle_lost_def lost split: if_splits option.splits)
    next
      case launched: (Some x)
      obtain r s where x: "x = (r, s)" by fastforce
      have s: "evolves st s" using launched unfolding x by (rule retry_launch_Some)
      then have "evolves st (cancel_proposal E pid True s)" by (rule cancel_then_evolves)
      with h Some l told s launched x show ?thesis
        by (auto simp: handle_lost_def lost Let_def split: if_splits option.splits sum.splits)
    qed
  qed (use h in \<open>simp add: handle_lost_def lost\<close>)
qed

lemma retry_overdue_evolves: "retry_overdue E m st = Some t \<Longrightarrow> evolves st t"
proof -
  assume h: "retry_overdue E m st = Some t"
  show ?thesis
  proof (cases "bm_get (au_launches st) m")
    case (Some l)
    obtain server pid where l: "l = (server, pid)" by fastforce
    obtain r s where x: "retry_launch E m server pid st = Some (r, s)"
      using h Some l by (auto simp: retry_overdue_def split: option.splits)
    then have s: "evolves st s" by (rule retry_launch_Some)
    then have "evolves st (cancel_proposal E pid True s)" by (rule cancel_then_evolves)
    with h Some l s x show ?thesis by (auto simp: retry_overdue_def Let_def split: sum.splits)
  qed (use h in \<open>simp add: retry_overdue_def\<close>)
qed

lemma tick_evolves: "tick E st = Some t \<Longrightarrow> evolves st t"
proof -
  assume h: "tick E st = Some t"
  let ?s0 = "expire_proposals E (fold (drop_disconnected E) (overdue (pf_now E) (au_disconnect_deadlines st)) st)"
  obtain s1 where s1: "fold_opt (retry_waiting E) (bm_keys (au_placement_waiting ?s0)) ?s0 = Some s1"
    using h by (auto simp: tick_def Let_def split: option.splits)
  obtain lost r where u: "update_health (pf_now E) (unhealthy_after_ms (au_config s1))
      (sat_mul (ec_lost_after_seconds (au_config s1)) 1000) (au_registry s1) = (lost, r)" by fastforce
  obtain s2 where s2: "fold_opt (handle_lost E) lost (with_registry s1 r) = Some s2"
    using h s1 u by (auto simp: tick_def Let_def split: option.splits)
  obtain s3 where s3: "fold_opt (retry_overdue E) (overdue (pf_now E) (au_launch_deadlines s2)) s2 = Some s3"
    using h s1 u s2 by (auto simp: tick_def Let_def split: option.splits)
  have t: "t = attempt_all_matches E (rebuild_ecs E s3)"
    using h s1 u s2 s3 by (simp add: tick_def Let_def)
  have "evolves st (fold (drop_disconnected E) ps st)" for ps by (rule evolves_fold) (rule drop_disconnected_evolves)
  then have "evolves st ?s0" by (rule evolves_trans) (rule expire_proposals_evolves)
  also have "evolves ?s0 s1" using s1 by (rule evolves_fold_opt [rotated]) (rule retry_waiting_evolves)
  also have "evolves s1 (with_registry s1 r)" by (rule evolves_same) simp
  also have "evolves (with_registry s1 r) s2" using s2 by (rule evolves_fold_opt [rotated]) (rule handle_lost_evolves)
  also have "evolves s2 s3" using s3 by (rule evolves_fold_opt [rotated]) (rule retry_overdue_evolves)
  also have "evolves s3 (rebuild_ecs E s3)" by (rule evolves_same) simp
  also have "evolves (rebuild_ecs E s3) t" unfolding t by (rule attempt_all_matches_evolves)
  finally show ?thesis .
qed

end
