(* ===== verification/Authority_Invariant.thy ===== *)
theory Authority_Invariant
  imports Authority_Consistency
begin

text \<open>
  The invariant \<open>consistent\<close> of every reachable state of the authority: parties are stored under
  their own ids and are well-formed, a player whom the index of parties names is a member of that
  party, the ids of parties and tickets are numbers the authority has issued, no two tickets share
  an id, and every event sent to a client can be decoded. What rests on fresh ids holds while
  fewer than \<open>2 ^ 56\<close> ids have been issued: beyond that the number runs into the kind.
\<close>

section \<open>Issued identifiers\<close>

unbundle bit_operations_syntax

abbreviation ID_ROOM :: nat where
  "ID_ROOM \<equiv> 2 ^ 56"

lemma unat_number: "unat (ucast (n :: u64) :: u128) = unat n"
  using unat_less_exp [of n] by (simp add: unsigned_ucast_eq take_bit_nat_eq_self)

lemma domain_uuid_number: "unat n < ID_ROOM \<Longrightarrow> take_bit 56 (domain_uuid seed k n) = (ucast n :: u128)"
proof -
  assume "unat n < ID_ROOM"
  then have "take_bit 56 (ucast n :: u128) = ucast n"
    by (simp only: word_unat_eq_iff unsigned_take_bit_eq unat_number take_bit_nat_eq_self)
  then show ?thesis by (simp add: domain_uuid_def take_bit_push_bit)
qed

lemma ucast_u128_inj: "(ucast m :: u128) = ucast n \<Longrightarrow> m = (n :: u64)"
  by (simp only: word_unat_eq_iff unat_number)

lemma domain_uuid_inj:
  assumes "unat m < ID_ROOM" "unat n < ID_ROOM" "domain_uuid seed k m = domain_uuid seed k' n"
  shows "m = n"
proof (rule ucast_u128_inj)
  show "(ucast m :: u128) = ucast n"
    using assms(3) domain_uuid_number [OF assms(1), of seed k] domain_uuid_number [OF assms(2), of seed k'] by simp
qed

definition issued :: "authority \<Rightarrow> u8 \<Rightarrow> 'k uuid_id \<Rightarrow> bool" where
  "issued st kind i \<longleftrightarrow> (\<exists>n \<le> au_next_domain_id st. i = from_uuid (domain_uuid (seed_of st) kind n))"

definition room :: "authority \<Rightarrow> bool" where
  "room st \<longleftrightarrow> unat (au_next_domain_id st) < ID_ROOM"

lemma issued_mono: "issued s k i \<Longrightarrow> seed_of t = seed_of s \<Longrightarrow> au_next_domain_id s \<le> au_next_domain_id t \<Longrightarrow> issued t k i"
  by (auto simp: issued_def intro: order_trans)

lemma room_mono: "room t \<Longrightarrow> au_next_domain_id s \<le> au_next_domain_id t \<Longrightarrow> room s"
  unfolding room_def by (meson order_le_less_trans word_le_nat_alt)

lemma next_uuid_fresh:
  assumes "next_uuid k st = (u, t)" "room t"
  shows "issued t k (from_uuid u)" "\<not> issued st k (from_uuid u)" "seed_of t = seed_of st"
    "au_next_domain_id st \<le> au_next_domain_id t"
proof -
  let ?n = "sat_add (au_next_domain_id st) 1"
  have u: "u = domain_uuid (seed_of st) k ?n" and t: "t = st\<lparr>au_next_domain_id := ?n\<rparr>"
    using assms(1) by (simp_all add: next_uuid_def Let_def seed_of_def)
  show seed: "seed_of t = seed_of st" and le: "au_next_domain_id st \<le> au_next_domain_id t"
    by (simp_all add: t seed_of_def sat_add_mono)
  have n: "unat ?n < ID_ROOM" using assms(2) by (simp add: room_def t)
  show "issued t k (from_uuid u)" unfolding issued_def seed u by (rule exI [of _ ?n]) (simp add: t)
  have "n < ?n" if "n \<le> au_next_domain_id st" for n
  proof -
    have "unat ?n = unat (au_next_domain_id st) + 1"
      using n by (simp add: unat_sat_add)
    with that show ?thesis by (simp add: word_less_nat_alt word_le_nat_alt)
  qed
  moreover have "unat n < ID_ROOM" if "n \<le> ?n" for n
    using n that by (meson order_le_less_trans word_le_nat_alt)
  ultimately show "\<not> issued st k (from_uuid u)"
    unfolding issued_def u using domain_uuid_inj [of ?n _ "seed_of st" k k] n
    by (metis from_uuid_def leD order.strict_implies_order order_refl uuid_id.inject)
qed

section \<open>The invariant\<close>

definition parties_wf :: "authority \<Rightarrow> bool" where
  "parties_wf st \<longleftrightarrow> (\<forall>i p. bm_get (au_parties st) i = Some p \<longrightarrow> party_wf p \<and> pa_members p \<noteq> [])"

definition membership_ok :: "authority \<Rightarrow> bool" where
  "membership_ok st \<longleftrightarrow> (\<forall>x i. bm_get (au_player_party st) x = Some i
     \<longrightarrow> (\<exists>p. bm_get (au_parties st) i = Some p \<and> x \<in> set (pa_members p)))"

definition tickets_unique :: "authority \<Rightarrow> bool" where
  "tickets_unique st \<longleftrightarrow> (\<forall>t. count (ticket_ids st) t \<le> 1)"

definition ids_issued :: "authority \<Rightarrow> bool" where
  "ids_issued st \<longleftrightarrow> (\<forall>i p. bm_get (au_parties st) i = Some p \<longrightarrow> issued st 1 i)
     \<and> (\<forall>t \<in># ticket_ids st. issued st 2 t)"

definition consistent :: "authority \<Rightarrow> bool" where
  "consistent st \<longleftrightarrow> parties_keyed st \<and> parties_wf st \<and> told_ok st
     \<and> (room st \<longrightarrow> membership_ok st \<and> tickets_unique st \<and> ids_issued st)"

lemma roster_eqD:
  assumes "roster t = roster s" and "bm_get (au_parties t) i = Some p"
  obtains q where "bm_get (au_parties s) i = Some q" "pa_id p = pa_id q" "pa_members p = pa_members q" "pa_leader p = pa_leader q"
proof -
  have "map_option (\<lambda>p. (pa_id p, pa_members p, pa_leader p)) (bm_get (au_parties s) i)
      = map_option (\<lambda>p. (pa_id p, pa_members p, pa_leader p)) (bm_get (au_parties t) i)"
    using assms(1) by (simp add: roster_def fun_eq_iff)
  with assms(2) show thesis by (auto intro: that)
qed

lemma roster_None: "roster t = roster s \<Longrightarrow> bm_get (au_parties s) i = None \<Longrightarrow> bm_get (au_parties t) i = None"
  by (metis not_Some_eq roster_eqD)

lemma roster_keeps:
  assumes "roster t = roster s"
  shows "parties_keyed s \<Longrightarrow> parties_keyed t" "parties_wf s \<Longrightarrow> parties_wf t" "membership_ok s \<Longrightarrow> membership_ok t"
proof -
  show "parties_keyed s \<Longrightarrow> parties_keyed t" "parties_wf s \<Longrightarrow> parties_wf t"
    unfolding parties_keyed_def parties_wf_def party_wf_def by (metis roster_eqD [OF assms])+
  show "membership_ok t" if kept: "membership_ok s"
    unfolding membership_ok_def
  proof (intro allI impI)
    fix x i
    assume "bm_get (au_player_party t) x = Some i"
    then have "bm_get (au_player_party s) x = Some i" using assms by (simp add: roster_def)
    then obtain q where "bm_get (au_parties s) i = Some q" "x \<in> set (pa_members q)"
      using kept by (auto simp: membership_ok_def)
    then show "\<exists>p. bm_get (au_parties t) i = Some p \<and> x \<in> set (pa_members p)"
      by (metis roster_eqD [OF assms [symmetric]])
  qed
qed

lemma tickets_unique_sub: "tickets_unique s \<Longrightarrow> ticket_ids t \<subseteq># ticket_ids s \<Longrightarrow> tickets_unique t"
  unfolding tickets_unique_def by (meson mset_subset_eq_count order_trans)

text \<open>A step that makes no ticket and keeps the parties keeps the invariant.\<close>

lemma consistent_evolves:
  assumes "consistent s" and "evolves s t"
  shows "consistent t"
proof -
  have e: "roster t = roster s" "told_ok s \<longrightarrow> told_ok t" "seed_of t = seed_of s"
    "au_next_domain_id s \<le> au_next_domain_id t" "ticket_ids t \<subseteq># ticket_ids s"
    using assms(2) by (simp_all add: evolves_def)
  have "ids_issued t" if "ids_issued s"
  proof -
    have "issued t 1 i" if "bm_get (au_parties t) i = Some p" for i p
      using roster_eqD [OF e(1) that] \<open>ids_issued s\<close> issued_mono [OF _ e(3,4)] by (metis ids_issued_def)
    moreover have "issued t 2 x" if "x \<in># ticket_ids t" for x
      using that \<open>ids_issued s\<close> issued_mono [OF _ e(3,4)] mset_subset_eqD [OF e(5)] by (metis ids_issued_def)
    ultimately show ?thesis by (simp add: ids_issued_def)
  qed
  with assms(1) e roster_keeps [OF e(1)] tickets_unique_sub [OF _ e(5)] room_mono [OF _ e(4)] show ?thesis
    by (simp add: consistent_def)
qed

text \<open>A step that makes one ticket with a fresh number.\<close>

lemma consistent_new_ticket:
  assumes c: "consistent st" and u: "next_uuid 2 st = (u, s)" and e: "evolves_with {#from_uuid u#} s t"
  shows "consistent t"
proof -
  have s: "evolves st s" using evolves_next_uuid [of st 2] u by simp
  have cs: "consistent s" by (rule consistent_evolves [OF c s])
  have e': "roster t = roster s" "told_ok s \<longrightarrow> told_ok t" "seed_of t = seed_of s"
    "au_next_domain_id s \<le> au_next_domain_id t" "ticket_ids t \<subseteq># add_mset (from_uuid u) (ticket_ids s)"
    using e by (simp_all add: evolves_with_def)
  have "tickets_unique t \<and> ids_issued t" if r: "room t"
  proof
    have rs: "room s" "room st" using room_mono [OF r e'(4)] room_mono [of s st] s by (auto simp: evolves_def)
    have f: "issued s 2 (from_uuid u)" "\<not> issued st 2 (from_uuid u)" by (rule next_uuid_fresh [OF u rs(1)])+
    have "from_uuid u \<notin># ticket_ids st" using c rs(2) f(2) by (auto simp: consistent_def ids_issued_def)
    then have new: "from_uuid u \<notin># ticket_ids s" using s by (auto simp: evolves_def dest: mset_subset_eqD)
    have un: "tickets_unique s" "ids_issued s" using cs rs(1) by (simp_all add: consistent_def)
    have "count (add_mset (from_uuid u) (ticket_ids s)) x \<le> 1" for x
      using new un(1) by (auto simp: tickets_unique_def not_in_iff)
    then show "tickets_unique t"
      using e'(5) unfolding tickets_unique_def by (meson mset_subset_eq_count order_trans)
    have "issued t 1 i" if "bm_get (au_parties t) i = Some p" for i p
      using roster_eqD [OF e'(1) that] un(2) issued_mono [OF _ e'(3,4)] by (metis ids_issued_def)
    moreover have "issued t 2 x" if "x \<in># ticket_ids t" for x
      using mset_subset_eqD [OF e'(5) that] f(1) un(2) issued_mono [OF _ e'(3,4), of 2 x] by (auto simp: ids_issued_def)
    ultimately show "ids_issued t" by (simp add: ids_issued_def)
  qed
  with cs e'(2) roster_keeps [OF e'(1)] room_mono [OF _ e'(4)] show ?thesis by (simp add: consistent_def)
qed

section \<open>Calls that change who is in a party\<close>

lemma consistent_put:
  assumes c: "consistent st" and q: "bm_get (au_parties st) i = Some q"
    and p: "pa_id p = pa_id q" "party_wf p" "pa_members p \<noteq> []"
    and m: "\<And>x j. membership_ok st \<Longrightarrow> bm_get pp x = Some j \<Longrightarrow>
      j \<noteq> i \<and> bm_get (au_player_party st) x = Some j \<or> j = i \<and> x \<in> set (pa_members p)"
  shows "consistent (st\<lparr>au_parties := bm_insert i p (au_parties st), au_player_party := pp\<rparr>)" (is "consistent ?t")
proof -
  have same: "ticket_ids ?t = ticket_ids st" "seed_of ?t = seed_of st" "told_ok ?t = told_ok st" "room ?t = room st"
    "issued ?t = issued st"
    by (simp_all add: ticket_ids_def seed_of_def told_ok_def room_def issued_def fun_eq_iff)
  have "parties_keyed ?t" "parties_wf ?t"
    using c q p by (simp_all add: consistent_def parties_keyed_def parties_wf_def get_insert)
  moreover have "membership_ok ?t" if "membership_ok st"
    using m [OF that] that by (fastforce simp: membership_ok_def get_insert)
  moreover have "ids_issued ?t" if "ids_issued st"
    using that q by (simp add: ids_issued_def same get_insert)
  ultimately show ?thesis using c by (simp add: consistent_def same tickets_unique_def)
qed

lemma consistent_replace:
  assumes "consistent st" "bm_get (au_parties st) i = Some q" "pa_id p = pa_id q" "party_wf p"
    and "pa_members p \<noteq> []" "set (pa_members q) \<subseteq> set (pa_members p)"
  shows "consistent (st\<lparr>au_parties := bm_insert i p (au_parties st)\<rparr>)"
proof -
  have "consistent (st\<lparr>au_parties := bm_insert i p (au_parties st), au_player_party := au_player_party st\<rparr>)"
  proof (rule consistent_put [OF assms(1-5)])
    fix x j
    assume "membership_ok st" "bm_get (au_player_party st) x = Some j"
    then obtain r where "bm_get (au_parties st) j = Some r" "x \<in> set (pa_members r)" by (auto simp: membership_ok_def)
    then show "j \<noteq> i \<and> bm_get (au_player_party st) x = Some j \<or> j = i \<and> x \<in> set (pa_members p)"
      using assms(2,6) \<open>bm_get (au_player_party st) x = Some j\<close> by auto
  qed
  then show ?thesis by simp
qed

text \<open>The contract of a call: it keeps the invariant, whatever it answers.\<close>

definition keeps_consistent :: "'a outcome \<Rightarrow> bool" where
  "keeps_consistent out \<longleftrightarrow> (\<forall>r s. out = Some (r, s) \<longrightarrow> consistent s)"

lemma keeps_consistent_simps [simp]: "keeps_consistent None" "keeps_consistent (Some x) \<longleftrightarrow> consistent (snd x)"
  by (cases x; simp add: keeps_consistent_def)+

lemma keeps_consistent_advances: "consistent st \<Longrightarrow> advances_to out st \<Longrightarrow> keeps_consistent out"
  by (auto simp: keeps_consistent_def advances_to_def intro: consistent_evolves)

lemma consistent_emit: "consistent st \<Longrightarrow> consistent (emit_party E p st)"
  by (rule consistent_evolves [OF _ evolves_emit])

lemma consistent_unseen [simp]:
  "consistent (st\<lparr>au_invites := d\<rparr>) \<longleftrightarrow> consistent st"
  "consistent (st\<lparr>au_request_cache := z\<rparr>) \<longleftrightarrow> consistent st"
proof -
  have both: "consistent s \<longleftrightarrow> consistent t" if "indexes_of s = indexes_of t" for s t
    using consistent_evolves [OF _ evolves_same [OF that]] consistent_evolves [OF _ evolves_same [OF that [symmetric]]]
    by blast
  show "consistent (st\<lparr>au_invites := d\<rparr>) \<longleftrightarrow> consistent st" "consistent (st\<lparr>au_request_cache := z\<rparr>) \<longleftrightarrow> consistent st"
    by (rule both, simp)+
qed

lemma with_request_consistent:
  assumes "consistent st" and "\<And>p. keeps_consistent (body p st)"
  shows "keeps_consistent (with_request m body st)"
proof -
  have "consistent (s\<lparr>au_request_cache := c\<rparr>)" if "body p st = Some (r, s)" for p r s c
    using assms(2) [of p] that by (simp add: keeps_consistent_def)
  with assms show ?thesis
    by (auto simp: with_request_def remember_def Let_def keeps_consistent_def split: sum.splits option.splits prod.splits)
qed

lemma create_party_body_consistent:
  assumes c: "consistent st"
  shows "keeps_consistent (create_party_body E name p st)"
proof (cases "party_new (pf_unicode E) (UuidId 0) p name")
  case (Inr party0)
  show ?thesis
  proof (cases "bm_contains (au_player_party st) p")
    case False
    obtain u s where u: "next_uuid 1 st = (u, s)" by fastforce
    define party where "party = party0\<lparr>pa_id := from_uuid u\<rparr>"
    let ?s = "emit_party E party s"
    let ?i = "from_uuid u :: party_id"
    define t where "t = ?s\<lparr>au_parties := bm_insert ?i party (au_parties ?s), au_player_party := bm_insert p ?i (au_player_party ?s)\<rparr>"
    have party: "party_wf party" "pa_members party = [p]" "pa_id party = ?i"
      using Inr by (auto simp: party_def party_new_def party_wf_def split: sum.splits)
    have es: "evolves st s" using evolves_next_uuid [of st 1] u by simp
    have ee: "evolves s ?s" by (rule evolves_emit)
    have cs: "consistent ?s" by (rule consistent_evolves [OF consistent_evolves [OF c es] ee])
    have same: "ticket_ids t = ticket_ids ?s" "seed_of t = seed_of ?s" "told_ok t = told_ok ?s" "room t = room ?s"
      "issued t = issued ?s"
      by (simp_all add: ticket_ids_def seed_of_def told_ok_def room_def issued_def fun_eq_iff t_def)
    have "parties_keyed t" "parties_wf t"
      using cs party by (simp_all add: consistent_def parties_keyed_def parties_wf_def get_insert t_def)
    moreover have "membership_ok t \<and> ids_issued t" if r: "room ?s"
    proof
      have rs: "room s" "room st" using r room_mono [of ?s s] room_mono [of s st] es ee by (auto simp: evolves_def)
      have f: "issued s 1 ?i" "\<not> issued st 1 ?i" by (rule next_uuid_fresh [OF u rs(1)])+
      have free: "bm_get (au_parties st) ?i = None"
        using c rs(2) f(2) by (cases "bm_get (au_parties st) ?i") (auto simp: consistent_def ids_issued_def)
      have "roster ?s = roster st" using es ee by (simp add: evolves_def)
      then have none: "bm_get (au_parties ?s) ?i = None" by (rule roster_None [OF _ free])
      have ms: "membership_ok ?s" "ids_issued ?s" using cs r by (simp_all add: consistent_def)
      then show "membership_ok t" using none party(2) by (fastforce simp: membership_ok_def get_insert t_def)
      have "issued ?s 1 ?i" using f(1) ee by (auto simp: evolves_def intro: issued_mono)
      with ms(2) show "ids_issued t" unfolding ids_issued_def same by (simp add: t_def get_insert)
    qed
    ultimately have "consistent t" using cs by (simp add: consistent_def same tickets_unique_def)
    with False Inr u party(3) show ?thesis by (simp add: create_party_body_def Let_def party_def t_def)
  qed (use c in \<open>simp add: create_party_body_def\<close>)
qed (use c in \<open>simp add: create_party_body_def\<close>)

lemma consistent_party:
  "consistent st \<Longrightarrow> bm_get (au_parties st) i = Some p \<Longrightarrow> party_wf p \<and> pa_members p \<noteq> [] \<and> pa_id p = i"
  by (simp add: consistent_def parties_wf_def parties_keyed_def)

lemma consistent_rewrite:
  assumes "consistent st" "bm_get (au_parties st) i = Some p"
  shows "consistent (st\<lparr>au_parties := bm_insert i p (au_parties st)\<rparr>)"
  using assms consistent_party [OF assms] by (intro consistent_replace [OF assms]) simp_all

lemma party_join_keeps:
  assumes "party_wf q" "pa_members q \<noteq> []" "party_join x q = (Inr v, p)"
  shows "party_wf p" "pa_id p = pa_id q" "set (pa_members p) = insert x (set (pa_members q))"
  using assms party_join_wf [OF assms(1), of x] by (auto simp: party_join_def split: if_splits)

lemma party_kick_keeps:
  assumes "party_wf q" "pa_members q \<noteq> []" "party_kick a r x q = (Inr v, p)"
  shows "party_wf p" "pa_id p = pa_id q" "pa_members p \<noteq> []" "set (pa_members p) = set (pa_members q) - {x}"
proof -
  show "party_wf p" using party_kick_wf [OF assms(1), of a r x] assms(3) by simp
  have "pa_leader q \<in> set (pa_members q)" using assms(1,2) by (simp add: party_wf_def)
  with assms(3) show "pa_id p = pa_id q" "pa_members p \<noteq> []" "set (pa_members p) = set (pa_members q) - {x}"
    by (auto simp: party_kick_def filter_empty_conv split: sum.splits if_splits)
qed

lemma party_leave_keeps:
  assumes "party_wf q" "party_leave x q = (Inr e, p)"
  shows "party_wf p" "pa_id p = pa_id q" "e \<longleftrightarrow> pa_members p = []" "set (pa_members p) = set (pa_members q) - {x}"
proof -
  show "party_wf p" using party_leave_wf [OF assms(1), of x] assms(2) by simp
  have "pa_members p = filter (\<lambda>m. m \<noteq> x) (pa_members q) \<and> pa_id p = pa_id q \<and> (e \<longleftrightarrow> pa_members p = [])"
    using assms(2)
    by (cases "filter (\<lambda>m. m \<noteq> x) (pa_members q)") (auto simp: party_leave_def Let_def split: if_splits)
  then show "pa_id p = pa_id q" "e \<longleftrightarrow> pa_members p = []" "set (pa_members p) = set (pa_members q) - {x}" by auto
qed

lemma party_rename_keeps:
  assumes "party_wf q" "party_rename u a r n q = (Inr v, p)"
  shows "party_wf p" "pa_id p = pa_id q" "pa_members p = pa_members q"
  using assms(2) party_rename_wf [OF assms(1), of u a r n]
  by (auto simp: party_rename_def split: if_splits sum.splits)

lemma membership_okD:
  "membership_ok st \<Longrightarrow> bm_get (au_player_party st) x = Some j \<Longrightarrow> bm_get (au_parties st) j = Some q \<Longrightarrow> x \<in> set (pa_members q)"
  by (fastforce simp: membership_ok_def)

lemma join_party_body_consistent:
  assumes c: "consistent st"
  shows "keeps_consistent (join_party_body E token x st)"
proof -
  let ?s = "\<lambda>inv. st\<lparr>au_invites := inv\<rparr>"
  have joined: "consistent (emit_party E p (?s inv\<lparr>au_parties := bm_insert i p (au_parties st),
      au_player_party := bm_insert x i (au_player_party st)\<rparr>))"
    if "bm_get (au_parties st) i = Some q" "party_join x q = (Inr v, p)" for i q p v inv
  proof (rule consistent_emit)
    note q = consistent_party [OF c that(1)]
    note p = party_join_keeps [OF _ _ that(2)]
    have "consistent (?s inv\<lparr>au_parties := bm_insert i p (au_parties (?s inv)),
        au_player_party := bm_insert x i (au_player_party (?s inv))\<rparr>)"
      by (rule consistent_put [of _ _ q])
        (use c q p that(1) in \<open>auto simp: get_insert dest: membership_okD [of "?s inv"] split: if_splits\<close>)
    then show "consistent (?s inv\<lparr>au_parties := bm_insert i p (au_parties st),
        au_player_party := bm_insert x i (au_player_party st)\<rparr>)" by simp
  qed
  have kept: "consistent (?s inv\<lparr>au_parties := bm_insert i p (au_parties st)\<rparr>)"
    if "bm_get (au_parties st) i = Some q" "party_join x q = (Inl e, p)" for i q p e inv
    using consistent_rewrite [of "?s inv" i q] c that party_errors_keep(2) [OF that(2)] by simp
  show ?thesis
    using c by (auto simp: join_party_body_def Let_def joined kept split: prod.split option.split sum.split)
qed

lemma leave_party_body_consistent:
  assumes c: "consistent st"
  shows "keeps_consistent (leave_party_body E party_id revision x st)"
proof -
  have kept: "consistent (st\<lparr>au_parties := bm_insert i p (au_parties st)\<rparr>)"
    if "bm_get (au_parties st) i = Some q" "party_leave x q = (Inl e, p)" for i q p e
    using consistent_rewrite [OF c that(1)] party_errors_keep(4) [OF that(2)] by simp
  have left: "consistent (emit_party E p (st\<lparr>au_parties := bm_insert i p (au_parties st),
      au_player_party := bm_remove x (au_player_party st)\<rparr>))"
    if "bm_get (au_parties st) i = Some q" "party_leave x q = (Inr False, p)" for i q p
  proof (rule consistent_emit, rule consistent_put [OF c that(1)])
    note q = consistent_party [OF c that(1)]
    note p = party_leave_keeps [OF _ that(2)]
    show "pa_id p = pa_id q" "party_wf p" "pa_members p \<noteq> []" using p q by simp_all
    fix y j
    assume "membership_ok st" "bm_get (bm_remove x (au_player_party st)) y = Some j"
    with q p that(1) show "j \<noteq> i \<and> bm_get (au_player_party st) y = Some j \<or> j = i \<and> y \<in> set (pa_members p)"
      by (auto simp: get_remove dest: membership_okD split: if_splits)
  qed
  have gone: "consistent (st\<lparr>au_player_party := bm_remove x (au_player_party st),
      au_parties := bm_remove i (au_parties st)\<rparr>)" (is "consistent ?t")
    if "bm_get (au_parties st) i = Some q" "party_leave x q = (Inr True, p)" for i q p
  proof -
    note q = consistent_party [OF c that(1)]
    have only: "set (pa_members q) \<subseteq> {x}" using party_leave_keeps(3,4) [OF _ that(2)] q by auto
    have same: "ticket_ids ?t = ticket_ids st" "seed_of ?t = seed_of st" "told_ok ?t = told_ok st" "room ?t = room st"
      "issued ?t = issued st"
      by (simp_all add: ticket_ids_def seed_of_def told_ok_def room_def issued_def fun_eq_iff)
    have "parties_keyed ?t" "parties_wf ?t"
      using c by (auto simp: consistent_def parties_keyed_def parties_wf_def get_remove split: if_splits)
    moreover have "membership_ok ?t" if "membership_ok st"
      using that only \<open>bm_get (au_parties st) i = Some q\<close>
      by (fastforce simp: membership_ok_def get_remove split: if_splits)
    moreover have "ids_issued ?t" if "ids_issued st"
      using that unfolding ids_issued_def same by (auto simp: get_remove split: if_splits)
    ultimately show ?thesis using c by (simp add: consistent_def same tickets_unique_def)
  qed
  show ?thesis
    using c kept left gone
    by (auto simp: leave_party_body_def Let_def split: prod.split option.split sum.split)
qed

lemma kick_member_body_consistent:
  assumes c: "consistent st"
  shows "keeps_consistent (kick_member_body E party_id revision player_id x st)"
proof -
  have kept: "consistent (st\<lparr>au_parties := bm_insert i p (au_parties st)\<rparr>)"
    if "bm_get (au_parties st) i = Some q" "party_kick x revision y q = (Inl e, p)" for i q p e y
    using consistent_rewrite [OF c that(1)] party_errors_keep(3) [OF that(2)] by simp
  have kicked: "consistent (emit_party E p (st\<lparr>au_parties := bm_insert i p (au_parties st),
      au_player_party := bm_remove y (au_player_party st)\<rparr>))"
    if "bm_get (au_parties st) i = Some q" "party_kick x revision y q = (Inr v, p)" for i q p v y
  proof (rule consistent_emit, rule consistent_put [OF c that(1)])
    note q = consistent_party [OF c that(1)]
    note p = party_kick_keeps [OF _ _ that(2)]
    show "pa_id p = pa_id q" "party_wf p" "pa_members p \<noteq> []" using p q by simp_all
    fix z j
    assume "membership_ok st" "bm_get (bm_remove y (au_player_party st)) z = Some j"
    with q p that(1) show "j \<noteq> i \<and> bm_get (au_player_party st) z = Some j \<or> j = i \<and> z \<in> set (pa_members p)"
      by (auto simp: get_remove dest: membership_okD split: if_splits)
  qed
  show ?thesis
    using c kept kicked
    by (auto simp: kick_member_body_def Let_def split: prod.split option.split sum.split)
qed

lemma rename_party_body_consistent:
  assumes c: "consistent st"
  shows "keeps_consistent (rename_party_body E party_id revision name x st)"
proof -
  have kept: "consistent (st\<lparr>au_parties := bm_insert i p (au_parties st)\<rparr>)"
    if "bm_get (au_parties st) i = Some q" "party_rename u x revision name q = (Inl e, p)" for i q p e u
    using consistent_rewrite [OF c that(1)] party_errors_keep(1) [OF that(2)] by simp
  have renamed: "consistent (emit_party E p (st\<lparr>au_parties := bm_insert i p (au_parties st)\<rparr>))"
    if "bm_get (au_parties st) i = Some q" "party_rename u x revision name q = (Inr v, p)" for i q p v u
    by (rule consistent_emit, rule consistent_replace [OF c that(1)])
      (use consistent_party [OF c that(1)] party_rename_keeps [OF _ that(2)] in simp_all)
  show ?thesis
    using c kept renamed
    by (auto simp: rename_party_body_def Let_def split: prod.split option.split sum.split)
qed

section \<open>The queue and the ready check\<close>

lemma enqueue_body_consistent:
  assumes c: "consistent st"
  shows "keeps_consistent (enqueue_body E party_id revision mode regions x st)"
proof -
  have queued: "consistent (emit_party E p (s\<lparr>au_tickets := bm_insert i t (au_tickets s)\<rparr>))"
    if q: "bm_get (au_parties st) i = Some q" and p: "p = q\<lparr>pa_state := PQueued, pa_revision := pa_revision q + 1\<rparr>"
      and u: "next_uuid 2 (st\<lparr>au_parties := bm_insert i p (au_parties st)\<rparr>) = (u, s)" and t: "tr_id t = from_uuid u"
    for i q p u s t
  proof (rule consistent_emit)
    have "consistent (st\<lparr>au_parties := bm_insert i p (au_parties st)\<rparr>)"
      by (rule consistent_evolves [OF c evolves_put [OF q]]) (simp add: p)
    then show "consistent (s\<lparr>au_tickets := bm_insert i t (au_tickets s)\<rparr>)"
      by (rule consistent_new_ticket [OF _ u]) (use evolves_put_ticket [of t s i] t in simp)
  qed
  show ?thesis
    using c by (auto simp: enqueue_body_def Let_def intro!: queued split: prod.split option.split sum.split)
qed

lemma cancel_queue_body_advances: "advances_to (cancel_queue_body E party_id revision x st) st"
proof -
  have gone: "evolves st (emit_party E p (st\<lparr>au_parties := bm_insert i p (au_parties st), au_tickets := bm_remove i (au_tickets st)\<rparr>))"
    if "bm_get (au_parties st) i = Some q" "p = q\<lparr>pa_state := PIdle, pa_revision := pa_revision q + 1\<rparr>" for i q p
  proof -
    have "evolves st (st\<lparr>au_parties := bm_insert i p (au_parties st)\<rparr>)"
      by (rule evolves_put [OF that(1)]) (simp add: that(2))
    then show ?thesis using evolves_trans [OF evolves_trans [OF _ evolves_drop_ticket [of _ i]] evolves_emit] by fastforce
  qed
  show ?thesis
    by (auto simp: cancel_queue_body_def Let_def intro!: gone split: option.split sum.split)
qed

lemma place_proposal_evolves: "advances_to (place_proposal E pid st) st"
proof -
  define st1 where "st1 = (case bm_get (au_proposals st) pid of None \<Rightarrow> st
    | Some prop \<Rightarrow> on_metrics (\<lambda>mt. mt\<lparr>mt_ready_check_us := hist_observe (sat_mul (sat_sub (pf_now E)
        (sat_sub (pr_deadline prop) (ec_ready_timeout_seconds (au_config st) * 1000))) 1000) (mt_ready_check_us mt)\<rparr>) st)"
  have st1: "evolves st st1" by (rule evolves_same) (simp add: st1_def split: option.split)
  show ?thesis
  proof (cases "launch E pid st1")
    case None
    then show ?thesis unfolding place_proposal_def Let_def st1_def [symmetric] by simp
  next
    case (Some y)
    obtain r s where y: "y = (r, s)" by fastforce
    have "evolves st1 s" using launch_evolves Some [unfolded y] by (rule advances_toD)
    with st1 have s: "evolves st s" by (rule evolves_trans)
    have noted: "evolves st (on_metrics f s)" "evolves st (on_metrics f (s\<lparr>au_placement_waiting := w\<rparr>))" for f w
      by (rule evolves_trans [OF s evolves_same], simp)+
    then show ?thesis
      using s unfolding place_proposal_def Let_def st1_def [symmetric] by (simp add: Some y split: sum.split)
  qed
qed

lemma proposal_response_body_advances: "advances_to (proposal_response_body E proposal_id accepted x st) st"
proof -
  let ?put = "\<lambda>pid q. st\<lparr>au_proposals := bm_insert pid q (au_proposals st)\<rparr>"
  let ?noted = "\<lambda>s. if accepted then on_metrics (\<lambda>mt. mt\<lparr>mt_ready_accepts := counter_add 1 (mt_ready_accepts mt)\<rparr>) s else s"
  let ?gone = "\<lambda>pid state s. if state = Cancelled then cancel_proposal E pid False s else s"
  have put: "evolves st (?put pid q)" for pid q by (rule evolves_same) (simp add: indexes_of_def seed_of_def)
  have noted: "evolves st (?noted (?put pid q))" for pid q
    by (rule evolves_trans [OF put evolves_same]) simp
  have gone: "evolves st (?gone pid state (?noted (?put pid q)))" for pid q state
    using noted cancel_then_evolves [OF noted] by simp
  have answered: "advances_to (case place_proposal E pid s of None \<Rightarrow> None
      | Some (Inl e, st) \<Rightarrow> Some (Inl e, st) | Some (Inr _, st) \<Rightarrow> Some (Inr result, st)) s" for pid s and result :: operation_result
    using place_proposal_evolves [of E pid s] by (auto simp: advances_to_def split: option.split sum.split)
  have placed: "advances_to (if state = AwaitingPlacement
      then (case place_proposal E pid s of None \<Rightarrow> None
        | Some (Inl e, st) \<Rightarrow> Some (Inl e, st) | Some (Inr _, st) \<Rightarrow> Some (Inr result, st))
      else Some (Inr result, s)) st" if "evolves st s" for pid s state and result :: operation_result
    using advances_to_from [OF answered that] that by simp
  show ?thesis
  proof (cases "id_from_str (pf_uuid E) ''ProposalId'' proposal_id :: _ + proposal_id")
    case (Inr pid)
    show ?thesis
    proof (cases "bm_get (au_player_proposal st) x = Some pid")
      case True
      show ?thesis
      proof (cases "bm_get (au_proposals st) pid")
        case (Some q)
        obtain r q' where r: "respond pid x accepted q = (r, q')" by fastforce
        show ?thesis
        proof (cases r)
          case (Inr state)
          show ?thesis
            unfolding proposal_response_body_def Let_def
            using placed [OF gone [where pid = pid and state = state and q = q']]
            by (simp add: \<open>id_from_str _ _ _ = Inr pid\<close> True Some r Inr split del: if_split)
        qed (simp add: proposal_response_body_def Inr True Some r put)
      qed (simp add: proposal_response_body_def Inr True)
    qed (simp add: proposal_response_body_def Inr)
  qed (simp add: proposal_response_body_def)
qed

section \<open>Every run\<close>

lemma create_invite_evolves: "evolves st (snd (create_invite E fresh m party_id revision ttl uses st))"
  by (auto simp: create_invite_def Let_def intro!: evolves_same split: sum.split option.split prod.split)

lemma open_session_job_evolves: "evolves st (snd (open_session_job E token p profile st))"
  by (rule evolves_same) (simp add: open_session_job_def Let_def indexes_of_def seed_of_def on_metrics_def)

lemma disconnected_evolves: "evolves st (disconnected E p token st)"
  by (rule evolves_same) (simp add: disconnected_def)

lemma begin_drain_evolves: "evolves st (begin_drain st)"
  by (rule evolves_same) (simp add: begin_drain_def indexes_of_def seed_of_def)

lemma register_job_evolves: "evolves st (snd (register_job E sid req st))"
proof (rule evolves_same)
  have "indexes_of ((with_registry st r)\<lparr>au_controls := c\<rparr>) = indexes_of st" "indexes_of (with_registry st r) = indexes_of st"
    for r c by simp_all
  then show "indexes_of (snd (register_job E sid req st)) = indexes_of st"
    by (auto simp: register_job_def Let_def split: sum.split option.split prod.split)
qed

lemma match_batch_evolves: "evolves st (rebuild_ecs E (attempt_all_matches E (rebuild_ecs E st)))"
  by (rule evolves_trans [OF evolves_trans [OF evolves_same attempt_all_matches_evolves] evolves_same]) simp_all

lemma state_after_consistent: "keeps_consistent out \<Longrightarrow> state_after out = Some t \<Longrightarrow> consistent t"
  by (auto simp: keeps_consistent_def state_after_def)

lemma state_after_advances: "consistent st \<Longrightarrow> advances_to out st \<Longrightarrow> state_after out = Some t \<Longrightarrow> consistent t"
  by (rule state_after_consistent [OF keeps_consistent_advances])

lemma mutation_consistent:
  assumes "consistent st"
  shows "state_after (create_party E m name st) = Some t \<Longrightarrow> consistent t"
    "state_after (join_party E m token st) = Some t \<Longrightarrow> consistent t"
    "state_after (leave_party E m party rv st) = Some t \<Longrightarrow> consistent t"
    "state_after (kick_member E m party rv player st) = Some t \<Longrightarrow> consistent t"
    "state_after (rename_party E m party rv name st) = Some t \<Longrightarrow> consistent t"
    "state_after (enqueue E m party rv mode regions st) = Some t \<Longrightarrow> consistent t"
    "state_after (cancel_queue E m party rv st) = Some t \<Longrightarrow> consistent t"
    "state_after (proposal_response E m proposal accepted st) = Some t \<Longrightarrow> consistent t"
  unfolding create_party_def join_party_def leave_party_def kick_member_def rename_party_def enqueue_def
    cancel_queue_def proposal_response_def
  by (erule state_after_consistent [rotated], rule with_request_consistent [OF assms],
      rule create_party_body_consistent join_party_body_consistent leave_party_body_consistent
        kick_member_body_consistent rename_party_body_consistent enqueue_body_consistent
        keeps_consistent_advances [OF _ cancel_queue_body_advances]
        keeps_consistent_advances [OF _ proposal_response_body_advances], rule assms)+

lemma authority_step_consistent:
  assumes c: "consistent st" and t: "authority_step e st = Some t"
  shows "consistent t"
proof -
  obtain E ev where e: "e = (E, ev)" by fastforce
  have channel: "evolves st (st\<lparr>au_channels := ch\<rparr>)" for ch by (rule evolves_same) simp
  note ev = consistent_evolves [OF c]
  show ?thesis
    using t
    by (cases ev) (auto simp: e authority_step_def intro: mutation_consistent [OF c]
        ev [OF open_session_job_evolves] ev [OF disconnected_evolves] ev [OF begin_drain_evolves]
        ev [OF create_invite_evolves] ev [OF register_job_evolves] ev [OF match_batch_evolves] ev [OF tick_evolves]
        ev [OF channel] state_after_advances [OF c apply_server_control_evolves] state_after_advances [OF c reconcile_job_evolves])
qed

lemma authority_new_consistent: "consistent (authority_new config mt)"
  by (simp add: consistent_def authority_new_def parties_keyed_def parties_wf_def told_ok_def membership_ok_def
      tickets_unique_def ids_issued_def ticket_ids_def)

lemma authority_run_consistent: "consistent st \<Longrightarrow> authority_run es st = Some t \<Longrightarrow> consistent t"
  unfolding authority_run_def
  by (induction es arbitrary: st) (auto split: option.splits dest: authority_step_consistent)

end
