(* ===== verification/Authority_Properties.thy ===== *)
theory Authority_Properties
  imports Authority_Invariant Samples
begin

text \<open>
  What holds in every state the authority can reach from its start, whatever the players, the game
  servers and the clock do: the properties that rest on the invariant \<open>consistent\<close>, and a run
  that shows where the code stops short of it.
\<close>

section \<open>A short run\<close>

definition fresh_profile :: player_profile where
  "fresh_profile = \<lparr>pp_ratings = bm_empty, pp_completed_matches = bm_empty, pp_credit = 100,
     pp_recent_credit_violations = 0\<rparr>"

definition asking :: "string \<Rightarrow> string \<Rightarrow> mutation_meta" where
  "asking token request = \<lparr>mm_api = Some \<lparr>av_major = 1, av_minor = 0, av_capabilities = []\<rparr>,
     mm_request_id = lit request, mm_session_token = lit token\<rparr>"

definition first_party :: "(platform \<times> authority_event) list" where
  "first_party = [(site, OpenSession (lit ''t'') (UuidId 21) fresh_profile),
     (site, CreateParty (Some (asking ''t'' ''r'')) (lit ''duo''))]"

definition start :: authority where
  "start = authority_new small_config metrics_new"

definition party_text :: "u64 \<Rightarrow> rstr" where
  "party_text n = id_to_string byte_codec (from_uuid (domain_uuid 7 1 n) :: party_id)"

definition first_ticket :: "(platform \<times> authority_event) list" where
  "first_ticket = first_party @
     [(site, Enqueue (Some (asking ''t'' ''s'')) (party_text 1) 0 1 [lit ''tw''])]"

lemma first_ticket_runs:
  "\<exists>st ev. authority_run first_ticket start = Some st \<and> (UuidId 21, ev) \<in> set (au_outbox st) \<and> room st
    \<and> length (entries (au_tickets st)) = 1"
proof -
  have "case authority_run first_ticket start of
      Some st \<Rightarrow> map fst (au_outbox st) = [UuidId 21, UuidId 21] \<and> au_next_domain_id st = 2 \<and> length (entries (au_tickets st)) = 1
    | None \<Rightarrow> False"
    by code_simp
  then show ?thesis by (auto split: option.splits simp: map_eq_Cons_conv room_def)
qed

section \<open>Reachable states\<close>

lemma consistent_tickets: "tickets_unique st \<Longrightarrow> tickets_distinct st"
proof -
  assume u: "tickets_unique st"
  have "mset (map tr_id (bm_values (au_tickets st))) \<subseteq># ticket_ids st"
    by (simp add: ticket_ids_def bm_values_def image_mset.compositionality comp_def)
  then have "count (mset (map tr_id (bm_values (au_tickets st)))) t \<le> 1" for t
    using u by (meson mset_subset_eq_count order_trans tickets_unique_def)
  then show ?thesis
    unfolding tickets_distinct_def distinct_count_atmost_1 by (metis count_mset_0_iff le_neq_implies_less less_one mset_map)
qed

text \<open>C6: In every state the authority reaches, a party is stored under its own id, is not empty,
  has no member twice and is led by a member; and while fewer than \<open>2 ^ 56\<close> ids have been issued, the
  index of a player names a party that has the player as a member, and no two queued tickets
  share an id.\<close>

theorem reachable_states_consistent:
  assumes "authority_run es (authority_new config mt) = Some st"
  shows "parties_keyed st \<and> parties_wf st \<and> (room st \<longrightarrow> membership_ok st \<and> tickets_distinct st)"
  using authority_run_consistent [OF authority_new_consistent assms] by (simp add: consistent_def consistent_tickets)

theorem reachable_states_consistent_witness:
  "\<exists>st. authority_run first_ticket (authority_new small_config metrics_new) = Some st \<and> parties_keyed st \<and> parties_wf st
    \<and> membership_ok st \<and> tickets_distinct st"
proof -
  obtain st where run: "authority_run first_ticket (authority_new small_config metrics_new) = Some st"
    and "room st" using first_ticket_runs unfolding start_def by blast
  with reachable_states_consistent [OF run] show ?thesis by blast
qed

text \<open>C7: Every event the authority ever sends to a player is one that the client library can
  decode: the streams of the clients never fail on what the core emits.\<close>

theorem sent_events_decodable:
  assumes "authority_run es (authority_new config mt) = Some st" and "(p, ev) \<in> set (au_outbox st)"
  shows "\<exists>x. decode_event ev = Inr x"
proof -
  have "told_ok st" using authority_run_consistent [OF authority_new_consistent assms(1)] by (simp add: consistent_def)
  then have "decodable ev" using assms(2) by (auto simp: told_ok_def list_all_iff)
  then show ?thesis by (cases "decode_event ev") (auto simp: decodable_def)
qed

theorem sent_events_decodable_witness:
  "\<exists>st ev. authority_run first_ticket (authority_new small_config metrics_new) = Some st
    \<and> (UuidId 21, ev) \<in> set (au_outbox st) \<and> (\<exists>x. decode_event ev = Inr x)"
proof -
  obtain st ev where "authority_run first_ticket (authority_new small_config metrics_new) = Some st"
    "(UuidId 21, ev) \<in> set (au_outbox st)" using first_ticket_runs unfolding start_def by blast
  with sent_events_decodable [OF this] show ?thesis by blast
qed

section \<open>Where the index is not exact\<close>

text \<open>
  The converse of \<open>membership_ok\<close> fails: \<open>leave_party\<close> does not ask whether the caller is a member.
  A player names the party of somebody else, loses only the entry of the own party, and creates
  a second one: the player is then a member of two parties.
\<close>

definition stranger_leaves :: "(platform \<times> authority_event) list" where
  "stranger_leaves = first_party @ [(site, OpenSession (lit ''u'') (UuidId 22) fresh_profile),
     (site, CreateParty (Some (asking ''u'' ''r'')) (lit ''other'')),
     (site, LeaveParty (Some (asking ''t'' ''s'')) (party_text 2) 0),
     (site, CreateParty (Some (asking ''t'' ''u'')) (lit ''again''))]"

lemma stranger_in_two_parties:
  "case authority_run stranger_leaves start of None \<Rightarrow> False
    | Some st \<Rightarrow> map (\<lambda>(_, p). pa_members p) (entries (au_parties st)) = [[UuidId 21], [UuidId 22], [UuidId 21]]"
  by code_simp

section \<open>The matcher on reachable states\<close>

lemma reachable_consistent:
  assumes "authority_run es (authority_new config mt) = Some st"
  shows "parties_keyed st" "room st \<Longrightarrow> tickets_distinct st"
  using authority_run_consistent [OF authority_new_consistent assms] by (simp_all add: consistent_def consistent_tickets)

end
