(* ===== verification/Authority_Deadlines.thy ===== *)
theory Authority_Deadlines
  imports Authority_Properties
begin

text \<open>
  Every wait of the authority ends with the first tick after its deadline: a ready check, a search
  for a server, and the grace of a disconnected player. The fields that hold the deadlines are
  followed through the parts of \<open>tick\<close>.
\<close>

section \<open>What keeps the deadlines\<close>

definition waits_of :: "authority \<Rightarrow> (proposal_id, proposal) bmap \<times> (proposal_id, u64) bmap \<times> (player_id, u64) bmap" where
  "waits_of st = (au_proposals st, au_placement_waiting st, au_disconnect_deadlines st)"

lemma waits_of_update [simp]:
  "waits_of (on_metrics f st) = waits_of st" "waits_of (send_event p ev st) = waits_of st"
  "waits_of (send_event_noted E p ev st) = waits_of st" "waits_of (with_registry st r) = waits_of st"
  "waits_of (penalize E p cause st) = waits_of st" "waits_of (settle_decision E pid infra d st) = waits_of st"
  "waits_of (restore_ticket q infra e st) = waits_of st" "waits_of (rebuild_ecs E st) = waits_of st"
  "waits_of (snd (next_uuid k st)) = waits_of st" "waits_of (note_control_backlog ch st) = waits_of st"
  "waits_of (snd (try_send ch msg st)) = waits_of st"
  by (simp_all add: waits_of_def on_metrics_def send_event_def send_event_noted_def with_registry_def penalize_def
      settle_decision_def restore_ticket_def rebuild_ecs_def next_uuid_def note_control_backlog_def try_send_def Let_def
      split: option.split credit_cause.split prod.split)

lemma waits_of_emit [simp]: "waits_of (emit_party E p st) = waits_of st"
  unfolding emit_party_def Let_def by (rule fold_frame) simp

lemma waits_of_cancel:
  "waits_of (cancel_proposal E pid infra st) = (au_proposals st,
     (if bm_get (au_proposals st) pid = None then au_placement_waiting st else bm_remove pid (au_placement_waiting st)),
     au_disconnect_deadlines st)"
proof (cases "bm_get (au_proposals st) pid")
  case (Some q)
  let ?s0 = "st\<lparr>au_proposal_tickets := bm_remove pid (au_proposal_tickets st),
      au_claims := claims_release (pr_tickets q) (au_claims st),
      au_placement_waiting := bm_remove pid (au_placement_waiting st)\<rparr>"
  have told: "waits_of (fold (\<lambda>i st. case bm_get (au_parties st) i of None \<Rightarrow> st | Some p \<Rightarrow> emit_party E p st) is s) = waits_of s"
    for "is" s by (rule fold_frame) (simp split: option.split)
  have saves: "waits_of (fold (\<lambda>p st. st\<lparr>au_pending_profile_saves := au_pending_profile_saves st @ [(p, current_profile st p)]\<rparr>) ps s)
      = waits_of s" for ps s by (rule fold_frame) (simp add: waits_of_def)
  have settled: "waits_of (fold (settle_decision E pid infra) ds s) = waits_of s"
    "waits_of (fold (restore_ticket q infra) es s) = waits_of s" for ds es s by (rule fold_frame, simp)+
  have "waits_of (cancel_proposal E pid infra st) = waits_of ?s0"
    unfolding cancel_proposal_def Some option.case Let_def saves told settled by (rule refl)
  then show ?thesis by (simp add: waits_of_def Some)
qed (simp add: cancel_proposal_def waits_of_def)

text \<open>A state whose proposals are those of another one and whose waits are some of its waits.\<close>

definition fewer_waits :: "authority \<Rightarrow> authority \<Rightarrow> bool" where
  "fewer_waits s t \<longleftrightarrow> au_proposals t = au_proposals s \<and> au_disconnect_deadlines t = au_disconnect_deadlines s
     \<and> (\<forall>pid d. bm_get (au_placement_waiting t) pid = Some d \<longrightarrow> bm_get (au_placement_waiting s) pid = Some d)"

lemma fewer_waits_refl [simp]: "fewer_waits s s"
  by (simp add: fewer_waits_def)

lemma fewer_waits_trans [trans]: "fewer_waits s t \<Longrightarrow> fewer_waits t u \<Longrightarrow> fewer_waits s u"
  unfolding fewer_waits_def by metis

lemma fewer_waits_same: "waits_of t = waits_of s \<Longrightarrow> fewer_waits s t"
  by (simp add: waits_of_def fewer_waits_def)

lemma fewer_waits_cong: "waits_of t = waits_of u \<Longrightarrow> fewer_waits s t \<longleftrightarrow> fewer_waits s u"
  by (simp add: waits_of_def fewer_waits_def)

lemma fewer_waits_unseen [simp]:
  "fewer_waits s (t\<lparr>au_launches := l\<rparr>) \<longleftrightarrow> fewer_waits s t" "fewer_waits s (t\<lparr>au_launch_deadlines := d\<rparr>) \<longleftrightarrow> fewer_waits s t"
  by (rule fewer_waits_cong, simp add: waits_of_def)+

lemma fewer_waits_cancel: "fewer_waits s (cancel_proposal E pid infra s)"
  using waits_of_cancel [of E pid infra s]
  by (auto simp: waits_of_def fewer_waits_def get_remove split: if_splits)

lemma fewer_waits_drop: "fewer_waits s (s\<lparr>au_placement_waiting := bm_remove pid (au_placement_waiting s)\<rparr>)"
  by (auto simp: fewer_waits_def get_remove split: if_splits)

lemma fewer_waits_fold: "(\<And>x s. fewer_waits s (g x s)) \<Longrightarrow> fewer_waits s (fold g xs s)"
  by (induction xs arbitrary: s) (auto intro: fewer_waits_trans)

lemma fewer_waits_fold_opt:
  "(\<And>x s t. g x s = Some t \<Longrightarrow> fewer_waits s t) \<Longrightarrow> fold_opt g xs s = Some t \<Longrightarrow> fewer_waits s t"
proof (induction xs arbitrary: s)
  case (Cons x xs)
  then obtain u where "g x s = Some u" "fold_opt g xs u = Some t" by (auto split: option.splits)
  with Cons.IH [of u] Cons.prems(1) show ?case by (blast intro: fewer_waits_trans)
qed simp

lemma launch_waits: "launch E pid st = Some (r, s) \<Longrightarrow> waits_of s = waits_of st"
proof -
  have t: "waits_of s2 = waits_of s1" if "try_send ch msg s1 = (b, s2)" for ch msg b s1 s2
    using waits_of_update(11) [of ch msg s1] that by simp
  have u: "waits_of s1 = waits_of st" if "next_uuid k st = (b, s1)" for k b s1
    using waits_of_update(9) [of k st] that by simp
  have l: "waits_of (s\<lparr>au_launches := a, au_launch_deadlines := b\<rparr>) = waits_of s" for s a b by (simp add: waits_of_def)
  assume "launch E pid st = Some (r, s)"
  then show ?thesis
    by (auto simp: launch_def Let_def l split: option.splits prod.splits if_splits dest!: t u)
qed

lemma retry_launch_waits: "retry_launch E m failed pid st = Some (r, s) \<Longrightarrow> waits_of s = waits_of st"
proof -
  have t: "waits_of s2 = waits_of s1" if "try_send ch msg s1 = (b, s2)" for ch msg b s1 s2
    using waits_of_update(11) [of ch msg s1] that by simp
  have l: "waits_of (s\<lparr>au_launches := a, au_launch_deadlines := b\<rparr>) = waits_of s" for s a b by (simp add: waits_of_def)
  assume "retry_launch E m failed pid st = Some (r, s)"
  then show ?thesis
    by (auto simp: retry_launch_def Let_def l split: option.splits prod.splits if_splits list.splits sum.splits dest!: t)
qed

section \<open>The parts of a tick\<close>

definition checks_timely :: "u64 \<Rightarrow> authority \<Rightarrow> bool" where
  "checks_timely now st \<longleftrightarrow> (\<forall>pid q. bm_get (au_proposals st) pid = Some q \<longrightarrow> pr_state q = AwaitingAccept
     \<longrightarrow> now \<le> pr_deadline q)"

lemma checks_timely_fewer: "fewer_waits s t \<Longrightarrow> checks_timely now t = checks_timely now s"
  by (simp add: fewer_waits_def checks_timely_def)

lemma expire_timely: "pr_state (snd (expire now q)) = AwaitingAccept \<Longrightarrow> now \<le> pr_deadline (snd (expire now q))"
  by (auto simp: expire_def split: if_splits)

lemma expire_proposals_timely: "checks_timely (pf_now E) (expire_proposals E st)"
proof -
  let ?s = "st\<lparr>au_proposals := bm_map (\<lambda>_ p. snd (expire (pf_now E) p)) (au_proposals st)\<rparr>"
  have "checks_timely (pf_now E) ?s"
    by (auto simp: checks_timely_def dest: expire_timely)
  moreover have "fewer_waits ?s (fold (\<lambda>pid st. cancel_proposal E pid False st) ps ?s)" for ps
    by (rule fewer_waits_fold) (rule fewer_waits_cancel)
  ultimately show ?thesis
    unfolding expire_proposals_def Let_def using checks_timely_fewer by blast
qed

lemma retry_waiting_waits:
  assumes "retry_waiting E pid s = Some t"
  shows "fewer_waits s t \<and> (\<forall>d. bm_get (au_placement_waiting t) pid = Some d \<longrightarrow> pf_now E \<le> d)"
proof -
  obtain r s1 where l: "launch E pid s = Some (r, s1)"
    using assms by (cases "launch E pid s") (auto simp: retry_waiting_def)
  have w: "waits_of s1 = waits_of s" using l by (rule launch_waits)
  let ?out = "s1\<lparr>au_placement_waiting := bm_remove pid (au_placement_waiting s1)\<rparr>"
  have out: "fewer_waits s ?out"
    by (rule fewer_waits_trans [OF fewer_waits_same [OF w] fewer_waits_drop])
  have gone: "fewer_waits s (cancel_proposal E pid True ?out)"
    by (rule fewer_waits_trans [OF out fewer_waits_cancel])
  have "bm_get (au_placement_waiting (cancel_proposal E pid True ?out)) pid = None"
    using waits_of_cancel [of E pid True ?out] by (simp add: waits_of_def split: if_splits)
  with assms l out gone fewer_waits_same [OF w] show ?thesis
    by (auto simp: retry_waiting_def split: sum.splits option.splits if_splits)
qed

lemma retry_all_waits:
  assumes "fold_opt (retry_waiting E) pids s = Some t"
  shows "fewer_waits s t \<and> (\<forall>pid \<in> set pids. \<forall>d. bm_get (au_placement_waiting t) pid = Some d \<longrightarrow> pf_now E \<le> d)"
  using assms
proof (induction pids arbitrary: s)
  case (Cons pid pids)
  then obtain u where u: "retry_waiting E pid s = Some u" "fold_opt (retry_waiting E) pids u = Some t"
    by (auto split: option.splits)
  with retry_waiting_waits [OF u(1)] Cons.IH [OF u(2)] show ?case
    by (auto intro: fewer_waits_trans) (auto simp: fewer_waits_def)
qed simp

lemma handle_lost_waits: "handle_lost E lost st = Some t \<Longrightarrow> fewer_waits st t"
proof -
  assume h: "handle_lost E lost st = Some t"
  obtain m run where lost: "lost = (m, run)" by fastforce
  have told: "fewer_waits st (fold (\<lambda>p st. send_event_noted E p ev st) ps st)" for ev ps
    by (rule fewer_waits_fold) (rule fewer_waits_same, simp)
  show ?thesis
  proof (cases "bm_get (au_launches st) m")
    case (Some l)
    obtain server pid where l: "l = (server, pid)" by fastforce
    show ?thesis
    proof (cases "retry_launch E m server pid st")
      case None
      with h Some l told show ?thesis by (auto simp: handle_lost_def lost split: if_splits option.splits)
    next
      case launched: (Some x)
      obtain r s where x: "x = (r, s)" by fastforce
      have s: "fewer_waits st s" by (rule fewer_waits_same, rule retry_launch_waits) (rule launched [unfolded x])
      have "fewer_waits st (cancel_proposal E pid True s)" by (rule fewer_waits_trans [OF s fewer_waits_cancel])
      with h Some l told s launched x show ?thesis
        by (auto simp: handle_lost_def lost Let_def split: if_splits option.splits sum.splits)
    qed
  qed (use h in \<open>simp add: handle_lost_def lost\<close>)
qed

lemma retry_overdue_waits: "retry_overdue E m st = Some t \<Longrightarrow> fewer_waits st t"
proof -
  assume h: "retry_overdue E m st = Some t"
  show ?thesis
  proof (cases "bm_get (au_launches st) m")
    case (Some l)
    obtain server pid where l: "l = (server, pid)" by fastforce
    obtain r s where x: "retry_launch E m server pid st = Some (r, s)"
      using h Some l by (auto simp: retry_overdue_def split: option.splits)
    then have s: "fewer_waits st s" by (intro fewer_waits_same retry_launch_waits)
    then have "fewer_waits st (cancel_proposal E pid True s)" by (rule fewer_waits_trans [OF _ fewer_waits_cancel])
    with h Some l s x show ?thesis by (auto simp: retry_overdue_def Let_def split: sum.splits)
  qed (use h in \<open>simp add: retry_overdue_def\<close>)
qed

text \<open>A match batch only adds ready checks that start now.\<close>

definition only_new_checks :: "u64 \<Rightarrow> authority \<Rightarrow> authority \<Rightarrow> bool" where
  "only_new_checks now s t \<longleftrightarrow> au_placement_waiting t = au_placement_waiting s
     \<and> au_disconnect_deadlines t = au_disconnect_deadlines s \<and> (checks_timely now s \<longrightarrow> checks_timely now t)"

lemma only_new_checks_trans: "only_new_checks now s t \<Longrightarrow> only_new_checks now t u \<Longrightarrow> only_new_checks now s u"
  by (simp add: only_new_checks_def)

lemma only_new_checks_same: "waits_of t = waits_of s \<Longrightarrow> only_new_checks now s t"
  by (simp add: only_new_checks_def waits_of_def checks_timely_def)

lemma only_new_checks_fold: "(\<And>x s. only_new_checks now s (g x s)) \<Longrightarrow> only_new_checks now s (fold g xs s)"
  by (induction xs arbitrary: s) (auto intro: only_new_checks_trans only_new_checks_same)

lemma take_tickets_waits: "waits_of (snd (take_tickets is saved st)) = waits_of st"
proof (induction "is" saved st rule: take_tickets.induct)
  case (2 i "is" saved st)
  then show ?case by (cases "bm_get (au_tickets st) i") (auto simp: Let_def waits_of_def)
qed simp

lemma commit_candidate_waits: "only_new_checks (pf_now E) st (commit_candidate E c ts st)"
proof -
  have announce: "waits_of (announce E pid q s) = waits_of s" for pid q s
    unfolding announce_def by (rule fold_frame) (simp add: waits_of_def send_event_noted_def send_event_def on_metrics_def)
  have stored: "au_placement_waiting (store_proposal E pid q saved s) = au_placement_waiting s
      \<and> au_disconnect_deadlines (store_proposal E pid q saved s) = au_disconnect_deadlines s" for pid q saved s
    using announce [of pid q "s\<lparr>au_proposal_tickets := bm_insert pid saved (au_proposal_tickets s)\<rparr>"]
    by (simp add: store_proposal_def Let_def on_metrics_def waits_of_def)
  have kept: "au_placement_waiting (commit_candidate E c ts st) = au_placement_waiting st
      \<and> au_disconnect_deadlines (commit_candidate E c ts st) = au_disconnect_deadlines st"
  proof -
    let ?s = "on_metrics (observe_commit E c (oldest_queued_since E (snd (next_uuid 3 st)) (selected_parties c ts))) (snd (next_uuid 3 st))"
    have "waits_of (snd (take_tickets (selected_parties c ts) [] ?s)) = waits_of st"
      by (simp only: take_tickets_waits waits_of_update)
    then show ?thesis by (simp add: commit_candidate_def Let_def case_prod_unfold stored waits_of_def)
  qed
  have "pf_now E \<le> pr_deadline (commit_proposal E c ts st)"
    by (simp add: commit_proposal_def from_candidate_def sat_add_mono)
  with kept show ?thesis by (auto simp: only_new_checks_def checks_timely_def get_insert)
qed

lemma attempt_match_batch_waits: "only_new_checks (pf_now E) st (snd (attempt_match_batch E mode region st))"
proof -
  have one: "only_new_checks (pf_now E) s (commit_one E ts c s)" for ts c s
  proof -
    have set: "waits_of (s\<lparr>au_claims := a\<rparr>) = waits_of s" for a by (simp add: waits_of_def)
    have committed: "only_new_checks (pf_now E) s (commit_candidate E c ts (s\<lparr>au_claims := a\<rparr>))" for a
      by (rule only_new_checks_trans [OF only_new_checks_same commit_candidate_waits]) (rule set)
    have "only_new_checks (pf_now E) s (on_metrics f (commit_candidate E c ts (s\<lparr>au_claims := a\<rparr>)))" for f a
      by (rule only_new_checks_trans [OF committed only_new_checks_same]) simp
    then show ?thesis by (auto simp: commit_one_def Let_def set only_new_checks_same split: prod.split)
  qed
  have all: "only_new_checks (pf_now E) s (fold (commit_one E ts) cs s)" for ts cs s
    by (rule only_new_checks_fold) (rule one)
  have "only_new_checks (pf_now E) st (fold (commit_one E ts) cs (on_metrics f (rebuild_ecs E st)))" for ts cs f
    by (rule only_new_checks_trans [OF only_new_checks_same all]) simp
  then show ?thesis by (simp add: attempt_match_batch_def Let_def commit_candidates_fold only_new_checks_same)
qed

lemma attempt_all_matches_waits: "only_new_checks (pf_now E) st (attempt_all_matches E st)"
  unfolding attempt_all_matches_def
  by (rule only_new_checks_fold) (simp add: case_prod_unfold attempt_match_batch_waits)

lemma drop_disconnected_deadlines:
  "au_disconnect_deadlines (drop_disconnected E p st) = bm_remove p (au_disconnect_deadlines st)"
proof -
  have cancel: "au_disconnect_deadlines (cancel_proposal E pid infra s) = au_disconnect_deadlines s" for pid infra s
    using fewer_waits_cancel [of s E pid infra] by (simp add: fewer_waits_def)
  show ?thesis by (simp add: drop_disconnected_def Let_def cancel split: option.split)
qed

lemma drop_all_deadlines:
  "bm_get (au_disconnect_deadlines (fold (drop_disconnected E) ps st)) p
    = (if p \<in> set ps then None else bm_get (au_disconnect_deadlines st) p)"
  by (induction ps arbitrary: st) (auto simp: drop_disconnected_deadlines get_remove)

lemma expire_proposals_deadlines: "au_disconnect_deadlines (expire_proposals E st) = au_disconnect_deadlines st"
proof -
  have "fewer_waits s (fold (\<lambda>pid st. cancel_proposal E pid False st) ps s)" for ps s
    by (rule fewer_waits_fold) (rule fewer_waits_cancel)
  then have "au_disconnect_deadlines (fold (\<lambda>pid st. cancel_proposal E pid False st) ps s) = au_disconnect_deadlines s" for ps s
    by (simp add: fewer_waits_def)
  then show ?thesis by (simp add: expire_proposals_def Let_def)
qed

section \<open>Every wait ends\<close>

text \<open>C8: No wait survives the first tick after its deadline: of the ready checks that are still open
  after a tick, of the proposals that still wait for a server, and of the disconnected players
  that are still awaited, none has a deadline in the past.\<close>

theorem every_wait_ends:
  assumes "tick E st = Some t"
  shows "(\<forall>pid q. bm_get (au_proposals t) pid = Some q \<longrightarrow> pr_state q = AwaitingAccept \<longrightarrow> pf_now E \<le> pr_deadline q)
    \<and> (\<forall>pid d. bm_get (au_placement_waiting t) pid = Some d \<longrightarrow> pf_now E \<le> d)
    \<and> (\<forall>p d. bm_get (au_disconnect_deadlines t) p = Some d \<longrightarrow> pf_now E \<le> d)"
proof -
  let ?late = "overdue (pf_now E) (au_disconnect_deadlines st)"
  let ?s0 = "expire_proposals E (fold (drop_disconnected E) ?late st)"
  obtain s1 where s1: "fold_opt (retry_waiting E) (bm_keys (au_placement_waiting ?s0)) ?s0 = Some s1"
    using assms by (auto simp: tick_def Let_def split: option.splits)
  obtain lost r where u: "update_health (pf_now E) (unhealthy_after_ms (au_config s1))
      (sat_mul (ec_lost_after_seconds (au_config s1)) 1000) (au_registry s1) = (lost, r)" by fastforce
  obtain s2 where s2: "fold_opt (handle_lost E) lost (with_registry s1 r) = Some s2"
    using assms s1 u by (auto simp: tick_def Let_def split: option.splits)
  obtain s3 where s3: "fold_opt (retry_overdue E) (overdue (pf_now E) (au_launch_deadlines s2)) s2 = Some s3"
    using assms s1 u s2 by (auto simp: tick_def Let_def split: option.splits)
  have t: "t = attempt_all_matches E (rebuild_ecs E s3)"
    using assms s1 u s2 s3 by (simp add: tick_def Let_def)
  have w1: "fewer_waits ?s0 s1" "\<And>pid d. pid \<in> set (bm_keys (au_placement_waiting ?s0)) \<Longrightarrow>
      bm_get (au_placement_waiting s1) pid = Some d \<Longrightarrow> pf_now E \<le> d"
    using retry_all_waits [OF s1] by blast+
  have "fewer_waits s1 (with_registry s1 r)" by (rule fewer_waits_same) simp
  also have "fewer_waits (with_registry s1 r) s2" using s2 by (rule fewer_waits_fold_opt [rotated]) (rule handle_lost_waits)
  also have "fewer_waits s2 s3" using s3 by (rule fewer_waits_fold_opt [rotated]) (rule retry_overdue_waits)
  finally have w3: "fewer_waits s1 s3" .
  have w0: "fewer_waits ?s0 s3" by (rule fewer_waits_trans [OF w1(1) w3])
  have new: "only_new_checks (pf_now E) s3 t"
    unfolding t by (rule only_new_checks_trans [OF only_new_checks_same attempt_all_matches_waits]) simp
  have "checks_timely (pf_now E) s3" using expire_proposals_timely checks_timely_fewer [OF w0] by blast
  then have "checks_timely (pf_now E) t" using new by (simp add: only_new_checks_def)
  moreover have "pf_now E \<le> d" if "bm_get (au_placement_waiting t) pid = Some d" for pid d
  proof -
    have "bm_get (au_placement_waiting s3) pid = Some d" using that new by (simp add: only_new_checks_def)
    then have a: "bm_get (au_placement_waiting s1) pid = Some d" using w3 by (simp add: fewer_waits_def)
    then have "bm_get (au_placement_waiting ?s0) pid = Some d" using w1(1) by (simp add: fewer_waits_def)
    then have "pid \<in> set (bm_keys (au_placement_waiting ?s0))" by (auto simp: keys_iff)
    then show ?thesis using a by (rule w1(2))
  qed
  moreover have "pf_now E \<le> d" if "bm_get (au_disconnect_deadlines t) p = Some d" for p d
  proof -
    have "bm_get (au_disconnect_deadlines ?s0) p = Some d" using that new w0 by (simp add: only_new_checks_def fewer_waits_def)
    then have "p \<notin> set ?late" "bm_get (au_disconnect_deadlines st) p = Some d"
      by (simp_all add: expire_proposals_deadlines drop_all_deadlines split: if_splits)
    then show ?thesis by (force simp: overdue_def entry_iff not_less)
  qed
  ultimately show ?thesis by (simp add: checks_timely_def)
qed

theorem every_wait_ends_witness:
  "\<exists>t. tick (site\<lparr>pf_now := 20000\<rparr>) playing = Some t \<and> bm_get (au_proposals playing) (UuidId 7) = Some duel_proposal
    \<and> pr_state duel_proposal = AwaitingAccept \<and> pr_deadline duel_proposal = 16000
    \<and> (\<forall>q. bm_get (au_proposals t) (UuidId 7) = Some q \<longrightarrow> pr_state q = AwaitingAccept \<longrightarrow> 20000 \<le> pr_deadline q)"
proof -
  obtain t where run: "tick (site\<lparr>pf_now := 20000\<rparr>) playing = Some t" using tick_ok [OF playing_ok] by blast
  moreover have "bm_get (au_proposals playing) (UuidId 7) = Some duel_proposal" by (simp add: playing_def placing_def)
  moreover have "pr_state duel_proposal = AwaitingAccept" "pr_deadline duel_proposal = 16000"
    by (simp_all add: duel_proposal_def from_candidate_def sat_add_def)
  ultimately show ?thesis using every_wait_ends [OF run] by auto
qed

end
