(* ===== verification/Load_Test.thy ===== *)
theory Load_Test
  imports Authority_Match
begin

text \<open>
  \<open>core/src/load_test/mod.rs\<close>, the deterministic load scenario: the random numbers, the generated
  parties and servers, their way through the entity world, the loop that matches, confirms,
  places and releases every generated roster, and the checks of a launch over gRPC. The measured
  part of the report is in \<open>Load_Measures\<close>, the driver over gRPC in \<open>Load_Grpc\<close>. The machine it runs on
  decides whether the thread pool of the matcher starts and whether the memory of the process can be read;
  it is the argument \<open>M\<close>. A random UUID of a proposal is an argument as well.
\<close>

unbundle bit_operations_syntax

section \<open>Random numbers\<close>

definition rng_next :: "u64 \<Rightarrow> u64 \<times> u64" where
  "rng_next s = (let s = s * 6364136223846793005 + 1442695040888963407 in (s, s))"

definition rng_range :: "nat \<Rightarrow> u64 \<Rightarrow> nat \<times> u64" where
  "rng_range n s = (let (v, s) = rng_next s in (unat v mod n, s))"

definition rng_id :: "u64 \<Rightarrow> 'k uuid_id \<times> u64" where
  "rng_id s = (let (v, s) = rng_next s in (from_uuid (ucast v), s))"

fun rng_ids :: "nat \<Rightarrow> u64 \<Rightarrow> 'k uuid_id list \<times> u64" where
  "rng_ids 0 s = ([], s)"
| "rng_ids (Suc n) s = (let (i, s) = rng_id s; (is, s) = rng_ids n s in (i # is, s))"

section \<open>The generated parties\<close>

record scenario_config =
  cf_players :: nat
  cf_seed :: u64
  cf_workers :: nat

definition default_scenario :: "nat \<Rightarrow> scenario_config" where
  "default_scenario parallelism = \<lparr>cf_players = 100000, cf_seed = 0x45525053, cf_workers = parallelism\<rparr>"

record load_party =
  lp_id :: party_id
  lp_mode :: queue_mode
  lp_players :: "player_id list"
  lp_rating :: i32
  lp_region :: rstr

record load_server =
  lv_id :: server_id
  lv_capacity :: u32
  lv_used :: u32
  lv_max_instances :: u16
  lv_costs :: "u32 \<times> u32 \<times> u32"

definition load_regions :: "rstr list" where
  "load_regions = [lit ''tw'', lit ''us'', lit ''eu'']"

text \<open>The sizes of the parties of one team of five.\<close>

function team_sizes :: "nat \<Rightarrow> nat \<Rightarrow> u64 \<Rightarrow> nat list \<times> u64" where
  "team_sizes max_party left s =
    (if left = 0 then ([], s)
     else let (v, s) = rng_range max_party s;
              n = min (1 + v) left;
              (ns, s) = team_sizes max_party (left - n) s
          in (n # ns, s))"
  by pat_completeness auto
termination by (relation "measure (\<lambda>(_, left, _). left)") auto

text \<open>In a mirrored roster the id of a party is drawn before its members, in an ordinary one after.\<close>

definition mirrored_party :: "queue_mode \<Rightarrow> i32 \<Rightarrow> rstr \<Rightarrow> nat \<Rightarrow> u64 \<Rightarrow> load_party \<times> u64" where
  "mirrored_party mode base region n s =
    (let (i, s) = rng_id s; (players, s) = rng_ids n s; (d, s) = rng_range 201 s
     in (\<lparr>lp_id = i, lp_mode = mode, lp_players = players, lp_rating = base + int d - 100, lp_region = region\<rparr>, s))"

definition ordinary_party :: "queue_mode \<Rightarrow> i32 \<Rightarrow> rstr \<Rightarrow> nat \<Rightarrow> u64 \<Rightarrow> load_party \<times> u64" where
  "ordinary_party mode base region n s =
    (let (players, s) = rng_ids n s; (i, s) = rng_id s; (d, s) = rng_range 201 s
     in (\<lparr>lp_id = i, lp_mode = mode, lp_players = players, lp_rating = base + int d - 100, lp_region = region\<rparr>, s))"

fun mirrored_parties :: "queue_mode \<Rightarrow> i32 \<Rightarrow> rstr \<Rightarrow> nat list \<Rightarrow> u64 \<Rightarrow> load_party list \<times> u64" where
  "mirrored_parties mode base region [] s = ([], s)"
| "mirrored_parties mode base region (n # ns) s =
    (let (p, s) = mirrored_party mode base region n s; (ps, s) = mirrored_parties mode base region ns s in (p # ps, s))"

text \<open>The parties of one roster, when \<open>left\<close> of its players are still to be drawn.\<close>

function fill_roster :: "queue_mode \<Rightarrow> i32 \<Rightarrow> rstr \<Rightarrow> nat \<Rightarrow> nat \<Rightarrow> nat \<Rightarrow> nat \<Rightarrow> u64 \<Rightarrow> load_party list \<times> u64" where
  "fill_roster mode base region roster max_party match_size left s =
    (if left = 0 then ([], s)
     else let consumed = match_size - left;
              structural_limit = (if roster = 10 then 5 - consumed mod 5 else left);
              (v, s) = rng_range max_party s;
              n = min (min (1 + v) left) structural_limit;
              (p, s) = ordinary_party mode base region n s;
              (ps, s) = fill_roster mode base region roster max_party match_size (left - n) s
          in (p # ps, s))"
  by pat_completeness auto
termination by (relation "measure (\<lambda>(_, _, _, _, _, _, left, _). left)") auto

text \<open>A roster of size 0, with which the loop of the code would not end, does not occur.\<close>

function push_mode :: "queue_mode \<Rightarrow> nat \<Rightarrow> nat \<Rightarrow> nat \<Rightarrow> u64 \<Rightarrow> load_party list \<times> u64" where
  "push_mode mode roster max_party players s =
    (if players = 0 \<or> roster = 0 then ([], s)
     else let match_size = min players roster;
              (b, s) = rng_range 1001 s;
              base = 900 + int b;
              (r, s) = rng_range 3 s;
              region = load_regions ! r;
              (ps, s) = (if roster = 10 \<and> match_size = 10
                then let (ns, s) = team_sizes max_party 5 s in mirrored_parties mode base region (ns @ ns) s
                else fill_roster mode base region roster max_party match_size match_size s);
              (qs, s) = push_mode mode roster max_party (players - match_size) s
          in (ps @ qs, s))"
  by pat_completeness auto
termination by (relation "measure (\<lambda>(_, _, _, players, _). players)") auto

declare team_sizes.simps [simp del] fill_roster.simps [simp del] push_mode.simps [simp del]

text \<open>
  The shares of the modes. The products do not overflow a 64-bit \<open>usize\<close> for fewer than \<open>2 ^ 58\<close> players,
  more than any memory holds the parties of; beyond that the model computes on without wrapping.
\<close>

definition generate_parties :: "scenario_config \<Rightarrow> load_party list" where
  "generate_parties config =
    (let one = cf_players config * 30 div 100;
         five = cf_players config * 50 div 100;
         ffa = cf_players config - one - five;
         (ps, s) = push_mode OneVsOne 2 1 one (cf_seed config);
         (qs, s) = push_mode FiveVsFive 10 5 five s;
         (rs, s) = push_mode FreeForAll 8 4 ffa s
     in ps @ qs @ rs)"

section \<open>Through the entity world\<close>

definition load_player_entity :: "load_party \<Rightarrow> player_id \<Rightarrow> entity" where
  "load_player_entity p x = [CPlayerIdentity x, CEloRating (bm_of_list [(lp_mode p, lp_rating p)]),
     CCreditScore 100, CPlayerState PlQueued]"

definition load_party_entity :: "load_party \<Rightarrow> entity" where
  "load_party_entity p = [CPartyIdentity (lp_id p), CPartyMembers (lp_players p), CPartyRevision 1, CPartyState PQueued]"

definition load_ticket_entity :: "load_party \<Rightarrow> entity" where
  "load_ticket_entity p = [CTicketIdentity (from_uuid (as_uuid (lp_id p) XOR 0x45525053)), CPartyIdentity (lp_id p),
     CTicketMode (lp_mode p), CTicketRegions [lp_region p], CEnqueuedAt 0, CTicketState TkQueued]"

definition load_world :: "load_party list \<Rightarrow> entity list" where
  "load_world ps = concat (map (\<lambda>p. map (load_player_entity p) (lp_players p)
     @ [load_party_entity p, load_ticket_entity p]) ps)"

definition load_player_ratings :: "entity list \<Rightarrow> (player_id, (queue_mode, i32) bmap) bmap" where
  "load_player_ratings w = bm_of_list (List.map_filter (\<lambda>e. case (player_identity e, elo_rating e) of
     (Some x, Some r) \<Rightarrow> Some (x, r) | _ \<Rightarrow> None) w)"

definition load_parties_by_id :: "entity list \<Rightarrow> (party_id, player_id list) bmap" where
  "load_parties_by_id w = bm_of_list (List.map_filter (\<lambda>e. case (party_identity e, party_members e) of
     (Some i, Some ms) \<Rightarrow> Some (i, ms) | _ \<Rightarrow> None) w)"

definition read_load_party :: "(party_id, player_id list) bmap \<Rightarrow> (player_id, (queue_mode, i32) bmap) bmap
    \<Rightarrow> entity \<Rightarrow> load_party option" where
  "read_load_party parties ratings e =
    (case (party_identity e, ticket_identity e, ticket_mode e, ticket_regions e) of
       (Some i, Some _, Some mode, Some regions) \<Rightarrow> (case bm_get parties i of None \<Rightarrow> None
         | Some players \<Rightarrow> Some \<lparr>lp_id = i, lp_mode = mode, lp_players = players,
             lp_rating = unwrap_or 1000 (case players of [] \<Rightarrow> None
               | x # _ \<Rightarrow> Option.bind (bm_get ratings x) (\<lambda>r. bm_get r mode)),
             lp_region = (case regions of [] \<Rightarrow> [] | r # _ \<Rightarrow> r)\<rparr>)
     | _ \<Rightarrow> None)"

text \<open>The order in which the storages are joined is the argument \<open>join\<close>.\<close>

definition materialize_through_ecs :: "(entity list \<Rightarrow> entity list) \<Rightarrow> load_party list \<Rightarrow> load_party list" where
  "materialize_through_ecs join ps = (let w = join (load_world ps)
     in List.map_filter (read_load_party (load_parties_by_id w) (load_player_ratings w)) w)"

section \<open>The generated servers\<close>

fun fleet_from :: "nat \<Rightarrow> nat \<Rightarrow> u64 \<Rightarrow> load_server list" where
  "fleet_from i 0 s = []"
| "fleet_from i (Suc n) s =
    (let (k, s) = rng_id s; (c, s) = rng_range 900 s; (m, s) = rng_range 100 s
     in \<lparr>lv_id = k, lv_capacity = 100 + of_nat c, lv_used = 0, lv_max_instances = of_nat (1 + m),
         lv_costs = (1 + of_nat (i mod 3), 4 + of_nat (i mod 7), 3 + of_nat (i mod 5))\<rparr> # fleet_from (Suc i) n s)"

definition fleet :: "u64 \<Rightarrow> load_server list" where
  "fleet seed = fleet_from 0 128 (seed XOR 0xfeedbeef)"

definition runtime_server :: "uuid_codec \<Rightarrow> load_server \<Rightarrow> game_server" where
  "runtime_server codec v = (case lv_costs v of (one, five, ffa) \<Rightarrow>
     \<lparr>gs_id = lv_id v, gs_generation = 1, gs_endpoint = lit ''load-'' @ id_to_string codec (lv_id v),
      gs_region = load_regions ! (unat (ucast (as_uuid (lv_id v)) :: u64) mod 3),
      gs_modes = {OneVsOne, FiveVsFive, FreeForAll}, gs_capacity_total = lv_capacity v,
      gs_capacity_used = lv_used v, gs_max_instances = lv_max_instances v,
      gs_mode_costs = bm_of_list [(OneVsOne, one), (FiveVsFive, five), (FreeForAll, ffa)],
      gs_last_heartbeat = 0, gs_health = Healthy, gs_failures = 0, gs_instances = bm_empty\<rparr>)"

text \<open>A refused registration is a panic of \<open>expect\<close>.\<close>

definition runtime_registry :: "uuid_codec \<Rightarrow> load_server list \<Rightarrow> registry option" where
  "runtime_registry codec vs = fold_opt (\<lambda>v r.
     case register (runtime_server codec v) \<lparr>sl_max_capacity = - 1, sl_max_instances = 100\<rparr> r of
       (Inl _, _) \<Rightarrow> None | (Inr _, r) \<Rightarrow> Some r) vs bm_empty"

definition registry_diagnostics :: "uuid_codec \<Rightarrow> registry \<Rightarrow> rstr list" where
  "registry_diagnostics codec r = map (\<lambda>s. lit ''server '' @ id_to_string codec (gs_id s)
       @ lit '' exceeded capacity or instance limit'')
     (filter (\<lambda>s. gs_capacity_used s > gs_capacity_total s \<or> bm_size (gs_instances s) > unat (gs_max_instances s))
       (bm_values r))"

section \<open>Matching one roster\<close>

definition load_ticket :: "queue_mode \<Rightarrow> nat \<Rightarrow> load_party \<Rightarrow> party_ticket" where
  "load_ticket mode index p = \<lparr>pt_id = from_uuid (as_uuid (lp_id p) XOR of_nat index), pt_party = lp_id p,
     pt_members = lp_players p, pt_ratings = replicate (length (lp_players p)) (lp_rating p),
     pt_effective_rating = (if mode = FiveVsFive
       then lp_rating p + five_v_five_party_bonus (length (lp_players p)) else lp_rating p),
     pt_enqueued_at = of_nat index, pt_revision = 1, pt_region = lp_region p, pt_mode = mode,
     pt_search_delta = 600, pt_wait_seconds = 0\<rparr>"

text \<open>
  What the machine answers: whether a pool of so many threads starts, the error for which the own
  process id is unknown, and the readings of the memory in use, of which one may be missing.
\<close>

record load_machine =
  ma_pool :: "nat \<Rightarrow> bool"
  ma_pid_error :: "rstr option"
  ma_memory :: "nat \<Rightarrow> u64 option"

text \<open>The candidates are generated in the pool; \<open>None\<close> is the panic of a pool that does not start.\<close>

definition candidate_for :: "load_machine \<Rightarrow> nat \<Rightarrow> load_party list \<Rightarrow> queue_mode \<Rightarrow> candidate option option" where
  "candidate_for M workers ps mode =
    (if \<not> ma_pool M (max workers 1) then None
     else Some (case generate (build_for_mode mode) 1024
        (snapshot_new (map (\<lambda>(index, p). load_ticket mode index p) (enumerate 0 ps))) of
       [] \<Rightarrow> None | c # _ \<Rightarrow> Some c))"

text \<open>The memory sampler: the number of readings so far and the largest one.\<close>

record memory_sampler =
  ps_readings :: nat
  ps_peak_bytes :: u64

definition sample_memory :: "u64 option \<Rightarrow> u64 \<Rightarrow> rstr + u64" where
  "sample_memory reading peak = (case reading of
      None \<Rightarrow> Inl (lit ''current process missing from OS process table'')
    | Some bytes \<Rightarrow> Inr (max peak bytes))"

definition sampler_sample :: "load_machine \<Rightarrow> memory_sampler \<Rightarrow> rstr + memory_sampler" where
  "sampler_sample M s = (case sample_memory (ma_memory M (ps_readings s)) (ps_peak_bytes s) of
      Inl e \<Rightarrow> Inl e
    | Inr peak \<Rightarrow> Inr \<lparr>ps_readings = ps_readings s + 1, ps_peak_bytes = peak\<rparr>)"

definition sampler_new :: "load_machine \<Rightarrow> rstr + memory_sampler" where
  "sampler_new M = (case ma_pid_error M of Some e \<Rightarrow> Inl e
    | None \<Rightarrow> sampler_sample M \<lparr>ps_readings = 0, ps_peak_bytes = 0\<rparr>)"

text \<open>What ends a run without a report.\<close>

datatype load_error = PlacementFailed placement_error | MemoryUnread rstr

definition mode_debug :: "queue_mode \<Rightarrow> rstr" where
  "mode_debug m = lit (case m of OneVsOne \<Rightarrow> ''OneVsOne'' | FiveVsFive \<Rightarrow> ''FiveVsFive'' | FreeForAll \<Rightarrow> ''FreeForAll'')"

definition roster_target :: "queue_mode \<Rightarrow> nat" where
  "roster_target m = (case m of OneVsOne \<Rightarrow> 2 | FiveVsFive \<Rightarrow> 10 | FreeForAll \<Rightarrow> 8)"

record load_run =
  ru_registry :: registry
  ru_seen :: "player_id set"
  ru_digest :: u64
  ru_matches :: nat
  ru_failures :: nat
  ru_diagnostics :: "rstr list"
  ru_rejections :: nat
  ru_timeouts :: nat
  ru_cancellations :: nat
  ru_retries :: nat
  ru_elo_quality_sum :: u64
  ru_peak_capacity_used :: u64
  ru_server_cycles :: nat
  ru_sampler :: memory_sampler

definition note_failure :: "rstr \<Rightarrow> load_run \<Rightarrow> load_run" where
  "note_failure d ru = ru\<lparr>ru_failures := ru_failures ru + 1, ru_diagnostics := ru_diagnostics ru @ [d]\<rparr>"

definition note_mode_failure :: "queue_mode \<Rightarrow> string \<Rightarrow> load_run \<Rightarrow> load_run" where
  "note_mode_failure mode d = note_failure (mode_debug mode @ lit d)"

text \<open>\<open>ids.iter().any(|id| !seen.insert(*id))\<close>: stops at the first player seen before.\<close>

fun insert_until_seen :: "player_id list \<Rightarrow> player_id set \<Rightarrow> bool \<times> player_id set" where
  "insert_until_seen [] seen = (False, seen)"
| "insert_until_seen (x # xs) seen = (if x \<in> seen then (True, seen) else insert_until_seen xs (insert x seen))"

definition check_roster :: "queue_mode \<Rightarrow> candidate \<Rightarrow> load_run \<Rightarrow> load_run" where
  "check_roster mode c ru =
    (let ids = concat (cd_teams c);
         (repeated, seen) = (if length ids \<noteq> roster_target mode then (True, ru_seen ru)
           else insert_until_seen ids (ru_seen ru));
         ru = ru\<lparr>ru_seen := seen\<rparr>;
         ru = (if repeated then note_mode_failure mode '': duplicate player or wrong roster size'' ru else ru)
     in if mode = FreeForAll \<and> (length (cd_teams c) \<noteq> 8 \<or> list_ex (\<lambda>t. length t \<noteq> 1) (cd_teams c))
        then note_failure (lit ''FreeForAll: roster is not eight singleton teams'') ru else ru)"

definition elo_quality :: "candidate \<Rightarrow> u64" where
  "elo_quality c = (case cd_quality_key c of (q0, q1, q2) \<Rightarrow> unsigned_abs q0 + unsigned_abs q1 + unsigned_abs q2)"

definition load_owners :: "load_party list \<Rightarrow> (player_id, party_id) bmap" where
  "load_owners ps = bm_of_list (concat (map (\<lambda>p. map (\<lambda>x. (x, lp_id p)) (lp_players p)) ps))"

text \<open>
  The proposal that the players are asked to confirm: every so often a first one is refused, has
  expired, or its claim is given up and taken again. \<open>None\<close> is the panic of \<open>ids[0]\<close>.
\<close>

definition propose :: "proposal_id \<Rightarrow> queue_mode \<Rightarrow> load_party list \<Rightarrow> candidate \<Rightarrow> claims \<Rightarrow> load_run
    \<Rightarrow> (proposal \<times> load_run) option" where
  "propose pid mode ps c claims ru =
    (let first = from_candidate c (load_owners ps) 0 15 pid
     in if ru_matches ru mod 200 = 199
        then if concat (cd_teams c) = [] then None
          else Some (from_candidate c bm_empty 1 15 pid,
            ru\<lparr>ru_rejections := ru_rejections ru + 1, ru_retries := ru_retries ru + 1\<rparr>)
        else if ru_matches ru mod 500 = 499
        then Some (from_candidate c bm_empty 17 15 pid,
            ru\<lparr>ru_timeouts := ru_timeouts ru + 1, ru_retries := ru_retries ru + 1\<rparr>)
        else if ru_matches ru mod 100 = 99
        then let ru = ru\<lparr>ru_cancellations := ru_cancellations ru + 1\<rparr>;
                 (again, _) = claims_commit c (\<lambda>_. True) (claims_release (cd_tickets c) claims)
             in Some (first, if again then ru else note_mode_failure mode '': cancel/recommit was not atomic'' ru)
        else Some (first, ru))"

fun accept_all :: "queue_mode \<Rightarrow> player_id list \<Rightarrow> proposal \<times> load_run \<Rightarrow> proposal \<times> load_run" where
  "accept_all mode [] x = x"
| "accept_all mode (i # is) (q, ru) = (case respond (pr_id q) i True q of
      (Inl _, q) \<Rightarrow> accept_all mode is (q, note_mode_failure mode '': ready response rejected'' ru)
    | (Inr _, q) \<Rightarrow> accept_all mode is (q, ru))"

definition used_capacity :: "registry \<Rightarrow> u64" where
  "used_capacity r = sum_list (map (\<lambda>s. ucast (gs_capacity_used s)) (bm_values r))"

definition count_match :: "nat \<Rightarrow> load_party \<Rightarrow> load_run \<Rightarrow> load_run" where
  "count_match n p ru = ru\<lparr>
     ru_peak_capacity_used := max (ru_peak_capacity_used ru) (used_capacity (ru_registry ru)),
     ru_digest := ru_digest ru * 1099511628211 + of_nat n + of_int (lp_rating p) + ucast (as_uuid (lp_id p)),
     ru_matches := ru_matches ru + 1\<rparr>"

definition cycle_server :: "load_run \<Rightarrow> load_run" where
  "cycle_server ru = (if ru_matches ru mod 1000 = 0 then (case entries (ru_registry ru) of [] \<Rightarrow> ru
      | (k, s) # _ \<Rightarrow> ru\<lparr>ru_registry := bm_insert k (s\<lparr>gs_health := Healthy\<rparr>) (ru_registry ru),
          ru_server_cycles := ru_server_cycles ru + 1\<rparr>)
    else ru)"

text \<open>Placement, the report that the match is ready, and its release: \<open>p\<close> is the last party.\<close>

definition place_roster :: "load_machine \<Rightarrow> queue_mode \<Rightarrow> rstr \<Rightarrow> nat \<Rightarrow> load_party \<Rightarrow> load_run
    \<Rightarrow> (load_error + load_run) option" where
  "place_roster M mode region n p ru =
    (let m = from_uuid (of_nat (ru_matches ru) + 1)
     in case reserve m mode region (ru_registry ru) of
       None \<Rightarrow> None
     | Some (Inl _, r) \<Rightarrow> Some (Inr (note_mode_failure mode '': no capacity for generated complete match''
         (ru\<lparr>ru_registry := r\<rparr>)))
     | Some (Inr sid, r) \<Rightarrow>
        let ru = count_match n p (ru\<lparr>ru_registry := r\<rparr>)
        in (case (if ru_matches ru mod 256 = 0 then sampler_sample M (ru_sampler ru) else Inr (ru_sampler ru)) of
             Inl e \<Rightarrow> Some (Inl (MemoryUnread e))
           | Inr sampler \<Rightarrow>
             (case transition sid m InReady (Some (lit ''load-endpoint'')) (Some (lit ''redacted'')) (ru_registry ru) of
               (Inl e, _) \<Rightarrow> Some (Inl (PlacementFailed e))
             | (Inr _, r) \<Rightarrow> (case release sid m r of
                 (Inl e, _) \<Rightarrow> Some (Inl (PlacementFailed e))
               | (Inr _, r) \<Rightarrow> Some (Inr (cycle_server (ru\<lparr>ru_registry := r, ru_sampler := sampler\<rparr>)))))))"

definition play_roster :: "load_machine \<Rightarrow> nat \<Rightarrow> proposal_id \<Rightarrow> queue_mode \<Rightarrow> load_party list \<Rightarrow> load_party \<Rightarrow> load_run
    \<Rightarrow> (load_error + load_run) option" where
  "play_roster M workers pid mode ps p ru = (case candidate_for M workers ps mode of
      None \<Rightarrow> None
    | Some None \<Rightarrow> Some (Inr (note_mode_failure mode '': no candidate for complete roster'' ru))
    | Some (Some c) \<Rightarrow>
       let ids = concat (cd_teams c);
           ru = check_roster mode c ru;
           (ok, claims) = claims_commit c (\<lambda>_. True) {};
           ru = (if ok then ru else note_mode_failure mode '': candidate claim failed'' ru);
           ru = ru\<lparr>ru_elo_quality_sum := sat_add (ru_elo_quality_sum ru) (elo_quality c)\<rparr>
       in (case propose pid mode ps c claims ru of None \<Rightarrow> None
         | Some (q, ru) \<Rightarrow>
           (case accept_all mode ids (q, ru) of (q, ru) \<Rightarrow>
             let ru = (if pr_state q \<noteq> AwaitingPlacement
                   then note_mode_failure mode '': all accepts did not reach placement'' ru else ru)
             in (case ps of [] \<Rightarrow> None | p0 # _ \<Rightarrow> place_roster M mode (lp_region p0) (length ids) p ru))))"

section \<open>The run\<close>

type_synonym roster_state = "load_party list \<times> nat \<times> load_run"

definition play_party :: "load_machine \<Rightarrow> nat \<Rightarrow> proposal_id \<Rightarrow> queue_mode \<Rightarrow> load_party \<Rightarrow> roster_state
    \<Rightarrow> (load_error + roster_state) option" where
  "play_party M workers pid mode p st = (case st of (roster, filled, ru) \<Rightarrow>
     let target = roster_target mode;
         (roster, filled, ru) = (if filled + length (lp_players p) > target
           then ([], 0, note_mode_failure mode '': generated party group exceeds roster size'' ru) else (roster, filled, ru));
         filled = filled + length (lp_players p);
         roster = roster @ [p]
     in if filled = target
        then (case play_roster M workers pid mode roster p ru of None \<Rightarrow> None
          | Some (Inl e) \<Rightarrow> Some (Inl e)
          | Some (Inr ru) \<Rightarrow> Some (Inr ([], 0, ru)))
        else Some (Inr (roster, filled, ru)))"

fun play_parties :: "load_machine \<Rightarrow> nat \<Rightarrow> proposal_id \<Rightarrow> queue_mode \<Rightarrow> load_party list \<Rightarrow> roster_state
    \<Rightarrow> (load_error + roster_state) option" where
  "play_parties M workers pid mode [] st = Some (Inr st)"
| "play_parties M workers pid mode (p # ps) st = (case play_party M workers pid mode p st of
      Some (Inr st) \<Rightarrow> play_parties M workers pid mode ps st | other \<Rightarrow> other)"

definition play_mode :: "load_machine \<Rightarrow> nat \<Rightarrow> proposal_id \<Rightarrow> load_party list \<Rightarrow> queue_mode \<Rightarrow> load_run \<Rightarrow> (load_error + load_run) option" where
  "play_mode M workers pid parties mode ru = (case play_parties M workers pid mode (filter (\<lambda>p. lp_mode p = mode) parties) ([], 0, ru) of
      None \<Rightarrow> None
    | Some (Inl e) \<Rightarrow> Some (Inl e)
    | Some (Inr (_, filled, ru)) \<Rightarrow> Some (Inr (if filled \<noteq> 0
        then note_mode_failure mode '': incomplete trailing roster'' ru else ru)))"

fun play_modes :: "load_machine \<Rightarrow> nat \<Rightarrow> proposal_id \<Rightarrow> load_party list \<Rightarrow> queue_mode list \<Rightarrow> load_run \<Rightarrow> (load_error + load_run) option" where
  "play_modes M workers pid parties [] ru = Some (Inr ru)"
| "play_modes M workers pid parties (mode # modes) ru = (case play_mode M workers pid parties mode ru of
      Some (Inr ru) \<Rightarrow> play_modes M workers pid parties modes ru | other \<Rightarrow> other)"

record load_report =
  lt_status :: rstr
  lt_players :: nat
  lt_parties :: nat
  lt_matches :: nat
  lt_unmatched :: nat
  lt_invariant_failures :: nat
  lt_diagnostics :: "rstr list"
  lt_seed :: u64
  lt_workers :: nat
  lt_logical_digest :: u64
  lt_retries :: nat
  lt_cancellations :: nat
  lt_rejections :: nat
  lt_ready_timeouts :: nat
  lt_server_cycles :: nat
  lt_completed_matches :: nat

text \<open>A report with failures is returned as the error, printed as JSON.\<close>

datatype load_outcome = LoadRefused string | LoadStopped load_error
  | LoadFailed load_report | LoadPassed load_report

definition run_start :: "memory_sampler \<Rightarrow> registry \<Rightarrow> load_run" where
  "run_start sampler r = \<lparr>ru_registry = r, ru_seen = {}, ru_digest = 0, ru_matches = 0, ru_failures = 0, ru_diagnostics = [],
     ru_rejections = 0, ru_timeouts = 0, ru_cancellations = 0, ru_retries = 0, ru_elo_quality_sum = 0,
     ru_peak_capacity_used = 0, ru_server_cycles = 0, ru_sampler = sampler\<rparr>"

definition unmatched_players :: "scenario_config \<Rightarrow> load_run \<Rightarrow> nat" where
  "unmatched_players config ru = cf_players config - card (ru_seen ru)"

definition finish_run :: "uuid_codec \<Rightarrow> (nat \<Rightarrow> rstr) \<Rightarrow> scenario_config \<Rightarrow> load_run \<Rightarrow> load_run" where
  "finish_run codec show_count config ru =
    (let unmatched = unmatched_players config ru;
         ru = (if unmatched \<noteq> 0
           then note_failure (show_count unmatched @ lit '' generated players were never committed'') ru else ru);
         servers = registry_diagnostics codec (ru_registry ru)
     in ru\<lparr>ru_failures := ru_failures ru + length servers, ru_diagnostics := ru_diagnostics ru @ servers\<rparr>)"

definition report_of :: "scenario_config \<Rightarrow> load_party list \<Rightarrow> nat \<Rightarrow> load_run \<Rightarrow> load_report" where
  "report_of config parties unmatched ru =
    \<lparr>lt_status = lit (if ru_failures ru = 0 then ''PASS'' else ''FAIL''),
     lt_players = cf_players config, lt_parties = length parties, lt_matches = ru_matches ru,
     lt_unmatched = unmatched, lt_invariant_failures = ru_failures ru,
     lt_diagnostics = ru_diagnostics ru, lt_seed = cf_seed config, lt_workers = cf_workers config,
     lt_logical_digest = ru_digest ru, lt_retries = ru_retries ru,
     lt_cancellations = ru_cancellations ru, lt_rejections = ru_rejections ru,
     lt_ready_timeouts = ru_timeouts ru, lt_server_cycles = ru_server_cycles ru,
     lt_completed_matches = ru_matches ru\<rparr>"

definition run_load :: "load_machine \<Rightarrow> uuid_codec \<Rightarrow> (nat \<Rightarrow> rstr) \<Rightarrow> (entity list \<Rightarrow> entity list)
    \<Rightarrow> proposal_id \<Rightarrow> scenario_config \<Rightarrow> load_outcome option" where
  "run_load M codec show_count join pid config =
    (if cf_players config < 20 then Some (LoadRefused ''players must be at least 20'')
     else if cf_workers config = 0 then Some (LoadRefused ''workers must be greater than zero'')
     else case sampler_new M of Inl e \<Rightarrow> Some (LoadStopped (MemoryUnread e))
     | Inr sampler \<Rightarrow>
       let parties = materialize_through_ecs join (generate_parties config)
       in (case sampler_sample M sampler of Inl e \<Rightarrow> Some (LoadStopped (MemoryUnread e))
         | Inr sampler \<Rightarrow> (case runtime_registry codec (fleet (cf_seed config)) of None \<Rightarrow> None
         | Some r \<Rightarrow> (case play_modes M (cf_workers config) pid parties [OneVsOne, FiveVsFive, FreeForAll]
                 (run_start sampler r) of
             None \<Rightarrow> None
           | Some (Inl e) \<Rightarrow> Some (LoadStopped e)
           | Some (Inr ru) \<Rightarrow>
              let ended = finish_run codec show_count config ru;
                  report = report_of config parties (unmatched_players config ru) ended
              in (case sampler_sample M (ru_sampler ru) of Inl e \<Rightarrow> Some (LoadStopped (MemoryUnread e))
                | Inr _ \<Rightarrow> Some (if ru_failures ended = 0 then LoadPassed report else LoadFailed report))))))"

text \<open>The percentile of the measured times, which are sorted.\<close>

definition percentile :: "u64 list \<Rightarrow> nat \<Rightarrow> u64" where
  "percentile latencies numerator = (let i = (length latencies - 1) * numerator div 100
     in if i < length latencies then latencies ! i else 0)"

section \<open>Comparison with a stored report\<close>

text \<open>
  A field of the stored report is looked up with \<open>baseline\<close>, a field of the new one, turned to JSON,
  with \<open>current\<close>. The relative changes are in \<open>Load_Measures\<close>.
\<close>

record baseline_comparison =
  bc_comparable :: bool
  bc_environment_differences :: "rstr list"
  bc_setting_differences :: "rstr list"

definition differing_keys :: "(rstr \<Rightarrow> 'json) \<Rightarrow> (rstr \<Rightarrow> 'json option) \<Rightarrow> string list \<Rightarrow> rstr list" where
  "differing_keys current baseline ks = filter (\<lambda>k. baseline k \<noteq> Some (current k)) (map lit ks)"

definition compare_baseline :: "(rstr \<Rightarrow> 'json) \<Rightarrow> (rstr \<Rightarrow> 'json option) \<Rightarrow> baseline_comparison" where
  "compare_baseline current baseline =
    (let environment = differing_keys current baseline
           [''operating_system'', ''cpu_arch'', ''cpu_model'', ''logical_cpus'', ''rust_version''];
         setting = differing_keys current baseline [''players'', ''seed'', ''workers'', ''settings'']
     in \<lparr>bc_comparable = (environment = [] \<and> setting = []), bc_environment_differences = environment,
         bc_setting_differences = setting\<rparr>)"

section \<open>The scenario over gRPC\<close>

text \<open>The rosters that \<open>run_grpc\<close> plays; \<open>None\<close> is the error of an incomplete one.\<close>

fun take_rosters :: "nat \<Rightarrow> load_party list \<Rightarrow> load_party list \<Rightarrow> nat \<Rightarrow> load_party list list \<times> nat" where
  "take_rosters target [] roster filled = ([], filled)"
| "take_rosters target (p # ps) roster filled =
    (let filled = filled + length (lp_players p); roster = roster @ [p]
     in if filled = target then (let (gs, rest) = take_rosters target ps [] 0 in (roster # gs, rest))
        else take_rosters target ps roster filled)"

fun grpc_rosters :: "load_party list \<Rightarrow> queue_mode list \<Rightarrow> load_party list list option" where
  "grpc_rosters generated [] = Some []"
| "grpc_rosters generated (mode # modes) =
    (let (gs, rest) = take_rosters (roster_target mode) (filter (\<lambda>p. lp_mode p = mode) generated) [] 0
     in if rest \<noteq> 0 then None else map_option ((@) gs) (grpc_rosters generated modes))"

definition launch_shape :: "queue_mode \<Rightarrow> nat list" where
  "launch_shape mode = (case mode of OneVsOne \<Rightarrow> [1, 1] | FiveVsFive \<Rightarrow> [5, 5] | FreeForAll \<Rightarrow> replicate 8 1)"

text \<open>The \<open>Debug\<close> text of a list of numbers, from the printer of a number.\<close>

definition debug_list :: "(nat \<Rightarrow> rstr) \<Rightarrow> nat list \<Rightarrow> rstr" where
  "debug_list show_count ns = lit ''['' @ (case ns of [] \<Rightarrow> []
     | n # ms \<Rightarrow> show_count n @ concat (map (\<lambda>m. lit '', '' @ show_count m) ms)) @ lit '']''"

definition in_team :: "team \<Rightarrow> rstr list \<Rightarrow> bool" where
  "in_team t ms \<longleftrightarrow> list_all (\<lambda>x. x \<in> set (tm_player_ids t)) ms"

definition team_structure :: "rstr list list \<Rightarrow> team \<Rightarrow> nat list" where
  "team_structure parties t = sort (map length (filter (in_team t) parties))"

definition validate_grpc_launch :: "(nat \<Rightarrow> rstr) \<Rightarrow> queue_mode \<Rightarrow> launch_match \<Rightarrow> rstr list list \<Rightarrow> rstr + unit" where
  "validate_grpc_launch show_count mode launch parties =
    (let actual_shape = map (length \<circ> tm_player_ids) (lm_teams launch);
         expected_players = sort (concat parties);
         actual_players = sort (concat (map tm_player_ids (lm_teams launch)));
         structures = map (team_structure parties) (lm_teams launch)
     in if lm_mode launch \<noteq> pb_mode mode then Inl (lit ''gRPC launch mode mismatch'')
        else if actual_shape \<noteq> launch_shape mode
        then Inl (lit ''gRPC launch team shape mismatch: expected '' @ debug_list show_count (launch_shape mode)
          @ lit '', got '' @ debug_list show_count actual_shape)
        else if actual_players \<noteq> expected_players
        then Inl (lit ''gRPC launch roster contains missing, duplicate, or foreign players'')
        else if mode = FiveVsFive then
          if list_ex (\<lambda>party. \<not> list_ex (\<lambda>t. in_team t party) (lm_teams launch)) parties
          then Inl (lit ''gRPC launch split a 5v5 party across teams'')
          else if structures ! 0 \<noteq> structures ! 1
          then Inl (lit ''gRPC launch 5v5 party structures do not mirror'')
          else Inr ()
        else Inr ())"

text \<open>The result that the load test reports for a launch: the first team wins.\<close>

definition grpc_placements :: "launch_match \<Rightarrow> player_placement list" where
  "grpc_placements launch = concat (map (\<lambda>(team_index, t).
     map (\<lambda>x. \<lparr>pl_player_id = x, pl_rank = of_nat (team_index + 1)\<rparr>) (tm_player_ids t)) (enumerate 0 (lm_teams launch)))"

end
