(* ===== verification/Load_Laws.thy ===== *)
theory Load_Laws
  imports Load_Test Authority_Safety
begin

text \<open>
  The laws of the load scenario. The linear congruential generator has full period: its first
  \<open>2 ^ 64\<close> outputs are distinct, so identifiers drawn one after the other never repeat. The facts
  about any such source of identifiers are in the locale \<open>random_source\<close>, which the generator
  interprets. Then: what the generated parties are, how many numbers their generation draws, and
  the way of a run through its rosters.
\<close>

section \<open>The period of the generator\<close>

definition geometric :: "int \<Rightarrow> nat \<Rightarrow> int" where
  "geometric a n = (\<Sum>i<n. a ^ i)"

lemma geometric_0 [simp]: "geometric a 0 = 0"
  by (simp add: geometric_def)

lemma geometric_Suc: "geometric a (Suc n) = a * geometric a n + 1"
  unfolding geometric_def by (subst sum.lessThan_Suc_shift) (simp add: sum_distrib_left)

lemma geometric_add: "geometric a (m + n) = geometric a m + a ^ m * geometric a n"
  by (induction m) (simp_all add: geometric_Suc algebra_simps)

lemma geometric_power: "(a - 1) * geometric a n = a ^ n - 1"
  by (induction n) (simp_all add: geometric_Suc algebra_simps)

lemma geometric_parity: "odd a \<Longrightarrow> even (geometric a n) \<longleftrightarrow> even n"
  by (induction n) (auto simp: geometric_Suc)

text \<open>A power of a number that is one more than a multiple of four is again such a number.\<close>

lemma power_mod_four:
  fixes a :: int
  assumes "a mod 4 = 1"
  shows "a ^ m mod 4 = 1"
proof (induction m)
  case (Suc m)
  have "a ^ Suc m mod 4 = (a mod 4) * (a ^ m mod 4) mod 4" by (simp only: power_Suc mod_mult_eq)
  then show ?case by (simp only: assms Suc) simp
qed simp

lemma geometric_dvd:
  assumes "a mod 4 = 1"
  shows "2 ^ k dvd geometric a n \<Longrightarrow> 2 ^ k dvd n"
proof (induction k arbitrary: n)
  case (Suc k)
  from assms have odd: "odd a" by presburger
  from Suc.prems have "2 * 2 ^ k dvd geometric a n" by simp
  then have "even (geometric a n)" by (rule dvd_mult_left)
  then have "even n" using geometric_parity [OF odd] by blast
  then obtain m where n: "n = m + m" by (auto elim!: evenE simp: mult_2)
  have "a ^ m mod 4 = 1" by (rule power_mod_four [OF assms])
  moreover have "\<exists>q. 1 + x = 2 * (2 * q + 1)" if "x mod 4 = 1" for x :: int using that by presburger
  ultimately obtain q where q: "1 + a ^ m = 2 * (2 * q + 1)" by blast
  have "geometric a n = (1 + a ^ m) * geometric a m" by (simp add: n geometric_add distrib_right)
  then have "geometric a n = 2 * (geometric a m * (2 * q + 1))" by (simp add: q)
  then have "2 ^ k dvd geometric a m * (2 * q + 1)" using Suc.prems by simp
  moreover have "coprime (2 ^ k) (2 * q + 1)" by simp
  ultimately have "2 ^ k dvd geometric a m" using coprime_dvd_mult_left_iff by blast
  then have "2 ^ k dvd m" by (rule Suc.IH)
  then have "2 * 2 ^ k dvd 2 * m" by (rule mult_dvd_mono [OF dvd_refl])
  then show ?case by (simp add: n mult_2)
qed simp


section \<open>Sources of distinct values\<close>

fun outputs :: "('s \<Rightarrow> 's) \<Rightarrow> nat \<Rightarrow> 's \<Rightarrow> 's list" where
  "outputs f 0 s = []"
| "outputs f (Suc n) s = f s # outputs f n (f s)"

lemma outputs_add: "outputs f (m + n) s = outputs f m s @ outputs f n ((f ^^ m) s)"
  by (induction m arbitrary: s) (simp_all add: funpow_swap1)

lemma outputs_in: "x \<in> set (outputs f n s) \<Longrightarrow> \<exists>i. 0 < i \<and> i \<le> n \<and> x = (f ^^ i) s"
proof (induction n arbitrary: s)
  case (Suc n)
  then consider "x = f s" | "x \<in> set (outputs f n (f s))" by auto
  then show ?case
  proof cases
    case 1
    then show ?thesis by (intro exI [of _ 1]) simp
  next
    case 2
    then obtain i where "i \<le> n" "x = (f ^^ i) (f s)" using Suc.IH by blast
    then show ?thesis by (intro exI [of _ "Suc i"]) (simp add: funpow_swap1)
  qed
qed simp

text \<open>
  \<open>draws f n s A t\<close>: at most \<open>n\<close> steps lead from \<open>s\<close> to \<open>t\<close>, and the values of \<open>A\<close> are outputs of
  different steps among them.
\<close>

definition draws :: "('s \<Rightarrow> 's) \<Rightarrow> nat \<Rightarrow> 's \<Rightarrow> 's multiset \<Rightarrow> 's \<Rightarrow> bool" where
  "draws f n s A t \<longleftrightarrow> (\<exists>k \<le> n. t = (f ^^ k) s \<and> A \<subseteq># mset (outputs f k s))"

lemma draws_none [simp]: "draws f 0 s {#} s"
  by (simp add: draws_def)

lemma draws_skip: "draws f 1 s {#} (f s)"
  by (auto simp: draws_def intro: exI [of _ 1])

lemma draws_one: "draws f 1 s {#f s#} (f s)"
  by (auto simp: draws_def intro: exI [of _ 1])

lemma draws_mono: "draws f m s A t \<Longrightarrow> m \<le> n \<Longrightarrow> draws f n s A t"
  unfolding draws_def using le_trans by blast

lemma draws_add: "draws f m s A t \<Longrightarrow> draws f n t B u \<Longrightarrow> draws f (m + n) s (A + B) u"
proof -
  assume "draws f m s A t" "draws f n t B u"
  then obtain j k where "j \<le> m" "t = (f ^^ j) s" "A \<subseteq># mset (outputs f j s)"
    "k \<le> n" "u = (f ^^ k) t" "B \<subseteq># mset (outputs f k t)" unfolding draws_def by blast
  moreover have "(f ^^ (j + k)) s = (f ^^ k) ((f ^^ j) s)" by (simp add: add.commute [of j k] funpow_add)
  ultimately show ?thesis unfolding draws_def
    by (intro exI [of _ "j + k"] conjI) (simp_all add: outputs_add subset_mset.add_mono)
qed

locale random_source =
  fixes step :: "'s \<Rightarrow> 's" and period :: nat
  assumes no_return: "0 < n \<Longrightarrow> n < period \<Longrightarrow> (step ^^ n) s \<noteq> s"
begin

lemma distinct_outputs: "n \<le> period \<Longrightarrow> distinct (outputs step n s)"
proof (induction n arbitrary: s)
  case (Suc n)
  have "step s \<notin> set (outputs step n (step s))"
  proof
    assume "step s \<in> set (outputs step n (step s))"
    then obtain i where "0 < i" "i \<le> n" "step s = (step ^^ i) (step s)" using outputs_in by metis
    then show False using no_return [of i "step s"] Suc.prems by simp
  qed
  with Suc show ?case by simp
qed simp

lemma distinct_draws:
  assumes "draws step n s (mset xs) t" "n \<le> period"
  shows "distinct xs"
proof -
  obtain k where "k \<le> n" and sub: "mset xs \<subseteq># mset (outputs step k s)" using assms(1) by (auto simp: draws_def)
  then have "distinct (outputs step k s)" using assms(2) by (intro distinct_outputs) simp
  then have "count (mset (outputs step k s)) x \<le> 1" for x by (simp add: distinct_count_atmost_1)
  then have most: "count (mset xs) x \<le> 1" for x using sub by (meson le_trans mset_subset_eq_count)
  show ?thesis unfolding distinct_count_atmost_1
  proof
    fix x
    show "count (mset xs) x = (if x \<in> set xs then 1 else 0)"
      using most [of x] count_greater_zero_iff [of "mset xs" x] by (auto simp: not_in_iff le_Suc_eq simp del: count_greater_zero_iff)
  qed
qed

end

section \<open>The generator is such a source\<close>

definition rng_step :: "u64 \<Rightarrow> u64" where
  "rng_step s = fst (rng_next s)"

lemma rng_next_step: "rng_next s = (rng_step s, rng_step s)"
  by (simp add: rng_step_def rng_next_def Let_def)

lemma rng_step_int: "rng_step (word_of_int x) = word_of_int (6364136223846793005 * x + 1442695040888963407)"
  by (simp add: rng_step_def rng_next_def Let_def mult.commute flip: wi_hom_mult wi_hom_add)

lemma affine_Suc: "a * (a ^ n * x + c * geometric a n) + c = a ^ Suc n * x + c * geometric a (Suc n)"
  by (simp add: geometric_Suc algebra_simps)

lemma rng_steps_int: "(rng_step ^^ n) (word_of_int x)
    = word_of_int (6364136223846793005 ^ n * x + 1442695040888963407 * geometric 6364136223846793005 n)"
proof (induction n)
  case (Suc n)
  show ?case by (simp only: funpow.simps o_apply Suc rng_step_int affine_Suc)
qed simp

lemma full_period:
  assumes "(rng_step ^^ n) s = s"
  shows "(2::nat) ^ 64 dvd n"
proof -
  let ?a = "6364136223846793005 :: int" and ?c = "1442695040888963407 :: int"
  obtain x where s: "s = word_of_int x" by (metis word_of_int_uint)
  let ?g = "geometric ?a n" and ?odd = "(?a - 1) * x + ?c"
  have "(word_of_int (?a ^ n * x + ?c * ?g) :: u64) = word_of_int x" using assms by (simp only: s rng_steps_int)
  then have "(?a ^ n * x + ?c * ?g) mod 2 ^ 64 = x mod 2 ^ 64"
    by (simp only: word_of_int_eq_iff take_bit_eq_mod) simp
  then have "2 ^ 64 dvd ?a ^ n * x + ?c * ?g - x" by (simp only: mod_eq_dvd_iff)
  moreover have "?a ^ n * x + ?c * ?g - x = ?g * ?odd"
    using arg_cong [OF geometric_power [of ?a n], of "\<lambda>y. y * x"] by (simp only: algebra_simps)
  ultimately have "2 ^ 64 dvd ?g * ?odd" by (simp only:)
  moreover have "odd ?odd" by simp
  then have "coprime (2 ^ 64) ?odd" using coprime_power_left_iff coprime_left_2_iff_odd by blast
  ultimately have "2 ^ 64 dvd ?g" using coprime_dvd_mult_left_iff by blast
  then show ?thesis by (rule geometric_dvd [rotated]) simp
qed

interpretation rng: random_source rng_step "2 ^ 64"
proof
  fix n :: nat and s
  assume "0 < n" "n < 2 ^ 64"
  then show "(rng_step ^^ n) s \<noteq> s" using full_period [of n s] by (meson nat_dvd_not_less)
qed


section \<open>The generated parties\<close>

definition id64 :: "'k uuid_id \<Rightarrow> u64" where
  "id64 i = ucast (as_uuid i)"

lemma rng_id_eq: "rng_id s = (UuidId (ucast (rng_step s)), rng_step s)"
  by (simp add: rng_id_def rng_next_step from_uuid_def)

lemma id64_ucast [simp]: "id64 (UuidId (ucast v)) = v"
  by (rule bit_word_eqI) (simp add: id64_def bit_simps)

lemma rng_range_less: "rng_range n s = (v, t) \<Longrightarrow> 0 < n \<Longrightarrow> v < n"
  by (auto simp: rng_range_def rng_next_step)

lemma rng_range_draws: "rng_range n s = (v, t) \<Longrightarrow> draws rng_step 1 s {#} t"
  using draws_skip [of rng_step s] by (auto simp: rng_range_def rng_next_step)

lemma rng_id_draws: "rng_id s = (i, t) \<Longrightarrow> draws rng_step 1 s {#id64 i#} t"
  using draws_one [of rng_step s] by (auto simp: rng_id_eq)

lemma rng_ids_draws: "rng_ids n s = (is, t) \<Longrightarrow> length is = n \<and> draws rng_step n s (mset (map id64 is)) t"
proof (induction n arbitrary: s "is")
  case (Suc n)
  from Suc.prems obtain i u js where *: "rng_id s = (i, u)" "rng_ids n u = (js, t)" "is = i # js"
    by (auto split: prod.splits)
  show ?case using draws_add [OF rng_id_draws [OF *(1)], of n "mset (map id64 js)" t] Suc.IH [OF *(2)] *(3) by simp
qed simp

text \<open>The identifiers of a party, and what the parties of a mode look like.\<close>

definition party_draws :: "load_party \<Rightarrow> u64 multiset" where
  "party_draws p = add_mset (id64 (lp_id p)) (mset (map id64 (lp_players p)))"

definition all_draws :: "load_party list \<Rightarrow> u64 multiset" where
  "all_draws ps = sum_list (map party_draws ps)"

lemma all_draws_simps [simp]: "all_draws [] = {#}" "all_draws (p # ps) = party_draws p + all_draws ps"
    "all_draws (ps @ qs) = all_draws ps + all_draws qs"
  by (simp_all add: all_draws_def)

definition headcount :: "load_party list \<Rightarrow> nat" where
  "headcount ps = sum_list (map (\<lambda>p. length (lp_players p)) ps)"

lemma headcount_simps [simp]: "headcount [] = 0" "headcount (p # ps) = length (lp_players p) + headcount ps"
    "headcount (ps @ qs) = headcount ps + headcount qs"
  by (simp_all add: headcount_def)

definition party_fits :: "queue_mode \<Rightarrow> nat \<Rightarrow> load_party \<Rightarrow> bool" where
  "party_fits mode limit p \<longleftrightarrow> lp_mode p = mode \<and> 1 \<le> length (lp_players p) \<and> length (lp_players p) \<le> limit
     \<and> 800 \<le> lp_rating p \<and> lp_rating p \<le> 2000 \<and> lp_region p \<in> set load_regions"

lemma length_load_regions: "length load_regions = 3"
  by (simp add: load_regions_def)

text \<open>The base of the ratings and the region of a roster.\<close>

definition roster_fits :: "i32 \<Rightarrow> rstr \<Rightarrow> bool" where
  "roster_fits base region \<longleftrightarrow> 900 \<le> base \<and> base \<le> 1900 \<and> region \<in> set load_regions"

lemma ordinary_party_draws:
  assumes "ordinary_party mode base region n s = (p, t)" "roster_fits base region" "1 \<le> n" "n \<le> limit"
  shows "length (lp_players p) = n \<and> party_fits mode limit p \<and> draws rng_step (n + 2) s (party_draws p) t"
proof -
  obtain players u i v d where *: "rng_ids n s = (players, u)" "rng_id u = (i, v)" "rng_range 201 v = (d, t)"
    "p = \<lparr>lp_id = i, lp_mode = mode, lp_players = players, lp_rating = base + int d - 100, lp_region = region\<rparr>"
    using assms(1) by (auto simp: ordinary_party_def split: prod.splits)
  have "draws rng_step (n + 1 + 1) s (mset (map id64 players) + {#id64 i#} + {#}) t"
    by (rule draws_add [OF draws_add [OF conjunct2 [OF rng_ids_draws [OF *(1)]] rng_id_draws [OF *(2)]]
        rng_range_draws [OF *(3)]])
  then show ?thesis using assms(2-) rng_ids_draws [OF *(1)] rng_range_less [OF *(3)]
    by (simp add: *(4) party_draws_def party_fits_def roster_fits_def)
qed

lemma mirrored_party_draws:
  assumes "mirrored_party mode base region n s = (p, t)" "roster_fits base region" "1 \<le> n" "n \<le> limit"
  shows "length (lp_players p) = n \<and> party_fits mode limit p \<and> draws rng_step (n + 2) s (party_draws p) t"
proof -
  obtain players u i v d where *: "rng_id s = (i, u)" "rng_ids n u = (players, v)" "rng_range 201 v = (d, t)"
    "p = \<lparr>lp_id = i, lp_mode = mode, lp_players = players, lp_rating = base + int d - 100, lp_region = region\<rparr>"
    using assms(1) by (auto simp: mirrored_party_def split: prod.splits)
  have "draws rng_step (1 + n + 1) s ({#id64 i#} + mset (map id64 players) + {#}) t"
    by (rule draws_add [OF draws_add [OF rng_id_draws [OF *(1)] conjunct2 [OF rng_ids_draws [OF *(2)]]]
        rng_range_draws [OF *(3)]])
  then show ?thesis using assms(2-) rng_ids_draws [OF *(2)] rng_range_less [OF *(3)]
    by (simp add: *(4) party_draws_def party_fits_def roster_fits_def)
qed


definition parties_fit :: "queue_mode \<Rightarrow> nat \<Rightarrow> nat \<Rightarrow> load_party list \<Rightarrow> bool" where
  "parties_fit mode limit n ps \<longleftrightarrow> headcount ps = n \<and> list_all (party_fits mode limit) ps"

lemma parties_fit_Nil: "parties_fit mode limit 0 []"
  by (simp add: parties_fit_def)

lemma parties_fit_append:
  "parties_fit mode limit m ps \<Longrightarrow> parties_fit mode limit n qs \<Longrightarrow> parties_fit mode limit (m + n) (ps @ qs)"
  by (simp add: parties_fit_def)

lemma team_sizes_step:
  "left \<noteq> 0 \<Longrightarrow> rng_range limit s = (v, u) \<Longrightarrow> team_sizes limit left s =
    (let n = min (1 + v) left; (ns, t) = team_sizes limit (left - n) u in (n # ns, t))"
  by (subst team_sizes.simps) (simp only: if_False Let_def prod.case)

lemma fill_roster_step:
  "left \<noteq> 0 \<Longrightarrow> rng_range limit s = (v, u)
    \<Longrightarrow> n = min (min (1 + v) left) (if roster = 10 then 5 - (match_size - left) mod 5 else left)
    \<Longrightarrow> ordinary_party mode base region n u = (p, w)
    \<Longrightarrow> fill_roster mode base region roster limit match_size left s =
    (let (ps, t) = fill_roster mode base region roster limit match_size (left - n) w in (p # ps, t))"
  by (subst fill_roster.simps) (simp only: if_False Let_def prod.case)

lemma team_sizes_draws:
  "0 < limit \<Longrightarrow> team_sizes limit left s = (ns, t) \<Longrightarrow>
    sum_list ns = left \<and> list_all (\<lambda>n. 1 \<le> n \<and> n \<le> limit) ns \<and> length ns \<le> left \<and> draws rng_step left s {#} t"
proof (induction limit left s arbitrary: ns rule: team_sizes.induct)
  case (1 limit left s)
  show ?case
  proof (cases "left = 0")
    case True
    with 1 show ?thesis by (simp add: team_sizes.simps)
  next
    case False
    obtain v u where r: "rng_range limit s = (v, u)" by fastforce
    let ?n = "min (1 + v) left"
    obtain ms where rest: "team_sizes limit (left - ?n) u = (ms, t)" and ns: "ns = ?n # ms"
      using 1(3) unfolding team_sizes_step [OF False r] Let_def by (auto split: prod.splits)
    have IH: "sum_list ms = left - ?n \<and> list_all (\<lambda>n. 1 \<le> n \<and> n \<le> limit) ms \<and> length ms \<le> left - ?n
        \<and> draws rng_step (left - ?n) u {#} t"
      using 1(1) [OF False r [symmetric] refl refl] 1(2) rest by simp
    moreover have "draws rng_step (1 + (left - ?n)) s ({#} + {#}) t"
      by (rule draws_add [OF rng_range_draws [OF r]]) (use IH in simp)
    then have "draws rng_step left s ({#} + {#}) t" by (rule draws_mono) (use False in simp)
    ultimately show ?thesis using False rng_range_less [OF r \<open>0 < limit\<close>] by (auto simp: ns)
  qed
qed

lemma mirrored_parties_draws:
  "mirrored_parties mode base region ns s = (ps, t) \<Longrightarrow> roster_fits base region
    \<Longrightarrow> list_all (\<lambda>n. 1 \<le> n \<and> n \<le> limit) ns
    \<Longrightarrow> parties_fit mode limit (sum_list ns) ps \<and> draws rng_step (sum_list ns + 2 * length ns) s (all_draws ps) t"
proof (induction ns arbitrary: s ps)
  case (Cons n ns)
  from Cons.prems(1) obtain p u qs where *: "mirrored_party mode base region n s = (p, u)"
    "mirrored_parties mode base region ns u = (qs, t)" "ps = p # qs" by (auto split: prod.splits)
  note IH = Cons.IH [OF *(2) Cons.prems(2)]
  note step = mirrored_party_draws [OF *(1) Cons.prems(2), of limit]
  have "draws rng_step (n + 2 + (sum_list ns + 2 * length ns)) s (party_draws p + all_draws qs) t"
    by (rule draws_add [of _ _ _ _ u]) (use step IH Cons.prems(3) in simp_all)
  then show ?case using step IH Cons.prems(3) by (simp add: *(3) parties_fit_def algebra_simps)
qed (simp add: parties_fit_def)

lemma fill_roster_draws:
  "fill_roster mode base region roster limit match_size left s = (ps, t) \<Longrightarrow> 0 < limit \<Longrightarrow> left \<le> match_size
    \<Longrightarrow> roster_fits base region
    \<Longrightarrow> parties_fit mode limit left ps \<and> draws rng_step (4 * left) s (all_draws ps) t"
proof (induction mode base region roster limit match_size left s arbitrary: ps rule: fill_roster.induct)
  case (1 mode base region roster limit match_size left s)
  show ?case
  proof (cases "left = 0")
    case True
    with 1 show ?thesis by (simp add: fill_roster.simps parties_fit_def)
  next
    case False
    let ?limit = "if roster = 10 then 5 - (match_size - left) mod 5 else left"
    obtain v u where r: "rng_range limit s = (v, u)" by fastforce
    let ?n = "min (min (1 + v) left) ?limit"
    obtain p w where p: "ordinary_party mode base region ?n u = (p, w)" by fastforce
    obtain qs where rest: "fill_roster mode base region roster limit match_size (left - ?n) w = (qs, t)"
      and ps: "ps = p # qs"
      using "1.prems"(1) unfolding fill_roster_step [OF False r refl p] by (auto split: prod.splits)
    have n: "1 \<le> ?n" "?n \<le> limit" using False rng_range_less [OF r "1.prems"(2)] by auto
    note party = ordinary_party_draws [OF p "1.prems"(4) n]
    have IH: "parties_fit mode limit (left - ?n) qs \<and> draws rng_step (4 * (left - ?n)) w (all_draws qs) t"
      by (rule "1.IH" [OF False refl refl r [symmetric] refl refl p [symmetric] refl rest]) (use "1.prems" in simp_all)
    have "draws rng_step (1 + (?n + 2) + 4 * (left - ?n)) s ({#} + party_draws p + all_draws qs) t"
      by (rule draws_add [OF draws_add [OF rng_range_draws [OF r]]]) (use party IH in blast)+
    then have "draws rng_step (4 * left) s ({#} + party_draws p + all_draws qs) t"
      by (rule draws_mono) (use n(1) False in linarith)
    moreover have "?n + (left - ?n) = left" by simp
    ultimately show ?thesis using party IH by (simp add: ps parties_fit_def del: min_less_iff_conj)
  qed
qed


text \<open>The rosters that are cut from a list whose front fills one exactly.\<close>

lemma take_rosters_full:
  "list_all (\<lambda>p. 1 \<le> length (lp_players p)) ps \<Longrightarrow> ps \<noteq> [] \<Longrightarrow> filled + headcount ps = target
    \<Longrightarrow> take_rosters target (ps @ qs) roster filled
      = (let (gs, rest) = take_rosters target qs [] 0 in ((roster @ ps) # gs, rest))"
proof (induction ps arbitrary: roster filled)
  case (Cons p ps)
  show ?case
  proof (cases "ps = []")
    case True
    with Cons.prems show ?thesis by (simp add: Let_def)
  next
    case False
    then have "1 \<le> headcount ps" using Cons.prems(1) by (cases ps) auto
    then show ?thesis using Cons.prems Cons.IH [of "filled + length (lp_players p)" "roster @ [p]"] False
      by (simp add: Let_def)
  qed
qed simp

lemma take_rosters_partial:
  "filled + headcount ps < target \<Longrightarrow> take_rosters target ps roster filled = ([], filled + headcount ps)"
  by (induction ps arbitrary: roster filled) (simp_all add: Let_def)

lemma party_fits_nonempty: "list_all (party_fits mode limit) ps \<Longrightarrow> list_all (\<lambda>p. 1 \<le> length (lp_players p)) ps"
  by (auto simp: list_all_iff party_fits_def)

lemma push_mode_step:
  "players \<noteq> 0 \<Longrightarrow> roster \<noteq> 0 \<Longrightarrow> rng_range 1001 s = (b, u) \<Longrightarrow> rng_range 3 u = (r, v)
    \<Longrightarrow> (if roster = 10 \<and> min players roster = 10
         then let (ns, s) = team_sizes limit 5 v in mirrored_parties mode (900 + int b) (load_regions ! r) (ns @ ns) s
         else fill_roster mode (900 + int b) (load_regions ! r) roster limit (min players roster) (min players roster) v)
       = (ps, w)
    \<Longrightarrow> push_mode mode roster limit players s =
    (let (qs, t) = push_mode mode roster limit (players - min players roster) w in (ps @ qs, t))"
  by (subst push_mode.simps) (simp only: if_False Let_def prod.case simp_thms)

lemma roster_parties_draws:
  assumes "(if roster = 10 \<and> n = 10
      then let (ns, s) = team_sizes limit 5 v in mirrored_parties mode base region (ns @ ns) s
      else fill_roster mode base region roster limit n n v) = (ps, w)"
    and "0 < limit" "roster_fits base region" "0 < n"
  shows "parties_fit mode limit n ps \<and> draws rng_step (4 * n) v (all_draws ps) w"
proof (cases "roster = 10 \<and> n = 10")
  case True
  obtain ns u where t: "team_sizes limit 5 v = (ns, u)" by fastforce
  with assms(1) True have m: "mirrored_parties mode base region (ns @ ns) u = (ps, w)" by simp
  note sizes = team_sizes_draws [OF assms(2) t]
  then have "list_all (\<lambda>n. 1 \<le> n \<and> n \<le> limit) (ns @ ns)" by simp
  note parties = mirrored_parties_draws [OF m assms(3) this]
  have "draws rng_step (5 + (sum_list (ns @ ns) + 2 * length (ns @ ns))) v ({#} + all_draws ps) w"
    by (rule draws_add [of _ _ _ _ u]) (use sizes parties in blast)+
  then have "draws rng_step (4 * n) v ({#} + all_draws ps) w"
    by (rule draws_mono) (use sizes True in simp)
  with parties sizes True show ?thesis by simp
next
  case False
  with assms(1) have "fill_roster mode base region roster limit n n v = (ps, w)" by simp
  then show ?thesis using fill_roster_draws assms(2,3) by simp
qed

lemma push_mode_draws:
  "push_mode mode roster limit players s = (ps, t) \<Longrightarrow> 0 < limit \<Longrightarrow> 0 < roster
    \<Longrightarrow> parties_fit mode limit players ps \<and> draws rng_step (6 * players) s (all_draws ps) t
      \<and> snd (take_rosters roster ps [] 0) = players mod roster"
proof (induction mode roster limit players s arbitrary: ps rule: push_mode.induct)
  case (1 mode roster limit players s)
  show ?case
  proof (cases "players = 0")
    case True
    with 1 show ?thesis by (simp add: push_mode.simps parties_fit_def)
  next
    case False
    let ?n = "min players roster"
    obtain b u where b: "rng_range 1001 s = (b, u)" by fastforce
    obtain r v where r: "rng_range 3 u = (r, v)" by fastforce
    let ?base = "900 + int b" and ?region = "load_regions ! r"
    obtain rs w where rs: "(if roster = 10 \<and> ?n = 10
        then let (ns, s) = team_sizes limit 5 v in mirrored_parties mode ?base ?region (ns @ ns) s
        else fill_roster mode ?base ?region roster limit ?n ?n v) = (rs, w)" by fastforce
    have zero: "roster \<noteq> 0" "\<not> (players = 0 \<or> roster = 0)" using "1.prems"(3) False by simp_all
    obtain qs where rest: "push_mode mode roster limit (players - ?n) w = (qs, t)" and ps: "ps = rs @ qs"
      using "1.prems"(1) unfolding push_mode_step [OF False zero(1) b r rs] by (auto split: prod.splits)
    have "roster_fits ?base ?region"
      using rng_range_less [OF b] rng_range_less [OF r] nth_mem [of r load_regions]
      by (simp add: roster_fits_def length_load_regions)
    note front = roster_parties_draws [OF rs "1.prems"(2) this]
    have IH: "parties_fit mode limit (players - ?n) qs \<and> draws rng_step (6 * (players - ?n)) w (all_draws qs) t
        \<and> snd (take_rosters roster qs [] 0) = (players - ?n) mod roster"
      by (rule "1.IH" [OF zero(2) refl b [symmetric] refl refl r [symmetric] refl refl rs [symmetric] refl rest])
        (use "1.prems" in simp_all)
    have "draws rng_step (1 + 1 + 4 * ?n + 6 * (players - ?n)) s ({#} + {#} + all_draws rs + all_draws qs) t"
      by (rule draws_add [OF draws_add [OF draws_add [OF rng_range_draws [OF b] rng_range_draws [OF r]]]])
        (use front IH zero in auto)
    then have "draws rng_step (6 * players) s ({#} + {#} + all_draws rs + all_draws qs) t"
      by (rule draws_mono) (use zero in linarith)
    moreover have "snd (take_rosters roster ps [] 0) = players mod roster"
    proof (cases "players < roster")
      case True
      then have "qs = []" "headcount rs = players" using rest front zero
        by (auto simp: push_mode.simps parties_fit_def)
      then show ?thesis using take_rosters_partial [of 0 rs roster "[]"] True by (simp add: ps)
    next
      case full: False
      then have rs': "headcount rs = roster" "list_all (\<lambda>p. 1 \<le> length (lp_players p)) rs"
        using front zero party_fits_nonempty by (auto simp: parties_fit_def)
      moreover have "rs \<noteq> []" using rs'(1) zero by auto
      ultimately show ?thesis using take_rosters_full [of rs 0 roster qs "[]"] IH full zero
        by (auto simp: ps Let_def le_mod_geq split: prod.splits)
    qed
    moreover have "parties_fit mode limit (?n + (players - ?n)) ps"
      unfolding ps by (rule parties_fit_append) (use front IH zero in auto)
    then have "parties_fit mode limit players ps" by simp
    ultimately show ?thesis by (simp add: ps)
  qed
qed


text \<open>The three modes of a scenario.\<close>

definition mode_share :: "scenario_config \<Rightarrow> queue_mode \<Rightarrow> nat" where
  "mode_share config mode = (let one = cf_players config * 30 div 100; five = cf_players config * 50 div 100
     in case mode of OneVsOne \<Rightarrow> one | FiveVsFive \<Rightarrow> five | FreeForAll \<Rightarrow> cf_players config - one - five)"

definition mode_limit :: "queue_mode \<Rightarrow> nat" where
  "mode_limit mode = (case mode of OneVsOne \<Rightarrow> 1 | FiveVsFive \<Rightarrow> 5 | FreeForAll \<Rightarrow> 4)"

definition of_mode :: "queue_mode \<Rightarrow> load_party list \<Rightarrow> load_party list" where
  "of_mode mode ps = filter (\<lambda>p. lp_mode p = mode) ps"

lemma mode_shares: "mode_share config OneVsOne + mode_share config FiveVsFive + mode_share config FreeForAll = cf_players config"
  unfolding mode_share_def Let_def by simp

lemma of_mode_append [simp]: "of_mode mode (ps @ qs) = of_mode mode ps @ of_mode mode qs"
  by (simp add: of_mode_def)

lemma of_mode_fit: "parties_fit mode limit n ps \<Longrightarrow> of_mode mode' ps = (if mode' = mode then ps else [])"
  by (auto simp: of_mode_def parties_fit_def party_fits_def list_all_iff intro!: filter_True)

lemma generated:
  "(\<forall>mode. parties_fit mode (mode_limit mode) (mode_share config mode) (of_mode mode (generate_parties config))
      \<and> snd (take_rosters (roster_target mode) (of_mode mode (generate_parties config)) [] 0)
        = mode_share config mode mod roster_target mode)
   \<and> (\<exists>t. draws rng_step (6 * cf_players config) (cf_seed config) (all_draws (generate_parties config)) t)"
proof -
  obtain ps t where ps: "push_mode OneVsOne 2 1 (mode_share config OneVsOne) (cf_seed config) = (ps, t)" by fastforce
  obtain qs u where qs: "push_mode FiveVsFive 10 5 (mode_share config FiveVsFive) t = (qs, u)" by fastforce
  obtain rs v where rs: "push_mode FreeForAll 8 4 (mode_share config FreeForAll) u = (rs, v)" by fastforce
  have g: "generate_parties config = ps @ qs @ rs"
    using ps qs rs by (simp add: generate_parties_def mode_share_def Let_def)
  note one = push_mode_draws [OF ps, simplified] and five = push_mode_draws [OF qs, simplified]
    and ffa = push_mode_draws [OF rs, simplified]
  note fits = of_mode_fit [OF conjunct1 [OF one]] of_mode_fit [OF conjunct1 [OF five]] of_mode_fit [OF conjunct1 [OF ffa]]
  have "draws rng_step (6 * mode_share config OneVsOne + 6 * mode_share config FiveVsFive
      + 6 * mode_share config FreeForAll) (cf_seed config) (all_draws ps + all_draws qs + all_draws rs) v"
    by (rule draws_add [OF draws_add]) (use one five ffa in blast)+
  moreover have "6 * mode_share config OneVsOne + 6 * mode_share config FiveVsFive
      + 6 * mode_share config FreeForAll = 6 * cf_players config"
    using mode_shares [of config] by linarith
  moreover have "all_draws ps + all_draws qs + all_draws rs = all_draws (generate_parties config)"
    by (simp add: g add.assoc)
  ultimately have "draws rng_step (6 * cf_players config) (cf_seed config) (all_draws (generate_parties config)) v"
    by (simp only:)
  moreover have "parties_fit mode (mode_limit mode) (mode_share config mode) (of_mode mode (generate_parties config))
      \<and> snd (take_rosters (roster_target mode) (of_mode mode (generate_parties config)) [] 0)
        = mode_share config mode mod roster_target mode" for mode
    using one five ffa by (cases mode) (simp_all add: g fits mode_limit_def roster_target_def)
  ultimately show ?thesis by blast
qed

end
