(* ===== verification/Load_Runs.thy ===== *)
theory Load_Runs
  imports Load_Laws Queue_Refinement
begin

text \<open>
  What becomes of the generated parties: they go through the entity world and come back unchanged,
  whatever the order in which its storages are joined; the generated servers all register; and a
  run over them ends with a report.
\<close>

section \<open>Through the entity world\<close>

lemmas load_entity_defs = load_player_entity_def load_party_entity_def load_ticket_entity_def

lemma map_of_shuffle:
  assumes "mset xs = mset ys" "distinct (map fst xs)"
  shows "map_of xs = map_of ys"
proof -
  have "distinct (map fst ys)" using assms by (metis mset_map mset_eq_imp_distinct_iff)
  then show ?thesis using assms map_of_inject_set mset_eq_setD by metis
qed

lemma get_of_list_shuffle:
  "mset xs = mset ys \<Longrightarrow> distinct (map fst ys) \<Longrightarrow> bm_get (bm_of_list xs) k = map_of ys k"
  by (metis get_of_list_distinct map_of_shuffle mset_map mset_eq_imp_distinct_iff)

lemma map_filter_concat: "List.map_filter f (concat xss) = concat (map (List.map_filter f) xss)"
  by (induction xss) (simp_all add: map_filter_append)

lemma map_filter_none: "List.map_filter (\<lambda>x. None) xs = []"
  by (induction xs) simp_all

lemma concat_singletons: "concat (map (\<lambda>x. [f x]) xs) = map f xs"
  by (induction xs) simp_all

text \<open>What the three kinds of entities carry.\<close>

lemma load_entities:
  "player_identity (load_player_entity p x) = Some x" "party_identity (load_player_entity p x) = None"
  "elo_rating (load_player_entity p x) = Some (bm_of_list [(lp_mode p, lp_rating p)])"
  "player_identity (load_party_entity p) = None" "party_identity (load_party_entity p) = Some (lp_id p)"
  "party_members (load_party_entity p) = Some (lp_players p)" "ticket_identity (load_party_entity p) = None"
  "player_identity (load_ticket_entity p) = None" "party_identity (load_ticket_entity p) = Some (lp_id p)"
  "party_members (load_ticket_entity p) = None" "ticket_mode (load_ticket_entity p) = Some (lp_mode p)"
  "ticket_identity (load_ticket_entity p) \<noteq> None" "ticket_regions (load_ticket_entity p) = Some [lp_region p]"
  by (simp_all add: load_entity_defs storage_defs)


definition rated_players :: "load_party list \<Rightarrow> (player_id \<times> (queue_mode, i32) bmap) list" where
  "rated_players ps = concat (map (\<lambda>p. map (\<lambda>x. (x, bm_of_list [(lp_mode p, lp_rating p)])) (lp_players p)) ps)"

lemma read_world:
  assumes "\<And>p x. f (load_player_entity p x) = g p x"
  shows "List.map_filter f (load_world ps) = concat (map (\<lambda>p. List.map_filter (g p) (lp_players p)
    @ List.map_filter f [load_party_entity p, load_ticket_entity p]) ps)"
proof -
  have "List.map_filter f (map (load_player_entity p) xs) = List.map_filter (g p) xs" for p xs
    unfolding map_filter_map using assms by (intro map_filter_same) simp
  then show ?thesis
    by (simp add: load_world_def map_filter_concat map_filter_append comp_def del: map_filter_simps)
qed

lemma read_ratings: "List.map_filter (\<lambda>e. case (player_identity e, elo_rating e) of
     (Some x, Some r) \<Rightarrow> Some (x, r) | _ \<Rightarrow> None) (load_world ps) = rated_players ps"
proof -
  have "List.map_filter (\<lambda>x. Some (x, r)) xs = map (\<lambda>x. (x, r)) xs" for r :: "(queue_mode, i32) bmap" and xs :: "player_id list"
    by (induction xs) simp_all
  then show ?thesis by (subst read_world [where g = "\<lambda>p x. Some (x, bm_of_list [(lp_mode p, lp_rating p)])"])
    (simp_all add: load_entities rated_players_def)
qed

lemma read_members: "List.map_filter (\<lambda>e. case (party_identity e, party_members e) of
     (Some i, Some ms) \<Rightarrow> Some (i, ms) | _ \<Rightarrow> None) (load_world ps) = map (\<lambda>p. (lp_id p, lp_players p)) ps"
  by (subst read_world [where g = "\<lambda>p x. None"]) (simp_all add: load_entities concat_singletons map_filter_none)

lemma rated_player:
  assumes "distinct (concat (map lp_players ps))" "p \<in> set ps" "x \<in> set (lp_players p)"
  shows "map_of (rated_players ps) x = Some (bm_of_list [(lp_mode p, lp_rating p)])"
proof -
  have "map fst (rated_players ps) = concat (map lp_players ps)"
    unfolding rated_players_def by (simp add: map_concat comp_def)
  then have "distinct (map fst (rated_players ps))" using assms(1) by simp
  moreover have "(x, bm_of_list [(lp_mode p, lp_rating p)]) \<in> set (rated_players ps)"
    using assms(2,3) by (auto simp: rated_players_def)
  ultimately show ?thesis by (rule map_of_is_SomeI)
qed

lemma materialize_mset:
  assumes ids: "distinct (map lp_id ps)" and players: "distinct (concat (map lp_players ps))"
    and nonempty: "\<forall>p \<in> set ps. lp_players p \<noteq> []" and join: "mset (join (load_world ps)) = mset (load_world ps)"
  shows "mset (materialize_through_ecs join ps) = mset ps"
proof -
  let ?w = "join (load_world ps)"
  let ?read = "read_load_party (load_parties_by_id ?w) (load_player_ratings ?w)"
  have fsts: "map fst (rated_players ps) = concat (map lp_players ps)"
    unfolding rated_players_def by (simp add: map_concat comp_def)
  have fst_ids: "map fst (map (\<lambda>p. (lp_id p, lp_players p)) ps) = map lp_id ps" by simp
  have ratings: "bm_get (load_player_ratings ?w) x = map_of (rated_players ps) x" for x
    unfolding load_player_ratings_def
    by (rule get_of_list_shuffle) (simp_all only: map_filter_mset [OF join] read_ratings fsts players)
  have members: "bm_get (load_parties_by_id ?w) i = map_of (map (\<lambda>p. (lp_id p, lp_players p)) ps) i" for i
    unfolding load_parties_by_id_def
    by (rule get_of_list_shuffle) (simp_all only: map_filter_mset [OF join] read_members fst_ids ids)
  have found: "?read (load_ticket_entity p) = Some p" if p: "p \<in> set ps" for p
  proof -
    obtain x xs where x: "lp_players p = x # xs" using nonempty p by (cases "lp_players p") auto
    have "map_of (map (\<lambda>p. (lp_id p, lp_players p)) ps) (lp_id p) = Some (lp_players p)"
      using p ids by (intro map_of_is_SomeI) (auto simp: comp_def)
    moreover have "map_of (rated_players ps) x = Some (bm_of_list [(lp_mode p, lp_rating p)])"
      using rated_player [OF players p] x by simp
    moreover obtain i where "ticket_identity (load_ticket_entity p) = Some i" using load_entities(12) by blast
    ultimately show ?thesis by (simp add: read_load_party_def load_entities members ratings x get_of_list)
  qed
  have "mset (materialize_through_ecs join ps) = mset (List.map_filter ?read (load_world ps))"
    unfolding materialize_through_ecs_def Let_def by (rule map_filter_mset [OF join])
  also have "List.map_filter ?read (load_world ps) = concat (map (\<lambda>p. List.map_filter ?read [load_ticket_entity p]) ps)"
    by (subst read_world [where g = "\<lambda>p x. None"]) (simp_all add: read_load_party_def load_entities map_filter_none)
  also have "map (\<lambda>p. List.map_filter ?read [load_ticket_entity p]) ps = map (\<lambda>p. [p]) ps"
    by (rule map_cong [OF refl]) (simp add: found)
  finally show ?thesis by (simp add: concat_singletons)
qed


section \<open>The identifiers of a scenario\<close>

lemma all_draws_ids:
  "all_draws ps = mset (map (\<lambda>p. id64 (lp_id p)) ps @ map id64 (concat (map lp_players ps)))"
  by (induction ps) (simp_all add: party_draws_def)

lemma generated_ids:
  assumes "cf_players config \<le> 2 ^ 61"
  shows "distinct (map lp_id (generate_parties config)) \<and> distinct (concat (map lp_players (generate_parties config)))"
proof -
  let ?ps = "generate_parties config"
  obtain t where "draws rng_step (6 * cf_players config) (cf_seed config) (all_draws ?ps) t" using generated by blast
  then have "distinct (map (\<lambda>p. id64 (lp_id p)) ?ps @ map id64 (concat (map lp_players ?ps)))"
    unfolding all_draws_ids by (rule rng.distinct_draws) (use assms in simp)
  then have "distinct (map id64 (map lp_id ?ps))" "distinct (map id64 (concat (map lp_players ?ps)))"
    by (simp_all add: comp_def)
  then show ?thesis unfolding distinct_map [of id64] by blast
qed

lemma generated_member:
  assumes "p \<in> set (generate_parties config)"
  shows "party_fits (lp_mode p) (mode_limit (lp_mode p)) p"
proof -
  have "p \<in> set (of_mode (lp_mode p) (generate_parties config))" using assms by (simp add: of_mode_def)
  then show ?thesis using generated [of config] by (auto simp: parties_fit_def list_all_iff)
qed

section \<open>The generated servers register\<close>

lemma fleet_from_draws:
  "\<exists>t. draws rng_step (3 * n) s (mset (map (\<lambda>v. id64 (lv_id v)) (fleet_from i n s))) t"
proof (induction n arbitrary: i s)
  case 0
  show ?case by (rule exI [of _ s]) simp
next
  case (Suc n)
  obtain k :: server_id and u c v m w where *: "rng_id s = (k, u)" "rng_range 900 u = (c, v)" "rng_range 100 v = (m, w)"
    by (metis surj_pair)
  from Suc obtain t where "draws rng_step (3 * n) w (mset (map (\<lambda>v. id64 (lv_id v)) (fleet_from (Suc i) n w))) t" by blast
  then have "draws rng_step (1 + 1 + 1 + 3 * n) s
      ({#id64 k#} + {#} + {#} + mset (map (\<lambda>v. id64 (lv_id v)) (fleet_from (Suc i) n w))) t"
    by (rule draws_add [OF draws_add [OF draws_add [OF rng_id_draws [OF *(1)] rng_range_draws [OF *(2)]]
        rng_range_draws [OF *(3)]]])
  then have "draws rng_step (3 * Suc n) s
      ({#id64 k#} + {#} + {#} + mset (map (\<lambda>v. id64 (lv_id v)) (fleet_from (Suc i) n w))) t"
    by (rule draws_mono) simp
  then show ?case by (intro exI [of _ t]) (simp add: *)
qed

definition server_fits :: "load_server \<Rightarrow> bool" where
  "server_fits v \<longleftrightarrow> 100 \<le> unat (lv_capacity v) \<and> unat (lv_capacity v) < 1000 \<and> lv_used v = 0
     \<and> 1 \<le> unat (lv_max_instances v) \<and> unat (lv_max_instances v) \<le> 100
     \<and> (case lv_costs v of (one, five, ffa) \<Rightarrow> one \<noteq> 0 \<and> five \<noteq> 0 \<and> ffa \<noteq> 0)"

lemma unat_plus_small: "unat (of_nat (m + n) :: 'a::len word) = m + n" if "m + n < 2 ^ LENGTH('a)"
  using that by (simp only: unsigned_of_nat take_bit_nat_eq_self of_nat_id)

lemma small_nonzero: "0 < m + n \<Longrightarrow> m + n < 2 ^ LENGTH('a) \<Longrightarrow> (of_nat (m + n) :: 'a::len word) \<noteq> 0"
  using unat_plus_small [of m n] by (metis unat_0 less_irrefl)

lemma fleet_from_fits: "list_all server_fits (fleet_from i n s)"
proof (induction n arbitrary: i s)
  case (Suc n)
  obtain k :: server_id and u c v m w where *: "rng_id s = (k, u)" "rng_range 900 u = (c, v)" "rng_range 100 v = (m, w)"
    by (metis surj_pair)
  have c: "c < 900" and m: "m < 100" using rng_range_less * by auto
  have "unat (of_nat (100 + c) :: u32) = 100 + c" "unat (of_nat (1 + m) :: u16) = 1 + m"
    by (rule unat_plus_small, use c m in simp)+
  moreover have "(of_nat (1 + i mod 3) :: u32) \<noteq> 0" "(of_nat (4 + i mod 7) :: u32) \<noteq> 0" "(of_nat (3 + i mod 5) :: u32) \<noteq> 0"
    by (rule small_nonzero; simp add: less_trans [OF mod_less_divisor])+
  ultimately show ?case using Suc c m by (simp add: * server_fits_def)
qed simp


definition fleet_limits :: server_limits where
  "fleet_limits = \<lparr>sl_max_capacity = - 1, sl_max_instances = 100\<rparr>"

lemma fleet_limits_simps [simp]: "sl_max_capacity fleet_limits = - 1" "sl_max_instances fleet_limits = 100"
  by (simp_all add: fleet_limits_def)

lemma runtime_server_simps [simp]:
  "gs_id (runtime_server codec v) = lv_id v" "gs_health (runtime_server codec v) = Healthy"
  "gs_capacity_total (runtime_server codec v) = lv_capacity v" "gs_capacity_used (runtime_server codec v) = lv_used v"
  "gs_max_instances (runtime_server codec v) = lv_max_instances v" "gs_instances (runtime_server codec v) = bm_empty"
  by (simp_all add: runtime_server_def split: prod.splits)

lemma load_region_nonblank: "r < 3 \<Longrightarrow> \<not> blank (load_regions ! r)"
  by (auto simp: load_regions_def blank_iff lit_def is_whitespace_def less_Suc_eq numeral_3_eq_3)

lemma runtime_server_valid: "server_fits v \<Longrightarrow> \<not> registration_invalid (runtime_server codec v) fleet_limits"
proof -
  assume fits: "server_fits v"
  obtain one five ffa where costs: "lv_costs v = (one, five, ffa)" by (metis surj_pair)
  have "\<not> blank (gs_endpoint (runtime_server codec v))" "\<not> blank (gs_region (runtime_server codec v))"
    by (simp_all add: runtime_server_def costs load_region_nonblank)
      (simp add: blank_iff lit_def is_whitespace_def)
  moreover have modes: "gs_modes (runtime_server codec v) = set (bm_keys (gs_mode_costs (runtime_server codec v)))"
    "gs_modes (runtime_server codec v) \<noteq> {}"
    by (auto simp: runtime_server_def costs bm_of_list_def)
  moreover have "bm_keys (gs_mode_costs (runtime_server codec v)) \<noteq> []" using modes by auto
  moreover have "list_ex (\<lambda>v. v = 0) (bm_values (gs_mode_costs (runtime_server codec v))) = False"
    using fits by (auto simp: runtime_server_def costs list_ex_iff values_iff get_of_list server_fits_def split: if_splits)
  moreover have "min (sl_max_instances fleet_limits) 100 = (100 :: u16)" by simp
  moreover have "lv_capacity v \<noteq> 0" "lv_max_instances v \<noteq> 0" "lv_max_instances v \<le> 100" "lv_used v = 0"
    using fits by (auto simp: server_fits_def word_le_nat_alt)
  ultimately show ?thesis by (simp add: registration_invalid_def bm_size_def not_less)
qed

lemma register_fresh:
  "server_fits v \<Longrightarrow> bm_get r (lv_id v) = None
    \<Longrightarrow> register (runtime_server codec v) fleet_limits r = (Inr (), bm_insert (lv_id v) (runtime_server codec v) r)"
  by (simp add: register_def runtime_server_valid)

text \<open>The registry of an idle fleet: every server is healthy and runs nothing.\<close>

definition idle :: "registry \<Rightarrow> bool" where
  "idle r \<longleftrightarrow> registry_ok r \<and> (\<forall>k s. bm_get r k = Some s \<longrightarrow> gs_health s = Healthy \<and> gs_instances s = bm_empty)"

lemma register_all:
  "list_all server_fits vs \<Longrightarrow> distinct (map lv_id vs) \<Longrightarrow> \<forall>v \<in> set vs. bm_get r (lv_id v) = None \<Longrightarrow> idle r
    \<Longrightarrow> \<exists>r'. fold_opt (\<lambda>v r. case register (runtime_server codec v) fleet_limits r of
         (Inl _, _) \<Rightarrow> None | (Inr _, r) \<Rightarrow> Some r) vs r = Some r' \<and> idle r'
       \<and> set (bm_keys r') = set (bm_keys r) \<union> lv_id ` set vs"
proof (induction vs arbitrary: r)
  case (Cons v vs)
  let ?r = "bm_insert (lv_id v) (runtime_server codec v) r"
  have "unat (lv_capacity v) < 2 ^ 32 - 1" using Cons.prems(1) by (simp add: server_fits_def)
  then have "lv_capacity v < - 1" using unat_word_max [where 'a = 32] by (simp add: word_less_nat_alt)
  then have "server_ok (lv_id v) (runtime_server codec v)"
    using Cons.prems(1) by (simp add: server_ok_def server_fits_def word_less_nat_alt)
  then have "idle ?r" using Cons.prems(4) by (auto simp: idle_def get_insert intro!: registry_ok_insert)
  moreover have "\<forall>u \<in> set vs. bm_get ?r (lv_id u) = None" using Cons.prems(2,3) by (auto simp: get_insert image_iff)
  moreover have "register (runtime_server codec v) fleet_limits r = (Inr (), ?r)"
    using Cons.prems(1,3) by (intro register_fresh) simp_all
  ultimately show ?case using Cons.prems(1,2) Cons.IH [of ?r] by simp
qed auto

lemma fleet_registers:
  obtains r where "runtime_registry codec (fleet seed) = Some r" "idle r" "set (bm_keys r) = lv_id ` set (fleet seed)"
proof -
  obtain t where "draws rng_step (3 * 128) (seed XOR 0xfeedbeef) (mset (map (\<lambda>v. id64 (lv_id v)) (fleet seed))) t"
    using fleet_from_draws [of 128] unfolding fleet_def by blast
  then have "distinct (map (\<lambda>v. id64 (lv_id v)) (fleet seed))" by (rule rng.distinct_draws) simp
  then have "distinct (map id64 (map lv_id (fleet seed)))" by (simp add: comp_def)
  then have "distinct (map lv_id (fleet seed))" unfolding distinct_map [of id64] by blast
  moreover have "list_all server_fits (fleet seed)" unfolding fleet_def by (rule fleet_from_fits)
  ultimately show ?thesis using register_all [of "fleet seed" bm_empty codec] that
    by (auto simp: runtime_registry_def idle_def simp flip: fleet_limits_def)
qed


section \<open>One roster\<close>

lemma insert_same: "bm_get r k = Some s \<Longrightarrow> bm_insert k s r = r"
  by (rule bm_eqI) (simp add: get_insert)

text \<open>A match that is placed, becomes ready and is released leaves the registry as it was.\<close>

lemma place_and_release:
  assumes "idle r" "reserve m mode region r = Some (Inr sid, r1)"
  shows "\<exists>r2. transition sid m InReady e t r1 = (Inr (), r2) \<and> release sid m r2 = (Inr (), r)"
proof -
  obtain s cost where s: "bm_get r sid = Some s" "unat (gs_capacity_used s) + unat cost \<le> unat (gs_capacity_total s)"
    "r1 = bm_insert sid (s\<lparr>gs_capacity_used := gs_capacity_used s + cost,
       gs_instances := bm_insert m \<lparr>in_match_id = m, in_cost = cost, in_state = InReserved,
         in_endpoint = None, in_connection_token = None\<rparr> (gs_instances s)\<rparr>) r"
    using reserve_SomeD [OF _ assms(2)] assms(1) unfolding idle_def by metis
  let ?i = "\<lparr>in_match_id = m, in_cost = cost, in_state = InReady, in_endpoint = e, in_connection_token = t\<rparr>"
  have none: "bm_get (gs_instances s) m = None" using assms(1) s(1) by (simp add: idle_def)
  have "release sid m (bm_insert sid (s\<lparr>gs_capacity_used := gs_capacity_used s + cost,
      gs_instances := bm_insert m ?i (gs_instances s)\<rparr>) r) = (Inr (), r)"
    by (rule release_reserved [OF s(1) none _ _ s(2)]) (simp_all add: live_def)
  then show ?thesis by (simp add: s(3) transition_def Let_def)
qed

definition fails_with :: "registry \<Rightarrow> nat \<Rightarrow> load_run \<Rightarrow> bool" where
  "fails_with r n ru \<longleftrightarrow> ru_registry ru = r \<and> n \<le> ru_failures ru
     \<and> length (ru_diagnostics ru) = ru_failures ru"

text \<open>The registry is the idle one after every step, failures are never taken back and each has its text.\<close>

lemma fails_note [simp]: "fails_with r n ru \<Longrightarrow> fails_with r n (note_failure d ru)"
    "fails_with r n ru \<Longrightarrow> fails_with r n (note_mode_failure mode d' ru)"
  by (simp_all add: fails_with_def note_failure_def note_mode_failure_def)

lemma fails_check_roster: "fails_with r n ru \<Longrightarrow> fails_with r n (check_roster mode c ru)"
  by (auto simp: check_roster_def Let_def fails_with_def note_failure_def note_mode_failure_def split: prod.splits)

lemma fails_propose:
  assumes "fails_with r n ru" "concat (cd_teams c) \<noteq> []"
  shows "\<exists>q ru'. propose pid mode ps c claims ru = Some (q, ru') \<and> fails_with r n ru'"
  using assms by (auto simp: propose_def Let_def fails_with_def note_failure_def note_mode_failure_def split: prod.splits)

lemma fails_accept_all: "fails_with r n ru \<Longrightarrow> fails_with r n (snd (accept_all mode is (q, ru)))"
  by (induction mode "is" "(q, ru)" arbitrary: q ru rule: accept_all.induct) (auto split: prod.splits sum.splits)

lemma cycle_idle: "idle r \<Longrightarrow> fails_with r n ru \<Longrightarrow> fails_with r n (cycle_server ru)"
proof -
  assume "idle r" "fails_with r n ru"
  then have idle: "idle (ru_registry ru)" and ru: "fails_with r n ru" by (simp_all add: fails_with_def)
  have "bm_insert k (s\<lparr>gs_health := Healthy\<rparr>) (ru_registry ru) = ru_registry ru"
    if "entries (ru_registry ru) = (k, s) # rest" for k s rest
  proof -
    have get: "bm_get (ru_registry ru) k = Some s" using that by (simp flip: entry_iff)
    then have "gs_health s = Healthy" using idle by (simp add: idle_def)
    then have "s\<lparr>gs_health := Healthy\<rparr> = s" by (cases s) simp
    then show ?thesis using insert_same [OF get] by simp
  qed
  then show ?thesis using ru by (auto simp: cycle_server_def fails_with_def split: list.splits)
qed

text \<open>A run that the machine stops: the thread pool does not start, or a reading of the memory is missing.\<close>

definition stopped :: "load_machine \<Rightarrow> nat \<Rightarrow> (load_error + 'a) option \<Rightarrow> bool" where
  "stopped M workers out \<longleftrightarrow> (case out of
      None \<Rightarrow> \<not> ma_pool M (max workers 1)
    | Some (Inl (MemoryUnread e)) \<Rightarrow> e = lit ''current process missing from OS process table'' \<and> (\<exists>k. ma_memory M k = None)
    | _ \<Rightarrow> False)"

lemma stopped_simps [simp]: "stopped M workers None \<longleftrightarrow> \<not> ma_pool M (max workers 1)"
  "\<not> stopped M workers (Some (Inr x))" "\<not> stopped M workers (Some (Inl (PlacementFailed e)))"
  "stopped M workers (Some (Inl (MemoryUnread t))) \<longleftrightarrow>
     t = lit ''current process missing from OS process table'' \<and> (\<exists>k. ma_memory M k = None)"
  by (simp_all add: stopped_def)

lemma stopped_cases:
  assumes "stopped M workers out"
  obtains "out = None" "\<not> ma_pool M (max workers 1)"
  | t where "out = Some (Inl (MemoryUnread t))" "t = lit ''current process missing from OS process table''"
    "\<exists>k. ma_memory M k = None"
  using assms by (auto simp: stopped_def split: option.splits sum.splits load_error.splits)

lemma sampler_unread: "sampler_sample M s = Inl e \<Longrightarrow>
    e = lit ''current process missing from OS process table'' \<and> (\<exists>k. ma_memory M k = None)"
  by (auto simp: sampler_sample_def sample_memory_def split: option.splits)

lemma fails_place_roster:
  assumes "idle r" "fails_with r k ru"
  shows "stopped M workers (place_roster M mode region n p ru)
    \<or> (\<exists>ru'. place_roster M mode region n p ru = Some (Inr ru') \<and> fails_with r k ru')"
proof -
  let ?m = "from_uuid (of_nat (ru_matches ru) + 1)"
  have r: "ru_registry ru = r" using assms(2) by (simp_all add: fails_with_def)
  obtain res r1 where res: "reserve ?m mode region r = Some (res, r1)"
    using reserve_total assms(1) unfolding idle_def by metis
  show ?thesis
  proof (cases res)
    case (Inl e)
    with res have "r1 = r" by (auto simp: reserve_def split: option.splits if_splits)
    with Inl res r assms(2) show ?thesis by (simp add: place_roster_def fails_with_def note_mode_failure_def note_failure_def)
  next
    case (Inr sid)
    then obtain r2 where *: "transition sid ?m InReady (Some (lit ''load-endpoint'')) (Some (lit ''redacted'')) r1 = (Inr (), r2)"
      "release sid ?m r2 = (Inr (), r)" using place_and_release [OF assms(1)] res by blast
    let ?ru = "count_match n p (ru\<lparr>ru_registry := r1\<rparr>)"
    let ?reading = "if ru_matches ?ru mod 256 = 0 then sampler_sample M (ru_sampler ?ru) else Inr (ru_sampler ?ru)"
    have step: "place_roster M mode region n p ru = (case ?reading of Inl e \<Rightarrow> Some (Inl (MemoryUnread e))
      | Inr sampler \<Rightarrow> Some (Inr (cycle_server (?ru\<lparr>ru_registry := r, ru_sampler := sampler\<rparr>))))"
      using res Inr * by (simp add: place_roster_def Let_def r count_match_def split: sum.split)
    show ?thesis
    proof (cases ?reading)
      case (Inl e)
      then show ?thesis unfolding step using sampler_unread [of M "ru_sampler ?ru" e] by (simp split: if_splits)
    next
      case (Inr sampler)
      have "fails_with r k (cycle_server (?ru\<lparr>ru_registry := r, ru_sampler := sampler\<rparr>))"
        using assms by (intro cycle_idle) (simp_all add: fails_with_def count_match_def)
      then show ?thesis unfolding step Inr by simp
    qed
  qed
qed

lemma candidate_players: "candidate_for M workers ps mode = Some (Some c) \<Longrightarrow> concat (cd_teams c) \<noteq> []"
proof -
  assume "candidate_for M workers ps mode = Some (Some c)"
  then have "c \<in> set (generate (build_for_mode mode) 1024
      (snapshot_new (map (\<lambda>(index, p). load_ticket mode index p) (enumerate 0 ps))))"
    by (auto simp: candidate_for_def split: list.splits if_splits)
  then obtain rest c0 owner where c: "c0 \<in> set (build_for_mode mode rest)" "cd_teams c = cd_teams c0"
    using generate_built by (metis candidate.select_convs(2) candidate.surjective candidate.update_convs(5))
  show ?thesis
  proof (cases mode)
    case FreeForAll
    then have "length (cd_teams c0) = 8" "\<forall>team \<in> set (cd_teams c0). length team = 1"
      using c ffa_build_teams [of c0 rest 1024] by (simp_all add: build_for_mode_def)
    then show ?thesis using c(2) by (cases "cd_teams c0") auto
  next
    case OneVsOne
    then have "c0 \<in> set (one_v_one_build rest)" using c(1) by (simp add: build_for_mode_def)
    then obtain a b where "one_v_one_pair a b = Some c0" "length (pt_members a) = 1" "length (pt_members b) = 1"
      by (rule one_v_one_build_in)
    then show ?thesis using c(2) by (auto simp: one_v_one_pair_def Let_def split: if_splits)
  next
    case FiveVsFive
    then have "c0 \<in> set (five_v_five_build rest 1024)" using c(1) by (simp add: build_for_mode_def)
    then obtain a b where "map length (cd_teams c0) = [5, 5]" by (rule five_build_teams)
    then show ?thesis using c(2) by (auto simp: map_eq_Cons_conv)
  qed
qed

lemma fails_play_roster:
  assumes "idle r" "fails_with r n ru"
  shows "stopped M workers (play_roster M workers pid mode (p0 # ps) p ru)
    \<or> (\<exists>ru'. play_roster M workers pid mode (p0 # ps) p ru = Some (Inr ru') \<and> fails_with r n ru')"
proof (cases "candidate_for M workers (p0 # ps) mode")
  case None
  then have "\<not> ma_pool M (max workers 1)" by (simp add: candidate_for_def split: if_splits)
  with None show ?thesis by (simp add: play_roster_def)
next
  case (Some found)
  show ?thesis
  proof (cases found)
    case None
    with Some assms(2) show ?thesis by (simp add: play_roster_def)
  next
    case found: (Some c)
    obtain ok claims where claims: "claims_commit c (\<lambda>_. True) {} = (ok, claims)" by fastforce
    let ?ru = "(if ok then check_roster mode c ru
      else note_mode_failure mode '': candidate claim failed'' (check_roster mode c ru))"
    let ?ru1 = "?ru\<lparr>ru_elo_quality_sum := sat_add (ru_elo_quality_sum ?ru) (elo_quality c)\<rparr>"
    have "fails_with r n ?ru" using fails_check_roster [OF assms(2)] by simp
    then have "fails_with r n ?ru1" by (simp add: fails_with_def)
    then obtain q ru2 where q: "propose pid mode (p0 # ps) c claims ?ru1 = Some (q, ru2)" "fails_with r n ru2"
      using fails_propose candidate_players [OF Some [unfolded found]] by metis
    obtain q' ru3 where acc: "accept_all mode (concat (cd_teams c)) (q, ru2) = (q', ru3)" by fastforce
    then have "fails_with r n ru3" using fails_accept_all [OF q(2)] by (metis snd_conv)
    then have "fails_with r n (if pr_state q' \<noteq> AwaitingPlacement
      then note_mode_failure mode '': all accepts did not reach placement'' ru3 else ru3)" by simp
    then show ?thesis using fails_place_roster [OF assms(1)]
      by (simp add: play_roster_def Some found claims q acc Let_def)
  qed
qed


section \<open>A whole run\<close>

definition state_fails :: "registry \<Rightarrow> nat \<Rightarrow> queue_mode \<Rightarrow> roster_state \<Rightarrow> bool" where
  "state_fails r n mode st \<longleftrightarrow> (case st of (roster, filled, ru) \<Rightarrow> fails_with r n ru)"

lemma fails_play_party:
  assumes "idle r" "fails_with r n ru"
  shows "stopped M workers (play_party M workers pid mode p (roster, filled, ru))
    \<or> (\<exists>roster' filled' ru'. play_party M workers pid mode p (roster, filled, ru) = Some (Inr (roster', filled', ru'))
      \<and> fails_with r n ru'
      \<and> (ru_failures ru' = n \<longrightarrow> filled' mod roster_target mode = (filled + length (lp_players p)) mod roster_target mode))"
proof -
  let ?over = "filled + length (lp_players p) > roster_target mode"
  let ?ru = "if ?over then note_mode_failure mode '': generated party group exceeds roster size'' ru else ru"
  let ?roster = "(if ?over then [] else roster) @ [p]"
  let ?filled = "(if ?over then 0 else filled) + length (lp_players p)"
  define k where "k = (if ?over then Suc n else n)"
  have ru: "fails_with r k ?ru"
    using assms(2) by (simp add: k_def fails_with_def note_mode_failure_def note_failure_def)
  have weaken: "fails_with r n ru'" if "fails_with r k ru'" for ru'
    using that by (auto simp: fails_with_def k_def split: if_splits)
  have over: "\<not> ?over" if "ru_failures ru' = n" "fails_with r k ru'" for ru'
    using that by (auto simp: fails_with_def k_def split: if_splits)
  obtain p0 ps where roster: "?roster = p0 # ps" by (metis append_is_Nil_conv list.exhaust not_Cons_self2)
  have step: "play_party M workers pid mode p (roster, filled, ru) = (if ?filled = roster_target mode
      then (case play_roster M workers pid mode ?roster p ?ru of None \<Rightarrow> None | Some (Inl e) \<Rightarrow> Some (Inl e)
        | Some (Inr ru) \<Rightarrow> Some (Inr ([], 0, ru)))
      else Some (Inr (?roster, ?filled, ?ru)))"
    by (simp add: play_party_def Let_def)
  show ?thesis
  proof (cases "?filled = roster_target mode")
    case True
    consider "stopped M workers (play_roster M workers pid mode ?roster p ?ru)"
      | ru' where "play_roster M workers pid mode ?roster p ?ru = Some (Inr ru')" "fails_with r k ru'"
      using fails_play_roster [OF assms(1) ru, of M workers pid mode p0 ps p] unfolding roster by blast
    then show ?thesis
    proof cases
      case 1
      then show ?thesis unfolding step using True by (cases rule: stopped_cases) simp_all
    next
      case ru': 2
      have "play_party M workers pid mode p (roster, filled, ru) = Some (Inr ([], 0, ru'))"
        unfolding step using True ru'(1) by simp
      moreover have "0 mod roster_target mode = (filled + length (lp_players p)) mod roster_target mode"
        if "ru_failures ru' = n" using over [OF that ru'(2)] True by simp
      ultimately show ?thesis using weaken [OF ru'(2)] by blast
    qed
  next
    case False
    then have "play_party M workers pid mode p (roster, filled, ru) = Some (Inr (?roster, ?filled, ?ru))"
      unfolding step by simp
    moreover have "?filled mod roster_target mode = (filled + length (lp_players p)) mod roster_target mode"
      if "ru_failures ?ru = n" using over [OF that ru] by simp
    ultimately show ?thesis using weaken [OF ru] by blast
  qed
qed

lemma fails_play_parties:
  "idle r \<Longrightarrow> fails_with r n ru
    \<Longrightarrow> stopped M workers (play_parties M workers pid mode ps (roster, filled, ru))
      \<or> (\<exists>roster' filled' ru'. play_parties M workers pid mode ps (roster, filled, ru) = Some (Inr (roster', filled', ru'))
        \<and> fails_with r n ru'
        \<and> (ru_failures ru' = n \<longrightarrow> filled' mod roster_target mode = (filled + headcount ps) mod roster_target mode))"
proof (induction ps arbitrary: roster filled ru n)
  case (Cons p ps)
  consider "stopped M workers (play_party M workers pid mode p (roster, filled, ru))"
    | roster1 filled1 ru1 where "play_party M workers pid mode p (roster, filled, ru) = Some (Inr (roster1, filled1, ru1))"
      "fails_with r n ru1"
      "ru_failures ru1 = n \<longrightarrow> filled1 mod roster_target mode = (filled + length (lp_players p)) mod roster_target mode"
    using fails_play_party [OF Cons.prems] by metis
  then show ?case
  proof cases
    case 1
    then show ?thesis by (cases rule: stopped_cases) simp_all
  next
    case 1: 2
    then have now: "fails_with r (ru_failures ru1) ru1" "n \<le> ru_failures ru1" by (simp_all add: fails_with_def)
    consider "stopped M workers (play_parties M workers pid mode ps (roster1, filled1, ru1))"
      | roster2 filled2 ru2 where "play_parties M workers pid mode ps (roster1, filled1, ru1) = Some (Inr (roster2, filled2, ru2))"
        "fails_with r (ru_failures ru1) ru2"
        "ru_failures ru2 = ru_failures ru1 \<longrightarrow> filled2 mod roster_target mode = (filled1 + headcount ps) mod roster_target mode"
      using Cons.IH [OF Cons.prems(1) now(1)] by metis
    then show ?thesis
    proof cases
      case 2
      have "filled2 mod roster_target mode = (filled + headcount (p # ps)) mod roster_target mode" if "ru_failures ru2 = n"
      proof -
        have "ru_failures ru1 = n" using 2(2) now(2) that by (simp add: fails_with_def)
        with 1(3) 2(3) that show ?thesis by simp (metis mod_add_left_eq add.assoc)
      qed
      then show ?thesis using 1(1) 2(1,2) now(2) by (auto simp: fails_with_def)
    qed (use 1(1) in simp)
  qed
qed auto

lemma fails_play_mode:
  assumes "idle r" "fails_with r n ru"
  shows "stopped M workers (play_mode M workers pid parties mode ru)
    \<or> (\<exists>ru'. play_mode M workers pid parties mode ru = Some (Inr ru') \<and> fails_with r n ru'
      \<and> (ru_failures ru' = n \<longrightarrow> roster_target mode dvd headcount (of_mode mode parties)))"
proof -
  consider "stopped M workers (play_parties M workers pid mode (of_mode mode parties) ([], 0, ru))"
    | roster filled ru1 where "play_parties M workers pid mode (of_mode mode parties) ([], 0, ru) = Some (Inr (roster, filled, ru1))"
      "fails_with r n ru1"
      "ru_failures ru1 = n \<longrightarrow> filled mod roster_target mode = headcount (of_mode mode parties) mod roster_target mode"
    using fails_play_parties [OF assms, of M workers pid mode "of_mode mode parties" "[]" 0] by auto
  then show ?thesis
  proof cases
    case 1
    then show ?thesis by (cases rule: stopped_cases) (simp_all add: play_mode_def flip: of_mode_def)
  next
    case 2
    then show ?thesis
      by (cases "filled = 0")
        (auto simp: play_mode_def dvd_eq_mod_eq_0 fails_with_def note_mode_failure_def note_failure_def simp flip: of_mode_def)
  qed
qed

lemma fails_play_modes:
  "idle r \<Longrightarrow> fails_with r n ru
    \<Longrightarrow> stopped M workers (play_modes M workers pid parties modes ru)
      \<or> (\<exists>ru'. play_modes M workers pid parties modes ru = Some (Inr ru') \<and> fails_with r n ru'
        \<and> (ru_failures ru' = n \<longrightarrow> (\<forall>mode \<in> set modes. roster_target mode dvd headcount (of_mode mode parties))))"
proof (induction modes arbitrary: ru n)
  case (Cons mode modes)
  consider "stopped M workers (play_mode M workers pid parties mode ru)"
    | ru1 where "play_mode M workers pid parties mode ru = Some (Inr ru1)" "fails_with r n ru1"
      "ru_failures ru1 = n \<longrightarrow> roster_target mode dvd headcount (of_mode mode parties)"
    using fails_play_mode [OF Cons.prems] by metis
  then show ?case
  proof cases
    case 1
    then show ?thesis by (cases rule: stopped_cases) simp_all
  next
    case 1: 2
    then have now: "fails_with r (ru_failures ru1) ru1" "n \<le> ru_failures ru1" by (simp_all add: fails_with_def)
    consider "stopped M workers (play_modes M workers pid parties modes ru1)"
      | ru2 where "play_modes M workers pid parties modes ru1 = Some (Inr ru2)" "fails_with r (ru_failures ru1) ru2"
        "ru_failures ru2 = ru_failures ru1 \<longrightarrow> (\<forall>mode \<in> set modes. roster_target mode dvd headcount (of_mode mode parties))"
      using Cons.IH [OF Cons.prems(1) now(1)] by metis
    then show ?thesis
    proof cases
      case 2
      have "ru_failures ru1 = n" if "ru_failures ru2 = n" using 2(2) now(2) that by (simp add: fails_with_def)
      then show ?thesis using 1(1,3) 2 now(2) by (auto simp: fails_with_def)
    qed (use 1(1) in simp)
  qed
qed simp

lemma headcount_shuffle: "mset ps = mset qs \<Longrightarrow> headcount (of_mode mode ps) = headcount (of_mode mode qs)"
  by (simp add: headcount_def of_mode_def mset_filter flip: sum_mset_sum_list)

lemma run_start_fails: "fails_with r 0 (run_start sampler r)"
  by (simp add: run_start_def fails_with_def)

lemma finish_run_failures: "ru_failures (finish_run codec show_count config ru) = 0 \<Longrightarrow> ru_failures ru = 0"
  by (auto simp: finish_run_def Let_def note_failure_def split: if_splits)

end
