(* ===== verification/Load_Properties.thy ===== *)
theory Load_Properties
  imports Load_Runs
begin

text \<open>
  The properties of the load scenario: what is generated, that it survives the entity world
  unchanged, that every run ends with a report and leaves the fleet idle, and what its verdict and
  that of the launch checker mean.
\<close>

section \<open>Runs\<close>

definition all_modes :: "queue_mode list" where
  "all_modes = [OneVsOne, FiveVsFive, FreeForAll]"

lemma all_modes: "set all_modes = UNIV"
  unfolding all_modes_def using queue_mode.exhaust by auto

text \<open>Whatever parties are played, in whatever modes and order, the generated fleet registers without a
  panic and, unless the machine stops the run, every placement, transition and release succeeds, and
  afterwards the registry is the one the run started with: every match gave its capacity back.\<close>

lemma load_leaves_fleet_idle:
  "\<exists>r. runtime_registry codec (fleet seed) = Some r
    \<and> (stopped M workers (play_modes M workers pid parties modes (run_start sampler r))
      \<or> (\<exists>ru. play_modes M workers pid parties modes (run_start sampler r) = Some (Inr ru) \<and> ru_registry ru = r))"
proof -
  obtain r where r: "runtime_registry codec (fleet seed) = Some r" "idle r" using fleet_registers by metis
  then show ?thesis using fails_play_modes [OF r(2) run_start_fails, of M workers pid parties modes]
    by (auto simp: fails_with_def)
qed

text \<open>The ways a run ends: refused, stopped by the machine, or with a report.\<close>

definition machine_failed :: "load_machine \<Rightarrow> rstr \<Rightarrow> bool" where
  "machine_failed M e \<longleftrightarrow> ma_pid_error M = Some e
     \<or> e = lit ''current process missing from OS process table'' \<and> (\<exists>k. ma_memory M k = None)"

lemma run_load_cases:
  assumes "\<not> cf_players config < 20" "cf_workers config \<noteq> 0"
  obtains "run_load M codec show_count join pid config = None" "\<not> ma_pool M (max (cf_workers config) 1)"
  | e where "run_load M codec show_count join pid config = Some (LoadStopped (MemoryUnread e))" "machine_failed M e"
  | r ru where "fails_with r 0 ru"
    "ru_failures ru = 0 \<Longrightarrow> roster_target mode
      dvd headcount (of_mode mode (materialize_through_ecs join (generate_parties config)))"
    "run_load M codec show_count join pid config = Some
      (let ended = finish_run codec show_count config ru;
           report = report_of config (materialize_through_ecs join (generate_parties config)) (unmatched_players config ru) ended
       in if ru_failures ended = 0 then LoadPassed report else LoadFailed report)"
proof -
  let ?parties = "materialize_through_ecs join (generate_parties config)"
  obtain r where r: "runtime_registry codec (fleet (cf_seed config)) = Some r" "idle r"
    using fleet_registers by metis
  show thesis
  proof (cases "sampler_new M")
    case (Inl e)
    have "machine_failed M e"
      using Inl sampler_unread [of M _ e] unfolding sampler_new_def machine_failed_def by (auto split: option.splits)
    with Inl assms that(2) show thesis by (simp add: run_load_def)
  next
    case s0: (Inr s0)
    show thesis
    proof (cases "sampler_sample M s0")
      case (Inl e)
      with s0 assms that(2) sampler_unread [OF Inl] show thesis by (simp add: run_load_def machine_failed_def)
    next
      case s1: (Inr s1)
      let ?out = "play_modes M (cf_workers config) pid ?parties [OneVsOne, FiveVsFive, FreeForAll] (run_start s1 r)"
      consider "stopped M (cf_workers config) ?out"
        | ru where "?out = Some (Inr ru)" "fails_with r 0 ru"
          "ru_failures ru = 0 \<longrightarrow> roster_target mode dvd headcount (of_mode mode ?parties)"
        using fails_play_modes [OF r(2) run_start_fails, of M "cf_workers config" pid ?parties all_modes s1] all_modes
        unfolding all_modes_def by (metis UNIV_I)
      then show thesis
      proof cases
        case 1
        then show thesis
        proof (cases rule: stopped_cases)
          case 1
          with s0 s1 r(1) assms that(1) show thesis by (simp add: run_load_def Let_def del: play_modes.simps)
        next
          case (2 t)
          with s0 s1 r(1) assms that(2) show thesis
            by (simp add: run_load_def Let_def machine_failed_def del: play_modes.simps)
        qed
      next
        case ru: (2 ru)
        show thesis
        proof (cases "sampler_sample M (ru_sampler ru)")
          case (Inl e)
          with s0 s1 r(1) ru(1) assms that(2) sampler_unread [OF Inl] show thesis
            by (simp add: run_load_def Let_def machine_failed_def del: play_modes.simps)
        next
          case (Inr s2)
          show thesis
            by (rule that(3) [OF ru(2)])
              (use s0 s1 r(1) ru(1,3) assms Inr in \<open>simp_all add: run_load_def Let_def del: play_modes.simps\<close>)
        qed
      qed
    qed
  qed
qed

text \<open>C38: a scenario with too few players or no worker is refused, and every other one ends with a report,
  unless the machine fails: a run panics only if the thread pool for its workers does not start, and stops
  with an error only if the process id is unknown or a reading of its memory is missing, never at a
  placement error. A report that passes has no diagnostics and leaves no player unmatched; one that fails
  says why.\<close>

theorem load_run_reports:
  "case run_load M codec show_count join pid config of
     Some (LoadRefused _) \<Rightarrow> cf_players config < 20 \<or> cf_workers config = 0
   | Some (LoadPassed report) \<Rightarrow> lt_diagnostics report = [] \<and> lt_unmatched report = 0 \<and> lt_status report = lit ''PASS''
   | Some (LoadFailed report) \<Rightarrow> lt_diagnostics report \<noteq> [] \<and> lt_status report = lit ''FAIL''
   | Some (LoadStopped (MemoryUnread e)) \<Rightarrow> machine_failed M e
   | Some (LoadStopped (PlacementFailed _)) \<Rightarrow> False
   | None \<Rightarrow> \<not> ma_pool M (max (cf_workers config) 1)"
proof (cases "cf_players config < 20 \<or> cf_workers config = 0")
  case True
  then show ?thesis by (auto simp: run_load_def)
next
  case False
  then have valid: "\<not> cf_players config < 20" "cf_workers config \<noteq> 0" by simp_all
  show ?thesis
  proof (cases rule: run_load_cases [OF valid, where M = M and codec = codec and show_count = show_count and join = join and pid = pid and mode = OneVsOne])
    case (3 r ru)
    let ?ended = "finish_run codec show_count config ru"
    have "length (ru_diagnostics ?ended) = ru_failures ?ended"
      using 3(1) by (simp add: finish_run_def Let_def fails_with_def note_failure_def)
    moreover have "unmatched_players config ru = 0" if "ru_failures ?ended = 0"
      using that by (auto simp: finish_run_def Let_def note_failure_def split: if_splits)
    ultimately show ?thesis unfolding 3(3) by (auto simp: report_of_def Let_def)
  qed simp_all
qed


section \<open>Scenarios\<close>

text \<open>C39: a scenario has exactly the players it asks for, split 30 to 50 to 20 between the modes with the rest
  in the last; every party respects the size its mode allows, its rating lies between 800 and 2000 and its
  region is one of the three. Its parties can be cut into complete rosters exactly if every share is a
  multiple of the roster of its mode.\<close>

theorem generated_scenario:
  "headcount (of_mode OneVsOne (generate_parties config)) = cf_players config * 30 div 100
    \<and> headcount (of_mode FiveVsFive (generate_parties config)) = cf_players config * 50 div 100
    \<and> headcount (generate_parties config) = cf_players config
    \<and> list_all (\<lambda>p. party_fits (lp_mode p) (mode_limit (lp_mode p)) p) (generate_parties config)
    \<and> (grpc_rosters (generate_parties config) [OneVsOne, FiveVsFive, FreeForAll] \<noteq> None
      \<longleftrightarrow> list_all (\<lambda>mode. roster_target mode dvd mode_share config mode) [OneVsOne, FiveVsFive, FreeForAll])"
proof (intro conjI)
  let ?g = "generate_parties config"
  have fit: "headcount (of_mode mode ?g) = mode_share config mode" for mode
    using generated [of config] by (simp add: parties_fit_def)
  then show "headcount (of_mode OneVsOne ?g) = cf_players config * 30 div 100"
    "headcount (of_mode FiveVsFive ?g) = cf_players config * 50 div 100"
    by (simp_all add: mode_share_def)
  have split: "headcount ps = headcount (of_mode OneVsOne ps) + headcount (of_mode FiveVsFive ps)
      + headcount (of_mode FreeForAll ps)" for ps
  proof (induction ps)
    case (Cons p ps)
    then show ?case by (cases "lp_mode p") (simp_all add: of_mode_def)
  qed (simp add: of_mode_def)
  show "headcount ?g = cf_players config" unfolding split [of ?g] fit by (rule mode_shares)
  show "list_all (\<lambda>p. party_fits (lp_mode p) (mode_limit (lp_mode p)) p) ?g"
    using generated_member by (simp add: list_all_iff)
  have rest: "snd (take_rosters (roster_target mode) (of_mode mode ?g) [] 0) = 0
      \<longleftrightarrow> roster_target mode dvd mode_share config mode" for mode
    using generated [of config] by (simp add: dvd_eq_mod_eq_0)
  have "grpc_rosters ?g modes \<noteq> None \<longleftrightarrow> list_all (\<lambda>mode. roster_target mode dvd mode_share config mode) modes" for modes
  proof (induction modes)
    case (Cons mode modes)
    obtain gs left_over where "take_rosters (roster_target mode) (of_mode mode ?g) [] 0 = (gs, left_over)" by fastforce
    then show ?case using rest [of mode] Cons by (cases "left_over = 0") (simp_all add: Let_def flip: of_mode_def)
  qed simp
  then show "grpc_rosters ?g [OneVsOne, FiveVsFive, FreeForAll] \<noteq> None
      \<longleftrightarrow> list_all (\<lambda>mode. roster_target mode dvd mode_share config mode) [OneVsOne, FiveVsFive, FreeForAll]" .
qed

text \<open>C35: no two generated parties have the same id and no player is generated twice, in one party or in two:
  the generator of the identifiers does not repeat within \<open>2 ^ 64\<close> draws.\<close>

theorem generated_ids_distinct:
  assumes "cf_players config \<le> 2 ^ 61"
  shows "distinct (map lp_id (generate_parties config)) \<and> distinct (concat (map lp_players (generate_parties config)))"
  using assms by (rule generated_ids)

theorem generated_ids_distinct_witness:
  "distinct (map lp_id (generate_parties (default_scenario 8)))
    \<and> distinct (concat (map lp_players (generate_parties (default_scenario 8))))"
  by (rule generated_ids_distinct) (simp add: default_scenario_def)

text \<open>C36: reading the generated parties back from the entity world gives exactly the generated parties, with
  their members, ratings and regions, whatever the order in which the storages are joined.\<close>

theorem ecs_copy_faithful:
  assumes "cf_players config \<le> 2 ^ 61"
    and "mset (join (load_world (generate_parties config))) = mset (load_world (generate_parties config))"
  shows "mset (materialize_through_ecs join (generate_parties config)) = mset (generate_parties config)"
proof (rule materialize_mset)
  show "\<forall>p \<in> set (generate_parties config). lp_players p \<noteq> []"
    using generated_member by (fastforce simp: party_fits_def)
qed (use generated_ids [OF assms(1)] assms(2) in simp_all)

theorem ecs_copy_faithful_witness:
  "mset (materialize_through_ecs rev (generate_parties (default_scenario 8))) = mset (generate_parties (default_scenario 8))"
  by (rule ecs_copy_faithful) (simp_all add: default_scenario_def)

text \<open>C40: a scenario whose shares are not multiples of the rosters cannot pass: the players left over are
  always reported. A scenario of 20 players is accepted and fails, since 4 of them are left over.\<close>

theorem indivisible_load_fails:
  assumes "cf_players config \<le> 2 ^ 61"
    and "mset (join (load_world (generate_parties config))) = mset (load_world (generate_parties config))"
    and "\<not> roster_target mode dvd mode_share config mode"
  shows "run_load M codec show_count join pid config \<noteq> Some (LoadPassed report)"
proof
  assume passed: "run_load M codec show_count join pid config = Some (LoadPassed report)"
  then have valid: "\<not> cf_players config < 20" "cf_workers config \<noteq> 0"
    by (auto simp: run_load_def split: if_splits)
  have same: "mset (materialize_through_ecs join (generate_parties config)) = mset (generate_parties config)"
    by (rule materialize_mset)
      (use generated_ids [OF assms(1)] assms(2) generated_member in \<open>fastforce simp: party_fits_def\<close>)+
  have share: "headcount (of_mode mode (materialize_through_ecs join (generate_parties config))) = mode_share config mode"
    using headcount_shuffle [OF same] generated [of config] by (simp add: parties_fit_def)
  show False
  proof (cases rule: run_load_cases [OF valid, where M = M and codec = codec and show_count = show_count and join = join and pid = pid and mode = mode])
    case (3 r ru)
    have "ru_failures (finish_run codec show_count config ru) = 0"
      using passed 3(3) by (auto simp: Let_def split: if_splits)
    then have "ru_failures ru = 0" by (rule finish_run_failures)
    with 3(2) assms(3) share show False by simp
  qed (use passed in simp_all)
qed

theorem indivisible_load_fails_witness:
  "\<forall>M report. run_load M simple_codec (\<lambda>_. []) rev (UuidId 0) \<lparr>cf_players = 20, cf_seed = 7, cf_workers = 1\<rparr>
    \<noteq> Some (LoadPassed report)"
  by (intro allI, rule indivisible_load_fails [where mode = FreeForAll]) (simp_all add: roster_target_def mode_share_def)

section \<open>The launch checker\<close>

lemma sort_eq_iff: "sort xs = sort ys \<longleftrightarrow> mset xs = mset ys"
  by (metis mset_sort properties_for_sort sorted_sort)

text \<open>The checker of the gRPC scenario accepts a launch exactly if it has the mode and the teams of its
  mode, the players of the parties and nobody else, and in five against five no party is split and the two
  teams are made of parties of the same sizes.\<close>

lemma launch_accepted_iff:
  "validate_grpc_launch show_count mode l parties = Inr () \<longleftrightarrow>
     lm_mode l = pb_mode mode
   \<and> map (\<lambda>t. length (tm_player_ids t)) (lm_teams l) = launch_shape mode
   \<and> mset (concat (map tm_player_ids (lm_teams l))) = mset (concat parties)
   \<and> (if mode = FiveVsFive then \<exists>a b. lm_teams l = [a, b]
        \<and> list_all (\<lambda>party. set party \<subseteq> set (tm_player_ids a) \<or> set party \<subseteq> set (tm_player_ids b)) parties
        \<and> mset (map length (filter (\<lambda>party. set party \<subseteq> set (tm_player_ids a)) parties))
          = mset (map length (filter (\<lambda>party. set party \<subseteq> set (tm_player_ids b)) parties))
      else True)"
proof -
  have team: "in_team t party \<longleftrightarrow> set party \<subseteq> set (tm_player_ids t)" for t party
    by (auto simp: in_team_def list_all_iff)
  have sizes: "team_structure parties a = team_structure parties b \<longleftrightarrow>
      mset (map length (filter (in_team a) parties)) = mset (map length (filter (in_team b) parties))" for a b
    unfolding team_structure_def by (rule sort_eq_iff)
  show ?thesis
  proof (cases "mode = FiveVsFive \<and> map (\<lambda>t. length (tm_player_ids t)) (lm_teams l) = launch_shape mode")
    case True
    then obtain a b where teams: "lm_teams l = [a, b]"
      by (auto simp: launch_shape_def map_eq_Cons_conv)
    have "list_ex (\<lambda>party. \<not> list_ex (\<lambda>t. in_team t party) (lm_teams l)) parties
        \<longleftrightarrow> \<not> list_all (\<lambda>party. in_team a party \<or> in_team b party) parties"
      by (auto simp: teams list_ex_iff list_all_iff)
    then show ?thesis using True
      by (simp add: validate_grpc_launch_def Let_def comp_def sort_eq_iff teams sizes flip: team)
  next
    case False
    then show ?thesis by (auto simp: validate_grpc_launch_def Let_def comp_def sort_eq_iff)
  qed
qed

end
