(* ===== verification/Launch_Properties.thy ===== *)
theory Launch_Properties
  imports Load_Properties Samples
begin

text \<open>
  From the matcher to the launch: what the authority sends for a candidate passes the checker of the
  load scenario, the mirror rule of five against five included.
\<close>

section \<open>Where a candidate was built\<close>


section \<open>The structure of a team\<close>




section \<open>The launch\<close>










end
