(* ===== verification/Ready_Properties.thy ===== *)
theory Ready_Properties
  imports Authority_Effects Samples
begin

text \<open>
  The report of a game server that a launch is ready: whom the authority tells, what it records, and
  that a repeated report tells nobody again.
\<close>

section \<open>Who is told\<close>

definition is_match_event :: "client_event \<Rightarrow> bool" where
  "is_match_event e \<longleftrightarrow> (case ev_event e of Some (EvMatched _) \<Rightarrow> True | _ \<Rightarrow> False)"

text \<open>The announcements of a match among the events that were sent.\<close>

definition match_events :: "authority \<Rightarrow> (player_id \<times> client_event) list" where
  "match_events st = filter (\<lambda>(_, e). is_match_event e) (au_outbox st)"

definition match_event :: "platform \<Rightarrow> match_id \<Rightarrow> proposal \<Rightarrow> launch_result_msg \<Rightarrow> client_event" where
  "match_event E m q result = \<lparr>ev_event = Some (EvMatched \<lparr>me_match_id = id_to_string (pf_uuid E) m,
     me_mode = pb_mode (proposal_mode q), me_teams = wire_teams E (pr_teams q), me_endpoint = lr_endpoint result,
     me_connection_token = lr_connection_token result\<rparr>), ev_deadline_ms = 0\<rparr>"

text \<open>What the announcements of a match depend on and change.\<close>

definition told_of :: "authority \<Rightarrow> (player_id, match_id) bmap \<times> player_id set \<times> (player_id \<times> client_event) list" where
  "told_of st = (au_player_match st, au_events st, match_events st)"

lemma told_ofD: "told_of s = told_of t \<Longrightarrow> au_player_match s = au_player_match t \<and> au_events s = au_events t
    \<and> match_events s = match_events t"
  by (simp add: told_of_def)

lemma told_of_update [simp]: "told_of (on_metrics f st) = told_of st" "told_of (st\<lparr>au_launch_deadlines := a\<rparr>) = told_of st"
  "told_of (st\<lparr>au_parties := b\<rparr>) = told_of st" "told_of (put_instance sid m i st) = told_of st"
  by (simp_all add: told_of_def match_events_def on_metrics_def put_instance_def with_registry_def)

lemma told_of_emit [simp]: "told_of (emit_party E p st) = told_of st"
proof -
  have "told_of (send_event i \<lparr>ev_event = Some (EvParty v), ev_deadline_ms = 0\<rparr> s) = told_of s" for i v s
    by (simp add: told_of_def match_events_def send_event_def is_match_event_def)
  then show ?thesis by (simp add: emit_party_def Let_def fold_frame [where f = told_of])
qed

lemma told_of_mark [simp]: "told_of (snd (mark_matched is out st)) = told_of st"
proof (induction "is" out st rule: mark_matched.induct)
  case (2 i "is" out st)
  then show ?case by (cases "bm_get (au_parties st) i") (simp_all add: Let_def)
qed simp

lemma match_event_is [simp]: "is_match_event (match_event E m q result)"
  by (simp add: is_match_event_def match_event_def)

text \<open>The loop that tells the players.\<close>

lemma tell_players:
  fixes E :: platform and m :: match_id and q :: proposal and result :: launch_result_msg and s :: authority
  defines "tell \<equiv> \<lambda>p st. send_event_noted E p (match_event E m q result)
     (st\<lparr>au_player_match := bm_insert p m (au_player_match st), au_player_proposal := bm_remove p (au_player_proposal st)\<rparr>)"
  shows "match_events (fold tell ps s)
      = match_events s @ map (\<lambda>p. (p, match_event E m q result)) (filter (\<lambda>p. p \<in> au_events s) ps)"
    and "au_events (fold tell ps s) = au_events s"
    and "bm_get (au_player_match (fold tell ps s)) p = (if p \<in> set ps then Some m else bm_get (au_player_match s) p)"
    and "core_of (fold tell ps s) = core_of s"
proof -
  have one: "match_events (tell p s) = match_events s @ (if p \<in> au_events s then [(p, match_event E m q result)] else [])"
    "au_events (tell p s) = au_events s" "bm_get (au_player_match (tell p s)) r = (if r = p then Some m else bm_get (au_player_match s) r)"
    "core_of (tell p s) = core_of s" for p r s
    by (simp_all add: tell_def match_events_def send_event_noted_def send_event_def on_metrics_def core_of_def)
  show "match_events (fold tell ps s)
      = match_events s @ map (\<lambda>p. (p, match_event E m q result)) (filter (\<lambda>p. p \<in> au_events s) ps)"
    by (induction ps arbitrary: s) (simp_all add: one)
  show "au_events (fold tell ps s) = au_events s" by (induction ps arbitrary: s) (simp_all add: one)
  show "bm_get (au_player_match (fold tell ps s)) p = (if p \<in> set ps then Some m else bm_get (au_player_match s) p)"
    by (induction ps arbitrary: s) (simp_all add: one)
  show "core_of (fold tell ps s) = core_of s" by (induction ps arbitrary: s) (simp_all add: one)
qed

section \<open>A match that becomes connectable\<close>

lemma publish_match_tells:
  fixes E :: platform and sid :: server_id and m :: match_id and pid :: proposal_id and q :: proposal and i :: inst
    and result :: launch_result_msg and st :: authority
  defines "st' \<equiv> publish_match E sid m pid q i result st"
  shows "match_events st' = match_events st
      @ map (\<lambda>p. (p, match_event E m q result)) (filter (\<lambda>p. p \<in> au_events st) (bm_keys (pr_responses q)))"
    and "p \<in> set (bm_keys (pr_responses q)) \<Longrightarrow> bm_get (au_player_match st') p = Some m"
    and "bm_get (au_launch_deadlines st') m = None"
    and "au_registry st' = bm_update sid (\<lambda>s. s\<lparr>gs_instances := bm_insert m (i\<lparr>in_endpoint := Some (lr_endpoint result),
      in_connection_token := Some (lr_connection_token result), in_state := InRunning\<rparr>) (gs_instances s)\<rparr>)
      (au_registry st)"
proof -
  let ?tell = "\<lambda>p st. send_event_noted E p (match_event E m q result)
     (st\<lparr>au_player_match := bm_insert p m (au_player_match st), au_player_proposal := bm_remove p (au_player_proposal st)\<rparr>)"
  define s0 where "s0 = (case bm_get (au_launch_deadlines st) m of None \<Rightarrow> st
      | Some deadline \<Rightarrow> on_metrics (\<lambda>mt. mt\<lparr>mt_launch_us := hist_observe (sat_mul (sat_sub (pf_now E)
          (sat_sub deadline (ec_placement_timeout_seconds (au_config st) * 1000))) 1000) (mt_launch_us mt)\<rparr>)
          (st\<lparr>au_launch_deadlines := bm_remove m (au_launch_deadlines st)\<rparr>))"
  let ?i = "i\<lparr>in_endpoint := Some (lr_endpoint result), in_connection_token := Some (lr_connection_token result), in_state := InRunning\<rparr>"
  let ?s1 = "fold ?tell (bm_keys (pr_responses q)) s0"
  let ?s2 = "put_instance sid m ?i ?s1"
  let ?marked = "mark_matched (map fst (unwrap_or [] (bm_get (au_proposal_tickets ?s2) pid))) [] ?s2"
  have st': "st' = fold (emit_party E) (fst ?marked) (snd ?marked)"
    unfolding st'_def publish_match_def Let_def s0_def match_event_def case_prod_unfold by (rule refl)
  have s0: "told_of s0 = told_of st" "bm_get (au_launch_deadlines s0) m = None" "au_registry s0 = au_registry st"
    by (auto simp: s0_def on_metrics_def told_of_def match_events_def split: option.split)
  have told: "told_of st' = told_of ?s1" by (simp add: st' fold_frame [where f = told_of])
  have core: "core_of st' = core_of ?s2" by (simp add: st' fold_frame [where f = core_of] mark_matched_core)
  note s1 = tell_players [where E = E and m = m and q = q and result = result and ps = "bm_keys (pr_responses q)" and s = s0]
  show "match_events st' = match_events st
      @ map (\<lambda>p. (p, match_event E m q result)) (filter (\<lambda>p. p \<in> au_events st) (bm_keys (pr_responses q)))"
    using told_ofD [OF told] s1(1) told_ofD [OF s0(1)] by simp
  show "p \<in> set (bm_keys (pr_responses q)) \<Longrightarrow> bm_get (au_player_match st') p = Some m"
    using told_ofD [OF told] s1(3) [of p] by simp
  show "bm_get (au_launch_deadlines st') m = None"
    using core_eqD(6) [OF core] core_eqD(6) [OF s1(4)] s0(2) by (simp add: put_instance_def with_registry_def)
  show "au_registry st' = bm_update sid (\<lambda>s. s\<lparr>gs_instances := bm_insert m ?i (gs_instances s)\<rparr>) (au_registry st)"
    using core_eqD(3) [OF core] core_eqD(3) [OF s1(4)] s0(3) by (simp add: put_instance_def with_registry_def)
qed

lemma ready_not_accepted: "eq_ignore_ascii_case x (lit ''ready'') \<Longrightarrow> \<not> eq_ignore_ascii_case x (lit ''accepted'')"
  by (simp add: eq_ignore_ascii_case_def) (simp add: to_ascii_lowercase_def lit_def)

text \<open>C11: When the server of a launch reports that it is ready, every player of the proposal is in the match, the
  instance runs with the reported endpoint and token and the launch no longer waits. Each player who listens is
  told the match with its teams, endpoint and token exactly once: a report for a match that was already announced
  to all tells nobody.\<close>

theorem ready_launch_is_announced:
  assumes "launch_result E sid result st = Some (Inr (), st')" and "eq_ignore_ascii_case (lr_state result) (lit ''ready'')"
    and "id_from_str (pf_uuid E) ''MatchId'' (lr_match_id result) = Inr m"
    and "bm_get (au_launches st) m = Some (owner, pid)" and "bm_get (au_proposals st) pid = Some q"
  shows "owner = sid \<and> published st' q m \<and> bm_get (au_launch_deadlines st') m = None
    \<and> (\<exists>s i. bm_get (au_registry st') sid = Some s \<and> bm_get (gs_instances s) m = Some i \<and> in_state i = InRunning
        \<and> in_endpoint i = Some (lr_endpoint result) \<and> in_connection_token i = Some (lr_connection_token result))
    \<and> match_events st' = match_events st @ (if published st q m then []
        else map (\<lambda>p. (p, match_event E m q result)) (filter (\<lambda>p. p \<in> au_events st) (bm_keys (pr_responses q))))"
proof -
  have owner: "owner = sid" using assms(1,3,4) by (auto simp: launch_result_def split: if_splits)
  have "\<exists>s i. bm_get (au_registry st) sid = Some s \<and> bm_get (gs_instances s) m = Some i"
  proof (rule ccontr)
    assume none: "\<not> ?thesis"
    show False using assms(1)
    proof (cases "bm_get (au_registry st) sid")
      case (Some s)
      with none have "bm_get (gs_instances s) m = None" by (cases "bm_get (gs_instances s) m") auto
      with Some show False using assms(1,3-5) owner by (simp add: launch_result_def)
    qed (use assms(3-5) owner in \<open>simp add: launch_result_def\<close>)
  qed
  then obtain s i where si: "bm_get (au_registry st) sid = Some s" "bm_get (gs_instances s) m = Some i" by blast
  let ?i = "i\<lparr>in_state := InRunning, in_endpoint := Some (lr_endpoint result), in_connection_token := Some (lr_connection_token result)\<rparr>"
  have "launch_result E sid result st =
     (if blank (lr_endpoint result) \<or> blank (lr_connection_token result)
      then Some (Inl (invalid_argument ''ready launch requires endpoint and connection_token''), st)
      else if \<not> (in_state i = InAccepted \<or> in_state i = InReady \<or> in_state i = InRunning)
      then Some (Inl (failed_precondition ''launch readiness requires an accepted instance''), st)
      else if published st q m
      then Some (Inr (), (put_instance sid m ?i st)\<lparr>au_launch_deadlines := bm_remove m (au_launch_deadlines st)\<rparr>)
      else Some (Inr (), publish_match E sid m pid q i result st))"
    unfolding launch_result_def using assms(2-5) owner si ready_not_accepted [OF assms(2)]
    by (simp only: sum.case option.case prod.case if_True if_False simp_thms)
  then have st': "st' = (if published st q m then (put_instance sid m ?i st)\<lparr>au_launch_deadlines := bm_remove m (au_launch_deadlines st)\<rparr>
      else publish_match E sid m pid q i result st)"
    using assms(1) by (simp split: if_splits)
  show ?thesis
  proof (cases "published st q m")
    case True
    then have "told_of st' = told_of st" using st' by simp
    note same = told_ofD [OF this]
    have "published st' q m" using same True unfolding published_def by simp
    moreover have "match_events st' = match_events st" using same by blast
    moreover have "au_registry st' = bm_update sid (\<lambda>s. s\<lparr>gs_instances := bm_insert m ?i (gs_instances s)\<rparr>) (au_registry st)"
      "bm_get (au_launch_deadlines st') m = None"
      using st' True by (simp_all add: put_instance_def with_registry_def)
    ultimately show ?thesis using True owner si by simp
  next
    case False
    then have "st' = publish_match E sid m pid q i result st" using st' by simp
    note told = publish_match_tells [where E = E and sid = sid and m = m and pid = pid and q = q and i = i and result = result and st = st,
        folded this]
    have "published st' q m" using told(2) by (simp add: published_def list_all_iff)
    then show ?thesis using False owner si told(1,3,4) by simp
  qed
qed

text \<open>The two players of a launch that its server accepted; one of them listens.\<close>

definition connecting :: authority where
  "connecting = playing\<lparr>au_events := {UuidId 21}\<rparr>"

definition ready_report :: launch_result_msg where
  "ready_report = \<lparr>lr_match_id = id_to_string byte_codec (UuidId 5 :: match_id), lr_state = lit ''Ready'', lr_endpoint = lit ''h:1'',
     lr_connection_token = lit ''k'', lr_reason = []\<rparr>"

lemma report_match: "id_from_str byte_codec ''MatchId'' (lr_match_id ready_report) = Inr (UuidId 5 :: match_id)"
  by code_simp

lemma not_announced: "\<not> published connecting duel_proposal (UuidId 5)"
  by code_simp

lemma duel_players: "bm_keys (pr_responses duel_proposal) = [UuidId 21, UuidId 22]"
  by code_simp

lemma report_ready: "eq_ignore_ascii_case (lr_state ready_report) (lit ''ready'')"
    "\<not> blank (lr_endpoint ready_report)" "\<not> blank (lr_connection_token ready_report)"
  by (simp_all add: eq_ignore_ascii_case_def to_ascii_lowercase_def ascii_lower_def ready_report_def lit_def blank_iff is_whitespace_def)

lemma connecting_launch: "bm_get (au_launches connecting) (UuidId 5) = Some (UuidId 40, UuidId 7)"
    "bm_get (au_proposals connecting) (UuidId 7) = Some duel_proposal" "au_events connecting = {UuidId 21}"
    "\<exists>s i. bm_get (au_registry connecting) (UuidId 40) = Some s \<and> bm_get (gs_instances s) (UuidId 5) = Some i \<and> in_state i = InRunning"
  by (simp_all add: connecting_def playing_def placing_def)

lemma report_taken: "\<exists>st'. launch_result site (UuidId 40) ready_report connecting = Some (Inr (), st')"
proof -
  obtain s i where si: "bm_get (au_registry connecting) (UuidId 40) = Some s" "bm_get (gs_instances s) (UuidId 5) = Some i"
    "in_state i = InRunning" using connecting_launch(4) by blast
  have "pf_uuid site = byte_codec" by (simp add: site_def)
  then show ?thesis
    unfolding launch_result_def using report_match connecting_launch(1,2) si ready_not_accepted [OF report_ready(1)] report_ready not_announced
    by simp
qed

theorem ready_launch_is_announced_witness:
  "\<exists>st'. launch_result site (UuidId 40) ready_report connecting = Some (Inr (), st')
    \<and> published st' duel_proposal (UuidId 5)
    \<and> match_events st' = match_events connecting @ [(UuidId 21, match_event site (UuidId 5) duel_proposal ready_report)]"
proof -
  obtain st' where st': "launch_result site (UuidId 40) ready_report connecting = Some (Inr (), st')"
    using report_taken by blast
  have "id_from_str (pf_uuid site) ''MatchId'' (lr_match_id ready_report) = Inr (UuidId 5 :: match_id)"
    using report_match by (simp add: site_def)
  then show ?thesis
    using ready_launch_is_announced [OF st' report_ready(1) _ connecting_launch(1,2)] st' not_announced duel_players connecting_launch(3)
    by simp
qed

end
