(* ===== verification/Startup.thy ===== *)
theory Startup
  imports Authority_Servers
begin

text \<open>
  From the command line to a serving process: \<open>ErpsConfig::load\<close> (\<open>core/src/config.rs\<close>), the token
  maps and the three \<open>serve\<close> functions of \<open>core/src/grpc/mod.rs\<close>, and \<open>core/src/bin/erps-server.rs\<close>. The
  machine around the process (files, environment variables) and the third-party decoders (TOML,
  JSON, addresses, TLS identities) are the record \<open>host\<close>; a decoder fails with the text of its error.
  A server that starts is a value; what it then does is the authority.
\<close>

section \<open>The machine\<close>

datatype ip_addr = IpV4 u8 u8 u8 u8 | IpV6 u128

record socket_addr =
  so_ip :: ip_addr
  so_port :: u16

definition is_loopback :: "ip_addr \<Rightarrow> bool" where
  "is_loopback ip = (case ip of IpV4 a b c d \<Rightarrow> a = 127 | IpV6 v \<Rightarrow> v = 1)"

record host =
  ho_var :: "rstr \<Rightarrow> rstr option"
  ho_read_text :: "rstr \<Rightarrow> rstr + rstr"
  ho_read_bytes :: "rstr \<Rightarrow> rstr + nat list"
  ho_parse_toml :: "rstr \<Rightarrow> rstr + erps_config"
  ho_parse_json :: "nat list \<Rightarrow> rstr + (rstr, rstr) bmap"
  ho_parse_addr :: "rstr \<Rightarrow> rstr + socket_addr"
  ho_tls_identity :: "nat list \<Rightarrow> nat list \<Rightarrow> rstr + unit"

section \<open>Configuration and token maps\<close>

definition config_load :: "host \<Rightarrow> rstr \<Rightarrow> config_error + erps_config" where
  "config_load h path = (case ho_read_text h path of Inl e \<Rightarrow> Inl (ConfigRead e)
    | Inr content \<Rightarrow> (case ho_parse_toml h content of Inl e \<Rightarrow> Inl (ConfigParse e)
      | Inr config \<Rightarrow> (case validate config of Inl e \<Rightarrow> Inl e | Inr _ \<Rightarrow> Inr config)))"

datatype start_error = StartConfig config_error | StartIo rstr | StartJson rstr | StartId parse_id_error
  | StartAddress rstr | StartTls rstr | StartTransport rstr | StartRefused string

text \<open>\<open>collect::<Result<_, _>>\<close> over the map in the order of its keys: the first bad identifier is the error.\<close>

fun parse_identities :: "uuid_codec \<Rightarrow> string \<Rightarrow> (rstr \<times> rstr) list \<Rightarrow> parse_id_error + (rstr \<times> 'k uuid_id) list" where
  "parse_identities codec kind [] = Inr []"
| "parse_identities codec kind ((token, text) # rest) = (case id_from_str codec kind text of Inl e \<Rightarrow> Inl e
    | Inr i \<Rightarrow> (case parse_identities codec kind rest of Inl e \<Rightarrow> Inl e | Inr is \<Rightarrow> Inr ((token, i) # is)))"

definition token_map_from_file :: "host \<Rightarrow> uuid_codec \<Rightarrow> string \<Rightarrow> rstr \<Rightarrow> start_error + (rstr, 'k uuid_id) bmap" where
  "token_map_from_file h codec kind path = (case ho_read_bytes h path of Inl e \<Rightarrow> Inl (StartIo e)
    | Inr bytes \<Rightarrow> (case ho_parse_json h bytes of Inl e \<Rightarrow> Inl (StartJson e)
      | Inr encoded \<Rightarrow> (case parse_identities codec kind (entries encoded) of Inl e \<Rightarrow> Inl (StartId e)
        | Inr is \<Rightarrow> Inr (bm_of_list is))))"

section \<open>Services\<close>

type_synonym token_validator = "rstr \<Rightarrow> status + player_id"
type_synonym server_token_validator = "rstr \<Rightarrow> server_id \<Rightarrow> status + unit"

record matchmaking_grpc =
  mg_core :: core_handle
  mg_validator :: token_validator

record game_server_grpc =
  gg_core :: core_handle
  gg_validator :: server_token_validator

record admin_grpc =
  ag_core :: core_handle

definition matchmaking_grpc_new :: "core_handle \<Rightarrow> matchmaking_grpc" where
  "matchmaking_grpc_new core = \<lparr>mg_core = core, mg_validator = development_validate\<rparr>"

definition matchmaking_with_validator :: "core_handle \<Rightarrow> token_validator \<Rightarrow> matchmaking_grpc" where
  "matchmaking_with_validator core validator = \<lparr>mg_core = core, mg_validator = validator\<rparr>"

definition game_server_grpc_new :: "core_handle \<Rightarrow> game_server_grpc" where
  "game_server_grpc_new core = \<lparr>gg_core = core, gg_validator = development_validate_server\<rparr>"

definition game_server_with_validator :: "core_handle \<Rightarrow> server_token_validator \<Rightarrow> game_server_grpc" where
  "game_server_with_validator core validator = \<lparr>gg_core = core, gg_validator = validator\<rparr>"

definition admin_grpc_new :: "core_handle \<Rightarrow> admin_grpc" where
  "admin_grpc_new core = \<lparr>ag_core = core\<rparr>"

text \<open>
  The stream of events of a client: an overrun of the broadcast channel becomes an error of the
  stream; a stream that is dropped reports the player as disconnected.
\<close>

datatype 'a poll = Ready 'a | Waiting

definition poll_next :: "(unit + client_event) option poll \<Rightarrow> (status + client_event) option poll" where
  "poll_next p = (case p of
      Ready (Some (Inr event)) \<Rightarrow> Ready (Some (Inr event))
    | Ready (Some (Inl _)) \<Rightarrow> Ready (Some (Inl (resource_exhausted
        ''event consumer fell behind; call GetState before reconnecting'')))
    | Ready None \<Rightarrow> Ready None
    | Waiting \<Rightarrow> Waiting)"

definition drop_events :: "platform \<Rightarrow> player_id \<Rightarrow> rstr \<Rightarrow> authority \<Rightarrow> authority" where
  "drop_events E p token = disconnected E p token"

definition accept_match :: "platform \<Rightarrow> mutation_meta option \<Rightarrow> rstr \<Rightarrow> authority \<Rightarrow> operation_result outcome" where
  "accept_match E m i = proposal_response E m i True"

definition reject_match :: "platform \<Rightarrow> mutation_meta option \<Rightarrow> rstr \<Rightarrow> authority \<Rightarrow> operation_result outcome" where
  "reject_match E m i = proposal_response E m i False"

section \<open>Serving\<close>

text \<open>What the health service reports of the three services.\<close>

record health_board =
  hb_matchmaking :: bool
  hb_game_server :: bool
  hb_admin :: bool

record server_start =
  up_addr :: socket_addr
  up_tls :: "(nat list \<times> nat list) option"
  up_matchmaking :: matchmaking_grpc
  up_games :: game_server_grpc
  up_admin :: admin_grpc
  up_health :: health_board
  up_config :: erps_config
  up_grace :: u64

definition tls_pair :: "erps_config \<Rightarrow> (rstr \<times> rstr) option" where
  "tls_pair config = (case (ec_tls_certificate_path config, ec_tls_private_key_path config) of
     (Some certificate, Some key) \<Rightarrow> Some (certificate, key) | _ \<Rightarrow> None)"

definition plaintext_allowed :: "socket_addr \<Rightarrow> erps_config \<Rightarrow> bool" where
  "plaintext_allowed addr config \<longleftrightarrow> is_loopback (so_ip addr) \<and> ec_allow_development_plaintext config"

definition read_tls :: "host \<Rightarrow> (rstr \<times> rstr) option \<Rightarrow> start_error + (nat list \<times> nat list) option" where
  "read_tls h pair = (case pair of None \<Rightarrow> Inr None
    | Some (certificate, key) \<Rightarrow> (case ho_read_bytes h certificate of Inl e \<Rightarrow> Inl (StartIo e)
      | Inr c \<Rightarrow> (case ho_read_bytes h key of Inl e \<Rightarrow> Inl (StartIo e)
        | Inr k \<Rightarrow> (case ho_tls_identity h c k of Inl e \<Rightarrow> Inl (StartTls e) | Inr _ \<Rightarrow> Inr (Some (c, k))))))"

definition serve_with_validators :: "host \<Rightarrow> socket_addr \<Rightarrow> erps_config \<Rightarrow> token_validator \<Rightarrow> server_token_validator
    \<Rightarrow> start_error + server_start" where
  "serve_with_validators h addr config validator server_validator =
    (case validate config of Inl e \<Rightarrow> Inl (StartConfig e)
     | Inr _ \<Rightarrow>
       if tls_pair config = None \<and> \<not> plaintext_allowed addr config
       then Inl (StartRefused ''plaintext ERPS is only allowed on loopback with allow_development_plaintext=true'')
       else let core = core_new config in
         (case read_tls h (tls_pair config) of Inl e \<Rightarrow> Inl e
          | Inr tls \<Rightarrow> Inr \<lparr>up_addr = addr, up_tls = tls,
              up_matchmaking = matchmaking_with_validator core validator,
              up_games = game_server_with_validator core server_validator,
              up_admin = admin_grpc_new core,
              up_health = \<lparr>hb_matchmaking = (\<not> ec_drain_mode config), hb_game_server = True, hb_admin = True\<rparr>,
              up_config = config, up_grace = ec_graceful_shutdown_seconds config\<rparr>))"

definition serve_with_validator :: "host \<Rightarrow> socket_addr \<Rightarrow> erps_config \<Rightarrow> token_validator \<Rightarrow> start_error + server_start" where
  "serve_with_validator h addr config validator =
    (if ec_tls_certificate_path config \<noteq> None
     then Inl (StartRefused ''production TLS requires serve_with_validators and trusted client/server validators'')
     else serve_with_validators h addr config validator development_validate_server)"

definition serve :: "host \<Rightarrow> socket_addr \<Rightarrow> erps_config \<Rightarrow> start_error + server_start" where
  "serve h addr config =
    (if ec_tls_certificate_path config \<noteq> None
     then Inl (StartRefused ''production TLS requires serve_with_validator and a trusted identity validator'')
     else serve_with_validator h addr config development_validate)"

text \<open>
  The end of a server: at the signal the authority drains and matchmaking reports that it does not
  serve; then the requests in flight have the time of grace. The race of the server, which has
  finished with a result or not, against that time is the argument \<open>finished\<close>.
\<close>

definition shutdown_signal :: "server_start \<Rightarrow> authority \<Rightarrow> server_start \<times> authority" where
  "shutdown_signal up st = (up\<lparr>up_health := (up_health up)\<lparr>hb_matchmaking := False\<rparr>\<rparr>, begin_drain st)"

definition serve_end :: "(rstr + unit) option \<Rightarrow> start_error + unit" where
  "serve_end finished = (case finished of
      Some (Inl e) \<Rightarrow> Inl (StartTransport e)
    | Some (Inr _) \<Rightarrow> Inr ()
    | None \<Rightarrow> Inl (StartRefused ''bounded graceful shutdown deadline exceeded''))"

section \<open>The program\<close>

datatype main_outcome = MainHelp | MainRefused start_error | MainServing server_start

definition started :: "start_error + server_start \<Rightarrow> main_outcome" where
  "started r = (case r of Inl e \<Rightarrow> MainRefused e | Inr up \<Rightarrow> MainServing up)"

definition main_config :: "host \<Rightarrow> rstr list \<Rightarrow> config_error + erps_config" where
  "main_config h args = (case (case args of [] \<Rightarrow> Inr default_config | path # _ \<Rightarrow> config_load h path) of
      Inl e \<Rightarrow> Inl e
    | Inr config \<Rightarrow> (case validate config of Inl e \<Rightarrow> Inl e | Inr _ \<Rightarrow> Inr config))"

definition main_with_maps :: "host \<Rightarrow> uuid_codec \<Rightarrow> socket_addr \<Rightarrow> erps_config \<Rightarrow> rstr \<Rightarrow> rstr
    \<Rightarrow> start_error + server_start" where
  "main_with_maps h codec addr config path server_path =
    (case token_map_from_file h codec ''PlayerId'' path of Inl e \<Rightarrow> Inl e
     | Inr players \<Rightarrow> (case token_map_from_file h codec ''ServerId'' server_path of Inl e \<Rightarrow> Inl e
       | Inr servers \<Rightarrow> serve_with_validators h addr config (static_validate players) (static_validate_server servers)))"

definition server_main :: "host \<Rightarrow> uuid_codec \<Rightarrow> rstr list \<Rightarrow> main_outcome" where
  "server_main h codec args =
    (if (case args of [] \<Rightarrow> False | a # _ \<Rightarrow> a = lit ''-h'' \<or> a = lit ''--help'') then MainHelp
     else if length args > 1 then MainRefused (StartRefused ''expected at most one CONFIG_PATH; use --help for usage'')
     else case main_config h args of Inl e \<Rightarrow> MainRefused (StartConfig e)
       | Inr config \<Rightarrow>
         (case ho_parse_addr h (unwrap_or (lit ''127.0.0.1:50051'') (ho_var h (lit ''ERPS_LISTEN''))) of
            Inl e \<Rightarrow> MainRefused (StartAddress e)
          | Inr addr \<Rightarrow> started
              (case (ho_var h (lit ''ERPS_AUTH_TOKEN_MAP''), ho_var h (lit ''ERPS_SERVER_AUTH_TOKEN_MAP'')) of
                 (Some path, Some server_path) \<Rightarrow> main_with_maps h codec addr config path server_path
               | (None, None) \<Rightarrow> serve h addr config
               | _ \<Rightarrow> Inl (StartRefused
                   ''ERPS_AUTH_TOKEN_MAP and ERPS_SERVER_AUTH_TOKEN_MAP must be configured together''))))"

end
