(* ===== verification/Load_Grpc.thy ===== *)
theory Load_Grpc
  imports Load_Test Client_Ffi Startup
begin

text \<open>
  \<open>run_grpc\<close> of \<open>core/src/load_test/mod.rs\<close>: the scenario played through the client library and a control
  stream against a server of its own. Everything outside the driver (the server it starts, sockets,
  streams, clocks, random request ids) is a state \<open>'s\<close> behind the functions of the record \<open>loopback\<close>. A
  step is a function of that state; \<open>None\<close> is a panic or a wait that never ends. The waits that are loops of
  the driver, with a deadline, are loops here. A single call of the client or a send to a control stream has
  no deadline in the driver; it is a function of \<open>loopback\<close> and so is taken to return, with any answer, as
  long as the server of the driver, which runs in the same process, answers it. The elapsed time of the
  report is left out.
\<close>

section \<open>Steps\<close>

type_synonym ('s, 'a) act = "'s \<Rightarrow> ((rstr + 'a) \<times> 's) option"

definition act_then :: "('s, 'a) act \<Rightarrow> ('a \<Rightarrow> ('s, 'b) act) \<Rightarrow> ('s, 'b) act" where
  "act_then m f s = (case m s of None \<Rightarrow> None
    | Some (Inl e, s) \<Rightarrow> Some (Inl e, s)
    | Some (Inr x, s) \<Rightarrow> f x s)"

definition act_return :: "'a \<Rightarrow> ('s, 'a) act" where "act_return x s = Some (Inr x, s)"

definition act_fail :: "rstr \<Rightarrow> ('s, 'a) act" where "act_fail e s = Some (Inl e, s)"

definition act_call :: "('s \<Rightarrow> (rstr + 'a) \<times> 's) \<Rightarrow> ('s, 'a) act" where "act_call f s = Some (f s)"

definition act_do :: "('s \<Rightarrow> 's) \<Rightarrow> ('s, unit) act" where "act_do f s = Some (Inr (), f s)"

definition act_draw :: "('s \<Rightarrow> 'a \<times> 's) \<Rightarrow> ('s, 'a) act" where "act_draw f s = Some (apfst Inr (f s))"

definition act_panic :: "('s, 'a) act" where "act_panic s = None"

fun act_each :: "('a \<Rightarrow> ('s, 'b) act) \<Rightarrow> 'a list \<Rightarrow> ('s, 'b list) act" where
  "act_each f [] = act_return []"
| "act_each f (x # xs) = act_then (f x) (\<lambda>y. act_then (act_each f xs) (\<lambda>ys. act_return (y # ys)))"

fun act_fold :: "('a \<Rightarrow> 'c \<Rightarrow> ('s, 'c) act) \<Rightarrow> 'a list \<Rightarrow> 'c \<Rightarrow> ('s, 'c) act" where
  "act_fold f [] acc = act_return acc"
| "act_fold f (x # xs) acc = act_then (f x acc) (act_fold f xs)"

text \<open>
  A wait under a timeout: the next item, unless the time has elapsed; an item that \<open>pick\<close> passes over
  is dropped. A wait whose time never elapses need not end.
\<close>

datatype 'm awaited = Elapsed | Came 'm

partial_function (option) await :: "('s \<Rightarrow> 'm awaited \<times> 's) \<Rightarrow> ('m \<Rightarrow> (rstr + 'a) option) \<Rightarrow> rstr
    \<Rightarrow> 's \<Rightarrow> ((rstr + 'a) \<times> 's) option" where
  "await receive pick late s = (case receive s of
      (Elapsed, s) \<Rightarrow> Some (Inl late, s)
    | (Came m, s) \<Rightarrow> (case pick m of Some r \<Rightarrow> Some (r, s) | None \<Rightarrow> await receive pick late s))"

declare await.simps [code]

section \<open>Outside the driver\<close>

text \<open>A control stream and a stream of events are named by numbers; \<open>lb_control\<close> receives a status as its text.\<close>

record 's loopback =
  lb_bind :: "'s \<Rightarrow> (rstr + socket_addr) \<times> 's"
  lb_spawn :: "socket_addr \<Rightarrow> erps_config \<Rightarrow> 's \<Rightarrow> 's"
  lb_sleep_ms :: "nat \<Rightarrow> 's \<Rightarrow> 's"
  lb_connect_game :: "rstr \<Rightarrow> 's \<Rightarrow> (rstr + unit) \<times> 's"
  lb_register :: "register_msg \<Rightarrow> 's \<Rightarrow> (rstr + unit) \<times> 's"
  lb_control_stream :: "'s \<Rightarrow> (rstr + nat) \<times> 's"
  lb_every_second :: "nat \<Rightarrow> control_msg \<Rightarrow> 's \<Rightarrow> 's"
  lb_send :: "nat \<Rightarrow> control_msg \<Rightarrow> 's \<Rightarrow> (rstr + unit) \<times> 's"
  lb_control :: "nat \<Rightarrow> 's \<Rightarrow> (rstr + erps_control option option) awaited \<times> 's"
  lb_open_events :: "client \<Rightarrow> 's \<Rightarrow> nat \<times> 's"
  lb_event :: "nat \<Rightarrow> 's \<Rightarrow> (client_error + sdk_event) option awaited \<times> 's"
  lb_start_timer :: "'s \<Rightarrow> 's"
  lb_expired :: "'s \<Rightarrow> bool \<times> 's"
  lb_request_id :: "'s \<Rightarrow> rstr \<times> 's"
  lb_transport :: "'s transport"
  lb_stop :: "'s \<Rightarrow> 's"
  lb_address_text :: "socket_addr \<Rightarrow> rstr"
  lb_count :: "nat \<Rightarrow> rstr"
  lb_status_text :: "status \<Rightarrow> rstr"
  lb_uuid :: uuid_codec

definition client_try :: "'s loopback \<Rightarrow> ('s \<Rightarrow> (client_error + 'a) \<times> 's) \<Rightarrow> ('s, 'a) act" where
  "client_try L f = act_call (\<lambda>s. case f s of
     (Inl e, s) \<Rightarrow> (Inl (client_error_text (lb_status_text L) e), s) | (Inr x, s) \<Rightarrow> (Inr x, s))"

text \<open>A mutation draws its request id first.\<close>

definition client_mutation :: "'s loopback \<Rightarrow> (rstr \<Rightarrow> 's \<Rightarrow> (client_error + 'a) \<times> 's) \<Rightarrow> ('s, 'a) act" where
  "client_mutation L f = act_then (act_draw (lb_request_id L)) (\<lambda>rid. client_try L (f rid))"

section \<open>The fleet\<close>

definition plain_api :: api_version where
  "plain_api = \<lparr>av_major = 1, av_minor = 0, av_capabilities = []\<rparr>"

definition loopback_config :: erps_config where
  "loopback_config = default_config\<lparr>ec_allow_development_plaintext := True\<rparr>"

definition mode_servers :: "(queue_mode \<times> u32 \<times> u32 \<times> u32) list" where
  "mode_servers = [(OneVsOne, 1, 8, 2), (FiveVsFive, 5, 20, 4), (FreeForAll, 4, 12, 3)]"

definition grpc_fleet :: "(rstr \<times> queue_mode \<times> u32 \<times> u32 \<times> u32) list" where
  "grpc_fleet = concat (map (\<lambda>region. map (Pair region) mode_servers) load_regions)"

definition grpc_server_id :: "uuid_codec \<Rightarrow> u64 \<Rightarrow> nat \<Rightarrow> rstr" where
  "grpc_server_id codec seed index = id_to_string codec (from_uuid (ucast seed + of_nat index + 1) :: server_id)"

definition grpc_registration :: "'s loopback \<Rightarrow> scenario_config \<Rightarrow> nat \<times> rstr \<times> queue_mode \<times> u32 \<times> u32 \<times> u32 \<Rightarrow> register_msg" where
  "grpc_registration L config x = (case x of (index, region, mode, cost, capacity, max_instances) \<Rightarrow>
    \<lparr>rg_api = Some plain_api, rg_auth_token = lit ''load-server'', rg_server_id = grpc_server_id (lb_uuid L) (cf_seed config) index,
     rg_generation = 1, rg_endpoint = lit ''127.0.0.1:'' @ lb_count L (7200 + index), rg_region = region,
     rg_capacity_total = capacity, rg_max_instances = max_instances, rg_mode_costs = [(pb_mode mode, cost)],
     rg_instances = [], rg_server_class = []\<rparr>)"

definition load_control :: "rstr \<Rightarrow> server_message \<Rightarrow> control_msg" where
  "load_control server_id message = \<lparr>cm_api = Some plain_api, cm_auth_token = lit ''load-server'',
     cm_server_id = server_id, cm_generation = 1, cm_message = Some message\<rparr>"

definition grpc_register :: "'s loopback \<Rightarrow> scenario_config \<Rightarrow> nat \<times> rstr \<times> queue_mode \<times> u32 \<times> u32 \<times> u32 \<Rightarrow> ('s, rstr \<times> nat) act" where
  "grpc_register L config x =
    (let registration = grpc_registration L config x; server_id = rg_server_id registration
     in act_then (act_call (lb_register L registration)) (\<lambda>_.
        act_then (act_call (lb_control_stream L)) (\<lambda>stream.
        act_then (act_do (lb_every_second L stream (load_control server_id (SmHeartbeat 0 0)))) (\<lambda>_.
        act_return (server_id, stream)))))"

section \<open>One roster\<close>

definition grpc_token :: "'s loopback \<Rightarrow> nat \<Rightarrow> nat \<Rightarrow> nat \<Rightarrow> rstr" where
  "grpc_token L group_index party_index member_index = lit ''grpc-'' @ lb_count L group_index @ lit ''-''
     @ lb_count L party_index @ lit ''-'' @ lb_count L member_index"

definition grpc_connect :: "'s loopback \<Rightarrow> rstr \<Rightarrow> rstr \<Rightarrow> ('s, client) act" where
  "grpc_connect L endpoint token = client_try L (client_connect (lb_transport L) (plaintext_loopback endpoint token))"

definition grpc_join :: "'s loopback \<Rightarrow> rstr \<Rightarrow> rstr \<Rightarrow> rstr \<Rightarrow> client list \<times> u64 \<Rightarrow> ('s, client list \<times> u64) act" where
  "grpc_join L endpoint invite token x = (case x of (party_clients, revision) \<Rightarrow>
    act_then (grpc_connect L endpoint token) (\<lambda>member.
    act_then (client_mutation L (\<lambda>rid. client_join_party (lb_transport L) rid invite member)) (\<lambda>joined.
    act_return (party_clients @ [member], so_revision joined))))"

text \<open>A party is created by its leader; the others join with an invitation for as many uses.\<close>

definition grpc_form_party :: "'s loopback \<Rightarrow> rstr \<Rightarrow> nat \<Rightarrow> nat \<times> load_party \<Rightarrow> ('s, client list \<times> rstr \<times> u64) act" where
  "grpc_form_party L endpoint group_index x = (case x of (party_index, p) \<Rightarrow>
    let members = length (lp_players p) in
    act_then (grpc_connect L endpoint (grpc_token L group_index party_index 0)) (\<lambda>leader.
    act_then (client_mutation L (\<lambda>rid. client_create_party (lb_transport L) rid
        (lit ''Load'' @ lb_count L group_index @ lit ''Party'' @ lb_count L party_index) leader)) (\<lambda>created.
    if members > 1
    then act_then (client_mutation L (\<lambda>rid. client_create_invite (lb_transport L) rid (so_entity_id created)
           (so_revision created) 60 (of_nat (members - 1)) leader)) (\<lambda>invite.
         act_then (act_fold (\<lambda>member_index. grpc_join L endpoint invite (grpc_token L group_index party_index member_index))
           [1..<members] ([leader], so_revision created)) (\<lambda>(party_clients, revision).
         act_return (party_clients, so_entity_id created, revision)))
    else act_return ([leader], so_entity_id created, so_revision created))))"

definition grpc_open_events :: "'s loopback \<Rightarrow> client \<Rightarrow> ('s, nat) act" where
  "grpc_open_events L c = (case client_token c of
      Inl e \<Rightarrow> act_fail (client_error_text (lb_status_text L) e)
    | Inr _ \<Rightarrow> act_draw (lb_open_events L c))"

definition pick_proposal :: "(client_error \<Rightarrow> rstr) \<Rightarrow> (client_error + sdk_event) option \<Rightarrow> (rstr + rstr) option" where
  "pick_proposal text item = (case item of
      Some (Inr event) \<Rightarrow> (case event of SdkProposal proposal_id _ \<Rightarrow> Some (Inr proposal_id) | _ \<Rightarrow> None)
    | Some (Inl e) \<Rightarrow> Some (Inl (text e))
    | None \<Rightarrow> Some (Inl (lit ''event stream ended'')))"

definition pick_matched :: "(client_error \<Rightarrow> rstr) \<Rightarrow> (client_error + sdk_event) option \<Rightarrow> (rstr + unit) option" where
  "pick_matched text item = (case item of
      Some (Inr event) \<Rightarrow> (case event of SdkMatched _ _ _ _ _ \<Rightarrow> Some (Inr ()) | _ \<Rightarrow> None)
    | Some (Inl e) \<Rightarrow> Some (Inl (text e))
    | None \<Rightarrow> Some (Inl (lit ''event stream ended'')))"

definition pick_launch :: "rstr + erps_control option option \<Rightarrow> (rstr + launch_match) option" where
  "pick_launch item = (case item of Inl e \<Rightarrow> Some (Inl e)
    | Inr None \<Rightarrow> Some (Inl (lit ''control ended''))
    | Inr (Some message) \<Rightarrow> (case message of Some (CtlLaunch l) \<Rightarrow> Some (Inr l) | _ \<Rightarrow> None))"

definition pick_ack :: "rstr \<Rightarrow> rstr + erps_control option option \<Rightarrow> (rstr + unit) option" where
  "pick_ack expected_match_id item = (case item of Inl e \<Rightarrow> Some (Inl e)
    | Inr None \<Rightarrow> Some (Inl (lit ''control ended before match result acknowledgement''))
    | Inr (Some message) \<Rightarrow> (case message of
        Some (CtlMatchResultAck match_id) \<Rightarrow> if match_id = expected_match_id then Some (Inr ()) else None
      | _ \<Rightarrow> None))"

text \<open>One round of the wait for the end of the match, with the pause before the next one.\<close>

definition poll_state :: "'s loopback \<Rightarrow> client \<Rightarrow> 's \<Rightarrow> (client_error + sdk_state) awaited \<times> 's" where
  "poll_state L c s = (case lb_expired L s of
      (True, s) \<Rightarrow> (Elapsed, s)
    | (False, s) \<Rightarrow> (case client_get_state (lb_transport L) c s of
        (Inl e, s) \<Rightarrow> (Came (Inl e), s)
      | (Inr state, s) \<Rightarrow> (Came (Inr state), if ss_match_id state = None then s else lb_sleep_ms L 5 s)))"

definition pick_idle :: "(client_error \<Rightarrow> rstr) \<Rightarrow> client_error + sdk_state \<Rightarrow> (rstr + unit) option" where
  "pick_idle text item = (case item of Inl e \<Rightarrow> Some (Inl (text e))
    | Inr state \<Rightarrow> if ss_match_id state = None then Some (Inr ()) else None)"

definition timed :: "'s loopback \<Rightarrow> ('s \<Rightarrow> 'm awaited \<times> 's) \<Rightarrow> ('m \<Rightarrow> (rstr + 'a) option) \<Rightarrow> string \<Rightarrow> ('s, 'a) act" where
  "timed L receive pick late = act_then (act_do (lb_start_timer L)) (\<lambda>_. await receive pick (lit late))"

definition await_proposal :: "'s loopback \<Rightarrow> nat \<Rightarrow> rstr option \<Rightarrow> ('s, rstr option) act" where
  "await_proposal L stream proposal_id =
    act_then (timed L (lb_event L stream) (pick_proposal (client_error_text (lb_status_text L))) ''proposal timeout'') (\<lambda>i.
      case proposal_id of
        Some first \<Rightarrow> if first \<noteq> i then act_fail (lit ''proposal mismatch'') else act_return (Some i)
      | None \<Rightarrow> act_return (Some i))"

definition launch_answer :: "rstr \<Rightarrow> rstr \<Rightarrow> string \<Rightarrow> string \<Rightarrow> rstr \<Rightarrow> control_msg" where
  "launch_answer server_id match_id state endpoint token = load_control server_id (SmLaunchResult
     \<lparr>lr_match_id = match_id, lr_state = lit state, lr_endpoint = lit endpoint, lr_connection_token = token,
      lr_reason = []\<rparr>)"

text \<open>What the driver does as the game server of a launch.\<close>

definition grpc_serve_match :: "'s loopback \<Rightarrow> nat \<Rightarrow> rstr \<Rightarrow> nat \<Rightarrow> queue_mode \<Rightarrow> rstr list list \<Rightarrow> nat list \<Rightarrow> ('s, unit) act" where
  "grpc_serve_match L group_index server_id control mode expected_parties streams =
    act_then (timed L (lb_control L control) pick_launch ''launch timeout'') (\<lambda>l.
    act_then (act_call (Pair (validate_grpc_launch (lb_count L) mode l expected_parties))) (\<lambda>_.
    act_then (act_call (lb_send L control (launch_answer server_id (lm_match_id l) ''accepted'' '''' []))) (\<lambda>_.
    act_then (act_call (lb_send L control (launch_answer server_id (lm_match_id l) ''ready'' ''127.0.0.1:7201''
        (lit ''load-token-'' @ lb_count L group_index)))) (\<lambda>_.
    act_then (act_each (\<lambda>stream. timed L (lb_event L stream) (pick_matched (client_error_text (lb_status_text L)))
        ''match event timeout'') streams) (\<lambda>_.
    act_then (act_call (lb_send L control (load_control server_id (SmMatchResult
        \<lparr>mr_match_id = lm_match_id l, mr_placements = grpc_placements l\<rparr>)))) (\<lambda>_.
    timed L (lb_control L control) (pick_ack (lm_match_id l)) ''match result acknowledgement timeout''))))))"

definition region_slot :: "rstr \<Rightarrow> nat option" where
  "region_slot region = (if region = lit ''tw'' then Some 0 else if region = lit ''us'' then Some 1
     else if region = lit ''eu'' then Some 2 else None)"

definition mode_slot :: "queue_mode \<Rightarrow> nat" where
  "mode_slot mode = (case mode of OneVsOne \<Rightarrow> 0 | FiveVsFive \<Rightarrow> 1 | FreeForAll \<Rightarrow> 2)"

text \<open>
  The players of a roster come online, queue, confirm their common proposal and play their match;
  the result is the number of their clients.
\<close>

definition grpc_play_on :: "'s loopback \<Rightarrow> rstr \<Rightarrow> nat \<Rightarrow> load_party list \<Rightarrow> queue_mode \<Rightarrow> rstr \<Rightarrow> rstr \<times> nat \<Rightarrow> ('s, nat) act" where
  "grpc_play_on L endpoint group_index parties mode region server = (case server of (server_id, control) \<Rightarrow>
    act_then (act_each (grpc_form_party L endpoint group_index) (enumerate 0 parties)) (\<lambda>formed.
    let clients = concat (map fst formed);
        expected_parties = map (\<lambda>(party_clients, _). map (\<lambda>c. unwrap_or [] (cl_player_id c)) party_clients) formed in
    act_then (act_each (grpc_open_events L) clients) (\<lambda>streams.
    act_then (act_each (\<lambda>(party_clients, party_id, revision). case party_clients of
        [] \<Rightarrow> act_panic
      | leader # _ \<Rightarrow> client_mutation L (\<lambda>rid. client_enqueue (lb_transport L) rid party_id revision mode [region] leader)) formed) (\<lambda>_.
    act_then (act_fold (await_proposal L) streams None) (\<lambda>proposal_id. case proposal_id of
        None \<Rightarrow> act_fail (lit ''empty gRPC roster'')
      | Some i \<Rightarrow>
    act_then (act_each (\<lambda>c. client_mutation L (\<lambda>rid. client_proposal (lb_transport L) rid i True c)) clients) (\<lambda>_.
    act_then (grpc_serve_match L group_index server_id control mode expected_parties streams) (\<lambda>_. case clients of
        [] \<Rightarrow> act_panic
      | c # _ \<Rightarrow>
    act_then (timed L (poll_state L c) (pick_idle (client_error_text (lb_status_text L)))
        ''match completion reconciliation timeout'') (\<lambda>_.
    act_return (length clients)))))))))"

section \<open>The run\<close>

record transport_tally =
  tt_players :: nat
  tt_matches :: nat
  tt_mode_matches :: "queue_mode \<Rightarrow> nat"
  tt_servers :: "rstr set"
  tt_regions :: "rstr set"

definition grpc_play_group :: "'s loopback \<Rightarrow> rstr \<Rightarrow> (rstr \<times> nat) list \<Rightarrow> nat \<times> load_party list \<Rightarrow> transport_tally
    \<Rightarrow> ('s, transport_tally) act" where
  "grpc_play_group L endpoint servers x tally = (case x of
      (group_index, []) \<Rightarrow> act_panic
    | (group_index, p # ps) \<Rightarrow>
       (case region_slot (lp_region p) of
          None \<Rightarrow> act_fail (lit ''unsupported generated region '' @ lp_region p)
        | Some slot \<Rightarrow>
           let mode = lp_mode p; region = lp_region p; index = slot * 3 + mode_slot mode in
           if \<not> index < length servers then act_panic
           else act_then (grpc_play_on L endpoint group_index (p # ps) mode region (servers ! index)) (\<lambda>players.
             act_return (tally\<lparr>tt_players := tt_players tally + players, tt_matches := tt_matches tally + 1,
               tt_mode_matches := (tt_mode_matches tally)(mode := tt_mode_matches tally mode + 1),
               tt_servers := insert (fst (servers ! index)) (tt_servers tally),
               tt_regions := insert region (tt_regions tally)\<rparr>))))"

record transport_report =
  tr_path :: rstr
  tr_players :: nat
  tr_parties :: nat
  tr_completed_matches :: nat
  tr_completed_match_results :: nat
  tr_mode_matches :: "queue_mode \<Rightarrow> nat"
  tr_rust_sdk :: bool
  tr_game_server_stream :: bool
  tr_fleet_servers :: nat
  tr_servers_used :: nat
  tr_regions_used :: nat

definition empty_tally :: transport_tally where
  "empty_tally = \<lparr>tt_players = 0, tt_matches = 0, tt_mode_matches = (\<lambda>_. 0), tt_servers = {}, tt_regions = {}\<rparr>"

definition transport_report_of :: "load_party list \<Rightarrow> nat \<Rightarrow> transport_tally \<Rightarrow> transport_report" where
  "transport_report_of generated servers tally =
    \<lparr>tr_path = lit ''grpc-loopback'', tr_players = tt_players tally, tr_parties = length generated,
     tr_completed_matches = tt_matches tally, tr_completed_match_results = tt_matches tally,
     tr_mode_matches = tt_mode_matches tally, tr_rust_sdk = True, tr_game_server_stream = True,
     tr_fleet_servers = servers, tr_servers_used = card (tt_servers tally), tr_regions_used = card (tt_regions tally)\<rparr>"

definition run_grpc :: "'s loopback \<Rightarrow> scenario_config \<Rightarrow> ('s, transport_report) act" where
  "run_grpc L config =
    act_then (act_call (lb_bind L)) (\<lambda>addr.
    act_then (act_do (lb_spawn L addr loopback_config)) (\<lambda>_.
    act_then (act_do (lb_sleep_ms L 75)) (\<lambda>_.
    let endpoint = lit ''http://'' @ lb_address_text L addr in
    act_then (act_call (lb_connect_game L endpoint)) (\<lambda>_.
    act_then (act_each (grpc_register L config) (enumerate 0 grpc_fleet)) (\<lambda>servers.
    act_then (act_do (lb_sleep_ms L 20)) (\<lambda>_.
    let generated = generate_parties config in
    (case grpc_rosters generated [OneVsOne, FiveVsFive, FreeForAll] of
       None \<Rightarrow> act_fail (lit ''gRPC scenario generated an incomplete roster'')
     | Some groups \<Rightarrow>
    act_then (act_fold (grpc_play_group L endpoint servers) (enumerate 0 groups) empty_tally) (\<lambda>tally.
    act_then (act_do (lb_stop L)) (\<lambda>_.
    act_return (transport_report_of generated (length servers) tally))))))))))"

end
