(* ===== verification/Load_Driver.thy ===== *)
theory Load_Driver
  imports Load_Grpc Load_Runs
begin

text \<open>
  What a run over gRPC reports, whatever the server answers: steps that always return
  (\<open>yields\<close>), the rosters that are played, and the count of players and matches.
\<close>

section \<open>Steps that return\<close>

text \<open>A step returns from every state, and a result that is no error satisfies \<open>P\<close>.\<close>

definition yields :: "('s, 'a) act \<Rightarrow> ('a \<Rightarrow> bool) \<Rightarrow> bool" where
  "yields m P \<longleftrightarrow> (\<forall>s. \<exists>r s'. m s = Some (r, s') \<and> (\<forall>x. r = Inr x \<longrightarrow> P x))"

named_theorems yields_intros

lemma yields_then: "yields m P \<Longrightarrow> (\<And>x. P x \<Longrightarrow> yields (f x) Q) \<Longrightarrow> yields (act_then m f) Q"
  unfolding yields_def act_then_def
proof (intro allI)
  fix s
  assume m: "\<forall>s. \<exists>r s'. m s = Some (r, s') \<and> (\<forall>x. r = Inr x \<longrightarrow> P x)"
    and f: "\<And>x. P x \<Longrightarrow> \<forall>s. \<exists>r s'. f x s = Some (r, s') \<and> (\<forall>x. r = Inr x \<longrightarrow> Q x)"
  obtain r s' where "m s = Some (r, s')" "\<forall>x. r = Inr x \<longrightarrow> P x" using m by blast
  then show "\<exists>r s'. (case m s of None \<Rightarrow> None | Some (Inl e, s) \<Rightarrow> Some (Inl e, s) | Some (Inr x, s) \<Rightarrow> f x s) = Some (r, s')
      \<and> (\<forall>x. r = Inr x \<longrightarrow> Q x)"
    using f by (cases r) auto
qed

lemma yields_mono: "yields m P \<Longrightarrow> (\<And>x. P x \<Longrightarrow> Q x) \<Longrightarrow> yields m Q"
  unfolding yields_def by meson

lemma yields_return [yields_intros]: "P x \<Longrightarrow> yields (act_return x) P"
  by (simp add: yields_def act_return_def)

lemma yields_fail [yields_intros]: "yields (act_fail e) P"
  by (simp add: yields_def act_fail_def)

lemma yields_call: "yields (act_call f) (\<lambda>_. True)"
  by (simp add: yields_def act_call_def)

lemma yields_do: "yields (act_do f) (\<lambda>_. True)"
  by (simp add: yields_def act_do_def)

lemma yields_draw: "yields (act_draw f) (\<lambda>_. True)"
  by (simp add: yields_def act_draw_def)

lemmas yields_total [yields_intros] = yields_then [OF yields_call] yields_then [OF yields_do] yields_then [OF yields_draw]

lemma yields_each:
  "(\<And>x. x \<in> set xs \<Longrightarrow> yields (f x) (P x)) \<Longrightarrow> yields (act_each f xs) (\<lambda>ys. list_all2 P xs ys)"
proof (induction xs)
  case (Cons x xs)
  then show ?case unfolding act_each.simps
    by (intro yields_then [where P = "P x"] yields_then [where P = "list_all2 P xs"] yields_return) auto
qed (simp add: yields_return)

lemma yields_fold:
  "(\<And>ys x acc. I ys acc \<Longrightarrow> x \<in> set xs \<Longrightarrow> yields (f x acc) (I (ys @ [x]))) \<Longrightarrow> I ys acc
    \<Longrightarrow> yields (act_fold f xs acc) (I (ys @ xs))"
proof (induction xs arbitrary: ys acc)
  case (Cons x xs)
  have "yields (f x acc) (I (ys @ [x]))" using Cons.prems by simp
  moreover have "yields (act_fold f xs acc') (I (ys @ x # xs))" if "I (ys @ [x]) acc'" for acc'
    using Cons.IH [of "ys @ [x]" acc'] Cons.prems(1) that by simp
  ultimately show ?case unfolding act_fold.simps by (rule yields_then)
qed (simp add: yields_return)

text \<open>A wait ends when every item that comes leaves less of the time.\<close>

lemma await_ends:
  assumes "\<And>s m s'. receive s = (Came m, s') \<Longrightarrow> left_over s' < (left_over s :: nat)"
  shows "yields (await receive pick late) (\<lambda>_. True)"
proof -
  have "await receive pick late s \<noteq> None" for s
  proof (induction "left_over s" arbitrary: s rule: less_induct)
    case less
    obtain a s' where step: "receive s = (a, s')" by fastforce
    show ?case
    proof (cases a)
      case (Came m)
      with less assms step have "await receive pick late s' \<noteq> None" by blast
      with step Came show ?thesis by (simp add: await.simps [of receive pick late s] split: option.split)
    qed (simp add: step await.simps [of receive pick late s])
  qed
  then show ?thesis unfolding yields_def by (metis not_None_eq surj_pair)
qed

text \<open>The timers of a run elapse: a wait cannot be fed for ever.\<close>

definition timers_elapse :: "'s loopback \<Rightarrow> ('s \<Rightarrow> nat) \<Rightarrow> bool" where
  "timers_elapse L left_over \<longleftrightarrow>
     (\<forall>stream s m s'. lb_event L stream s = (Came m, s') \<longrightarrow> left_over s' < left_over s)
   \<and> (\<forall>stream s m s'. lb_control L stream s = (Came m, s') \<longrightarrow> left_over s' < left_over s)
   \<and> (\<forall>c s m s'. poll_state L c s = (Came m, s') \<longrightarrow> left_over s' < left_over s)"

lemma timed_ends:
  assumes "timers_elapse L left_over"
  shows "yields (timed L (lb_event L stream) pick late) (\<lambda>_. True)"
    "yields (timed L (lb_control L stream) pick' late) (\<lambda>_. True)"
    "yields (timed L (poll_state L c) pick'' late) (\<lambda>_. True)"
proof -
  show "yields (timed L (lb_event L stream) pick late) (\<lambda>_. True)"
    unfolding timed_def using assms
    by (intro yields_total await_ends [where left_over = left_over]) (simp add: timers_elapse_def)
  show "yields (timed L (lb_control L stream) pick' late) (\<lambda>_. True)"
    unfolding timed_def using assms
    by (intro yields_total await_ends [where left_over = left_over]) (simp add: timers_elapse_def)
  show "yields (timed L (poll_state L c) pick'' late) (\<lambda>_. True)"
    unfolding timed_def using assms
    by (intro yields_total await_ends [where left_over = left_over]) (simp add: timers_elapse_def)
qed

section \<open>One roster\<close>

lemma client_try_ends: "yields (client_try L f) (\<lambda>_. True)"
  unfolding client_try_def by (rule yields_call)

lemma client_mutation_ends: "yields (client_mutation L f) (\<lambda>_. True)"
  unfolding client_mutation_def by (intro yields_total client_try_ends)

lemma grpc_connect_ends: "yields (grpc_connect L endpoint token) (\<lambda>_. True)"
  unfolding grpc_connect_def by (rule client_try_ends)

lemma grpc_join_ends: "yields (grpc_join L endpoint invite token x) (\<lambda>y. length (fst y) = length (fst x) + 1)"
  unfolding grpc_join_def
  by (cases x) (auto intro!: yields_then [OF grpc_connect_ends] yields_then [OF client_mutation_ends] yields_return)

text \<open>A party that forms has a client for each of its players.\<close>

lemma grpc_form_party_ends:
  "yields (grpc_form_party L endpoint group_index x) (\<lambda>y. length (fst y) = max 1 (length (lp_players (snd x))))"
proof -
  have fold: "yields (act_fold (\<lambda>member_index. grpc_join L endpoint invite (token member_index)) [Suc 0..<n] ([c], revision))
      (\<lambda>y. length (fst y) = n)" if "Suc 0 < n" for invite token n c revision
  proof -
    have "yields (act_fold (\<lambda>member_index. grpc_join L endpoint invite (token member_index)) [Suc 0..<n] ([c], revision))
        (\<lambda>y. length (fst y) = 1 + length ([] @ [Suc 0..<n]))"
      by (rule yields_fold [where I = "\<lambda>ys y. length (fst y) = 1 + length ys" and ys = "[]"])
        (auto intro: yields_mono [OF grpc_join_ends])
    then show ?thesis using that by simp
  qed
  show ?thesis unfolding grpc_form_party_def
    by (cases x)
      (auto simp: Let_def max_def not_less
        intro!: yields_then [OF grpc_connect_ends] yields_then [OF client_mutation_ends] yields_return yields_then [OF fold])
qed

lemma grpc_open_events_ends: "yields (grpc_open_events L c) (\<lambda>_. True)"
  unfolding grpc_open_events_def by (auto intro: yields_fail yields_draw split: sum.split)

lemma grpc_serve_match_ends:
  assumes "timers_elapse L left_over"
  shows "yields (grpc_serve_match L group_index server_id control mode expected_parties streams) (\<lambda>_. True)"
  unfolding grpc_serve_match_def
  by (intro yields_then [OF timed_ends(2) [OF assms]] yields_total timed_ends [OF assms]
      yields_then [OF yields_each [OF timed_ends(1) [OF assms]]])

lemma await_proposal_ends:
  assumes "timers_elapse L left_over"
  shows "yields (await_proposal L stream i) (\<lambda>_. True)"
  unfolding await_proposal_def
  by (auto intro!: yields_then [OF timed_ends(1) [OF assms]] yields_return yields_fail split: option.split)

text \<open>A roster that is played to its end counts a player for every client.\<close>

lemma grpc_play_on_ends:
  assumes timers: "timers_elapse L left_over" and parties: "parties \<noteq> []"
    and members: "list_all (\<lambda>p. 1 \<le> length (lp_players p)) parties"
  shows "yields (grpc_play_on L endpoint group_index parties mode region server) (\<lambda>n. n = headcount parties)"
proof -
  let ?formed = "\<lambda>formed. list_all2 (\<lambda>p y. length (fst y) = length (lp_players p) \<and> fst y \<noteq> []) parties formed"
  have form: "yields (act_each (grpc_form_party L endpoint group_index) (enumerate 0 parties)) ?formed"
  proof (rule yields_mono [OF yields_each [OF grpc_form_party_ends]])
    fix formed
    assume all: "list_all2 (\<lambda>x y. length (fst y) = max 1 (length (lp_players (snd x)))) (enumerate 0 parties) formed"
    then have "list_all2 (\<lambda>p y. length (fst y) = max 1 (length (lp_players p))) (map snd (enumerate 0 parties)) formed"
      unfolding list_all2_map1 .
    then show "?formed formed" using members
      by (fastforce simp: list_all2_conv_all_nth list_all_length max_def)
  qed
  have clients: "length (concat (map fst formed)) = headcount parties \<and> concat (map fst formed) \<noteq> []" if "?formed formed" for formed
  proof -
    have "length (concat (map fst formed)) = headcount parties" using that
      by (induction rule: list_all2_induct) (simp_all add: length_concat)
    moreover have "concat (map fst formed) \<noteq> []" using that parties by (cases formed) (auto simp: list_all2_Cons1 neq_Nil_conv)
    ultimately show ?thesis by blast
  qed
  have enqueue: "yields (act_each (\<lambda>(party_clients, party_id, revision). case party_clients of
        [] \<Rightarrow> act_panic
      | leader # _ \<Rightarrow> client_mutation L (\<lambda>rid. client_enqueue (lb_transport L) rid party_id revision mode [region] leader)) formed)
      (\<lambda>_. True)" if "?formed formed" for formed
  proof -
    have "fst y \<noteq> []" if "y \<in> set formed" for y using that \<open>?formed formed\<close>
      by (auto simp: list_all2_conv_all_nth in_set_conv_nth)
    then show ?thesis
      by (intro yields_mono [OF yields_each [where P = "\<lambda>_ _. True"]])
        (auto intro: client_mutation_ends split: list.split)
  qed
  show ?thesis
  proof (cases server)
    case (Pair server_id control)
    show ?thesis
      unfolding grpc_play_on_def Pair prod.case Let_def
      apply (rule yields_then [OF form])
      subgoal premises formed for formed
      proof -
        have proposal: "yields (act_fold (await_proposal L) streams None) (\<lambda>_. True)" for streams
          by (rule yields_fold [where I = "\<lambda>_ _. True" and ys = "[]", OF await_proposal_ends [OF timers]]) simp
        obtain c cs where cs: "concat (map fst formed) = c # cs" "length (c # cs) = headcount parties"
          using clients [OF formed] by (cases "concat (map fst formed)") auto
        show ?thesis unfolding cs list.case
          by (intro yields_then [OF yields_each [OF grpc_open_events_ends]] yields_then [OF enqueue [OF formed]]
                yields_then [OF proposal])
            (auto intro!: yields_fail yields_then [OF yields_each [OF client_mutation_ends]] yields_return
                yields_then [OF grpc_serve_match_ends [OF timers]] yields_then [OF timed_ends(3) [OF timers]]
              simp del: list.size act_each.simps simp: cs(2) split: option.split)
      qed
      done
  qed
qed

section \<open>The rosters\<close>

lemma take_rosters_cut:
  "take_rosters target ps roster filled = (gs, rest) \<Longrightarrow> filled = headcount roster 
    \<Longrightarrow> (\<forall>g \<in> set gs. g \<noteq> [] \<and> headcount g = target)
      \<and> (\<exists>tail. concat gs @ tail = roster @ ps \<and> headcount tail = rest)"
proof (induction ps arbitrary: roster filled gs rest)
  case (Cons p ps)
  show ?case
  proof (cases "filled + length (lp_players p) = target")
    case True
    obtain hs rest' where cut: "take_rosters target ps [] 0 = (hs, rest')" by fastforce
    with Cons.prems True have gs: "gs = (roster @ [p]) # hs" "rest = rest'" by (auto simp: Let_def)
    then show ?thesis using Cons.IH [OF cut] Cons.prems(2) True by auto
  next
    case False
    with Cons.prems have "take_rosters target ps (roster @ [p]) (filled + length (lp_players p)) = (gs, rest)"
      by (simp add: Let_def)
    then show ?thesis using Cons.IH [of "roster @ [p]"] Cons.prems(2) by simp
  qed
qed auto

text \<open>The rosters are the parties of their mode, cut where a roster is full.\<close>

definition uniform_roster :: "load_party list \<Rightarrow> bool" where
  "uniform_roster g \<longleftrightarrow> g \<noteq> [] \<and> headcount g = roster_target (lp_mode (hd g)) \<and> list_all (\<lambda>p. lp_mode p = lp_mode (hd g)) g"

lemma grpc_rosters_cut:
  assumes "grpc_rosters ps modes = Some groups" and "list_all (\<lambda>p. 1 \<le> length (lp_players p)) ps"
  shows "list_all uniform_roster groups \<and> concat groups = concat (map (\<lambda>mode. of_mode mode ps) modes)"
  using assms(1)
proof (induction modes arbitrary: groups)
  case (Cons mode modes)
  obtain gs rest where cut: "take_rosters (roster_target mode) (of_mode mode ps) [] 0 = (gs, rest)" by fastforce
  with Cons.prems obtain hs where gs: "rest = 0" "groups = gs @ hs" "grpc_rosters ps modes = Some hs"
    by (auto simp: of_mode_def Let_def split: if_splits)
  obtain left_over where parts: "concat gs @ left_over = of_mode mode ps" "headcount left_over = 0"
    and full: "\<forall>g \<in> set gs. g \<noteq> [] \<and> headcount g = roster_target mode"
    using take_rosters_cut [OF cut] gs(1) by auto
  have in_mode: "p \<in> set ps \<and> lp_mode p = mode" if "p \<in> set (concat gs @ left_over)" for p
    using that unfolding parts(1) by (simp add: of_mode_def)
  have "left_over = []"
  proof (rule ccontr)
    assume "left_over \<noteq> []"
    then obtain p rest' where "left_over = p # rest'" by (cases left_over) auto
    moreover from this have "1 \<le> length (lp_players p)" using in_mode [of p] assms(2) by (auto simp: list_all_iff)
    ultimately show False using parts(2) by simp
  qed
  moreover have "uniform_roster g" if "g \<in> set gs" for g
  proof -
    have "lp_mode p = mode" if "p \<in> set g" for p using in_mode [of p] that \<open>g \<in> set gs\<close> by auto
    then show ?thesis using full that by (auto simp: uniform_roster_def list_all_iff)
  qed
  ultimately show ?case using parts(1) gs(1,2) Cons.IH [OF gs(3)] by (auto simp: list_all_iff)
qed simp

lemma mode_headcount:
  "list_all uniform_roster groups
    \<Longrightarrow> headcount (of_mode mode (concat groups)) = roster_target mode * length (filter (\<lambda>g. lp_mode (hd g) = mode) groups)"
proof (induction groups)
  case (Cons g groups)
  have same: "lp_mode p = lp_mode (hd g)" if "p \<in> set g" for p
    using Cons.prems that unfolding uniform_roster_def list_all_iff list.set by blast
  have "of_mode mode g = filter (\<lambda>p. lp_mode (hd g) = mode) g"
    unfolding of_mode_def by (rule filter_cong [OF refl]) (drule same, erule arg_cong)
  then have "of_mode mode g = (if lp_mode (hd g) = mode then g else [])" by simp
  moreover have "headcount g = roster_target (lp_mode (hd g))"
    using Cons.prems unfolding uniform_roster_def list.pred_inject by blast
  ultimately have "headcount (of_mode mode g) = (if lp_mode (hd g) = mode then roster_target mode else 0)"
    by (cases "lp_mode (hd g) = mode") simp_all
  moreover have "headcount (of_mode mode (concat groups)) = roster_target mode * length (filter (\<lambda>g. lp_mode (hd g) = mode) groups)"
    using Cons.IH Cons.prems unfolding list.pred_inject by blast
  ultimately show ?case by simp
qed (simp add: of_mode_def)

lemma generated_nonempty: "list_all (\<lambda>p. 1 \<le> length (lp_players p)) (generate_parties config)"
  "p \<in> set (generate_parties config) \<Longrightarrow> lp_region p \<in> set load_regions"
  using generated_member by (fastforce simp: list_all_iff party_fits_def)+

lemma generated_rosters:
  assumes "grpc_rosters (generate_parties config) [OneVsOne, FiveVsFive, FreeForAll] = Some groups"
  shows "list_all uniform_roster groups" "set (concat groups) = set (generate_parties config)"
    "headcount (concat groups) = cf_players config"
    "roster_target mode * length (filter (\<lambda>g. lp_mode (hd g) = mode) groups) = mode_share config mode"
proof -
  let ?g = "generate_parties config"
  note cut = grpc_rosters_cut [OF assms generated_nonempty(1)]
  show "list_all uniform_roster groups" using cut by blast
  have all: "concat groups = of_mode OneVsOne ?g @ of_mode FiveVsFive ?g @ of_mode FreeForAll ?g" using cut by simp
  have fit: "headcount (of_mode mode ?g) = mode_share config mode" for mode
    using generated [of config] by (simp add: parties_fit_def)
  show "headcount (concat groups) = cf_players config"
    unfolding all by (simp add: fit) (use mode_shares [of config] in simp)
  have "lp_mode p \<in> {OneVsOne, FiveVsFive, FreeForAll}" for p by (cases "lp_mode p") simp_all
  then show "set (concat groups) = set ?g" unfolding all by (auto simp: of_mode_def)
  have "of_mode mode (of_mode mode' ?g) = (if mode' = mode then of_mode mode ?g else [])" for mode'
    by (auto simp: of_mode_def intro!: filter_False)
  then have "of_mode mode (concat groups) = of_mode mode ?g" unfolding all by (cases mode) simp_all
  then show "roster_target mode * length (filter (\<lambda>g. lp_mode (hd g) = mode) groups) = mode_share config mode"
    using mode_headcount [OF conjunct1 [OF cut], of mode] fit by simp
qed

section \<open>The run\<close>

text \<open>What the tally holds when the rosters \<open>groups\<close> have been played on the fleet \<open>servers\<close>.\<close>

definition tallied :: "(rstr \<times> nat) list \<Rightarrow> (nat \<times> load_party list) list \<Rightarrow> transport_tally \<Rightarrow> bool" where
  "tallied servers groups tally \<longleftrightarrow> tt_players tally = headcount (concat (map snd groups))
     \<and> tt_matches tally = length groups
     \<and> (\<forall>mode. tt_mode_matches tally mode = length (filter (\<lambda>g. lp_mode (hd g) = mode) (map snd groups)))
     \<and> tt_servers tally \<subseteq> fst ` set servers \<and> tt_regions tally \<subseteq> set load_regions"

lemma region_slot_bound: "region_slot region = Some slot \<Longrightarrow> slot < 3 \<and> region \<in> set load_regions"
  by (auto simp: region_slot_def load_regions_def split: if_splits)

lemma mode_slot_bound: "mode_slot mode < 3"
  by (simp add: mode_slot_def split: queue_mode.split)

lemma grpc_play_group_ends:
  assumes timers: "timers_elapse L left_over" and servers: "length servers = 9"
    and g: "g \<noteq> []" "list_all (\<lambda>p. 1 \<le> length (lp_players p)) g" and tally: "tallied servers groups tally"
  shows "yields (grpc_play_group L endpoint servers (i, g) tally) (tallied servers (groups @ [(i, g)]))"
proof -
  obtain p ps where g': "g = p # ps" using g(1) by (cases g) auto
  show ?thesis
  proof (cases "region_slot (lp_region p)")
    case None
    then show ?thesis by (simp add: grpc_play_group_def g' yields_fail)
  next
    case (Some slot)
    let ?index = "slot * 3 + mode_slot (lp_mode p)"
    have inside: "?index < length servers" "lp_region p \<in> set load_regions"
      using region_slot_bound [OF Some] mode_slot_bound [of "lp_mode p"] servers by auto
    then have "fst (servers ! ?index) \<in> fst ` set servers" by simp
    with inside tally have "tallied servers (groups @ [(i, g)])
        (tally\<lparr>tt_players := tt_players tally + headcount g, tt_matches := tt_matches tally + 1,
          tt_mode_matches := (tt_mode_matches tally)(lp_mode p := tt_mode_matches tally (lp_mode p) + 1),
          tt_servers := insert (fst (servers ! ?index)) (tt_servers tally),
          tt_regions := insert (lp_region p) (tt_regions tally)\<rparr>)"
      by (simp add: tallied_def g' del: nth_mem)
    then show ?thesis using inside(1)
      unfolding grpc_play_group_def g' prod.case list.case Some option.case Let_def
      by (simp only: not_True_eq_False if_False)
        (rule yields_then [OF grpc_play_on_ends [OF timers g [unfolded g']]], simp add: yields_return)
  qed
qed


text \<open>The report of a full tally.\<close>

lemma length_by_mode:
  "length gs = length (filter (\<lambda>g. lp_mode (hd g) = OneVsOne) gs) + length (filter (\<lambda>g. lp_mode (hd g) = FiveVsFive) gs)
    + length (filter (\<lambda>g. lp_mode (hd g) = FreeForAll) gs)"
proof (induction gs)
  case (Cons g gs)
  then show ?case by (cases "lp_mode (hd g)") simp_all
qed simp

definition full_report :: "scenario_config \<Rightarrow> transport_report \<Rightarrow> bool" where
  "full_report config report \<longleftrightarrow> tr_players report = cf_players config \<and> tr_parties report = length (generate_parties config)
    \<and> (\<forall>mode. roster_target mode * tr_mode_matches report mode = mode_share config mode)
    \<and> tr_completed_matches report = tr_mode_matches report OneVsOne + tr_mode_matches report FiveVsFive
        + tr_mode_matches report FreeForAll
    \<and> tr_completed_match_results report = tr_completed_matches report
    \<and> tr_fleet_servers report = 9 \<and> tr_servers_used report \<le> 9 \<and> tr_regions_used report \<le> 3"

lemma tallied_report:
  assumes "tallied servers (enumerate 0 groups) tally" and "length servers = 9"
    and groups: "grpc_rosters (generate_parties config) [OneVsOne, FiveVsFive, FreeForAll] = Some groups"
  shows "full_report config (transport_report_of (generate_parties config) (length servers) tally)"
proof -
  have "card (tt_servers tally) \<le> card (fst ` set servers)" "card (fst ` set servers) \<le> length servers"
    using assms(1) by (auto simp: tallied_def intro: card_mono order_trans [OF card_image_le card_length])
  moreover have "card (tt_regions tally) \<le> card (set load_regions)" "card (set load_regions) \<le> length load_regions"
    using assms(1) by (auto simp: tallied_def card_length intro: card_mono)
  ultimately have "card (tt_servers tally) \<le> 9" "card (tt_regions tally) \<le> 3"
    using assms(2) length_load_regions by simp_all
  then show ?thesis using assms(1,2) generated_rosters(3,4) [OF groups] length_by_mode [of groups]
    by (simp add: full_report_def transport_report_of_def tallied_def)
qed

text \<open>
  A small world: one roster is online at a time, every stream alternates between the two messages a
  wait may be for, and a timer is four items long. Two players who meet there play their match.
\<close>

record small_world =
  sw_players :: "rstr list"
  sw_mode :: i32
  sw_turn :: bool
  sw_clock :: nat

definition tick_world :: "(small_world \<Rightarrow> 'm) \<Rightarrow> small_world \<Rightarrow> 'm awaited \<times> small_world" where
  "tick_world item w = (if sw_clock w = 0 then (Elapsed, w)
     else (Came (item w), w\<lparr>sw_clock := sw_clock w - 1, sw_turn := (\<not> sw_turn w)\<rparr>))"

fun chunks :: "nat \<Rightarrow> 'a list \<Rightarrow> 'a list list" where
  "chunks n [] = []"
| "chunks n (x # xs) = (x # take n xs) # chunks n (drop n xs)"

definition world_launch :: "small_world \<Rightarrow> launch_match" where
  "world_launch w = \<lparr>lm_match_id = [1], lm_mode = sw_mode w,
     lm_teams = map (\<lambda>ps. \<lparr>tm_team_index = 0, tm_player_ids = ps\<rparr>) (chunks (if sw_mode w = 2 then 4 else 0) (sw_players w)),
     lm_reserved_cost = 1\<rparr>"

definition world_accepts :: "rstr \<Rightarrow> operation_result" where
  "world_accepts i = \<lparr>or_accepted = True, or_code = [], or_message = [], or_entity_id = i, or_revision = 1\<rparr>"

definition world_service :: "small_world matchmaking_service" where
  "world_service = \<lparr>
     sv_open_session = (\<lambda>q w. (Inr \<lparr>cr_session_token = cq_auth_token q, cr_player_id = cq_auth_token q, cr_api = plain_api\<rparr>,
       w\<lparr>sw_players := sw_players w @ [cq_auth_token q]\<rparr>)),
     sv_create_party = (\<lambda>q w. (Inr (world_accepts [2]), w)),
     sv_create_invite = (\<lambda>q w. (Inr \<lparr>ir_token = [3], ir_expires_at_ms = 0\<rparr>, w)),
     sv_join_party = (\<lambda>q w. (Inr (world_accepts [2]), w)),
     sv_leave_party = (\<lambda>q w. (Inr (world_accepts [2]), w)),
     sv_kick_member = (\<lambda>q w. (Inr (world_accepts [2]), w)),
     sv_rename_party = (\<lambda>q w. (Inr (world_accepts [2]), w)),
     sv_enqueue = (\<lambda>q w. (Inr (world_accepts [2]), w\<lparr>sw_mode := eq_mode q\<rparr>)),
     sv_cancel_queue = (\<lambda>q w. (Inr (world_accepts [2]), w)),
     sv_accept_match = (\<lambda>q w. (Inr (world_accepts [2]), w)),
     sv_reject_match = (\<lambda>q w. (Inr (world_accepts [2]), w)),
     sv_get_state = (\<lambda>q w. (Inr \<lparr>cs_player_id = [], cs_party = None, cs_ticket_id = [], cs_proposal_id = [], cs_match_id = [],
       cs_profile = None, cs_credit_suspended_until_ms = 0, cs_queue_mode = 0, cs_allowed_regions = [],
       cs_proposal_deadline_ms = 0\<rparr>, w\<lparr>sw_players := []\<rparr>)),
     sv_watch_events = (\<lambda>q w. (Inr [], w))\<rparr>"

definition world_loopback :: "small_world loopback" where
  "world_loopback = \<lparr>
     lb_bind = Pair (Inr \<lparr>so_ip = IpV4 127 0 0 1, so_port = 9\<rparr>), lb_spawn = (\<lambda>_ _ w. w), lb_sleep_ms = (\<lambda>_ w. w),
     lb_connect_game = (\<lambda>_. Pair (Inr ())), lb_register = (\<lambda>_. Pair (Inr ())), lb_control_stream = Pair (Inr 0),
     lb_every_second = (\<lambda>_ _ w. w), lb_send = (\<lambda>_ _. Pair (Inr ())),
     lb_control = (\<lambda>_. tick_world (\<lambda>w. Inr (Some (Some (if sw_turn w then CtlLaunch (world_launch w) else CtlMatchResultAck [1]))))),
     lb_open_events = (\<lambda>_. Pair 0),
     lb_event = (\<lambda>_. tick_world (\<lambda>w. Some (Inr (if sw_turn w then SdkProposal [4] 0 else SdkMatched [1] OneVsOne [] [] [])))),
     lb_start_timer = (\<lambda>w. w\<lparr>sw_clock := 4\<rparr>),
     lb_expired = (\<lambda>w. (sw_clock w = 0, w\<lparr>sw_clock := sw_clock w - 1\<rparr>)),
     lb_request_id = Pair [5], lb_transport = \<lparr>tr_dial = (\<lambda>_. Pair (Inr ())), tr_service = world_service\<rparr>,
     lb_stop = (\<lambda>w. w), lb_address_text = (\<lambda>_. []), lb_count = (\<lambda>n. [n]), lb_status_text = (\<lambda>_. []), lb_uuid = \<lparr>uc_parse = (\<lambda>_. None), uc_show = (\<lambda>u. [unat u])\<rparr>\<rparr>"

definition quiet :: small_world where
  "quiet = \<lparr>sw_players = [], sw_mode = 0, sw_turn = True, sw_clock = 0\<rparr>"

definition forty :: scenario_config where "forty = \<lparr>cf_players = 40, cf_seed = 1, cf_workers = 1\<rparr>"

definition nobody :: scenario_config where "nobody = \<lparr>cf_players = 0, cf_seed = 1, cf_workers = 1\<rparr>"

definition duellist :: load_party where
  "duellist = \<lparr>lp_id = UuidId 1, lp_mode = OneVsOne, lp_players = [UuidId 2], lp_rating = 1000, lp_region = lit ''tw''\<rparr>"

lemma duel_is_played: "(case grpc_play_on world_loopback [1] 0 [duellist, duellist] OneVsOne (lit ''tw'') ([1], 0) quiet of
    Some (Inr n, w) \<Rightarrow> n = 2 | _ \<Rightarrow> False)"
  by code_simp

lemma world_parts: "lb_event world_loopback stream = tick_world (\<lambda>w. Some (Inr (if sw_turn w then SdkProposal [4] 0 else SdkMatched [1] OneVsOne [] [] [])))"
    "lb_control world_loopback stream = tick_world (\<lambda>w. Inr (Some (Some (if sw_turn w then CtlLaunch (world_launch w) else CtlMatchResultAck [1]))))"
    "lb_expired world_loopback w = (sw_clock w = 0, w\<lparr>sw_clock := sw_clock w - 1\<rparr>)"
    "lb_sleep_ms world_loopback n w = w" "tr_service (lb_transport world_loopback) = world_service"
    "lb_bind world_loopback w = (Inr \<lparr>so_ip = IpV4 127 0 0 1, so_port = 9\<rparr>, w)" "lb_spawn world_loopback a config w = w"
    "lb_connect_game world_loopback e w = (Inr (), w)" "lb_stop world_loopback w = w"
  by (simp_all add: world_loopback_def)

lemma nobody_plays: "(case run_grpc world_loopback nobody quiet of Some (Inr report, w) \<Rightarrow> True | _ \<Rightarrow> False)"
proof -
  have "\<exists>servers. act_each (grpc_register world_loopback nobody) xs w = Some (Inr servers, w)" for xs w
  proof (induction xs)
    case (Cons x xs)
    have "\<exists>server. grpc_register world_loopback nobody x w = Some (Inr server, w)"
      by (simp add: grpc_register_def world_loopback_def act_then_def act_call_def act_do_def act_return_def Let_def)
    then show ?case using Cons.IH by (auto simp: act_then_def act_return_def)
  qed (simp add: act_return_def)
  then obtain servers where "act_each (grpc_register world_loopback nobody) (enumerate 0 grpc_fleet) quiet = Some (Inr servers, quiet)"
    by blast
  moreover have "generate_parties nobody = []"
    by (simp add: generate_parties_def nobody_def push_mode.simps)
  ultimately show ?thesis
    by (simp add: run_grpc_def act_then_def act_call_def act_do_def act_return_def world_parts)
qed

lemma world_get_state: "client_get_state (lb_transport world_loopback) c w = (r, w') \<Longrightarrow> sw_clock w' = sw_clock w"
  by (auto simp: client_get_state_def rpc_call_def world_parts world_service_def split: sum.splits)

lemma tick_world_left: "tick_world item w = (Came m, w') \<Longrightarrow> sw_clock w' < sw_clock w"
  by (auto simp: tick_world_def split: if_splits)

lemma world_timers: "timers_elapse world_loopback sw_clock"
  unfolding timers_elapse_def world_parts
proof (intro conjI allI impI)
  fix c w m w'
  assume poll: "poll_state world_loopback c w = (Came m, w')"
  then have "sw_clock w \<noteq> 0" by (auto simp: poll_state_def world_parts split: bool.splits)
  moreover obtain r w1 where "client_get_state (lb_transport world_loopback) c (w\<lparr>sw_clock := sw_clock w - 1\<rparr>) = (r, w1)" by fastforce
  moreover from this have "sw_clock w1 = sw_clock w - 1" by (drule_tac world_get_state) simp
  ultimately show "sw_clock w' < sw_clock w" using poll by (auto simp: poll_state_def world_parts split: sum.splits bool.splits)
qed (blast intro: tick_world_left)+

text \<open>C37: When the timers elapse, a run over gRPC returns, whatever the server and the network answer. A report says
  that every generated player has played exactly one match: the matches of a mode are its share divided by its
  roster, on at most nine servers in at most three regions. A scenario that leaves players over is an error.\<close>

theorem grpc_run_plays_everyone:
  assumes "timers_elapse L left_over"
  shows "\<exists>r s'. run_grpc L config s = Some (r, s') \<and> (\<forall>report. r = Inr report \<longrightarrow>
      tr_players report = cf_players config \<and> tr_parties report = length (generate_parties config)
    \<and> (\<forall>mode. roster_target mode * tr_mode_matches report mode = mode_share config mode)
    \<and> tr_completed_matches report = tr_mode_matches report OneVsOne + tr_mode_matches report FiveVsFive
        + tr_mode_matches report FreeForAll
    \<and> tr_completed_match_results report = tr_completed_matches report
    \<and> tr_fleet_servers report = 9 \<and> tr_servers_used report \<le> 9 \<and> tr_regions_used report \<le> 3)"
proof -
  note timers = assms
  have register: "yields (act_each (grpc_register L config) (enumerate 0 grpc_fleet)) (\<lambda>servers. length servers = 9)"
  proof (rule yields_mono [OF yields_each [where P = "\<lambda>_ _. True"]])
    show "yields (grpc_register L config x) (\<lambda>_. True)" for x
      unfolding grpc_register_def Let_def by (intro yields_total yields_return TrueI)
    show "length servers = 9" if "list_all2 (\<lambda>_ _. True) (enumerate 0 grpc_fleet) servers" for servers :: "(rstr \<times> nat) list"
      using list_all2_lengthD [OF that] by (simp add: grpc_fleet_def mode_servers_def load_regions_def)
  qed
  have "yields (run_grpc L config) (full_report config)"
    unfolding run_grpc_def Let_def
    apply (intro yields_total yields_then [OF register])
    subgoal premises servers for addr _ _ _ servers _
    proof -
      have servers: "length servers = 9" using servers by blast
      show ?thesis
    proof (cases "grpc_rosters (generate_parties config) [OneVsOne, FiveVsFive, FreeForAll]")
      case (Some groups)
      note cut = generated_rosters [OF Some]
      have roster: "g \<noteq> [] \<and> list_all (\<lambda>p. 1 \<le> length (lp_players p)) g" if "(i, g) \<in> set (enumerate 0 groups)" for i g
      proof -
        have "g \<in> set groups" using that by (auto simp: in_set_enumerate_eq)
        then have "uniform_roster g" "set g \<subseteq> set (generate_parties config)" using cut(1,2) by (auto simp: list_all_iff)
        then show ?thesis using generated_nonempty(1) unfolding uniform_roster_def list_all_iff by blast
      qed
      have "yields (act_fold (grpc_play_group L (lit ''http://'' @ lb_address_text L addr) servers) (enumerate 0 groups) empty_tally)
          (tallied servers ([] @ enumerate 0 groups))"
      proof (rule yields_fold)
        show "tallied servers [] empty_tally" by (simp add: tallied_def empty_tally_def)
        show "yields (grpc_play_group L (lit ''http://'' @ lb_address_text L addr) servers x tally) (tallied servers (ys @ [x]))"
          if "tallied servers ys tally" "x \<in> set (enumerate 0 groups)" for ys x tally
          using that roster grpc_play_group_ends [OF timers servers] by (cases x) blast
      qed
      then have play: "yields (act_fold (grpc_play_group L (lit ''http://'' @ lb_address_text L addr) servers) (enumerate 0 groups) empty_tally)
          (tallied servers (enumerate 0 groups))" by simp
      show ?thesis unfolding Some option.case
        by (intro yields_then [OF play] yields_total yields_return) (rule tallied_report [OF _ servers Some])
    qed (simp add: yields_fail)
    qed
    done
  then show ?thesis unfolding yields_def full_report_def by blast
qed

theorem grpc_run_plays_everyone_witness:
  "(\<exists>report s'. run_grpc world_loopback nobody quiet = Some (Inr report, s')
      \<and> tr_players report = 0 \<and> tr_fleet_servers report = 9)
    \<and> (\<exists>r s'. run_grpc world_loopback forty quiet = Some (r, s')
      \<and> (\<forall>report. r = Inr report \<longrightarrow> tr_players report = 40 \<and> tr_mode_matches report OneVsOne = 6))"
proof
  obtain report s' where "run_grpc world_loopback nobody quiet = Some (Inr report, s')"
    using nobody_plays by (auto split: option.splits sum.splits)
  then show "\<exists>report s'. run_grpc world_loopback nobody quiet = Some (Inr report, s')
      \<and> tr_players report = 0 \<and> tr_fleet_servers report = 9"
    using grpc_run_plays_everyone [OF world_timers, of nobody quiet] by (auto simp: nobody_def)
  obtain r s'' where "run_grpc world_loopback forty quiet = Some (r, s'')"
    "\<forall>report. r = Inr report \<longrightarrow> tr_players report = cf_players forty
      \<and> roster_target OneVsOne * tr_mode_matches report OneVsOne = mode_share forty OneVsOne"
    using grpc_run_plays_everyone [OF world_timers, of forty quiet] by blast
  then show "\<exists>r s'. run_grpc world_loopback forty quiet = Some (r, s')
      \<and> (\<forall>report. r = Inr report \<longrightarrow> tr_players report = 40 \<and> tr_mode_matches report OneVsOne = 6)"
    by (auto simp: forty_def mode_share_def roster_target_def)
qed

end
