(* ===== verification/Load_Cli.thy ===== *)
theory Load_Cli
  imports Load_Grpc
begin

text \<open>
  The two programs around the load scenario: \<open>core/src/bin/erps-load-test.rs\<close> (its command line, the two
  runs, the stored report) and \<open>core/src/bin/erps-test-fixture.rs\<close> (a server of its own with one game
  server that accepts every launch). Files and JSON are the record \<open>report_files\<close>; \<open>usize\<close> has 64 bits.
\<close>

section \<open>Numbers on the command line\<close>

datatype int_error = IntEmpty | IntInvalidDigit | IntTooLarge

fun parse_digits :: "nat \<Rightarrow> rstr \<Rightarrow> int_error + nat" where
  "parse_digits acc [] = Inr acc"
| "parse_digits acc (c # cs) = (if c < 48 \<or> 57 < c then Inl IntInvalidDigit
     else let v = acc * 10 + (c - 48) in if v < 2 ^ 64 then parse_digits v cs else Inl IntTooLarge)"

definition parse_unsigned :: "rstr \<Rightarrow> int_error + nat" where
  "parse_unsigned s = (case s of [] \<Rightarrow> Inl IntEmpty
     | c # cs \<Rightarrow> if cs = [] \<and> (c = 43 \<or> c = 45) then Inl IntInvalidDigit
         else parse_digits 0 (if c = 43 then cs else s))"

section \<open>The arguments of the load test\<close>

record load_options =
  lo_config :: scenario_config
  lo_grpc :: bool
  lo_baseline :: "rstr option"
  lo_output :: "rstr option"

datatype cli_error = CliMissing string | CliNumber int_error | CliUnknown rstr | CliText rstr
datatype cli_command = CliHelp | CliRun load_options

definition load_options_new :: "nat \<Rightarrow> load_options" where
  "load_options_new parallelism = \<lparr>lo_config = default_scenario parallelism, lo_grpc = False, lo_baseline = None, lo_output = None\<rparr>"

fun parse_load_args :: "load_options \<Rightarrow> rstr list \<Rightarrow> cli_error + cli_command" where
  "parse_load_args opts [] = Inr (CliRun opts)"
| "parse_load_args opts (arg # rest) =
    (if arg = lit ''-h'' \<or> arg = lit ''--help'' then Inr CliHelp
     else if arg = lit ''--players'' then (case rest of [] \<Rightarrow> Inl (CliMissing ''--players requires a value'')
       | v # rest \<Rightarrow> (case parse_unsigned v of Inl e \<Rightarrow> Inl (CliNumber e)
         | Inr n \<Rightarrow> parse_load_args (opts\<lparr>lo_config := (lo_config opts)\<lparr>cf_players := n\<rparr>\<rparr>) rest))
     else if arg = lit ''--seed'' then (case rest of [] \<Rightarrow> Inl (CliMissing ''--seed requires a value'')
       | v # rest \<Rightarrow> (case parse_unsigned v of Inl e \<Rightarrow> Inl (CliNumber e)
         | Inr n \<Rightarrow> parse_load_args (opts\<lparr>lo_config := (lo_config opts)\<lparr>cf_seed := of_nat n\<rparr>\<rparr>) rest))
     else if arg = lit ''--workers'' then (case rest of [] \<Rightarrow> Inl (CliMissing ''--workers requires a value'')
       | v # rest \<Rightarrow> (case parse_unsigned v of Inl e \<Rightarrow> Inl (CliNumber e)
         | Inr n \<Rightarrow> parse_load_args (opts\<lparr>lo_config := (lo_config opts)\<lparr>cf_workers := n\<rparr>\<rparr>) rest))
     else if arg = lit ''--grpc'' then parse_load_args (opts\<lparr>lo_grpc := True\<rparr>) rest
     else if arg = lit ''--baseline'' then (case rest of [] \<Rightarrow> Inl (CliMissing ''--baseline requires a JSON report path'')
       | v # rest \<Rightarrow> parse_load_args (opts\<lparr>lo_baseline := Some v\<rparr>) rest)
     else if arg = lit ''--output'' then (case rest of [] \<Rightarrow> Inl (CliMissing ''--output requires a JSON report path'')
       | v # rest \<Rightarrow> parse_load_args (opts\<lparr>lo_output := Some v\<rparr>) rest)
     else Inl (CliUnknown arg))"

section \<open>The load test\<close>

record full_load_report =
  fr_report :: load_report
  fr_transport :: "transport_report option"
  fr_baseline :: "baseline_comparison option"

record 'json report_files =
  fi_read :: "rstr \<Rightarrow> rstr + nat list"
  fi_parse :: "nat list \<Rightarrow> rstr + (rstr \<Rightarrow> 'json option)"
  fi_field :: "full_load_report \<Rightarrow> rstr \<Rightarrow> 'json"
  fi_pretty :: "full_load_report \<Rightarrow> rstr"
  fi_write :: "rstr \<Rightarrow> rstr \<Rightarrow> rstr + unit"

text \<open>The error of a run: its text, or the printed report with the failures.\<close>

definition load_result :: "'json report_files \<Rightarrow> (placement_error \<Rightarrow> rstr) \<Rightarrow> load_outcome \<Rightarrow> rstr + load_report" where
  "load_result F show_error outcome = (case outcome of
      LoadRefused why \<Rightarrow> Inl (lit why)
    | LoadStopped (PlacementFailed e) \<Rightarrow> Inl (show_error e)
    | LoadStopped (MemoryUnread e) \<Rightarrow> Inl e
    | LoadFailed report \<Rightarrow> Inl (fi_pretty F \<lparr>fr_report = report, fr_transport = None, fr_baseline = None\<rparr>)
    | LoadPassed report \<Rightarrow> Inr report)"

definition with_baseline :: "'json report_files \<Rightarrow> rstr option \<Rightarrow> full_load_report \<Rightarrow> rstr + full_load_report" where
  "with_baseline F path report = (case path of None \<Rightarrow> Inr report
    | Some p \<Rightarrow> (case fi_read F p of Inl e \<Rightarrow> Inl e
      | Inr bytes \<Rightarrow> (case fi_parse F bytes of Inl e \<Rightarrow> Inl e
        | Inr stored \<Rightarrow> Inr (report\<lparr>fr_baseline := Some (compare_baseline (fi_field F report) stored)\<rparr>))))"

definition save_report :: "'json report_files \<Rightarrow> rstr option \<Rightarrow> full_load_report \<Rightarrow> rstr + rstr" where
  "save_report F path report = (let serialized = fi_pretty F report in case path of None \<Rightarrow> Inr serialized
    | Some p \<Rightarrow> (case fi_write F p serialized of Inl e \<Rightarrow> Inl e | Inr _ \<Rightarrow> Inr serialized))"

text \<open>The run; its result is the text that is printed.\<close>

definition load_test_run :: "'s loopback \<Rightarrow> 'json report_files \<Rightarrow> (placement_error \<Rightarrow> rstr) \<Rightarrow> load_machine
    \<Rightarrow> (entity list \<Rightarrow> entity list) \<Rightarrow> proposal_id \<Rightarrow> load_options \<Rightarrow> ('s, rstr) act" where
  "load_test_run L F show_error M join pid opts =
    act_then (if lo_grpc opts then act_then (run_grpc L (lo_config opts)) (\<lambda>t. act_return (Some t)) else act_return None) (\<lambda>transport.
    case run_load M (lb_uuid L) (lb_count L) join pid (lo_config opts) of
      None \<Rightarrow> act_panic
    | Some outcome \<Rightarrow>
      act_then (act_call (Pair (load_result F show_error outcome))) (\<lambda>report.
      act_then (act_call (Pair (with_baseline F (lo_baseline opts)
          \<lparr>fr_report = report, fr_transport = transport, fr_baseline = None\<rparr>))) (\<lambda>report.
      act_call (Pair (save_report F (lo_output opts) report)))))"

definition load_test_main :: "'s loopback \<Rightarrow> 'json report_files \<Rightarrow> (placement_error \<Rightarrow> rstr) \<Rightarrow> load_machine
    \<Rightarrow> (entity list \<Rightarrow> entity list) \<Rightarrow> proposal_id \<Rightarrow> nat \<Rightarrow> rstr list \<Rightarrow> 's \<Rightarrow> ((cli_error + rstr option) \<times> 's) option" where
  "load_test_main L F show_error M join pid parallelism args s =
    (case parse_load_args (load_options_new parallelism) args of
       Inl e \<Rightarrow> Some (Inl e, s)
     | Inr CliHelp \<Rightarrow> Some (Inr None, s)
     | Inr (CliRun opts) \<Rightarrow> (case load_test_run L F show_error M join pid opts s of
         None \<Rightarrow> None
       | Some (Inl e, s) \<Rightarrow> Some (Inl (CliText e), s)
       | Some (Inr text, s) \<Rightarrow> Some (Inr (Some text), s)))"

section \<open>The fixture\<close>

definition fixture_registration :: "rstr \<Rightarrow> register_msg" where
  "fixture_registration server_id = \<lparr>rg_api = Some plain_api, rg_auth_token = lit ''fixture-server'', rg_server_id = server_id,
     rg_generation = 1, rg_endpoint = lit ''127.0.0.1:7000'', rg_region = lit ''tw'', rg_capacity_total = 100,
     rg_max_instances = 100, rg_mode_costs = [(pb_mode OneVsOne, 1)], rg_instances = [], rg_server_class = []\<rparr>"

definition fixture_control :: "rstr \<Rightarrow> server_message \<Rightarrow> control_msg" where
  "fixture_control server_id message = \<lparr>cm_api = Some plain_api, cm_auth_token = lit ''fixture-server'',
     cm_server_id = server_id, cm_generation = 1, cm_message = Some message\<rparr>"

definition fixture_result :: "rstr \<Rightarrow> string \<Rightarrow> string \<Rightarrow> rstr \<Rightarrow> server_message" where
  "fixture_result match_id state endpoint token = SmLaunchResult \<lparr>lr_match_id = match_id, lr_state = lit state,
     lr_endpoint = lit endpoint, lr_connection_token = token, lr_reason = []\<rparr>"

text \<open>
  What wakes the fixture: a message of its control stream (the outer \<open>None\<close> is the end of the stream), the
  heartbeat, or the signal. It answers with messages, or ends its loop (\<open>None\<close>), with the error of the
  stream if there was one. The random connection token is an argument.
\<close>

datatype fixture_wake = FixtureControl "rstr + erps_control option option" | FixtureHeartbeat | FixtureSignal

definition fixture_step :: "rstr \<Rightarrow> rstr \<Rightarrow> fixture_wake \<Rightarrow> rstr + control_msg list option" where
  "fixture_step server_id token wake = (case wake of
      FixtureControl (Inl e) \<Rightarrow> Inl e
    | FixtureControl (Inr None) \<Rightarrow> Inr None
    | FixtureControl (Inr (Some (Some (CtlLaunch l)))) \<Rightarrow> Inr (Some
        [fixture_control server_id (fixture_result (lm_match_id l) ''accepted'' '''' []),
         fixture_control server_id (fixture_result (lm_match_id l) ''ready'' ''127.0.0.1:7001'' token)])
    | FixtureControl (Inr (Some _)) \<Rightarrow> Inr (Some [])
    | FixtureHeartbeat \<Rightarrow> Inr (Some [fixture_control server_id (SmHeartbeat 0 0)])
    | FixtureSignal \<Rightarrow> Inr None)"

definition fixture_address :: socket_addr where
  "fixture_address = \<lparr>so_ip = IpV4 127 0 0 1, so_port = 50059\<rparr>"

text \<open>Up to the line that says that the fixture is ready; the result is the control stream.\<close>

definition fixture_start :: "'s loopback \<Rightarrow> rstr \<Rightarrow> ('s, nat) act" where
  "fixture_start L server_id =
    act_then (act_do (lb_spawn L fixture_address loopback_config)) (\<lambda>_.
    act_then (act_do (lb_sleep_ms L 100)) (\<lambda>_.
    act_then (act_call (lb_connect_game L (lit ''http://127.0.0.1:50059''))) (\<lambda>_.
    act_then (act_call (lb_register L (fixture_registration server_id))) (\<lambda>_.
    act_then (act_call (lb_control_stream L)) (\<lambda>stream.
    act_then (act_call (lb_send L stream (fixture_control server_id (SmHeartbeat 0 0)))) (\<lambda>_.
    act_return stream))))))"

text \<open>The server that the fixture and the load test spawn does start.\<close>

lemma loopback_config_valid: "validate loopback_config = Inr ()"
  using default_config_valid
  by (simp add: loopback_config_def validate_iff capacity_fields_def duration_fields_def search_range_invalid_def
      elo_factors_invalid_def credit_invalid_def tls_invalid_def)

lemma loopback_server_starts:
  assumes "is_loopback (so_ip addr)"
  shows "\<exists>up. serve h addr loopback_config = Inr up \<and> up_tls up = None \<and> up_config up = loopback_config
    \<and> mg_validator (up_matchmaking up) = development_validate"
proof -
  have "ec_tls_certificate_path loopback_config = None" "ec_allow_development_plaintext loopback_config"
    by (simp_all add: loopback_config_def default_config_def)
  then show ?thesis using assms loopback_config_valid
    by (simp add: serve_def serve_with_validator_def serve_with_validators_def tls_pair_def plaintext_allowed_def read_tls_def
        matchmaking_with_validator_def Let_def)
qed

section \<open>Reading what was written\<close>

text \<open>The arguments that ask for given options, with numbers in decimal.\<close>

fun decimal :: "nat \<Rightarrow> rstr" where
  "decimal n = (if n < 10 then [48 + n] else decimal (n div 10) @ [48 + n mod 10])"

declare decimal.simps [simp del]

definition load_args :: "load_options \<Rightarrow> rstr list" where
  "load_args opts = [lit ''--players'', decimal (cf_players (lo_config opts)), lit ''--seed'', decimal (unat (cf_seed (lo_config opts))),
     lit ''--workers'', decimal (cf_workers (lo_config opts))]
     @ (if lo_grpc opts then [lit ''--grpc''] else [])
     @ (case lo_baseline opts of None \<Rightarrow> [] | Some p \<Rightarrow> [lit ''--baseline'', p])
     @ (case lo_output opts of None \<Rightarrow> [] | Some p \<Rightarrow> [lit ''--output'', p])"

lemma parse_digits_append:
  "parse_digits acc (s @ t) = (case parse_digits acc s of Inl e \<Rightarrow> Inl e | Inr v \<Rightarrow> parse_digits v t)"
  by (induction acc s rule: parse_digits.induct) (auto simp: Let_def)

lemma parse_decimal: "n < 2 ^ 64 \<Longrightarrow> parse_digits 0 (decimal n) = Inr n"
proof (induction n rule: decimal.induct)
  case (1 n)
  show ?case
  proof (cases "n < 10")
    case False
    then have "parse_digits 0 (decimal (n div 10)) = Inr (n div 10)" using 1 by simp
    moreover have "n div 10 * 10 + n mod 10 = n" by simp
    ultimately show ?thesis using False 1(2) by (simp add: decimal.simps [of n] parse_digits_append Let_def)
  qed (use 1 in \<open>simp add: decimal.simps [of n] Let_def\<close>)
qed

lemma decimal_digits: "decimal n \<noteq> [] \<and> (\<forall>c \<in> set (decimal n). 48 \<le> c \<and> c \<le> 57)"
proof (induction n rule: decimal.induct)
  case (1 n)
  then show ?case by (cases "n < 10") (simp_all add: decimal.simps [of n])
qed

lemma parse_unsigned_decimal: "n < 2 ^ 64 \<Longrightarrow> parse_unsigned (decimal n) = Inr n"
proof -
  assume n: "n < 2 ^ 64"
  obtain c cs where shape: "decimal n = c # cs" using decimal_digits [of n] by (cases "decimal n") auto
  then have "48 \<le> c" using decimal_digits [of n] by simp
  then show ?thesis using parse_decimal [OF n] shape by (simp add: parse_unsigned_def)
qed

lemma load_args_round_trip:
  assumes "cf_players (lo_config opts) < 2 ^ 64" "cf_workers (lo_config opts) < 2 ^ 64"
  shows "parse_load_args (load_options_new parallelism) (load_args opts) = Inr (CliRun opts)"
proof -
  have "unat (cf_seed (lo_config opts)) < 2 ^ 64" using unat_less_exp [of "cf_seed (lo_config opts)"] by simp
  note numbers = assms [THEN parse_unsigned_decimal] this [THEN parse_unsigned_decimal]
  show ?thesis
    by (cases "lo_grpc opts"; cases "lo_baseline opts"; cases "lo_output opts")
      (simp_all add: load_args_def numbers lit_def load_options_new_def default_scenario_def)
qed

end
