(* ===== verification/Load_Measures.thy ===== *)
theory Load_Measures
  imports Load_Test Rating
begin

text \<open>
  The measured part of the report of \<open>core/src/load_test/mod.rs\<close>: the constants of the scenario, the
  percentiles of the latencies, the ratios in floating point and the relative changes against a
  stored report. What the machine measures (times) and is (system, processors) is the record
  \<open>measured\<close>.
\<close>

record scenario_settings =
  st_mode_mix_percent :: "nat list"
  st_party_limits :: "nat list"
  st_candidate_budget_per_shard :: nat
  st_regions :: "rstr list"
  st_fleet_servers :: nat
  st_search_delta :: i32
  st_ready_deadline_ticks :: nat
  st_rejection_every_matches :: nat
  st_timeout_every_matches :: nat
  st_cancellation_every_matches :: nat
  st_server_cycle_every_matches :: nat
  st_server_capacity_range :: "nat \<times> nat"
  st_server_instance_range :: "nat \<times> nat"
  st_rating_range :: "i32 \<times> i32"
  st_five_v_five_mirror_seconds :: u64
  st_five_v_five_party_bonuses :: "i32 list"

definition run_settings :: scenario_settings where
  "run_settings = \<lparr>st_mode_mix_percent = [30, 50, 20], st_party_limits = [1, 5, 4], st_candidate_budget_per_shard = 1024,
     st_regions = load_regions, st_fleet_servers = 128, st_search_delta = 600, st_ready_deadline_ticks = 15,
     st_rejection_every_matches = 200, st_timeout_every_matches = 500, st_cancellation_every_matches = 100,
     st_server_cycle_every_matches = 1000, st_server_capacity_range = (100, 999), st_server_instance_range = (1, 100),
     st_rating_range = (800, 2000), st_five_v_five_mirror_seconds = FIVE_V_FIVE_MIRROR_SECONDS,
     st_five_v_five_party_bonuses = FIVE_V_FIVE_PARTY_BONUSES\<rparr>"

record measured =
  md_elapsed_seconds :: f64
  md_elapsed_ms :: nat
  md_latencies_us :: "u64 list"
  md_operating_system :: rstr
  md_cpu_arch :: rstr
  md_processor_identifier :: "rstr option"
  md_host_type :: "rstr option"
  md_logical_cpus :: "nat option"

record load_measures =
  me_elapsed_ms :: nat
  me_throughput :: f64
  me_capacity_utilization :: f64
  me_ready_rate :: f64
  me_average_elo_quality :: f64
  me_memory_high_watermark_bytes :: u64
  me_p50_us :: u64
  me_p95_us :: u64
  me_p99_us :: u64
  me_rust_version :: rstr
  me_operating_system :: rstr
  me_cpu_arch :: rstr
  me_cpu_model :: rstr
  me_logical_cpus :: nat
  me_settings :: scenario_settings

text \<open>\<open>f64::max\<close>: a NaN loses.\<close>

definition f_max :: "f64 \<Rightarrow> f64 \<Rightarrow> f64" where
  "f_max x y = (if x = NaN then y else if y = NaN then x else if f_le x y then y else x)"

text \<open>\<open>n as f64\<close> for an unsigned number.\<close>

definition f_of_nat :: "f64_env \<Rightarrow> nat \<Rightarrow> f64" where
  "f_of_nat E n = fe_fl E (real n)"

definition f_ratio :: "f64_env \<Rightarrow> nat \<Rightarrow> nat \<Rightarrow> f64" where
  "f_ratio E a b = f_div E (f_of_nat E a) (f_of_nat E (max b 1))"

definition total_capacity :: "registry \<Rightarrow> u64" where
  "total_capacity r = fold (\<lambda>s a. a + ucast (gs_capacity_total s)) (bm_values r) 0"

text \<open>The measures of a run that has ended in the state \<open>ru\<close>, after the last reading of the memory.\<close>

definition measures_of :: "f64_env \<Rightarrow> measured \<Rightarrow> scenario_config \<Rightarrow> load_run \<Rightarrow> load_measures" where
  "measures_of E md config ru =
    (let latencies = sort (md_latencies_us md);
         used = max (unat (ru_peak_capacity_used ru)) (unat (used_capacity (ru_registry ru)))
     in \<lparr>me_elapsed_ms = md_elapsed_ms md,
         me_throughput = f_div E (f_of_nat E (cf_players config)) (f_max (md_elapsed_seconds md) (fe_fl E (1 / 1000000))),
         me_capacity_utilization = f_ratio E used (unat (total_capacity (ru_registry ru))),
         me_ready_rate = f_ratio E (ru_matches ru) (ru_matches ru + ru_rejections ru + ru_timeouts ru),
         me_average_elo_quality = f_ratio E (unat (ru_elo_quality_sum ru)) (ru_matches ru),
         me_memory_high_watermark_bytes = ps_peak_bytes (ru_sampler ru),
         me_p50_us = percentile latencies 50, me_p95_us = percentile latencies 95, me_p99_us = percentile latencies 99,
         me_rust_version = lit ''rust-1.95-toolchain'', me_operating_system = md_operating_system md,
         me_cpu_arch = md_cpu_arch md,
         me_cpu_model = unwrap_or (unwrap_or (lit ''unknown'') (md_host_type md)) (md_processor_identifier md),
         me_logical_cpus = unwrap_or 1 (md_logical_cpus md), me_settings = run_settings\<rparr>)"

text \<open>The relative change against a number of a stored report, which may be missing or zero.\<close>

definition percent_change :: "f64_env \<Rightarrow> f64 option \<Rightarrow> f64 \<Rightarrow> f64 option" where
  "percent_change E stored v = (case stored of None \<Rightarrow> None
    | Some b \<Rightarrow> if b = Fin 0 then None else Some (f_div E (f_mul E (f_sub E v b) (Fin 100)) b))"

definition throughput_change :: "f64_env \<Rightarrow> f64 option \<Rightarrow> load_measures \<Rightarrow> f64 option" where
  "throughput_change E stored me = percent_change E stored (me_throughput me)"

definition p99_change :: "f64_env \<Rightarrow> f64 option \<Rightarrow> load_measures \<Rightarrow> f64 option" where
  "p99_change E stored me = percent_change E stored (f_of_nat E (unat (me_p99_us me)))"

section \<open>What the measures say\<close>

lemma load_percentile_mono:
  assumes "sorted xs" "a \<le> b" "b \<le> 100"
  shows "percentile xs a \<le> percentile xs b"
proof (cases "xs = []")
  case False
  let ?i = "\<lambda>k. (length xs - 1) * k div 100"
  have "?i k \<le> (length xs - 1) * 100 div 100" if "k \<le> 100" for k by (intro div_le_mono mult_le_mono2 that)
  then have "?i k \<le> length xs - 1" if "k \<le> 100" for k using that by simp
  then have inside: "?i k < length xs" if "k \<le> 100" for k
    using that False by (metis Suc_pred' le_imp_less_Suc length_greater_0_conv One_nat_def diff_Suc_1)
  have "?i a \<le> ?i b" by (intro div_le_mono mult_le_mono2 assms(2))
  then have "xs ! ?i a \<le> xs ! ?i b" using assms inside by (intro sorted_nth_mono) auto
  then show ?thesis using inside [of a] inside [of b] assms by (simp add: percentile_def Let_def)
qed (simp add: percentile_def)

lemma percentiles_ordered:
  "me_p50_us (measures_of E md config ru) \<le> me_p95_us (measures_of E md config ru)"
  "me_p95_us (measures_of E md config ru) \<le> me_p99_us (measures_of E md config ru)"
  by (simp_all add: measures_of_def Let_def load_percentile_mono)

text \<open>A ratio of a part to the whole lies between 0 and 1.\<close>

context f64_arith
begin

lemma ratio_unit:
  assumes "a \<le> b" and "fe_fl E (real (max b 1)) = Fin y"
  obtains r where "f_ratio E a b = Fin r" "0 \<le> r" "r \<le> 1"
proof -
  have "f_le (fe_fl E 1) (Fin y)" "f_le (fe_fl E (real a)) (Fin y)"
    using law_mono [of 1 "real (max b 1)"] law_mono [of "real a" "real (max b 1)"] assms by auto
  then have y: "1 \<le> y" by (simp add: law_exact)
  obtain x where x: "fe_fl E (real a) = Fin x" "0 \<le> x" "x \<le> y"
    using fl_nonneg [of "real a"] \<open>f_le (fe_fl E (real a)) (Fin y)\<close> by force
  have "0 \<le> x / y" "x / y \<le> 1" using x y by (auto simp: divide_le_eq_1)
  then obtain r where "fe_fl E (x / y) = Fin r" "0 \<le> r" "r \<le> 1" by (rule fl_unit)
  then show ?thesis using that x y assms(2) by (simp add: f_ratio_def f_of_nat_def)
qed

end

text \<open>The arithmetic of the samples, where nothing is rounded.\<close>

lemma ready_rate_unit:
  "\<exists>r. me_ready_rate (measures_of exact_env md config ru) = Fin r \<and> 0 \<le> r \<and> r \<le> 1"
proof -
  have part: "ru_matches ru \<le> ru_matches ru + ru_rejections ru + ru_timeouts ru" by linarith
  obtain r where "f_ratio exact_env (ru_matches ru) (ru_matches ru + ru_rejections ru + ru_timeouts ru) = Fin r" "0 \<le> r" "r \<le> 1"
    by (rule exact.ratio_unit [OF part]) (simp_all add: exact_env_def)
  then show ?thesis by (simp add: measures_of_def Let_def)
qed

end
