(* ===== verification/Startup_Properties.thy ===== *)
theory Startup_Properties
  imports Startup Samples
begin

text \<open>
  What a server that starts guarantees about the identities it accepts, and which configurations
  start.
\<close>

lemma config_load_valid: "config_load h path = Inr config \<Longrightarrow> validate config = Inr ()"
  by (auto simp: config_load_def split: sum.splits)

lemma main_config_valid: "main_config h args = Inr config \<Longrightarrow> validate config = Inr ()"
  by (auto simp: main_config_def split: sum.splits)

lemma validate_tls:
  "validate config = Inr () \<Longrightarrow> (ec_tls_certificate_path config \<noteq> None) = (ec_tls_private_key_path config \<noteq> None)"
  unfolding validate_iff tls_invalid_def by blast

lemma read_tls_pair: "read_tls h paths = Inr tls \<Longrightarrow> tls = None \<longleftrightarrow> paths = None"
  by (auto simp: read_tls_def split: option.splits sum.splits)

lemma serve_started:
  assumes "serve_with_validators h addr config v sv = Inr up"
  shows "up_config up = config" "up_addr up = addr" "mg_validator (up_matchmaking up) = v"
    "gg_validator (up_games up) = sv" "validate config = Inr ()"
    "up_tls up = None \<longleftrightarrow> ec_tls_certificate_path config = None"
    "up_tls up = None \<Longrightarrow> plaintext_allowed addr config"
    "hb_matchmaking (up_health up) \<longleftrightarrow> \<not> ec_drain_mode config"
proof -
  obtain tls where tls: "validate config = Inr ()" "read_tls h (tls_pair config) = Inr tls"
    "tls_pair config = None \<Longrightarrow> plaintext_allowed addr config"
    "up = \<lparr>up_addr = addr, up_tls = tls, up_matchmaking = matchmaking_with_validator (core_new config) v,
       up_games = game_server_with_validator (core_new config) sv, up_admin = admin_grpc_new (core_new config),
       up_health = \<lparr>hb_matchmaking = (\<not> ec_drain_mode config), hb_game_server = True, hb_admin = True\<rparr>,
       up_config = config, up_grace = ec_graceful_shutdown_seconds config\<rparr>"
    using assms by (auto simp: serve_with_validators_def Let_def split: sum.splits if_splits)
  have "tls_pair config = None \<longleftrightarrow> ec_tls_certificate_path config = None"
    using validate_tls [OF tls(1)] by (auto simp: tls_pair_def split: option.splits)
  with tls read_tls_pair [OF tls(2)] show "up_config up = config" "up_addr up = addr"
    "mg_validator (up_matchmaking up) = v" "gg_validator (up_games up) = sv" "validate config = Inr ()"
    "up_tls up = None \<longleftrightarrow> ec_tls_certificate_path config = None"
    "up_tls up = None \<Longrightarrow> plaintext_allowed addr config" "hb_matchmaking (up_health up) \<longleftrightarrow> \<not> ec_drain_mode config"
    by (auto simp: matchmaking_with_validator_def game_server_with_validator_def)
qed

lemma serve_plaintext: "serve h addr config = Inr up \<Longrightarrow> ec_tls_certificate_path config = None
    \<and> serve_with_validators h addr config development_validate development_validate_server = Inr up"
  by (auto simp: serve_def serve_with_validator_def split: if_splits)

lemma server_mainD:
  assumes "server_main h codec args = MainServing up"
  obtains config addr path server_path where "main_config h args = Inr config"
      "ho_var h (lit ''ERPS_AUTH_TOKEN_MAP'') = Some path"
      "ho_var h (lit ''ERPS_SERVER_AUTH_TOKEN_MAP'') = Some server_path"
      "main_with_maps h codec addr config path server_path = Inr up"
    | config addr where "main_config h args = Inr config" "serve h addr config = Inr up"
  using assms by (auto simp: server_main_def started_def Let_def split: sum.splits if_splits option.splits)

text \<open>A machine with a production configuration, whose two token maps hold one token each.\<close>

definition production :: erps_config where
  "production = default_config\<lparr>ec_tls_certificate_path := Some [99], ec_tls_private_key_path := Some [107]\<rparr>"

definition vault :: host where
  "vault = \<lparr>ho_var = (\<lambda>v. if v = lit ''ERPS_LISTEN'' then None else Some [109]), ho_read_text = Inr, ho_read_bytes = Inr,
     ho_parse_toml = (\<lambda>_. Inr production), ho_parse_json = (\<lambda>_. Inr (bm_insert [116] (uc_show simple_codec 7) bm_empty)),
     ho_parse_addr = (\<lambda>_. Inr \<lparr>so_ip = IpV4 10 0 0 1, so_port = 50051\<rparr>), ho_tls_identity = (\<lambda>_ _. Inr ())\<rparr>"

lemma production_valid: "validate production = Inr ()"
  using default_config_valid
  by (simp add: production_def validate_iff capacity_fields_def duration_fields_def search_range_invalid_def
      elo_factors_invalid_def credit_invalid_def tls_invalid_def)

lemma vault_config: "main_config vault [[0]] = Inr production"
  by (simp add: main_config_def config_load_def vault_def production_valid)

lemma vault_maps: "token_map_from_file vault simple_codec kind path = Inr (bm_insert [116] (UuidId 7) bm_empty)"
  by (simp add: token_map_from_file_def vault_def id_from_str_def simple_text.law_parse_show bm_of_list_def)

lemma vault_vars: "ho_var vault (lit ''ERPS_AUTH_TOKEN_MAP'') = Some [109]"
    "ho_var vault (lit ''ERPS_SERVER_AUTH_TOKEN_MAP'') = Some [109]"
    "ho_parse_addr vault t = Inr \<lparr>so_ip = IpV4 10 0 0 1, so_port = 50051\<rparr>"
  by (simp_all add: vault_def lit_def)

lemma vault_serves:
  "\<exists>up. serve_with_validators vault addr production v sv = Inr up \<and> up_tls up = Some ([99], [107]) \<and> mg_validator (up_matchmaking up) = v"
  by (simp add: serve_with_validators_def production_valid Let_def tls_pair_def read_tls_def)
     (simp add: production_def vault_def matchmaking_with_validator_def)

lemma vault_starts: "\<exists>up. server_main vault simple_codec [[0]] = MainServing up \<and> up_tls up = Some ([99], [107])
    \<and> mg_validator (up_matchmaking up) = static_validate (bm_insert [116] (UuidId 7) bm_empty)"
proof -
  let ?addr = "\<lparr>so_ip = IpV4 10 0 0 1, so_port = 50051\<rparr>"
  obtain up where "serve_with_validators vault ?addr production (static_validate (bm_insert [116] (UuidId 7) bm_empty))
      (static_validate_server (bm_insert [116] (UuidId 7) bm_empty)) = Inr up"
    "up_tls up = Some ([99], [107])"
    "mg_validator (up_matchmaking up) = static_validate (bm_insert [116] (UuidId 7) bm_empty)"
    using vault_serves by blast
  then show ?thesis
    by (simp add: server_main_def vault_config vault_vars started_def main_with_maps_def vault_maps lit_def
        [of "''-h''"] lit_def [of "''--help''"])
qed

text \<open>C5: A server that starts has a valid configuration. Without TLS it listens on a loopback address only,
  and its configuration allows plaintext; with TLS it accepts players and game servers by the two token maps
  named in the environment and by nothing else, so a token that is in no map is refused. The development
  validators, which believe every token, are never reachable over a network.\<close>

theorem started_server_is_guarded:
  assumes "server_main h codec args = MainServing up"
  shows "validate (up_config up) = Inr () \<and> (case up_tls up of
      None \<Rightarrow> is_loopback (so_ip (up_addr up)) \<and> ec_allow_development_plaintext (up_config up)
    | Some _ \<Rightarrow> \<exists>path server_path players servers.
        ho_var h (lit ''ERPS_AUTH_TOKEN_MAP'') = Some path
        \<and> token_map_from_file h codec ''PlayerId'' path = Inr players
        \<and> (\<forall>token p. mg_validator (up_matchmaking up) token = Inr p \<longleftrightarrow> bm_get players token = Some p)
        \<and> ho_var h (lit ''ERPS_SERVER_AUTH_TOKEN_MAP'') = Some server_path
        \<and> token_map_from_file h codec ''ServerId'' server_path = Inr servers
        \<and> (\<forall>token s. gg_validator (up_games up) token s = Inr () \<longleftrightarrow> bm_get servers token = Some s))"
  using assms
proof (cases rule: server_mainD)
  case (1 config addr path server_path)
  then obtain players servers where maps: "token_map_from_file h codec ''PlayerId'' path = Inr players"
    "token_map_from_file h codec ''ServerId'' server_path = Inr servers"
    "serve_with_validators h addr config (static_validate players) (static_validate_server servers) = Inr up"
    by (auto simp: main_with_maps_def split: sum.splits)
  note started = serve_started [OF maps(3)]
  have "static_validate players token = Inr p \<longleftrightarrow> bm_get players token = Some p" for token p
    by (auto simp: static_validate_def split: option.splits)
  moreover have "static_validate_server servers token s = Inr () \<longleftrightarrow> bm_get servers token = Some s" for token s
    by (auto simp: static_validate_server_def split: option.splits)
  ultimately show ?thesis using 1 maps started
    by (auto simp: plaintext_allowed_def split: option.splits)
next
  case (2 config addr)
  note served = serve_plaintext [OF 2(2)]
  note started = serve_started [OF conjunct2 [OF served]]
  have "up_tls up = None" using started(6) served by simp
  then show ?thesis using started by (simp add: plaintext_allowed_def)
qed

theorem started_server_is_guarded_witness:
  "\<exists>up. server_main vault simple_codec [[0]] = MainServing up \<and> up_tls up = Some ([99], [107])
    \<and> validate (up_config up) = Inr ()
    \<and> mg_validator (up_matchmaking up) [116] = Inr (UuidId 7) \<and> mg_validator (up_matchmaking up) [117] \<noteq> Inr (UuidId 7)"
proof -
  obtain up where up: "server_main vault simple_codec [[0]] = MainServing up" "up_tls up = Some ([99], [107])"
    "mg_validator (up_matchmaking up) = static_validate (bm_insert [116] (UuidId 7) bm_empty)"
    using vault_starts by blast
  then show ?thesis using started_server_is_guarded [OF up(1)]
    by (auto simp: static_validate_def)
qed

text \<open>
  The help text and the production example ask for the contents of the token maps in the two
  variables. The program reads them as paths: where no file has the contents for a name, a server
  that is configured as documented does not start.
\<close>

lemma documented_token_maps_are_refused:
  assumes "main_config h args = Inr config" "length args \<le> 1"
    "args \<noteq> [lit ''-h'']" "args \<noteq> [lit ''--help'']"
    "ho_parse_addr h (unwrap_or (lit ''127.0.0.1:50051'') (ho_var h (lit ''ERPS_LISTEN''))) = Inr addr"
    "ho_var h (lit ''ERPS_AUTH_TOKEN_MAP'') = Some players" "ho_var h (lit ''ERPS_SERVER_AUTH_TOKEN_MAP'') = Some servers"
    "ho_read_bytes h players = Inl e"
  shows "server_main h codec args = MainRefused (StartIo e)"
  using assms by (cases args) (auto simp: server_main_def started_def main_with_maps_def token_map_from_file_def)

end
