(* ===== verification/Spec2Isabelle.thy ===== *)
theory Spec2Isabelle
  imports Matching_Properties Service_Properties Registry_Properties Client_Properties Authority_Deadlines
    Launch_Properties Ready_Properties Load_Driver Load_Cli Load_Measures Startup_Properties
begin

text \<open>
  ERPS is a matchmaking service written in Rust: players form parties, parties queue for a mode
  and a set of regions, the matcher builds balanced candidates, the players of a candidate accept
  or refuse it, an accepted proposal is launched on a game server that has room, and the result
  of the match settles ratings and credit. Game programs reach it through a client library
  (\<open>src/client/\<close>) and its C interface (\<open>src/client-ffi/\<close>); a load scenario drives the whole. The core is
  in \<open>src/core/src/\<close>. This development is a shallow embedding of them, with one group of theories for
  each part.

  \<^bold>\<open>Vocabulary.\<close> \<open>Prelude\<close> has the machine integers and the saturating, checked and casting
  operations of the Rust library, \<open>Ordered_Map\<close> the ordered map (\<open>BTreeMap\<close>) as sorted association
  lists with a canonical representation, so that equality of maps is equality of values, and a
  locale of indexed sums over such maps. \<open>Ids\<close> has the identifier types (\<open>id.rs\<close>), \<open>Components\<close>,
  \<open>Ecs\<close> and \<open>Resources\<close> the entity world (\<open>components/mod.rs\<close>, \<open>world.rs\<close>, \<open>resources/mod.rs\<close>), \<open>Wire\<close> the
  messages of \<open>erps.proto\<close> and the error texts.

  \<^bold>\<open>Services.\<close> \<open>Credit\<close>, \<open>Session\<close> (\<open>session.rs\<close>, \<open>command.rs\<close>), \<open>Profile\<close>, \<open>Party\<close> (with invitations),
  \<open>Rating\<close>, \<open>Config\<close>, \<open>Metrics\<close>, each with the operations of the file of the same name. Every failure is
  a value: \<open>Inl\<close> is the error the code returns, \<open>None\<close> is a panic (an index out of range, a failed
  \<open>expect\<close>, a clamp with its bounds in the wrong order).

  \<^bold>\<open>Matching.\<close> \<open>Matching\<close> (buckets, search windows, snapshots, claims), \<open>Builders\<close> (\<open>one_v_one.rs\<close>,
  \<open>five_v_five.rs\<close>, \<open>free_for_all.rs\<close>), \<open>Dispatcher\<close> (the loop over one shard and the merge) and
  \<open>Proposal\<close> (the ready check). \<open>Builder_Laws\<close> states what a builder promises as the locale
  \<open>candidate_builder\<close>, interpreted for the three builders; the lemmas of \<open>Dispatcher\<close> about any builder
  follow once. The budget of the code is the fuel of its enumerations: the recursion over the
  indices is structural, and the loop over a shard terminates because every round that continues
  claims a ticket of the shard.

  \<^bold>\<open>Game servers.\<close> \<open>Server\<close> (registration, heartbeat, health, reconciliation) and \<open>Placement\<close>
  (reservation, transition, release, retry); \<open>Registry_Laws\<close> has the invariant \<open>registry_ok\<close>, the
  exact accounting of costs and the order in which an instance moves through its life. The subtraction
  in \<open>reserve\<close> is the one place where an overflow is a panic of the model (\<open>offer_overflows\<close>): it can be
  reached only by a server that registers with the largest 32-bit number as its capacity, which the
  predicate \<open>limited\<close> of a sequence of operations excludes.

  \<^bold>\<open>The authority.\<close> The actor of \<open>grpc/mod.rs\<close> owns all state. \<open>Authority\<close> has the record
  \<open>authority\<close> with a field for every field of \<open>AuthorityState\<close>, the platform (clock, UUID library,
  Unicode tables, floating-point arithmetic, order of a join of storages, backlog of streams: all
  parameters), views and the request cache; \<open>Authority_Match\<close> the rebuilt entity world, the commit
  of candidates and the cancellation of proposals; \<open>Authority_Launch\<close> launch, retry and the report
  of a launch; \<open>Authority_Control\<close> results, the control messages and the clock (\<open>tick\<close>); \<open>Authority_Rpc\<close> the calls of
  the players and their disconnection; \<open>Authority_Servers\<close> the calls of game servers
  and of the administrator, and the command queue with the batches of the actor. A call is a
  function of the state that returns its answer and the next state (\<open>outcome\<close>); a call of a
  mutation is \<open>with_request\<close> around its body, as in the code every mutation begins with the lookup
  of the request and ends with \<open>remember\<close>, except \<open>create_invite\<close>, which checks the request but keeps no
  answer. Control channels are bounded queues in the state;
  events sent to clients are collected in \<open>au_outbox\<close>. \<open>authority_run\<close> executes a sequence of events
  (calls, reports, ticks, batches), each with its own platform.

  \<^bold>\<open>The server process.\<close> \<open>Startup\<close> goes from the command line of \<open>erps-server\<close> to a serving process: loading the
  configuration, the two token maps, the three \<open>serve\<close> functions with the refusal of plaintext, the
  constructors of the services, the health service and the shutdown. The machine (environment, files,
  the decoders of TOML, JSON, addresses and certificates) is the record \<open>host\<close>. \<open>Startup_Properties\<close> shows
  which tokens a server that starts accepts.

  \<^bold>\<open>The client.\<close> \<open>Client\<close> is \<open>client/src/lib.rs\<close>: the options, the conversions between messages and
  the types of the library, every call of \<open>Client\<close> and the loop behind \<open>events\<close> with its reconnections.
  The generated stub, the connection and the random request ids are parameters (\<open>matchmaking_service\<close>,
  \<open>transport\<close>). \<open>Client_Ffi\<close> is \<open>client-ffi/src/lib.rs\<close>: every exported function but the two that free
  memory; a pointer is an option, a buffer a list, the task that forwards events a state machine.
  \<open>Client_Laws\<close> connects the stub to the calls of the authority.

  \<^bold>\<open>The load scenario.\<close> \<open>Load_Test\<close> is \<open>core/src/load_test/mod.rs\<close>: the linear congruential generator, the
  generated parties and servers, their way through the entity world, the loop of \<open>run\<close> that matches,
  confirms, places and releases every roster with its diagnostics and report, and the rosters and the
  launch checker of \<open>run_grpc\<close>. What the machine contributes to a run, whether a thread pool starts and the
  readings of the process memory, is the record \<open>load_machine\<close>; a pool that does not start is a panic
  (\<open>None\<close>), a missing reading ends the run with an error. \<open>Load_Grpc\<close> is \<open>run_grpc\<close> itself: a driver over the state of everything outside
  it (record \<open>loopback\<close>: the server it starts, streams, timers), whose waits are \<open>partial_function (option)\<close>, so
  that a wait that never ends has the value \<open>None\<close> (the calls of a client, which have no deadline in the code, are
  functions and so taken to return); \<open>Load_Driver\<close> proves that it returns when timers elapse
  and what it then reports. \<open>Load_Measures\<close> has the measured part of the report (percentiles, ratios, settings)
  and \<open>Load_Cli\<close> the two programs \<open>erps-load-test\<close> and \<open>erps-test-fixture\<close>, with a proof that the arguments
  printed for given options parse back to them. \<open>Load_Laws\<close> proves the full period of the generator (locale
  \<open>random_source\<close>) and what generation draws, \<open>Load_Runs\<close> follows a run. The bound of \<open>2 ^ 61\<close> players keeps
  the draws of a scenario (at most six for a player) within the period of \<open>2 ^ 64\<close>.

  \<^bold>\<open>Lemma groups.\<close> \<open>Authority_Frame\<close>: which fields an operation leaves alone. \<open>Authority_Safety\<close>:
  the invariant \<open>authority_ok\<close> and that every event runs to its end. \<open>Authority_Requests\<close>: the locale
  \<open>request_handler\<close>, interpreted for the eight mutations that keep their answer, what a run keeps of an
  answered request and of a settled match (\<open>settled_in\<close> counts the matches settled since, of which the
  authority remembers 4096), and the behaviour of \<open>create_invite\<close>, which keeps no answer.
  \<open>Authority_Effects\<close>: what launches, cancellations and results do to the other parts, with the
  ratings and the credit of a finished match described independently (\<open>rated\<close>, \<open>credit_played\<close>).
  \<open>Registry_Properties\<close> has the stages an instance may reach from another (\<open>later_states\<close>) as a table of its own.
  \<open>Queue_Refinement\<close>: the matcher sees exactly the indexes, whatever the order of joins.
  \<open>Authority_Consistency\<close>: every operation takes its roster of parties, tickets and players to one it may
  evolve into. \<open>Authority_Invariant\<close>: the identifiers the authority issues are distinct, so that the
  indexes of reachable states are consistent. \<open>Authority_Deadlines\<close>: what a tick leaves no longer waits.
  \<open>Samples\<close>: concrete values. The properties are in \<open>Matching_Properties\<close>, \<open>Registry_Properties\<close>,
  \<open>Service_Properties\<close>, \<open>Authority_Properties\<close>, \<open>Authority_Deadlines\<close>, \<open>Client_Properties\<close>, \<open>Load_Properties\<close>,
  \<open>Launch_Properties\<close>, \<open>Ready_Properties\<close>, \<open>Load_Driver\<close>, \<open>Startup_Properties\<close> and, where they span parts, in this theory.

  \<^bold>\<open>Conventions.\<close> Unsigned integers are machine words, so an addition wraps as in a release build (\<open>reserve\<close>
  apart, see above); sizes of collections (\<open>usize\<close>) are natural numbers;
  signed 32-bit values are integers with the wrapping written out (\<open>wrap_i32\<close>). Text is a list of
  code points. Floating-point numbers are an abstract type of finite values, infinities and NaN
  over the real numbers with the rounding of each operation a parameter; the laws assumed of it
  (\<open>f64_arith\<close>: rounding is monotone and exact on small numbers) are those of IEEE 754. The
  hypothesis \<open>room\<close> of some properties says that fewer than \<open>2 ^ 56\<close> identifiers have been issued: an
  identifier keeps its kind above bit 56 of its number, so from there on two of them can coincide.

  \<^bold>\<open>Not modelled.\<close> The sockets and tasks of tonic and tokio behind a server that has started, the
  generated protocol code, the scheduling of tasks and of the Rayon pool (a shard's result
  does not depend on where it runs; the pool of the authority is taken to start), the panic of tokio for
  a stream of a configured capacity above \<open>2 ^ 63 - 1\<close>, logging and printed texts. The text of a UUID, Unicode
  normalisation, \<open>powf\<close>, the decoders of files and the order of a specs join are parameters, since their
  code is not part of the repository. Of the client, the freeing of memory across the C interface is left
  out; of the report over gRPC, the elapsed time.
\<close>

section \<open>The authority\<close>

text \<open>C1: Started with a configuration that passed validation, the authority never panics: every
  sequence of calls, reports of game servers, clock ticks and match batches, with any answers of
  the platform, runs to its end, and no game server is ever charged above its capacity. (No
  server registers the largest 32-bit number as its capacity.)\<close>

theorem authority_never_panics:
  assumes "validate c = Inr ()" and "in_i32 (ec_elo_maximum_match_delta c)" and "list_all bounded_registration es"
  shows "\<exists>st. authority_run es (authority_new c metrics_new) = Some st
    \<and> (\<forall>k s. bm_get (au_registry st) k = Some s \<longrightarrow> gs_capacity_used s \<le> gs_capacity_total s)"
proof -
  have "i32_policy (rating_policy_of c)" using validated_policy [OF assms(1,2)] by (simp add: finite_policy_def)
  then have ok: "authority_ok (authority_new c metrics_new)" by (rule authority_new_ok)
  obtain st where "authority_run es (authority_new c metrics_new) = Some st" "authority_ok st"
    using authority_run_total [OF _ ok, of es] assms(3) by (auto simp: list_all_iff)
  then show ?thesis by (auto simp: server_ok_def dest!: authority_okD(1) dest: registry_okD)
qed

theorem authority_never_panics_witness:
  "\<exists>st. authority_run [(site, OpenSession (lit ''t'') (UuidId 21) default_profile),
       (site, CreateParty None (lit ''duo'')), (site, Tick), (site, MatchBatch)]
     (authority_new default_config metrics_new) = Some st
    \<and> (\<forall>k s. bm_get (au_registry st) k = Some s \<longrightarrow> gs_capacity_used s \<le> gs_capacity_total s)"
  by (rule authority_never_panics [OF default_config_valid])
    (simp_all add: bounded_registration_def default_config_def in_i32_def)

section \<open>Requests\<close>

text \<open>C2: The eight mutations that keep their answer (\<open>call_of\<close>: create, join, leave, kick, rename, queue,
  cancel, answer a ready check) are not executed again once one of them was answered: whatever happens
  in between, a later one of these calls of the same player with the same request id (also of another
  operation) gets the first answer and changes nothing, until the authority drains or the token is given
  to a new session. The ninth mutation, the call of an invitation, keeps no answer: the request id plays
  no part in it (and \<open>create_invite_again\<close>: repeated, it creates another invitation).\<close>

theorem answered_requests_are_idempotent:
  assumes "call_of e = Some (Some meta, f)" and "f st = Some (Inr v, st1)"
    and "authority_run es st1 = Some st2" and "list_all (\<lambda>e. \<not> opens (mm_session_token meta) e) es"
    and "\<not> ec_drain_mode (au_config st2)" and "call_of e' = Some (Some meta, f')"
  shows "f' st2 = Some (Inr v, st2)
    \<and> (rid \<noteq> [] \<and> mm_request_id meta \<noteq> [] \<longrightarrow> create_invite E fresh (Some (meta\<lparr>mm_request_id := rid\<rparr>)) i rv ttl uses st2
      = create_invite E fresh (Some meta) i rv ttl uses st2)"
proof (rule call_remembers [OF assms(1,2)])
  fix p rid
  assume meta: "request_meta st1 (Some meta) = Inr (p, rid)" and answer: "bm_get (au_request_cache st1) (p, rid) = Some v"
  have "request_meta st2 (Some meta) = Inr (p, rid)"
    by (rule run_request_meta [OF meta assms(3) _ assms(5)]) (use assms(4) in \<open>simp add: list_all_iff\<close>)
  moreover have "bm_get (au_request_cache st2) (p, rid) = Some v" using assms(3) answer by (rule run_keeps(1))
  ultimately have "f' st2 = Some (Inr v, st2)" by (rule call_again [OF assms(6)])
  then show ?thesis by (simp add: create_invite_request)
qed

lemma party_made: "\<exists>v st1. create_party site (Some request_1) (lit ''duo'') signed_in = Some (Inr v, st1)"
proof -
  have "case create_party site (Some request_1) (lit ''duo'') signed_in of Some (Inr _, _) \<Rightarrow> True | _ \<Rightarrow> False"
    by code_simp
  then show ?thesis by (auto split: option.splits sum.splits)
qed

theorem answered_requests_are_idempotent_witness:
  "\<exists>v st1. create_party site (Some request_1) (lit ''duo'') signed_in = Some (Inr v, st1)
    \<and> leave_party site (Some request_1) (lit ''any'') 0 (disconnected site (UuidId 21) (lit ''t'') st1)
      = Some (Inr v, disconnected site (UuidId 21) (lit ''t'') st1)"
proof -
  obtain v st1 where made: "create_party site (Some request_1) (lit ''duo'') signed_in = Some (Inr v, st1)"
    using party_made by blast
  let ?e = "(site, CreateParty (Some request_1) (lit ''duo''))"
  let ?e' = "(site, LeaveParty (Some request_1) (lit ''any'') 0)"
  have call: "call_of ?e = Some (Some request_1, create_party site (Some request_1) (lit ''duo''))"
    "call_of ?e' = Some (Some request_1, leave_party site (Some request_1) (lit ''any'') 0)"
    by (simp_all add: call_of_def)
  have "\<not> ec_drain_mode (au_config (disconnected site (UuidId 21) (lit ''t'') st1))"
    using call_keeps(1) [OF call(1) made] by (simp add: disconnected_def signed_in_def authority_new_def small_config_def)
  then have "leave_party site (Some request_1) (lit ''any'') 0 (disconnected site (UuidId 21) (lit ''t'') st1)
      = Some (Inr v, disconnected site (UuidId 21) (lit ''t'') st1)"
    by (intro answered_requests_are_idempotent [OF call(1) made, of "[(site, Disconnected (UuidId 21) (lit ''t''))]",
          OF _ _ _ call(2), THEN conjunct1])
      (simp_all add: authority_run_def authority_step_def opens_def)
  with made show ?thesis by blast
qed

text \<open>C16: Once the drain has begun, every mutation of a player, the eight that keep their answer and the call
  of an invitation, is refused and changes nothing, for ever.\<close>

theorem draining_refuses_mutations:
  assumes "call_of e = Some (m, f)" and "authority_run es (begin_drain st) = Some st1"
  shows "f st1 = Some (Inl (unavailable ''ERPS is draining''), st1)
    \<and> create_invite E fresh meta i rv ttl uses st1 = (Inl (unavailable ''ERPS is draining''), st1)"
proof -
  have drain: "ec_drain_mode (au_config st1)" using assms(2) by (rule run_drain) (simp add: begin_drain_def)
  then have "request_meta st1 meta = Inl (unavailable ''ERPS is draining'')" by (simp add: request_meta_def)
  with call_draining [OF assms(1) drain] show ?thesis by (simp add: create_invite_def)
qed

theorem draining_refuses_mutations_witness:
  "\<exists>st1. authority_run [(site, Disconnected (UuidId 21) (lit ''t''))] (begin_drain signed_in) = Some st1
    \<and> create_party site (Some request_1) (lit ''duo'') st1 = Some (Inl (unavailable ''ERPS is draining''), st1)
    \<and> create_invite site (lit ''i'') (Some request_1) (lit ''any'') 1 60 1 st1 = (Inl (unavailable ''ERPS is draining''), st1)"
  using draining_refuses_mutations [of "(site, CreateParty (Some request_1) (lit ''duo''))" "Some request_1"
      "create_party site (Some request_1) (lit ''duo'')" "[(site, Disconnected (UuidId 21) (lit ''t''))]" signed_in]
  by (simp add: call_of_def authority_run_def authority_step_def)

section \<open>The queue the matcher sees\<close>

text \<open>C9: In every state the authority reaches, the tickets that the matcher reads back from the rebuilt entity world are exactly the
  tickets of the authority's indexes for that mode and region, each once: the detour over the
  storages, whose join order is not fixed, neither loses nor invents nor alters a ticket.\<close>

theorem matcher_sees_the_indexes:
  assumes "\<And>w. mset (pf_join E w) = mset w" and "authority_run es (authority_new config mt) = Some st"
  shows "mset (ecs_tickets E (rebuild_ecs E st) mode region)
    = mset (List.map_filter (queue_ticket E st mode region) (entries (au_tickets st)))"
  using ecs_tickets_queue [OF assms(1) reachable_consistent(1) [OF assms(2)], of mode region]
  by (simp add: queue_tickets_def)

theorem matcher_sees_the_indexes_witness:
  "\<exists>st. authority_run first_ticket (authority_new small_config metrics_new) = Some st \<and> length (entries (au_tickets st)) = 1
    \<and> mset (ecs_tickets (site\<lparr>pf_join := rev\<rparr>) (rebuild_ecs (site\<lparr>pf_join := rev\<rparr>) st) OneVsOne (lit ''tw''))
      = mset (List.map_filter (queue_ticket (site\<lparr>pf_join := rev\<rparr>) st OneVsOne (lit ''tw'')) (entries (au_tickets st)))"
proof -
  obtain st where run: "authority_run first_ticket (authority_new small_config metrics_new) = Some st"
    "length (entries (au_tickets st)) = 1" using first_ticket_runs unfolding start_def by blast
  have "mset (pf_join (site\<lparr>pf_join := rev\<rparr>) w) = mset w" for w by simp
  from matcher_sees_the_indexes [OF this run(1)] run show ?thesis by blast
qed

text \<open>C10: In every state the authority reaches, a match batch has the same result, down to the last
  field of the state, whatever the order in which the storages are joined (while fewer than
  \<open>2 ^ 56\<close> ids have been issued).\<close>

theorem match_batch_deterministic:
  assumes "\<And>w. mset (j1 w) = mset w" and "\<And>w. mset (j2 w) = mset w"
    and run: "authority_run es (authority_new config mt) = Some st" and "room st"
  shows "attempt_match_batch (E\<lparr>pf_join := j1\<rparr>) mode region st = attempt_match_batch (E\<lparr>pf_join := j2\<rparr>) mode region st"
proof -
  have queue: "queue_tickets (E\<lparr>pf_join := j\<rparr>) st mode region = queue_tickets E st mode region" for j
  proof -
    have clock: "waited_seconds (E\<lparr>pf_join := j\<rparr>) = waited_seconds E" by (simp add: fun_eq_iff waited_seconds_def)
    have "queue_ticket (E\<lparr>pf_join := j\<rparr>) st mode region = queue_ticket E st mode region"
      unfolding queue_ticket_def clock by (rule refl)
    then show ?thesis by (simp add: queue_tickets_def)
  qed
  have "attempt_match_batch (E\<lparr>pf_join := j\<rparr>) mode region st =
    (if \<not> feasible (au_registry st) mode region then (0, st)
     else commit_candidates E (queue_tickets E st mode region)
       (generate (build_for_mode mode) 1024 (snapshot_new (queue_tickets E st mode region)))
       (on_metrics (\<lambda>m. m\<lparr>mt_candidate_compute_us := hist_observe (pf_elapsed_us E) (mt_candidate_compute_us m)\<rparr>) (rebuild_ecs E st)))"
    if "\<And>w. mset (j w) = mset w" for j
    using batch_from_queue [of "E\<lparr>pf_join := j\<rparr>" st mode region] that reachable_consistent [OF run] assms(4)
    by (simp add: queue commit_join rebuild_join)
  from this [OF assms(1)] this [OF assms(2)] show ?thesis by simp
qed

theorem match_batch_deterministic_witness:
  "\<exists>st. authority_run first_ticket (authority_new small_config metrics_new) = Some st
    \<and> attempt_match_batch (site\<lparr>pf_join := rev\<rparr>) OneVsOne (lit ''tw'') st
      = attempt_match_batch (site\<lparr>pf_join := (\<lambda>w. w)\<rparr>) OneVsOne (lit ''tw'') st"
proof -
  obtain st where run: "authority_run first_ticket (authority_new small_config metrics_new) = Some st" "room st"
    using first_ticket_runs unfolding start_def by blast
  have "mset (rev w) = mset w" "mset ((\<lambda>w. w) w) = mset w" for w :: "entity list" by simp_all
  from match_batch_deterministic [OF this run, of site OneVsOne "lit ''tw''"] run show ?thesis by blast
qed

section \<open>Launching a match\<close>

text \<open>C12: A successful launch charges one server that is healthy, stands in a region that every
  ticket of the match allows, supports the mode, is connected and has room, with exactly its
  cost for the mode; the match is recorded as reserved there and nowhere else, the launch is
  known under its new id, and the launch message stands at the end of the channel under which that server is
  connected, and on no other.\<close>

theorem launch_reserves:
  assumes "registry_ok (au_registry st)" and "launch E pid st = Some (Inr m, st')"
  shows "\<exists>q s cost ch c. bm_get (au_proposals st) pid = Some q \<and> bm_get (au_registry st) (gs_id s) = Some s
    \<and> gs_health s = Healthy \<and> gs_region s \<in> allowed_regions st pid \<and> proposal_mode q \<in> gs_modes s
    \<and> bm_get (gs_mode_costs s) (proposal_mode q) = Some cost
    \<and> unat (gs_capacity_used s) + unat cost \<le> unat (gs_capacity_total s)
    \<and> au_registry st' = bm_insert (gs_id s) (s\<lparr>gs_capacity_used := gs_capacity_used s + cost,
         gs_instances := bm_insert m \<lparr>in_match_id = m, in_cost = cost, in_state = InReserved,
           in_endpoint = None, in_connection_token = None\<rparr> (gs_instances s)\<rparr>) (au_registry st)
    \<and> bm_get (au_launches st') m = Some (gs_id s, pid)
    \<and> bm_get (au_controls st) (gs_id s) = Some ch
    \<and> bm_get (au_channels st) ch = Some c \<and> ch_open c \<and> length (ch_queue c) < ch_capacity c
    \<and> (\<forall>k. bm_get (au_channels st') k = (if k = ch then Some (c\<lparr>ch_queue := ch_queue c @
         [Inr (launch_message E m (proposal_mode q) (pr_teams q) cost)]\<rparr>) else bm_get (au_channels st) k))"
proof (rule launch_sent [OF assms])
  fix q s cost ch c off
  assume l: "bm_get (au_proposals st) pid = Some q" "bm_get (au_registry st) (gs_id s) = Some s"
    "launch_offer st (proposal_mode q) (allowed_regions st pid) s = Some off"
    "bm_get (gs_mode_costs s) (proposal_mode q) = Some cost"
    "unat (gs_capacity_used s) + unat cost \<le> unat (gs_capacity_total s)"
    "bm_get (au_controls st) (gs_id s) = Some ch"
    "bm_get (au_channels st) ch = Some c" "ch_open c" "length (ch_queue c) < ch_capacity c"
    "au_channels st' = bm_insert ch (c\<lparr>ch_queue := ch_queue c @ [Inr (launch_message E m (proposal_mode q) (pr_teams q) cost)]\<rparr>) (au_channels st)"
    "au_registry st' = bm_insert (gs_id s) (reserved m cost s) (au_registry st)"
    "bm_get (au_launches st') m = Some (gs_id s, pid)"
  obtain remaining load fails n sid where off: "off = (remaining, load, fails, n, sid)" by (cases off)
  have "gs_health s = Healthy \<and> gs_region s \<in> allowed_regions st pid \<and> proposal_mode q \<in> gs_modes s"
    using l(3) unfolding off by (rule launch_offerD) blast
  moreover have "bm_get (au_channels st') k = (if k = ch then Some (c\<lparr>ch_queue := ch_queue c @
       [Inr (launch_message E m (proposal_mode q) (pr_teams q) cost)]\<rparr>) else bm_get (au_channels st) k)" for k
    by (simp add: l(10) get_insert)
  ultimately show ?thesis using l unfolding reserved_def
    by (intro exI [of _ q] exI [of _ s] exI [of _ cost] exI [of _ ch] exI [of _ c]) simp
qed

lemma launched: "\<exists>st'. launch site (UuidId 7) placing = Some (Inr (from_uuid (domain_uuid 7 4 1)), st')"
proof -
  have "case launch site (UuidId 7) placing of Some (Inr m, _) \<Rightarrow> m = from_uuid (domain_uuid 7 4 1) | _ \<Rightarrow> False"
    by code_simp
  then show ?thesis by (auto split: option.splits sum.splits)
qed

theorem launch_reserves_witness:
  "\<exists>m st' s cost ch. launch site (UuidId 7) placing = Some (Inr m, st') \<and> bm_get (au_registry placing) (gs_id s) = Some s
    \<and> bm_get (au_controls placing) (gs_id s) = Some ch \<and> gs_health s = Healthy \<and> bm_get (gs_mode_costs s) OneVsOne = Some cost \<and> bm_get (au_launches st') m = Some (gs_id s, UuidId 7)"
proof -
  obtain st' where l: "launch site (UuidId 7) placing = Some (Inr (from_uuid (domain_uuid 7 4 1)), st')"
    using launched by blast
  have "bm_get (au_proposals placing) (UuidId 7) = Some duel_proposal" "proposal_mode duel_proposal = OneVsOne"
    by (simp add: placing_def) code_simp
  with launch_reserves [OF placing_registry l] l show ?thesis by auto
qed

text \<open>C13: A launch that fails, also after it had reserved a server whose control channel turned
  out to be full, leaves the launches, the proposals, the queue and the channels as they were, and the
  registry too, provided no server has an instance under the new match id: such an instance on the chosen
  server, as a server may report one after a restart of the authority, is overwritten and lost.\<close>

theorem failed_launch_restores:
  assumes "registry_ok (au_registry st)" and "launch E pid st = Some (Inl e, st')"
  shows "(list_all (\<lambda>s. bm_get (gs_instances s) (from_uuid (fst (next_uuid 4 st))) = None) (bm_values (au_registry st))
      \<longrightarrow> au_registry st' = au_registry st)
    \<and> au_launches st' = au_launches st \<and> au_proposals st' = au_proposals st
    \<and> au_channels st' = au_channels st \<and> au_parties st' = au_parties st \<and> au_tickets st' = au_tickets st
    \<and> au_claims st' = au_claims st \<and> au_proposal_tickets st' = au_proposal_tickets st"
  using launch_failed [OF assms] by (auto simp: queue_of_def)

definition jammed :: authority where
  "jammed = placing\<lparr>au_channels := bm_insert 0 \<lparr>ch_capacity = 0, ch_open = True, ch_queue = []\<rparr> bm_empty\<rparr>"

theorem failed_launch_restores_witness:
  "\<exists>e st'. launch site (UuidId 7) jammed = Some (Inl e, st') \<and> au_registry st' = au_registry jammed
    \<and> au_tickets st' = au_tickets jammed"
proof -
  have "case launch site (UuidId 7) jammed of Some (Inl _, _) \<Rightarrow> True | _ \<Rightarrow> False" by code_simp
  then obtain e st' where l: "launch site (UuidId 7) jammed = Some (Inl e, st')"
    by (auto split: option.splits sum.splits)
  have "registry_ok (au_registry jammed)" using placing_registry by (simp add: jammed_def)
  moreover have "list_all (\<lambda>s. bm_get (gs_instances s) (from_uuid (fst (next_uuid 4 jammed))) = None) (bm_values (au_registry jammed))"
    by code_simp
  ultimately show ?thesis using failed_launch_restores [OF _ l] l by blast
qed

section \<open>Cancelling a proposal\<close>

text \<open>C14: A cancelled proposal leaves nothing behind: its tickets are no longer claimed, it keeps no
  saved tickets and no placement deadline, no player is bound to it; a party none of whose
  members refused or let the time pass (every party, if the infrastructure is the cause) is
  queued again with its own ticket, the others are not ready and keep no ticket; and a player
  who did not fail himself, or fell to the infrastructure, keeps his credit.\<close>

theorem cancellation_restores:
  assumes "bm_get (au_proposals st) pid = Some q" and "bm_get (au_proposal_tickets st) pid = Some saved"
    and "distinct (map fst saved)" and "(i, t) \<in> set saved" and "bm_get (au_parties st) i = Some p"
  shows "let st' = cancel_proposal E pid infra st;
      failed = (\<lambda>x. bm_get (pr_responses q) x = Some Rejected \<or> bm_get (pr_responses q) x = Some TimedOut) in
    au_claims st' = au_claims st - set (pr_tickets q) \<and> bm_get (au_proposal_tickets st') pid = None
    \<and> (if infra \<or> \<not> list_ex failed (pa_members p)
       then bm_get (au_tickets st') i = Some t
         \<and> bm_get (au_parties st') i = Some (p\<lparr>pa_state := PQueued, pa_revision := sat_add (pa_revision p) 1\<rparr>)
       else bm_get (au_tickets st') i = bm_get (au_tickets st) i
         \<and> bm_get (au_parties st') i = Some (p\<lparr>pa_state := PNotReady, pa_revision := sat_add (pa_revision p) 1\<rparr>))
    \<and> bm_get (au_player_proposal st') x = (if x \<in> set (bm_keys (pr_responses q)) then None else bm_get (au_player_proposal st) x)
    \<and> (if infra \<or> \<not> failed x then bm_get (au_credit st') x = bm_get (au_credit st) x else True)"
proof -
  let ?s0 = "st\<lparr>au_proposal_tickets := bm_remove pid (au_proposal_tickets st),
          au_claims := claims_release (pr_tickets q) (au_claims st),
          au_placement_waiting := bm_remove pid (au_placement_waiting st)\<rparr>"
  obtain st1 where view: "queue_of (cancel_proposal E pid infra st) = queue_of (fold (restore_ticket q infra) saved st1)"
    "au_player_proposal (cancel_proposal E pid infra st) = au_player_proposal st1"
    "au_credit (cancel_proposal E pid infra st) = au_credit st1"
    and st1: "st1 = fold (settle_decision E pid infra) (cancellation_decisions q infra) ?s0"
    using cancel_proposal_view [OF assms(1), of E infra] assms(2) by auto
  have queue: "queue_of st1 = queue_of ?s0" unfolding st1 by (rule settle_all_frame(1))
  note q = queue_eqD [OF queue] and v = queue_eqD [OF view(1)]
  have "bm_get (au_parties st1) i = Some p" using assms(5) q(1) by simp
  note restored = restore_all [OF assms(3,4) this, of q infra]
  have "au_claims (fold (restore_ticket q infra) saved st1) = au_claims st1"
    by (rule fold_frame) simp
  moreover have "au_proposal_tickets (fold (restore_ticket q infra) saved st1) = au_proposal_tickets st1"
    by (rule fold_frame) (simp add: restore_ticket_def split: prod.split option.split)
  moreover have "rd_player ` set (cancellation_decisions q infra) = set (bm_keys (pr_responses q))"
    using decision_players [of q infra] by (metis set_map)
  moreover have "bm_get (au_credit st1) x = bm_get (au_credit st) x"
    if "infra \<or> \<not> (bm_get (pr_responses q) x = Some Rejected \<or> bm_get (pr_responses q) x = Some TimedOut)"
  proof -
    have "bm_get (au_credit st1) x = bm_get (au_credit ?s0) x"
      unfolding st1 by (rule settle_all_credit) (use that in \<open>auto dest!: decision_in\<close>)
    then show ?thesis by simp
  qed
  moreover have "bm_get (au_player_proposal st1) x
      = (if x \<in> rd_player ` set (cancellation_decisions q infra) then None else bm_get (au_player_proposal st) x)"
    unfolding st1 by (simp add: settle_all_unbound)
  ultimately show ?thesis
    using restored view(2,3) v q unfolding Let_def returned_def list_ex_iff
    by (cases "infra \<or> \<not> (\<exists>x\<in>set (pa_members p). bm_get (pr_responses q) x = Some Rejected
        \<or> bm_get (pr_responses q) x = Some TimedOut)") (simp_all, blast)
qed

theorem cancellation_restores_witness:
  "bm_get (au_tickets (cancel_proposal site (UuidId 7) True placing)) (UuidId 12) = Some (queued (UuidId 2))
   \<and> bm_get (au_player_proposal (cancel_proposal site (UuidId 7) True placing)) (UuidId 22) = None"
proof -
  have "bm_get (au_proposals placing) (UuidId 7) = Some duel_proposal"
    "bm_get (au_proposal_tickets placing) (UuidId 7) = Some [(UuidId 11, queued (UuidId 1)), (UuidId 12, queued (UuidId 2))]"
    "bm_get (au_parties placing) (UuidId 12) = Some (solo (UuidId 12) (UuidId 22))"
    "bm_get (au_player_proposal placing) (UuidId 22) = None"
    by (simp_all add: placing_def authority_new_def bm_of_list_def)
  with cancellation_restores [of placing "UuidId 7" duel_proposal
      "[(UuidId 11, queued (UuidId 1)), (UuidId 12, queued (UuidId 2))]" "UuidId 12" "queued (UuidId 2)"
      "solo (UuidId 12) (UuidId 22)" site True "UuidId 22"] show ?thesis
    by (simp add: Let_def split: if_splits)
qed

section \<open>Settling a match\<close>

text \<open>C15: A match result is applied entirely or refused with the state unchanged. Applied, the match
  ends once and for all: its launch and its proposal are gone, its instance is released, every
  player of the roster (and nobody else) has played one more game of the mode and is in no match
  any more; the ratings of the roster for the mode are the ones its placements yield (\<open>rated\<close>, given that
  nobody stands twice in the roster) and no other rating changes; every player of the roster has his credit
  recovered by the rule of three matches, capped at 100, and nobody else's credit moves; the parties are
  idle, and the new profile of each player of the roster is to be saved.\<close>

theorem result_applied_or_refused:
  assumes "authority_ok st" and "finish_match E sid result st = Some (r, st')"
  shows "case r of Inl e \<Rightarrow> st' = st
    | Inr _ \<Rightarrow> \<exists>m pid q ranks. id_from_str (pf_uuid E) ''MatchId'' (mr_match_id result) = Inr m
        \<and> bm_get (au_launches st) m = Some (sid, pid) \<and> bm_get (au_proposals st) pid = Some q
        \<and> parse_placements E (mr_placements result) bm_empty = Inr ranks
        \<and> bm_get (au_launches st') m = None \<and> bm_get (au_proposals st') pid = None
        \<and> release sid m (au_registry st) = (Inr (), au_registry st')
        \<and> (\<forall>x. games_of st' x (proposal_mode q)
          = games_of st x (proposal_mode q) + (if x \<in> set (concat (pr_teams q)) then 1 else 0))
        \<and> (\<forall>x. bm_get (au_player_match st') x
          = (if x \<in> set (concat (pr_teams q)) then None else bm_get (au_player_match st) x))
        \<and> (distinct (concat (pr_teams q)) \<longrightarrow> rated E q ranks st st')
        \<and> (\<forall>x k. x \<notin> set (concat (pr_teams q)) \<or> k \<noteq> proposal_mode q
          \<longrightarrow> bm_get (au_ratings st') (x, k) = bm_get (au_ratings st) (x, k))
        \<and> (\<forall>x. unat (credit_of st' x)
          = (if x \<in> set (concat (pr_teams q)) then credit_played st x else unat (credit_of st x)))
        \<and> (\<forall>j. bm_get (au_parties st') j = (if j \<in> set (bm_values (pr_parties q))
            then map_option (\<lambda>p. p\<lparr>pa_state := PIdle, pa_revision := sat_add (pa_revision p) 1\<rparr>) (bm_get (au_parties st) j)
            else bm_get (au_parties st) j))
        \<and> au_pending_profile_saves st' = au_pending_profile_saves st
          @ map (\<lambda>p. (p, current_profile st' p)) (sort (remdups (concat (pr_teams q))))"
proof (cases r)
  case (Inl e)
  show ?thesis
  proof (rule finish_match_cases [OF assms(1), of E sid result])
    fix m pid q s i ranks ratings
    assume s: "bm_get (au_registry st) sid = Some s"
      and f: "finish_match E sid result st = Some (close_match E sid m pid q (st\<lparr>au_ratings := ratings\<rparr>))"
    have "bm_get (au_registry (st\<lparr>au_ratings := ratings\<rparr>)) sid = Some s" using s by simp
    then have "fst (close_match E sid m pid q (st\<lparr>au_ratings := ratings\<rparr>)) = Inr ()"
      by (rule close_match_cases [where E = E and m = m and pid = pid and q = q]) simp
    with f assms(2) Inl show ?thesis by (metis fst_conv option.inject sum.simps(4))
  qed (use assms(2) Inl in auto)
next
  case (Inr u)
  show ?thesis
  proof (rule finish_match_settled [OF assms(1) assms(2) [unfolded Inr]], goal_cases)
    case (1 m pid q ranks)
    have "distinct (concat (pr_teams q)) \<Longrightarrow> rated E q ranks st st'"
      by (rule settle_ratings_rated [OF 1(6) _ 1(13)])
    with 1 settle_ratings_frame [OF 1(6)] show ?case
      unfolding Inr sum.case
      by (intro exI [of _ m] exI [of _ pid] exI [of _ q] exI [of _ ranks]) (simp add: roster_of_def)
  qed
qed

lemma settled_duel: "\<exists>st'. finish_match site (UuidId 40) verdict playing = Some (Inr (), st')"
proof -
  have "case finish_match site (UuidId 40) verdict playing of Some (Inr _, _) \<Rightarrow> True | _ \<Rightarrow> False" by code_simp
  then show ?thesis by (auto split: option.splits sum.splits)
qed

theorem result_applied_or_refused_witness:
  "\<exists>st' m pid. finish_match site (UuidId 40) verdict playing = Some (Inr (), st')
    \<and> bm_get (au_launches playing) m = Some (UuidId 40, pid) \<and> bm_get (au_launches st') m = None"
proof -
  obtain st' where f: "finish_match site (UuidId 40) verdict playing = Some (Inr (), st')" using settled_duel by blast
  from result_applied_or_refused [OF playing_ok f] f show ?thesis by (simp only: sum.case) blast
qed

text \<open>C3: A result counts once: after a report has settled a match, every later report of its result, from
  whatever server and with whatever placements and after whatever calls, ticks and batches in between, is
  only acknowledged; nothing but the control channel of the acknowledgement changes. This lasts as long as
  fewer than 4096 other matches have been settled since: the authority remembers that many, and then
  forgets the oldest.\<close>

theorem result_counts_once:
  assumes "completed_ok st" and "id_from_str (pf_uuid E) ''MatchId'' (mr_match_id result) = Inr (m :: match_id)"
    and "m \<notin> au_completed_match_results st" and "finish_match E sid result st = Some (Inr u, s)"
    and "match_report E sid ch result st = Some (r, st1)"
    and "authority_run es st1 = Some st2" and "settled_in es st1 < 4096"
    and "id_from_str (pf_uuid E') ''MatchId'' (mr_match_id again) = Inr m"
  shows "completed_ok st2 \<and> (\<exists>r'. match_report E' sid' ch' again st2
    = Some (r', snd (try_send ch' (Inr (CtlMatchResultAck (id_to_string (pf_uuid E') m))) st2)))"
proof -
  have "quiet_of s = quiet_of st" using finish_match_keeps assms(4) by (rule keepsD)
  then have s: "completed_of s = completed_of st" by (simp add: quiet_of_def)
  note same = completed_eqD [OF s]
  have new: "completed_ok s" "m \<notin> au_completed_match_results s" using assms(1,3) same by simp_all
  have "completed_of st1 = completed_of (remember_completed_match_result m s)"
    using assms(2-5) quiet_of_frames(7) [of ch "Inr (CtlMatchResultAck (id_to_string (pf_uuid E) m))"]
    by (auto simp: match_report_def Let_def case_prod_unfold quiet_of_def)
  note st1 = completed_eqD [OF this]
  have "completed_ok st1" "behind m 0 st1" using remember_new(1,2) [OF new] st1 by simp_all
  then have "completed_ok st2 \<and> m \<in> au_completed_match_results st2"
    by (rule run_remembers [OF assms(6)]) (use assms(7) in simp)
  with assms(8) show ?thesis
    by (auto simp: match_report_def Let_def case_prod_unfold)
qed

theorem result_counts_once_witness:
  "\<exists>st1 r'. match_report site (UuidId 40) 0 verdict playing = Some (Inr (), st1)
    \<and> match_report site (UuidId 41) 0 (verdict\<lparr>mr_placements := []\<rparr>) (begin_drain st1)
      = Some (r', snd (try_send 0 (Inr (CtlMatchResultAck (id_to_string (pf_uuid site) (UuidId 5 :: match_id)))) (begin_drain st1)))"
proof -
  have m: "id_from_str (pf_uuid site) ''MatchId'' (mr_match_id verdict) = Inr (UuidId 5)" by code_simp
  have "case match_report site (UuidId 40) 0 verdict playing of Some (Inr _, _) \<Rightarrow> True | _ \<Rightarrow> False" by code_simp
  then obtain st1 where r: "match_report site (UuidId 40) 0 verdict playing = Some (Inr (), st1)"
    by (auto split: option.splits sum.splits)
  obtain s where f: "finish_match site (UuidId 40) verdict playing = Some (Inr (), s)" using settled_duel by blast
  have ok: "completed_ok playing" "UuidId 5 \<notin> au_completed_match_results playing"
    by (simp_all add: completed_ok_def playing_def placing_def authority_new_def)
  have again: "id_from_str (pf_uuid site) ''MatchId'' (mr_match_id (verdict\<lparr>mr_placements := []\<rparr>)) = Inr (UuidId 5)"
    using m by simp
  have run: "authority_run [(site, BeginDrain)] st1 = Some (begin_drain st1)" "settled_in [(site, BeginDrain)] st1 < 4096"
    by (simp_all add: authority_run_def authority_step_def)
  from result_counts_once [OF ok(1) m ok(2) f r run again, of "UuidId 41" 0] r show ?thesis by blast
qed

end
